(* ===== verification/Prelude.thy ===== *)
theory Prelude
  imports Main "HOL-Library.Char_ord" "HOL-Library.List_Lexorder" "HOL-Library.Word"
begin

text \<open>
  The vocabulary every component shares: Go's error values and the early-return idiom
  \<open>if err := f(); err != nil { return err }\<close>, byte strings with
  \<open>strings.TrimSpace\<close> and \<open>encoding/hex\<close>, fixed-width signed integers with their
  wrap-around, instants and durations of package \<open>time\<close>, samples of a
  \<open>context.Context\<close>, and the generic list lemmas the component proofs use.

  Conventions. A Go string or byte slice is a \<open>string\<close> (a list of bytes). An
  \<open>int\<close>, \<open>int64\<close> or \<open>time.Duration\<close> is an \<open>int\<close>, and every addition,
  subtraction or multiplication of the source that can leave the 64-bit range is written with
  \<open>wrap64\<close>. A \<open>uint64\<close> is a \<open>64 word\<close>, a \<open>uint32\<close> a \<open>32 word\<close>, a \<open>byte\<close>
  an \<open>8 word\<close> or a \<open>char\<close>. An enumeration over strings is a datatype with the source's
  constants and one constructor for every other text; that constructor at the empty text is
  the Go zero value. An error text keeps its constant part; interpolated values are dropped.
\<close>

named_theorems valid_simps \<open>when a validator of the source accepts\<close>
named_theorems eval_simps \<open>equations that evaluate a loop on a concrete list\<close>
named_theorems clone_simps \<open>a deep copy is the identity on values\<close>

section \<open>Errors\<close>

text \<open>
  A Go error is seen through \<open>errors.Is\<close> (the sentinels it wraps) and its text.
  \<open>fmt.Errorf("%w: ...", S)\<close> adds a sentinel, \<open>fmt.Errorf("...: %w", err)\<close> keeps the
  ones of \<open>err\<close>, \<open>errors.Join\<close> unites them.
\<close>

datatype sentinel =
    ErrInvalidID | ErrInvalidTransition | ErrVersionConflict | ErrAggregateNotFound
  | ErrInvalidProjectionEvent | ErrPolicyEvaluation | ErrNoEligibleCandidates
  | ErrRoutingEvaluation | ErrProviderCatalog | ErrModelStreamProtocol
  | ErrLoopBudgetExceeded | ErrLoopStream | ErrLoopToolInput | ErrLoopToolOutput
  | ErrLoopPanic | ErrLoopCleanup | ErrExecutionDenied | ErrApprovalDenied
  | ErrSandboxDenied | ErrUncertainOutcome | ErrContextOverflow
  | ErrCanceled | ErrDeadlineExceeded | ErrEOF | ErrTooLong
  | AnthropicErrConfiguration | AnthropicErrTranslation | AnthropicErrSSEProtocol
  | OpenAIErrConfiguration | OpenAIErrTranslation | OpenAIErrSSEProtocol
  | CredentialError | HTTPError int
  | ErrFutureSchema | ErrCorruptStore | ErrNotExist | ErrExist

datatype error = Error (sentinels: "sentinel list") (detail: string)

definition errorf :: "string \<Rightarrow> error" where
  "errorf msg = Error [] msg"

definition errors_Is :: "error \<Rightarrow> sentinel \<Rightarrow> bool" where
  "errors_Is e s \<longleftrightarrow> s \<in> set (sentinels e)"

definition wrapf :: "string \<Rightarrow> error \<Rightarrow> error" where
  "wrapf prefix e = Error (sentinels e) (prefix @ '': '' @ detail e)"

definition wrap_sentinel :: "sentinel \<Rightarrow> error \<Rightarrow> error" where
  "wrap_sentinel s e = Error (s # sentinels e) (detail e)"

fun errors_Join :: "error option \<Rightarrow> error option \<Rightarrow> error option" where
  "errors_Join None e = e"
| "errors_Join e None = e"
| "errors_Join (Some a) (Some b) =
     Some (Error (sentinels a @ sentinels b) (detail a @ [CHR 0x0A] @ detail b))"

lemma errors_Is_simps [simp]:
  "errors_Is (errorf m) s \<longleftrightarrow> False"
  "errors_Is (wrapf p e) s \<longleftrightarrow> errors_Is e s"
  "errors_Is (wrap_sentinel t e) s \<longleftrightarrow> s = t \<or> errors_Is e s"
  "errors_Is (Error ss m) s \<longleftrightarrow> s \<in> set ss"
  by (auto simp: errors_Is_def errorf_def wrapf_def wrap_sentinel_def)

lemma errors_Join_None [simp]: "errors_Join e None = e"
  by (cases e) simp_all

lemma errors_Join_eq_None [simp]: "errors_Join a b = None \<longleftrightarrow> a = None \<and> b = None"
  by (cases a; cases b) simp_all

text \<open>
  What a collaborator supplied by the application does when it is called: it returns a value, it
  returns an error, or it panics.
\<close>

datatype 'a answer = Answers 'a | Fails error | Panics

text \<open>The early-return chain: the first check that fails is what the function returns.\<close>

fun first_error :: "error option list \<Rightarrow> error option" where
  "first_error [] = None"
| "first_error (None # checks) = first_error checks"
| "first_error (Some e # checks) = Some e"

definition fail_if :: "bool \<Rightarrow> string \<Rightarrow> error option" where
  "fail_if bad msg = (if bad then Some (errorf msg) else None)"

lemma first_error_Cons_None [simp]:
  "first_error (c # cs) = None \<longleftrightarrow> c = None \<and> first_error cs = None"
  by (cases c) simp_all

lemma first_error_None_iff: "first_error cs = None \<longleftrightarrow> (\<forall>c\<in>set cs. c = None)"
  by (induction cs) simp_all

lemma first_error_append_None [simp]:
  "first_error (xs @ ys) = None \<longleftrightarrow> first_error xs = None \<and> first_error ys = None"
  by (induction xs) simp_all

lemma fail_if_None [simp]: "fail_if b m = None \<longleftrightarrow> \<not> b"
  by (simp add: fail_if_def)

lemma fail_if_False [simp]: "fail_if False m = None"
  by (simp add: fail_if_def)

lemma fail_if_True [simp]: "fail_if True m = Some (errorf m)"
  by (simp add: fail_if_def)

text \<open>
  The sequence \<open>x, err := f(); if err != nil { return err }; ...\<close>, and an error wrapped on its way
  out.
\<close>

fun sum_bind :: "error + 'a \<Rightarrow> ('a \<Rightarrow> error + 'b) \<Rightarrow> error + 'b" where
  "sum_bind (Inl e) f = Inl e"
| "sum_bind (Inr x) f = f x"

lemma sum_bind_Inr [simp]: "sum_bind m f = Inr y \<longleftrightarrow> (\<exists>x. m = Inr x \<and> f x = Inr y)"
  by (cases m) simp_all

definition wrapped :: "string \<Rightarrow> error + 'a \<Rightarrow> error + 'a" where
  "wrapped what m = (case m of Inl e \<Rightarrow> Inl (wrapf what e) | Inr x \<Rightarrow> Inr x)"

lemma wrapped_Inr [simp]: "wrapped what m = Inr x \<longleftrightarrow> m = Inr x" "wrapped what (Inr x) = Inr x"
  by (simp_all add: wrapped_def split: sum.split)

text \<open>The loop \<open>for i, x := range xs { if err := f(x); err != nil { return wrap(err) } }\<close>.\<close>

definition first_invalid :: "string \<Rightarrow> ('a \<Rightarrow> error option) \<Rightarrow> 'a list \<Rightarrow> error option" where
  "first_invalid what f xs = first_error (map (map_option (wrapf what) \<circ> f) xs)"

lemma first_invalid_None [simp]: "first_invalid what f xs = None \<longleftrightarrow> (\<forall>x\<in>set xs. f x = None)"
  by (auto simp: first_invalid_def first_error_None_iff)

lemma first_invalid_eval [eval_simps]:
  "first_invalid what f [] = None"
  "first_invalid what f (x # xs) =
     (case f x of Some e \<Rightarrow> Some (wrapf what e) | None \<Rightarrow> first_invalid what f xs)"
  by (auto simp: first_invalid_def split: option.splits)

text \<open>
  The loop that also refuses a key it has already seen: the check of the element comes first,
  the duplicate check after it, as in \<open>ContentManifest.Validate\<close> and its likes.
\<close>

fun distinct_valid :: "string \<Rightarrow> ('a \<Rightarrow> error option) \<Rightarrow> ('a \<Rightarrow> 'k) \<Rightarrow> 'k list \<Rightarrow> 'a list \<Rightarrow> error option" where
  "distinct_valid what f key seen [] = None"
| "distinct_valid what f key seen (x # xs) =
     (case f x of
        Some e \<Rightarrow> Some (wrapf what e)
      | None \<Rightarrow>
          if key x \<in> set seen then Some (errorf (what @ '' duplicate''))
          else distinct_valid what f key (key x # seen) xs)"

lemma distinct_valid_None_gen:
  "distinct_valid what f key seen xs = None \<longleftrightarrow>
     (\<forall>x\<in>set xs. f x = None) \<and> distinct (map key xs) \<and> set (map key xs) \<inter> set seen = {}"
  by (induction xs arbitrary: seen) (auto split: option.splits)

lemma distinct_valid_None [simp]:
  "distinct_valid what f key [] xs = None \<longleftrightarrow> (\<forall>x\<in>set xs. f x = None) \<and> distinct (map key xs)"
  by (simp add: distinct_valid_None_gen)

section \<open>Signed 64-bit integers\<close>

definition max64 :: int where "max64 = 2 ^ 63 - 1"
definition min64 :: int where "min64 = - (2 ^ 63)"

definition in64 :: "int \<Rightarrow> bool" where
  "in64 x \<longleftrightarrow> min64 \<le> x \<and> x \<le> max64"

definition wrap64 :: "int \<Rightarrow> int" where
  "wrap64 x = (x + 2 ^ 63) mod 2 ^ 64 - 2 ^ 63"

lemmas int64_defs = max64_def min64_def in64_def wrap64_def

lemma wrap64_id [simp]: "in64 x \<Longrightarrow> wrap64 x = x"
  by (simp add: int64_defs)

lemma in64_wrap64 [simp]: "in64 (wrap64 x)"
proof -
  have "0 \<le> (x + 2 ^ 63) mod 2 ^ 64" and "(x + 2 ^ 63) mod 2 ^ 64 < 2 ^ 64"
    by simp_all
  then show ?thesis by (simp add: int64_defs)
qed

lemma wrap64_add_overflow:
  assumes "in64 a" "in64 b" "0 \<le> a" "0 \<le> b"
  shows "wrap64 (a + b) < 0 \<longleftrightarrow> max64 < a + b"
proof (cases "max64 < a + b")
  case True
  then have "2 ^ 64 \<le> a + b + 2 ^ 63" by (simp add: int64_defs)
  moreover have "a + b + 2 ^ 63 < 2 * 2 ^ 64" using assms by (simp add: int64_defs)
  ultimately have "(a + b + 2 ^ 63) mod 2 ^ 64 = a + b + 2 ^ 63 - 2 ^ 64"
    by (simp add: mod_pos_geq)
  moreover have "a + b < 2 ^ 64" using assms by (simp add: int64_defs)
  ultimately show ?thesis using True by (simp add: wrap64_def)
next
  case False
  then have "in64 (a + b)" using assms by (simp add: int64_defs)
  with assms False show ?thesis by simp
qed

section \<open>Instants and durations\<close>

text \<open>
  A \<open>time.Time\<close> is the number of nanoseconds since Go's zero time; \<open>UTC()\<close> keeps the
  instant. A \<open>time.Duration\<close> is an \<open>int64\<close> and \<open>Time.Sub\<close> saturates at its bounds.
\<close>

type_synonym time = int
type_synonym duration = int

definition Time_IsZero :: "time \<Rightarrow> bool" where "Time_IsZero t \<longleftrightarrow> t = 0"
definition Time_After :: "time \<Rightarrow> time \<Rightarrow> bool" where "Time_After t u \<longleftrightarrow> u < t"
definition Time_Add :: "time \<Rightarrow> duration \<Rightarrow> time" where "Time_Add t d = t + d"
definition Time_Sub :: "time \<Rightarrow> time \<Rightarrow> duration" where
  "Time_Sub t u = max min64 (min max64 (t - u))"

lemma Time_Sub_exact: "in64 (t - u) \<Longrightarrow> Time_Sub t u = t - u"
  by (simp add: Time_Sub_def in64_def)

section \<open>Contexts\<close>

text \<open>
  \<open>ctx.Err()\<close> is decided by the environment. A function of the source that asks \<open>n\<close> times
  is given a context whose samples \<open>0, 1, ..., n - 1\<close> are the answers in order; a callee is
  given the context shifted by the samples already taken.
\<close>

type_synonym ctx = "nat \<Rightarrow> error option"

definition ctx_live :: "ctx \<Rightarrow> bool" where
  "ctx_live ctx \<longleftrightarrow> (\<forall>i. ctx i = None)"

definition background :: ctx where "background = (\<lambda>_. None)"

definition ctx_from :: "nat \<Rightarrow> ctx \<Rightarrow> ctx" where
  "ctx_from k ctx = (\<lambda>i. ctx (k + i))"

lemma ctx_live_simps [simp]:
  "ctx_live background" "ctx_live ctx \<Longrightarrow> ctx i = None"
  "ctx_live ctx \<Longrightarrow> ctx_live (ctx_from k ctx)"
  by (simp_all add: ctx_live_def background_def ctx_from_def)

lemma background_apply [simp]: "background i = None"
  by (simp add: background_def)

lemma ctx_from_apply [simp]: "ctx_from k ctx i = ctx (k + i)"
  by (simp add: ctx_from_def)

lemma ctx_from_background [simp]: "ctx_from k background = background"
  by (simp add: ctx_from_def background_def)

end
