(* ===== verification/GoLib.thy ===== *)
theory GoLib
  imports Prelude
begin

text \<open>
  What the source uses of Go's standard library on byte strings: \<open>strings.TrimSpace\<close> and
  \<open>strings.ToLower\<close> on hexadecimal text, \<open>encoding/hex\<close>, and \<open>crypto/sha256\<close>
  (FIPS 180-4). All are executable; nothing here models a file of the repository.
\<close>

unbundle bit_operations_syntax

type_synonym bytes = string
type_synonym byte = "8 word"

section \<open>strings.TrimSpace\<close>

text \<open>The UTF-8 encodings of the runes with the Unicode property White\_Space.\<close>

definition space_runes :: "string list" where
  "space_runes =
     [[CHR 0x09], [CHR 0x0A], [CHR 0x0B], [CHR 0x0C], [CHR 0x0D], [CHR 0x20],
      [CHR 0xC2, CHR 0x85], [CHR 0xC2, CHR 0xA0], [CHR 0xE1, CHR 0x9A, CHR 0x80],
      [CHR 0xE2, CHR 0x80, CHR 0x80], [CHR 0xE2, CHR 0x80, CHR 0x81],
      [CHR 0xE2, CHR 0x80, CHR 0x82], [CHR 0xE2, CHR 0x80, CHR 0x83],
      [CHR 0xE2, CHR 0x80, CHR 0x84], [CHR 0xE2, CHR 0x80, CHR 0x85],
      [CHR 0xE2, CHR 0x80, CHR 0x86], [CHR 0xE2, CHR 0x80, CHR 0x87],
      [CHR 0xE2, CHR 0x80, CHR 0x88], [CHR 0xE2, CHR 0x80, CHR 0x89],
      [CHR 0xE2, CHR 0x80, CHR 0x8A], [CHR 0xE2, CHR 0x80, CHR 0xA8],
      [CHR 0xE2, CHR 0x80, CHR 0xA9], [CHR 0xE2, CHR 0x80, CHR 0xAF],
      [CHR 0xE2, CHR 0x81, CHR 0x9F], [CHR 0xE3, CHR 0x80, CHR 0x80]]"

definition leading_rune :: "string list \<Rightarrow> string \<Rightarrow> string option" where
  "leading_rune runes s = find (\<lambda>r. r \<noteq> [] \<and> take (length r) s = r) runes"

lemma leading_rune_SomeD: "leading_rune runes s = Some r \<Longrightarrow> r \<noteq> [] \<and> take (length r) s = r"
  by (auto simp: leading_rune_def find_Some_iff)

function trim_left :: "string list \<Rightarrow> string \<Rightarrow> string" where
  "trim_left runes s =
     (case leading_rune runes s of
        None \<Rightarrow> s
      | Some r \<Rightarrow> trim_left runes (drop (length r) s))"
  by pat_completeness auto
termination
proof (relation "measure (\<lambda>(runes, s). length s)", goal_cases)
  case (2 runes s r)
  from leading_rune_SomeD [OF 2] have "r \<noteq> []" and "take (length r) s = r" by auto
  then have "s \<noteq> []" by auto
  with \<open>r \<noteq> []\<close> show ?case by simp
qed simp

declare trim_left.simps [simp del]

definition TrimSpace :: "string \<Rightarrow> string" where
  "TrimSpace s = rev (trim_left (map rev space_runes) (rev (trim_left space_runes s)))"

text \<open>The source's two checks on a text: it is blank, or it carries blanks at its ends.\<close>

definition blank :: "string \<Rightarrow> bool" where
  "blank s \<longleftrightarrow> TrimSpace s = []"

definition untrimmed :: "string \<Rightarrow> bool" where
  "untrimmed s \<longleftrightarrow> TrimSpace s = [] \<or> s \<noteq> TrimSpace s"

text \<open>A byte that neither starts nor ends the encoding of a white-space rune.\<close>

definition edge_safe :: "char \<Rightarrow> bool" where
  "edge_safe c \<longleftrightarrow> (\<forall>r\<in>set space_runes. hd r \<noteq> c \<and> last r \<noteq> c)"

lemma space_runes_ne: "r \<in> set space_runes \<Longrightarrow> r \<noteq> []"
  by (auto simp: space_runes_def)

lemma trim_left_safe:
  assumes "\<And>r. r \<in> set runes \<Longrightarrow> hd r \<noteq> c"
  shows "trim_left runes (c # s) = c # s"
proof -
  have "\<not> (r \<noteq> [] \<and> take (length r) (c # s) = r)" if "r \<in> set runes" for r
    using assms [OF that] by (cases r) auto
  then have "leading_rune runes (c # s) = None"
    by (auto simp: leading_rune_def find_None_iff)
  then show ?thesis by (subst trim_left.simps) simp
qed

lemma trim_left_Nil [simp]: "trim_left runes [] = []"
proof (cases "leading_rune runes []")
  case None
  then show ?thesis by (subst trim_left.simps) simp
next
  case (Some r)
  from leading_rune_SomeD [OF Some] show ?thesis by auto
qed

lemma TrimSpace_Nil [simp]: "TrimSpace [] = []"
  by (simp add: TrimSpace_def)

lemma TrimSpace_safe:
  assumes "s \<noteq> []" "edge_safe (hd s)" "edge_safe (last s)"
  shows "TrimSpace s = s"
proof -
  obtain c t where s: "s = c # t" using assms(1) by (cases s) auto
  have left: "trim_left space_runes s = s"
    using assms(2) unfolding s by (intro trim_left_safe) (auto simp: edge_safe_def)
  have r: "rev s = last s # rev (butlast s)"
    using assms(1) by (metis append_butlast_last_id rev_eq_Cons_iff rev_rev_ident)
  have "hd (rev r) \<noteq> last s" if "r \<in> set space_runes" for r
    using assms(3) that space_runes_ne [OF that] by (auto simp: edge_safe_def hd_rev)
  then have "trim_left (map rev space_runes) (last s # rev (butlast s)) = last s # rev (butlast s)"
    by (intro trim_left_safe) auto
  then have "trim_left (map rev space_runes) (rev s) = rev s"
    unfolding r [symmetric] by simp
  then show ?thesis by (simp add: TrimSpace_def left)
qed

lemma blank_Nil [simp]: "blank []"
  by (simp add: blank_def)

lemma untrimmed_Nil [simp]: "untrimmed []"
  by (simp add: untrimmed_def)

lemma not_blank_safe:
  "edge_safe c \<Longrightarrow> edge_safe (last (c # s)) \<Longrightarrow> blank (c # s) \<longleftrightarrow> False"
  by (simp add: blank_def TrimSpace_safe)

lemma trim_left_keeps_last:
  assumes "\<And>r. r \<in> set runes \<Longrightarrow> r \<noteq> [] \<Longrightarrow> last r \<noteq> c"
  shows "\<exists>t. trim_left runes (s @ [c]) = t @ [c]"
proof (induction "length s" arbitrary: s rule: less_induct)
  case less
  show ?case
  proof (cases "leading_rune runes (s @ [c])")
    case None
    then show ?thesis by (subst trim_left.simps) simp
  next
    case (Some r)
    then have r: "r \<in> set runes" "r \<noteq> []" "take (length r) (s @ [c]) = r"
      by (auto simp: leading_rune_def find_Some_iff)
    have short: "length r \<le> length s"
    proof (rule ccontr)
      assume "\<not> length r \<le> length s"
      then have "r = s @ [c]" using r(3) by simp
      then show False using assms [OF r(1,2)] by simp
    qed
    have "\<exists>t. trim_left runes (drop (length r) s @ [c]) = t @ [c]"
      using r(2) short by (intro less.hyps) (cases r; auto)
    then show ?thesis using Some short by (subst trim_left.simps) simp
  qed
qed

lemma not_blank_starts: "edge_safe c \<Longrightarrow> \<not> blank (c # s)"
proof -
  assume c: "edge_safe c"
  have "trim_left space_runes (c # s) = c # s"
    using c by (intro trim_left_safe) (auto simp: edge_safe_def)
  moreover have "\<exists>t. trim_left (map rev space_runes) (rev s @ [c]) = t @ [c]"
    using c by (intro trim_left_keeps_last) (auto simp: edge_safe_def last_rev)
  ultimately show ?thesis by (auto simp: blank_def TrimSpace_def)
qed

lemma not_untrimmed_safe:
  "edge_safe c \<Longrightarrow> edge_safe (last (c # s)) \<Longrightarrow> untrimmed (c # s) \<longleftrightarrow> False"
  by (simp add: untrimmed_def TrimSpace_safe)

lemma untrimmed_blank: "\<not> untrimmed s \<Longrightarrow> \<not> blank s"
  by (auto simp: untrimmed_def blank_def)

lemmas text_simps = not_blank_safe not_untrimmed_safe edge_safe_def space_runes_def

section \<open>encoding/hex\<close>

definition hex_char :: "nat \<Rightarrow> char" where
  "hex_char n = ''0123456789abcdef'' ! n"

definition hex_value :: "char \<Rightarrow> nat option" where
  "hex_value c =
     (let n = of_char c :: nat in
      if 48 \<le> n \<and> n \<le> 57 then Some (n - 48)
      else if 97 \<le> n \<and> n \<le> 102 then Some (n - 87)
      else if 65 \<le> n \<and> n \<le> 70 then Some (n - 55)
      else None)"

fun hex_encode :: "byte list \<Rightarrow> string" where
  "hex_encode [] = []"
| "hex_encode (b # bs) = hex_char (unat b div 16) # hex_char (unat b mod 16) # hex_encode bs"

fun hex_decode :: "string \<Rightarrow> byte list option" where
  "hex_decode [] = Some []"
| "hex_decode [c] = None"
| "hex_decode (c # d # s) =
     (case (hex_value c, hex_value d, hex_decode s) of
        (Some h, Some l, Some bs) \<Rightarrow> Some (of_nat (16 * h + l) # bs)
      | _ \<Rightarrow> None)"

definition lower_hex :: "char \<Rightarrow> bool" where
  "lower_hex c \<longleftrightarrow> (let n = of_char c :: nat in (48 \<le> n \<and> n \<le> 57) \<or> (97 \<le> n \<and> n \<le> 102))"

lemma length_hex_encode [simp]: "length (hex_encode bs) = 2 * length bs"
  by (induction bs) simp_all

lemma hex_encode_append [simp]: "hex_encode (xs @ ys) = hex_encode xs @ hex_encode ys"
  by (induction xs) simp_all

lemma less_16_cases:
  "n < 16 \<Longrightarrow> n \<in> {0, 1, 2, 3, 4, 5, 6, 7, 8, 9, 10, 11, 12, 13, 14, 15 :: nat}"
  by (auto simp: eval_nat_numeral less_Suc_eq)

lemma hex_value_char [simp]: "n < 16 \<Longrightarrow> hex_value (hex_char n) = Some n"
  by (drule less_16_cases) (auto simp: hex_char_def hex_value_def)

lemma lower_hex_char [simp]: "n < 16 \<Longrightarrow> lower_hex (hex_char n)"
  by (drule less_16_cases) (auto simp: hex_char_def lower_hex_def)

definition hex_code :: "nat \<Rightarrow> nat" where
  "hex_code n = (if n < 10 then 48 + n else 87 + n)"

lemma of_char_hex_char: "n < 16 \<Longrightarrow> of_char (hex_char n) = hex_code n"
  by (drule less_16_cases) (auto simp: hex_char_def hex_code_def)

lemma hex_char_mono: "m < n \<Longrightarrow> n < 16 \<Longrightarrow> hex_char m < hex_char n"
  using of_char_hex_char [of m] of_char_hex_char [of n]
  by (simp add: less_char_def hex_code_def)

lemma hex_char_inj: "m < 16 \<Longrightarrow> n < 16 \<Longrightarrow> hex_char m = hex_char n \<longleftrightarrow> m = n"
  by (metis hex_value_char option.inject)

lemma unat_byte_less [simp]: "unat (b :: byte) < 256"
  using unsigned_less [of b, where ?'a = nat] by simp

lemma hex_decode_encode [simp]: "hex_decode (hex_encode bs) = Some bs"
proof (induction bs)
  case (Cons b bs)
  have "unat b div 16 < 16" using unat_byte_less [of b] by linarith
  moreover have "16 * (unat b div 16) + unat b mod 16 = unat b" by simp
  ultimately show ?case using Cons by (simp del: of_nat_add of_nat_mult)
qed simp

lemma lower_hex_encode: "c \<in> set (hex_encode bs) \<Longrightarrow> lower_hex c"
proof (induction bs)
  case (Cons b bs)
  have "unat b div 16 < 16" using unat_byte_less [of b] by linarith
  with Cons show ?case by auto
qed simp

lemma hex_encode_inj: "hex_encode xs = hex_encode ys \<longleftrightarrow> xs = ys"
  by (metis hex_decode_encode option.inject)

text \<open>\<open>strings.ToLower\<close> as the source uses it, on text already known to be hexadecimal.\<close>

definition ToLower_ascii :: "string \<Rightarrow> string" where
  "ToLower_ascii s =
     map (\<lambda>c. let n = of_char c :: nat in if 65 \<le> n \<and> n \<le> 90 then char_of (n + 32) else c) s"

lemma ToLower_lower_hex: "(\<And>c. c \<in> set s \<Longrightarrow> lower_hex c) \<Longrightarrow> ToLower_ascii s = s"
  by (induction s) (force simp: ToLower_ascii_def lower_hex_def Let_def)+

section \<open>crypto/sha256\<close>

type_synonym w32 = "32 word"

text \<open>
  The constants are computed as the standard defines them: the first 32 bits of the fractional
  parts of the cube roots of the first 64 primes (round constants) and of the square roots of
  the first eight (initial state). \<open>root_floor k n\<close> is the integer part of the \<open>k\<close>-th root of a
  number below \<open>2 ^ (36 * k)\<close>, found bit by bit; the conversion to a word drops the integer part
  of the scaled root.
\<close>

definition sha_primes :: "int list" where
  "sha_primes =
     [2, 3, 5, 7, 11, 13, 17, 19, 23, 29, 31, 37, 41, 43, 47, 53,
      59, 61, 67, 71, 73, 79, 83, 89, 97, 101, 103, 107, 109, 113, 127, 131,
      137, 139, 149, 151, 157, 163, 167, 173, 179, 181, 191, 193, 197, 199, 211, 223,
      227, 229, 233, 239, 241, 251, 257, 263, 269, 271, 277, 281, 283, 293, 307, 311]"

definition root_floor :: "nat \<Rightarrow> int \<Rightarrow> int" where
  "root_floor k n = foldl (\<lambda>r i. if (r + 2 ^ i) ^ k \<le> n then r + 2 ^ i else r) 0 (rev [0..<36])"

definition root_fraction :: "nat \<Rightarrow> int \<Rightarrow> w32" where
  "root_fraction k p = of_int (root_floor k (p * 2 ^ (32 * k)))"

definition sha_K :: "w32 list" where
  "sha_K = map (root_fraction 3) sha_primes"

definition sha_H0 :: "w32 list" where
  "sha_H0 = map (root_fraction 2) (take 8 sha_primes)"

definition rotr :: "nat \<Rightarrow> w32 \<Rightarrow> w32" where
  "rotr n x = drop_bit n x OR push_bit (32 - n) x"

text \<open>\<open>binary.BigEndian.PutUint64\<close>.\<close>

definition big_endian64 :: "64 word \<Rightarrow> byte list" where
  "big_endian64 w = map (\<lambda>n. ucast (drop_bit n w)) [56, 48, 40, 32, 24, 16, 8, 0]"

definition sha_pad :: "byte list \<Rightarrow> byte list" where
  "sha_pad m =
     m @ [0x80] @ replicate ((119 - length m mod 64) mod 64) 0 @ big_endian64 (of_nat (8 * length m))"

fun be_words :: "byte list \<Rightarrow> w32 list" where
  "be_words (a # b # c # d # rest) =
     (push_bit 24 (ucast a) OR push_bit 16 (ucast b) OR push_bit 8 (ucast c) OR ucast d)
     # be_words rest"
| "be_words _ = []"

text \<open>The message schedule, newest word first.\<close>

fun sha_schedule :: "nat \<Rightarrow> w32 list \<Rightarrow> w32 list" where
  "sha_schedule 0 ws = ws"
| "sha_schedule (Suc n) ws =
     (let w15 = ws ! 14; w2 = ws ! 1;
          s0 = rotr 7 w15 XOR rotr 18 w15 XOR drop_bit 3 w15;
          s1 = rotr 17 w2 XOR rotr 19 w2 XOR drop_bit 10 w2
      in sha_schedule n ((ws ! 15 + s0 + ws ! 6 + s1) # ws))"

fun sha_round :: "w32 list \<Rightarrow> w32 \<times> w32 \<Rightarrow> w32 list" where
  "sha_round [a, b, c, d, e, f, g, h] (k, w) =
     (let S1 = rotr 6 e XOR rotr 11 e XOR rotr 25 e;
          ch = (e AND f) XOR (NOT e AND g);
          t1 = h + S1 + ch + k + w;
          S0 = rotr 2 a XOR rotr 13 a XOR rotr 22 a;
          maj = (a AND b) XOR (a AND c) XOR (b AND c)
      in [t1 + S0 + maj, a, b, c, d + t1, e, f, g])"
| "sha_round s _ = s"

definition sha_block :: "w32 list \<Rightarrow> w32 list \<Rightarrow> w32 list" where
  "sha_block hs ws =
     map2 (+) hs (foldl sha_round hs (zip sha_K (rev (sha_schedule 48 (rev ws)))))"

fun sha_blocks :: "nat \<Rightarrow> w32 list \<Rightarrow> w32 list \<Rightarrow> w32 list" where
  "sha_blocks 0 hs ws = hs"
| "sha_blocks (Suc n) hs ws = sha_blocks n (sha_block hs (take 16 ws)) (drop 16 ws)"

definition word_bytes :: "w32 \<Rightarrow> byte list" where
  "word_bytes w = [ucast (drop_bit 24 w), ucast (drop_bit 16 w), ucast (drop_bit 8 w), ucast w]"

definition sha256_Sum256 :: "bytes \<Rightarrow> byte list" where
  "sha256_Sum256 data =
     (let ws = be_words (sha_pad (map of_char data))
      in concat (map word_bytes (sha_blocks (length ws div 16) sha_H0 ws)))"

lemma length_sha_round: "length hs = 8 \<Longrightarrow> length (sha_round hs kw) = 8"
  by (induction hs kw rule: sha_round.induct) (simp_all add: Let_def)

lemma length_foldl_sha_round: "length hs = 8 \<Longrightarrow> length (foldl sha_round hs kws) = 8"
  by (induction kws arbitrary: hs) (simp_all add: length_sha_round)

lemma length_sha_block [simp]: "length hs = 8 \<Longrightarrow> length (sha_block hs ws) = 8"
  by (simp add: sha_block_def length_foldl_sha_round)

lemma length_sha_blocks [simp]: "length hs = 8 \<Longrightarrow> length (sha_blocks n hs ws) = 8"
  by (induction n arbitrary: hs ws) simp_all

lemma length_sha256 [simp]: "length (sha256_Sum256 data) = 32"
proof -
  have "length (concat (map word_bytes ws)) = 4 * length ws" for ws
    by (induction ws) (simp_all add: word_bytes_def)
  then show ?thesis by (simp add: sha256_Sum256_def Let_def sha_H0_def sha_primes_def)
qed

definition sha256Hex :: "bytes \<Rightarrow> string" where
  "sha256Hex data = hex_encode (sha256_Sum256 data)"

end
