(* ===== verification/Ids.thy ===== *)
theory Ids
  imports GoLib
begin

text \<open>
  Identifiers (\<open>src/id.go\<close>): UUIDv7 texts. \<open>ParseID\<close> accepts a text, \<open>newIDAt\<close> builds one
  from an instant and 16 bytes of entropy. The lemmas show what \<open>ParseID\<close> accepts, that it
  accepts everything \<open>newIDAt\<close> builds, and that generated identifiers sort by creation time.
\<close>

type_synonym ID = string

definition invalid_id :: "string \<Rightarrow> error" where
  "invalid_id msg = Error [ErrInvalidID] msg"

definition ParseID :: "string \<Rightarrow> error + ID" where
  "ParseID value =
     (if length value \<noteq> 36 \<or> value ! 8 \<noteq> CHR ''-'' \<or> value ! 13 \<noteq> CHR ''-'' \<or>
         value ! 18 \<noteq> CHR ''-'' \<or> value ! 23 \<noteq> CHR ''-''
      then Inl (invalid_id ''malformed UUID'')
      else
        let compact = take 8 value @ take 4 (drop 9 value) @ take 4 (drop 14 value) @
                      take 4 (drop 19 value) @ take 12 (drop 24 value)
        in case hex_decode compact of
             None \<Rightarrow> Inl (invalid_id ''invalid hex'')
           | Some raw \<Rightarrow>
               if drop_bit 4 (raw ! 6) \<noteq> 7 then Inl (invalid_id ''UUID version is not 7'')
               else if raw ! 8 AND 0xc0 \<noteq> 0x80
                 then Inl (invalid_id ''UUID variant is not RFC 9562'')
               else Inr value)"

text \<open>\<open>Time.UnixMilli\<close>: the Unix epoch is 62135596800 seconds after Go's zero time.\<close>

definition Time_UnixMilli :: "time \<Rightarrow> int" where
  "Time_UnixMilli t = (t - 62135596800 * 10 ^ 9) div 10 ^ 6"

text \<open>
  The entropy argument is what the reader can deliver; \<open>io.ReadFull\<close> fails when that is less
  than the 16 bytes asked for.
\<close>

definition stamp_raw :: "64 word \<Rightarrow> byte list \<Rightarrow> byte list" where
  "stamp_raw ms raw =
     (let raw = raw[0 := ucast (drop_bit 40 ms), 1 := ucast (drop_bit 32 ms),
                    2 := ucast (drop_bit 24 ms), 3 := ucast (drop_bit 16 ms),
                    4 := ucast (drop_bit 8 ms), 5 := ucast ms]
      in raw[6 := raw ! 6 AND 0x0f OR 0x70, 8 := raw ! 8 AND 0x3f OR 0x80])"

definition encode_raw :: "byte list \<Rightarrow> string" where
  "encode_raw raw =
     hex_encode (take 4 raw) @ ''-'' @ hex_encode (take 2 (drop 4 raw)) @ ''-'' @
     hex_encode (take 2 (drop 6 raw)) @ ''-'' @ hex_encode (take 2 (drop 8 raw)) @ ''-'' @
     hex_encode (take 6 (drop 10 raw))"

definition newIDAt :: "time \<Rightarrow> byte list \<Rightarrow> error + ID" where
  "newIDAt now entropy =
     (let millis = Time_UnixMilli now in
      if millis < 0 \<or> 2 ^ 48 \<le> millis then Inl (invalid_id ''timestamp outside UUIDv7 range'')
      else if length entropy < 16 then Inl (errorf ''create ID'')
      else Inr (encode_raw (stamp_raw (of_int millis) (take 16 entropy))))"

definition ID_IsZero :: "ID \<Rightarrow> bool" where
  "ID_IsZero i \<longleftrightarrow> i = []"

definition ID_Validate :: "ID \<Rightarrow> error option" where
  "ID_Validate i =
     (if ID_IsZero i then Some (invalid_id ''empty'')
      else case ParseID i of Inl e \<Rightarrow> Some e | Inr _ \<Rightarrow> None)"

section \<open>What is accepted\<close>

lemma ParseID_Inr: "ParseID v = Inr i \<Longrightarrow> i = v"
  by (auto simp: ParseID_def Let_def split: if_splits option.splits)

lemma ParseID_length: "ParseID v = Inr i \<Longrightarrow> length v = 36"
  by (auto simp: ParseID_def split: if_splits)

lemma ID_Validate_iff: "ID_Validate i = None \<longleftrightarrow> ParseID i = Inr i"
  using ParseID_length [of i] ParseID_Inr [of i]
  by (auto simp: ID_Validate_def ID_IsZero_def split: sum.splits)

lemma ID_Validate_nonzero: "ID_Validate i = None \<Longrightarrow> \<not> ID_IsZero i"
  by (simp add: ID_Validate_def split: if_splits)

lemma ID_Validate_length: "ID_Validate i = None \<Longrightarrow> length i = 36"
  by (simp add: ID_Validate_iff ParseID_length)

lemma ID_IsZero_Nil [simp]: "ID_IsZero []"
  by (simp add: ID_IsZero_def)

lemma ID_Validate_Nil [simp]: "ID_Validate [] = Some (invalid_id ''empty'')"
  by (simp add: ID_Validate_def)

lemma ID_Validate_sentinel: "ID_Validate i = Some e \<Longrightarrow> errors_Is e ErrInvalidID"
  by (auto simp: ID_Validate_def ParseID_def invalid_id_def Let_def
      split: if_splits option.splits sum.splits)

section \<open>Generated identifiers\<close>

lemma list16_split:
  assumes "length (xs :: 'a list) = 16"
  obtains a b c d e f g h i j k l m n p q
  where "xs = [a, b, c, d, e, f, g, h, i, j, k, l, m, n, p, q]"
  using assms by (auto simp: length_Suc_conv numeral_eq_Suc)

lemma ParseID_encode_raw:
  assumes "length raw = 16" "drop_bit 4 (raw ! 6) = 7" "raw ! 8 AND 0xc0 = 0x80"
  shows "ParseID (encode_raw raw) = Inr (encode_raw raw)"
proof -
  obtain a b c d e f g h i j k l m n p q
    where raw: "raw = [a, b, c, d, e, f, g, h, i, j, k, l, m, n, p, q]"
    using assms(1) by (rule list16_split)
  have "hex_decode (hex_encode raw) = Some raw" by simp
  with assms(2,3) show ?thesis
    unfolding raw by (simp add: ParseID_def encode_raw_def)
qed

lemma version_bits: "drop_bit 4 ((x :: byte) AND 0x0f OR 0x70) = 7"
  by (rule bit_eqI) (auto simp: bit_simps less_Suc_eq numeral_eq_Suc)

lemma variant_bits: "((x :: byte) AND 0x3f OR 0x80) AND 0xc0 = 0x80"
  by (rule bit_eqI) (auto simp: bit_simps less_Suc_eq numeral_eq_Suc)

lemma stamp_raw_marks:
  assumes "length raw = 16"
  shows "length (stamp_raw ms raw) = 16" "drop_bit 4 (stamp_raw ms raw ! 6) = 7"
    "stamp_raw ms raw ! 8 AND 0xc0 = 0x80"
  using assms by (simp_all add: stamp_raw_def Let_def version_bits variant_bits)

text \<open>
  The hexadecimal text of a byte orders as the byte does, so the texts of two stamped
  arrays order as their timestamps do.
\<close>

lemma radix_less:
  assumes "r < k" "s < k"
  shows "k * a + r < k * b + s \<longleftrightarrow> a < b \<or> (a = b \<and> r < (s :: nat))"
proof -
  have *: "k * x + u < k * y + v" if "x < y" "u < k" for x y u v :: nat
  proof -
    have "k * Suc x \<le> k * y" using \<open>x < y\<close> by (intro mult_le_mono2) simp
    with \<open>u < k\<close> show ?thesis by simp
  qed
  from * [of a b r s] * [of b a s r] assms show ?thesis
    by (metis add_less_cancel_left linorder_neqE_nat order_less_asym)
qed

lemma div_mod_less:
  "0 < k \<Longrightarrow> m < n \<longleftrightarrow> m div k < n div k \<or> (m div k = n div k \<and> m mod k < n mod (k :: nat))"
  using radix_less [of "m mod k" k "n mod k" "m div k" "n div k"] by simp

lemma div_mod_eq: "m = n \<longleftrightarrow> m div k = n div k \<and> m mod k = n mod (k :: nat)"
  by (metis div_mult_mod_eq)

lemma hex_pair_less:
  assumes "m < 256" "n < 256"
  shows "hex_char (m div 16) # hex_char (m mod 16) # s < hex_char (n div 16) # hex_char (n mod 16) # t
    \<longleftrightarrow> m < n \<or> (m = n \<and> s < t)"
proof -
  have bounds: "m div 16 < 16" "n div 16 < 16" "m mod 16 < 16" "n mod 16 < 16"
    using assms by auto
  have cmp: "hex_char x < hex_char y \<longleftrightarrow> x < y" if "x < 16" "y < 16" for x y
    using hex_char_mono [of x y] hex_char_mono [of y x] that
    by (metis linorder_neqE_nat order_less_asym order_less_irrefl)
  show ?thesis
    unfolding div_mod_less [of 16 m n, simplified] div_mod_eq [of m n 16]
    using bounds by (auto simp: cmp hex_char_inj)
qed

lemma dash_less: "CHR ''-'' # s < CHR ''-'' # t \<longleftrightarrow> s < t"
  by simp

lemma unat_timestamp_byte:
  "unat (ucast (drop_bit k (w :: 64 word)) :: byte) = unat w div 2 ^ k mod 256"
proof -
  have "unat (ucast (drop_bit k w) :: byte) = take_bit 8 (unat (drop_bit k w))"
    by (simp add: unsigned_ucast_eq)
  also have "unat (drop_bit k w) = drop_bit k (unat w)"
    by (rule unat_drop_bit_eq)
  finally show ?thesis by (simp only: drop_bit_eq_div take_bit_eq_mod) simp
qed

lemma unat_millis:
  assumes "0 \<le> i" "i < 2 ^ 48"
  shows "unat (of_int i :: 64 word) = nat i"
proof -
  have "uint (of_int i :: 64 word) = take_bit 64 i" by (simp add: uint_word_of_int_eq)
  also have "\<dots> = i" using assms by (simp add: take_bit_int_eq_self)
  finally show ?thesis by (metis unat_eq_nat_uint)
qed

lemma timestamp_bytes_less:
  fixes m n :: nat
  assumes "m < n" "n < 2 ^ 48"
  defines "d \<equiv> \<lambda>x k. x div 2 ^ k mod 256 :: nat"
  shows "d m 40 < d n 40 \<or> (d m 40 = d n 40 \<and> (d m 32 < d n 32 \<or> (d m 32 = d n 32 \<and>
    (d m 24 < d n 24 \<or> (d m 24 = d n 24 \<and> (d m 16 < d n 16 \<or> (d m 16 = d n 16 \<and>
    (d m 8 < d n 8 \<or> (d m 8 = d n 8 \<and> d m 0 < d n 0)))))))))"
proof -
  have step: "m div 2 ^ k < n div 2 ^ k \<longleftrightarrow>
      m div 2 ^ (k + 8) < n div 2 ^ (k + 8) \<or> (m div 2 ^ (k + 8) = n div 2 ^ (k + 8) \<and> d m k < d n k)"
    "m div 2 ^ k = n div 2 ^ k \<longleftrightarrow> m div 2 ^ (k + 8) = n div 2 ^ (k + 8) \<and> d m k = d n k" for k
    using div_mod_less [of 256 "m div 2 ^ k" "n div 2 ^ k"]
      div_mod_eq [of "m div 2 ^ k" "n div 2 ^ k" 256]
    by (simp_all add: d_def power_add div_mult2_eq)
  have top: "d m 40 = m div 2 ^ 40" "d n 40 = n div 2 ^ 40"
    using assms(1,2) by (simp_all add: d_def)
  have "m div 2 ^ 0 < n div 2 ^ 0" using assms(1) by simp
  then show ?thesis
    unfolding step(1) [of 0] step(1) [of 8, simplified] top
    using step [of 8] step [of 16] step [of 24] step [of 32] by auto
qed

lemma newIDAt_InrD:
  assumes "newIDAt t ent = Inr i"
  shows "0 \<le> Time_UnixMilli t" "Time_UnixMilli t < 2 ^ 48" "length (take 16 ent) = 16"
    "i = encode_raw (stamp_raw (of_int (Time_UnixMilli t)) (take 16 ent))"
  using assms by (auto simp: newIDAt_def Let_def split: if_splits)

lemma newIDAt_accepted: "newIDAt t ent = Inr i \<Longrightarrow> ParseID i = Inr i"
  using newIDAt_InrD [of t ent i] stamp_raw_marks by (metis ParseID_encode_raw)

lemma encode_stamp_less:
  assumes "length r = 16" "length r' = 16" "unat ms < unat ms'" "unat ms' < 2 ^ 48"
  shows "encode_raw (stamp_raw ms r) < encode_raw (stamp_raw ms' r')"
proof -
  obtain a b c d e f g h i j k l m n p q
    where r: "r = [a, b, c, d, e, f, g, h, i, j, k, l, m, n, p, q]"
    using assms(1) by (rule list16_split)
  obtain a' b' c' d' e' f' g' h' i' j' k' l' m' n' p' q'
    where r': "r' = [a', b', c', d', e', f', g', h', i', j', k', l', m', n', p', q']"
    using assms(2) by (rule list16_split)
  have low: "unat (ucast w :: byte) = unat w div 2 ^ 0 mod 256" for w :: "64 word"
    using unat_timestamp_byte [of 0 w] by simp
  have drop: "unat (drop_bit n w) = unat w div 2 ^ n" for n and w :: "64 word"
    by (metis drop_bit_eq_div unat_drop_bit_eq)
  show ?thesis
    using timestamp_bytes_less [OF assms(3,4)]
    unfolding r r'
    by (simp add: encode_raw_def stamp_raw_def hex_pair_less dash_less drop unat_timestamp_byte low
        del: Cons_less_Cons) blast
qed

text \<open>
  Round trip of identifiers: \<open>newIDAt\<close> succeeds exactly when the instant lies in the
  48-bit millisecond range and 16 bytes of entropy are there, and what it returns is accepted
  by \<open>ParseID\<close> and by \<open>Validate\<close> unchanged, with 36 characters.
\<close>

theorem newIDAt_roundtrip:
  "((\<exists>i. newIDAt t ent = Inr i) \<longleftrightarrow>
      0 \<le> Time_UnixMilli t \<and> Time_UnixMilli t < 2 ^ 48 \<and> 16 \<le> length ent) \<and>
   (\<forall>i. newIDAt t ent = Inr i \<longrightarrow> ParseID i = Inr i \<and> ID_Validate i = None \<and> length i = 36)"
proof (intro conjI allI impI)
  show "(\<exists>i. newIDAt t ent = Inr i) \<longleftrightarrow>
      0 \<le> Time_UnixMilli t \<and> Time_UnixMilli t < 2 ^ 48 \<and> 16 \<le> length ent"
    by (auto simp: newIDAt_def Let_def)
next
  fix i
  assume "newIDAt t ent = Inr i"
  then show "ParseID i = Inr i" by (rule newIDAt_accepted)
  then show "ID_Validate i = None" and "length i = 36"
    by (simp_all add: ID_Validate_iff ParseID_length)
qed

text \<open>The instant one second after the Unix epoch and constant entropy.\<close>

definition no_entropy :: "byte list" where
  "no_entropy = [0, 0, 0, 0, 0, 0, 0, 0, 0, 0, 0, 0, 0, 0, 0, 0]"

definition sample_id :: ID where
  "sample_id = ''00000000-03e8-7000-8000-000000000000''"

definition sample_id2 :: ID where
  "sample_id2 = ''00000000-07d0-7000-8000-000000000000''"

lemma sample_ids_generated:
  "newIDAt (62135596801 * 10 ^ 9) no_entropy = Inr sample_id"
  "newIDAt (62135596802 * 10 ^ 9) no_entropy = Inr sample_id2"
  by (simp_all add: newIDAt_def Time_UnixMilli_def encode_raw_def stamp_raw_def no_entropy_def
      hex_char_def sample_id_def sample_id2_def)

lemma sample_ids_valid [simp]: "ID_Validate sample_id = None" "ID_Validate sample_id2 = None"
  using sample_ids_generated [THEN newIDAt_accepted] by (simp_all add: ID_Validate_iff)

lemma sample_ids_simps [simp]:
  "sample_id \<noteq> sample_id2" "sample_id2 \<noteq> sample_id"
  "\<not> ID_IsZero sample_id" "\<not> ID_IsZero sample_id2" "sample_id \<noteq> []" "sample_id2 \<noteq> []"
  by (simp_all add: sample_id_def sample_id2_def ID_IsZero_def)

theorem newIDAt_roundtrip_witness:
  "ParseID sample_id = Inr sample_id \<and> ID_Validate sample_id = None \<and> length sample_id = 36"
  using newIDAt_roundtrip [of "62135596801 * 10 ^ 9" no_entropy] sample_ids_generated(1)
  by simp

text \<open>
  The text of an identifier sorts by creation time: of two identifiers generated at
  instants whose Unix milliseconds differ, the earlier is the smaller byte string, whatever
  the entropy.
\<close>

theorem newIDAt_sorts_by_time:
  assumes "newIDAt t ent = Inr i" "newIDAt t' ent' = Inr i'"
    and "Time_UnixMilli t < Time_UnixMilli t'"
  shows "i < i'"
proof -
  note a = newIDAt_InrD [OF assms(1)] and b = newIDAt_InrD [OF assms(2)]
  have "unat (of_int (Time_UnixMilli t) :: 64 word) < unat (of_int (Time_UnixMilli t') :: 64 word)"
    "unat (of_int (Time_UnixMilli t') :: 64 word) < 2 ^ 48"
    using a(1,2) b(1,2) assms(3) by (simp_all add: unat_millis)
  then show ?thesis
    using encode_stamp_less [OF a(3) b(3)] a(4) b(4) by simp
qed

theorem newIDAt_sorts_by_time_witness: "sample_id < sample_id2"
  by (rule newIDAt_sorts_by_time [OF sample_ids_generated(1) sample_ids_generated(2)])
     (simp add: Time_UnixMilli_def)

end
