(* ===== verification/Domain.thy ===== *)
theory Domain
  imports Ids
begin

text \<open>
  The domain model (\<open>src/domain.go\<close>): trust zones, data classifications, budgets, workloads
  and steps with their state machines. A locale states what a lifecycle with absorbing final
  states promises; the workload and the step machine both interpret it.
\<close>

section \<open>Enumerations\<close>

datatype Zone = ZonePersonal | ZoneSelfCloud | ZoneManagedCloud | ZoneOther string

definition Zone_Validate :: "Zone \<Rightarrow> error option" where
  "Zone_Validate z =
     (case z of ZonePersonal \<Rightarrow> None | ZoneSelfCloud \<Rightarrow> None | ZoneManagedCloud \<Rightarrow> None
      | ZoneOther _ \<Rightarrow> Some (errorf ''unknown zone''))"

datatype Classification =
  ClassPublic | ClassInternal | ClassConfidential | ClassSecret | ClassOther string

definition Classification_Validate :: "Classification \<Rightarrow> error option" where
  "Classification_Validate c =
     (case c of ClassPublic \<Rightarrow> None | ClassInternal \<Rightarrow> None | ClassConfidential \<Rightarrow> None
      | ClassSecret \<Rightarrow> None | ClassOther _ \<Rightarrow> Some (errorf ''unknown classification''))"

definition classification_text :: "Classification \<Rightarrow> string" where
  "classification_text c =
     (case c of ClassPublic \<Rightarrow> ''public'' | ClassInternal \<Rightarrow> ''internal''
      | ClassConfidential \<Rightarrow> ''confidential'' | ClassSecret \<Rightarrow> ''secret'' | ClassOther s \<Rightarrow> s)"

abbreviation no_zone :: Zone where "no_zone \<equiv> ZoneOther []"
abbreviation no_class :: Classification where "no_class \<equiv> ClassOther []"

record Budget =
  bg_MaxSteps :: int
  bg_MaxInputTokens :: int
  bg_MaxOutputTokens :: int
  bg_MaxModelCalls :: int
  bg_MaxToolCalls :: int
  bg_MaxChildSteps :: int
  bg_MaxCost :: int
  bg_MaxWallTime :: duration

definition Budget_Validate :: "Budget \<Rightarrow> error option" where
  "Budget_Validate b =
     fail_if (bg_MaxSteps b < 0 \<or> bg_MaxInputTokens b < 0 \<or> bg_MaxOutputTokens b < 0 \<or>
              bg_MaxModelCalls b < 0 \<or> bg_MaxToolCalls b < 0 \<or> bg_MaxChildSteps b < 0 \<or>
              bg_MaxCost b < 0 \<or> bg_MaxWallTime b < 0)
       ''budget values cannot be negative''"

datatype WorkloadState =
    WorkloadCreated | WorkloadRunning | WorkloadWaiting
  | WorkloadSucceeded | WorkloadFailed | WorkloadCancelled | WorkloadStateOther string

definition WorkloadState_Validate :: "WorkloadState \<Rightarrow> error option" where
  "WorkloadState_Validate s =
     (case s of WorkloadStateOther _ \<Rightarrow> Some (errorf ''unknown workload state'') | _ \<Rightarrow> None)"

record Workload =
  wl_ID :: ID
  wl_SessionID :: ID
  wl_Goal :: string
  wl_State :: WorkloadState
  wl_Budget :: Budget
  wl_CreatedAt :: time
  wl_UpdatedAt :: time

datatype StepKind =
  StepModelTurn | StepTool | StepDelegate | StepTransform | StepVerify | StepKindOther string

abbreviation no_step_kind :: StepKind where "no_step_kind \<equiv> StepKindOther []"

definition StepKind_Validate :: "StepKind \<Rightarrow> error option" where
  "StepKind_Validate k =
     (case k of StepKindOther _ \<Rightarrow> Some (errorf ''unknown step kind'') | _ \<Rightarrow> None)"

datatype StepState =
    StepPending | StepReady | StepLeased | StepRunning | StepWaitingApproval
  | StepUncertain | StepSucceeded | StepFailed | StepCancelled | StepStateOther string

definition StepState_Validate :: "StepState \<Rightarrow> error option" where
  "StepState_Validate s =
     (case s of StepStateOther _ \<Rightarrow> Some (errorf ''unknown step state'') | _ \<Rightarrow> None)"

record Requirements =
  rq_Modalities :: "string list"
  rq_RequiredTools :: "string list"
  rq_MinContextTokens :: int
  rq_MinQualityClass :: string
  rq_AllowedZones :: "Zone list"
  rq_NativeToolUse :: bool
  rq_StructuredOutput :: bool

definition Requirements_Validate :: "Requirements \<Rightarrow> error option" where
  "Requirements_Validate r =
     first_error
       [fail_if (rq_MinContextTokens r < 0) ''minimum context tokens cannot be negative'',
        first_invalid ''allowed zone'' Zone_Validate (rq_AllowedZones r)]"

record Step =
  st_ID :: ID
  st_WorkloadID :: ID
  st_ParentStepID :: ID
  st_Kind :: StepKind
  st_State :: StepState
  st_Requirements :: Requirements
  st_Budget :: Budget
  st_Attempt :: int
  st_IdempotencyKey :: string
  st_CreatedAt :: time
  st_UpdatedAt :: time

section \<open>State machines\<close>

fun CanTransitionWorkload :: "WorkloadState \<Rightarrow> WorkloadState \<Rightarrow> bool" where
  "CanTransitionWorkload WorkloadCreated to \<longleftrightarrow> to = WorkloadRunning \<or> to = WorkloadCancelled"
| "CanTransitionWorkload WorkloadRunning to \<longleftrightarrow>
     to = WorkloadWaiting \<or> to = WorkloadSucceeded \<or> to = WorkloadFailed \<or> to = WorkloadCancelled"
| "CanTransitionWorkload WorkloadWaiting to \<longleftrightarrow>
     to = WorkloadRunning \<or> to = WorkloadFailed \<or> to = WorkloadCancelled"
| "CanTransitionWorkload _ to \<longleftrightarrow> False"

fun CanTransitionStep :: "StepState \<Rightarrow> StepState \<Rightarrow> bool" where
  "CanTransitionStep StepPending to \<longleftrightarrow> to = StepReady \<or> to = StepCancelled"
| "CanTransitionStep StepReady to \<longleftrightarrow> to = StepLeased \<or> to = StepFailed \<or> to = StepCancelled"
| "CanTransitionStep StepLeased to \<longleftrightarrow>
     to = StepRunning \<or> to = StepReady \<or> to = StepUncertain \<or> to = StepCancelled"
| "CanTransitionStep StepRunning to \<longleftrightarrow>
     to = StepSucceeded \<or> to = StepFailed \<or> to = StepWaitingApproval \<or> to = StepUncertain \<or>
     to = StepCancelled"
| "CanTransitionStep StepWaitingApproval to \<longleftrightarrow>
     to = StepRunning \<or> to = StepFailed \<or> to = StepCancelled"
| "CanTransitionStep StepUncertain to \<longleftrightarrow>
     to = StepSucceeded \<or> to = StepFailed \<or> to = StepReady \<or> to = StepCancelled"
| "CanTransitionStep _ to \<longleftrightarrow> False"

text \<open>The methods mutate their receiver; the model returns the error and the receiver after the call.\<close>

definition Workload_Transition :: "Workload \<Rightarrow> WorkloadState \<Rightarrow> time \<Rightarrow> error option \<times> Workload" where
  "Workload_Transition w to at =
     (if \<not> CanTransitionWorkload (wl_State w) to
      then (Some (Error [ErrInvalidTransition] ''workload''), w)
      else (None, w\<lparr>wl_State := to, wl_UpdatedAt := at\<rparr>))"

definition Step_Transition :: "Step \<Rightarrow> StepState \<Rightarrow> time \<Rightarrow> error option \<times> Step" where
  "Step_Transition s to at =
     (if \<not> CanTransitionStep (st_State s) to
      then (Some (Error [ErrInvalidTransition] ''step''), s)
      else (None, s\<lparr>st_State := to, st_UpdatedAt := at\<rparr>))"

section \<open>Validators\<close>

lemma Zone_Validate_None: "Zone_Validate z = None \<longleftrightarrow> z \<in> {ZonePersonal, ZoneSelfCloud, ZoneManagedCloud}"
  by (cases z) (simp_all add: Zone_Validate_def)

lemma Zone_Validate_known [valid_simps]:
  "Zone_Validate ZonePersonal = None" "Zone_Validate ZoneSelfCloud = None"
  "Zone_Validate ZoneManagedCloud = None"
  by (simp_all add: Zone_Validate_def)

lemma Zone_Validate_other [valid_simps]: "Zone_Validate (ZoneOther s) \<noteq> None"
  by (simp add: Zone_Validate_def)

lemma Classification_Validate_None:
  "Classification_Validate c = None \<longleftrightarrow> c \<in> {ClassPublic, ClassInternal, ClassConfidential, ClassSecret}"
  by (cases c) (simp_all add: Classification_Validate_def)

lemma Classification_Validate_known [valid_simps]:
  "Classification_Validate ClassPublic = None" "Classification_Validate ClassInternal = None"
  "Classification_Validate ClassConfidential = None" "Classification_Validate ClassSecret = None"
  by (simp_all add: Classification_Validate_def)

lemma StepKind_Validate_known [valid_simps]:
  "StepKind_Validate StepModelTurn = None" "StepKind_Validate StepTool = None"
  "StepKind_Validate (StepKindOther s) \<noteq> None"
  by (simp_all add: StepKind_Validate_def)

lemma Budget_Validate_None [valid_simps]:
  "Budget_Validate b = None \<longleftrightarrow>
     0 \<le> bg_MaxSteps b \<and> 0 \<le> bg_MaxInputTokens b \<and> 0 \<le> bg_MaxOutputTokens b \<and>
     0 \<le> bg_MaxModelCalls b \<and> 0 \<le> bg_MaxToolCalls b \<and> 0 \<le> bg_MaxChildSteps b \<and>
     0 \<le> bg_MaxCost b \<and> 0 \<le> bg_MaxWallTime b"
  by (auto simp: Budget_Validate_def)

lemma Requirements_Validate_None [valid_simps]:
  "Requirements_Validate r = None \<longleftrightarrow>
     0 \<le> rq_MinContextTokens r \<and> (\<forall>z\<in>set (rq_AllowedZones r). Zone_Validate z = None)"
  by (auto simp: Requirements_Validate_def)

section \<open>The lifecycle contract\<close>

text \<open>
  A lifecycle has an initial state, a set of final states no transition leaves, and from every
  other known state some path to a final state. What follows for the histories a
  \<open>Transition\<close> method can produce is proved once.
\<close>

inductive path :: "('s \<Rightarrow> 's \<Rightarrow> bool) \<Rightarrow> 's \<Rightarrow> 's list \<Rightarrow> 's \<Rightarrow> bool" for can where
  path_nil: "path can s [] s"
| path_cons: "can s t \<Longrightarrow> path can t ts u \<Longrightarrow> path can s (t # ts) u"

inductive_cases path_nilE: "path can s [] t"
inductive_cases path_consE: "path can s (t # ts) u"

lemma path_append: "path can s xs t \<Longrightarrow> path can t ys u \<Longrightarrow> path can s (xs @ ys) u"
  by (induction rule: path.induct) (auto intro: path.intros)

lemma path_snoc: "path can s xs t \<Longrightarrow> can t u \<Longrightarrow> path can s (xs @ [u]) u"
  by (rule path_append) (auto intro: path.intros)

locale lifecycle =
  fixes can :: "'s \<Rightarrow> 's \<Rightarrow> bool"
    and initial :: 's
    and known :: "'s set"
    and final :: "'s set"
  assumes final_known: "final \<subseteq> known"
    and initial_open: "initial \<in> known - final"
    and final_absorbing: "s \<in> final \<Longrightarrow> \<not> can s t"
    and known_closed: "s \<in> known \<Longrightarrow> can s t \<Longrightarrow> t \<in> known"
    and can_finish: "s \<in> known - final \<Longrightarrow> \<exists>t\<in>final. can s t \<or> (\<exists>u. can s u \<and> can u t)"
    and all_reachable: "s \<in> known \<Longrightarrow> \<exists>ts. path can initial ts s"
begin

lemma path_from_final: "path can s ts t \<Longrightarrow> s \<in> final \<Longrightarrow> ts = [] \<and> t = s"
  by (erule path.cases) (auto simp: final_absorbing)

lemma path_known: "path can s ts t \<Longrightarrow> s \<in> known \<Longrightarrow> set ts \<subseteq> known \<and> t \<in> known"
  by (induction rule: path.induct) (auto dest: known_closed)

lemma path_final_last:
  "path can s ts t \<Longrightarrow> \<forall>u\<in>set (butlast ts). u \<notin> final"
proof (induction rule: path.induct)
  case (path_cons s t ts u)
  then show ?case
    using path_from_final [OF path_cons(2)] by (cases ts) auto
qed simp

lemma open_can_finish:
  assumes "s \<in> known - final"
  shows "\<exists>ts t. path can s ts t \<and> t \<in> final \<and> length ts \<le> 2"
proof -
  from can_finish [OF assms] obtain t where t: "t \<in> final" "can s t \<or> (\<exists>u. can s u \<and> can u t)"
    by blast
  then consider "can s t" | u where "can s u" "can u t" by blast
  then show ?thesis
  proof cases
    case 1
    then have "path can s [t] t" by (intro path.intros)
    with t(1) show ?thesis by (intro exI [of _ "[t]"] exI [of _ t]) simp
  next
    case (2 u)
    then have "path can s [u, t] t" by (intro path.intros)
    with t(1) show ?thesis by (intro exI [of _ "[u, t]"] exI [of _ t]) simp
  qed
qed

end

definition workload_known :: "WorkloadState set" where
  "workload_known = {s. WorkloadState_Validate s = None}"

definition workload_final :: "WorkloadState set" where
  "workload_final = {WorkloadSucceeded, WorkloadFailed, WorkloadCancelled}"

definition step_known :: "StepState set" where
  "step_known = {s. StepState_Validate s = None}"

definition step_final :: "StepState set" where
  "step_final = {StepSucceeded, StepFailed, StepCancelled}"

lemma workload_known_cases:
  "s \<in> workload_known \<longleftrightarrow> s \<in> {WorkloadCreated, WorkloadRunning, WorkloadWaiting,
     WorkloadSucceeded, WorkloadFailed, WorkloadCancelled}"
  by (cases s) (simp_all add: workload_known_def WorkloadState_Validate_def)

lemma step_known_cases:
  "s \<in> step_known \<longleftrightarrow> s \<in> {StepPending, StepReady, StepLeased, StepRunning, StepWaitingApproval,
     StepUncertain, StepSucceeded, StepFailed, StepCancelled}"
  by (cases s) (simp_all add: step_known_def StepState_Validate_def)

lemma workload_reachable:
  assumes "s \<in> workload_known"
  shows "\<exists>ts. path CanTransitionWorkload WorkloadCreated ts s"
proof -
  have run: "path CanTransitionWorkload WorkloadCreated [WorkloadRunning] WorkloadRunning"
    by (intro path.intros) simp
  from assms consider "s = WorkloadCreated" | "s = WorkloadRunning" | "CanTransitionWorkload WorkloadRunning s"
    by (auto simp: workload_known_cases)
  then show ?thesis
  proof cases
    case 1
    then show ?thesis by (auto intro: path_nil)
  next
    case 2
    with run show ?thesis by blast
  next
    case 3
    from path_snoc [OF run 3] show ?thesis ..
  qed
qed

lemma step_reachable:
  assumes "s \<in> step_known"
  shows "\<exists>ts. path CanTransitionStep StepPending ts s"
proof -
  have run: "path CanTransitionStep StepPending [StepReady, StepLeased, StepRunning] StepRunning"
    by (intro path.intros) simp_all
  from assms consider "s = StepPending" | "s = StepReady" | "s = StepLeased" | "s = StepRunning"
    | "CanTransitionStep StepRunning s"
    by (auto simp: step_known_cases)
  then show ?thesis
  proof cases
    case 1
    then show ?thesis by (auto intro: path_nil)
  next
    case 2
    have "path CanTransitionStep StepPending [StepReady] StepReady"
      by (intro path.intros) simp
    with 2 show ?thesis by blast
  next
    case 3
    have "path CanTransitionStep StepPending [StepReady, StepLeased] StepLeased"
      by (intro path.intros) simp_all
    with 3 show ?thesis by blast
  next
    case 4
    with run show ?thesis by blast
  next
    case 5
    from path_snoc [OF run 5] show ?thesis ..
  qed
qed

interpretation workload_machine:
  lifecycle CanTransitionWorkload WorkloadCreated workload_known workload_final
proof
  show "\<exists>ts. path CanTransitionWorkload WorkloadCreated ts s" if "s \<in> workload_known" for s
    using that by (rule workload_reachable)
qed (auto simp: workload_known_cases workload_final_def)

interpretation step_machine:
  lifecycle CanTransitionStep StepPending step_known step_final
proof
  show "\<exists>ts. path CanTransitionStep StepPending ts s" if "s \<in> step_known" for s
    using that by (rule step_reachable)
  show "\<exists>t\<in>step_final. CanTransitionStep s t \<or> (\<exists>u. CanTransitionStep s u \<and> CanTransitionStep u t)"
    if "s \<in> step_known - step_final" for s
    using that by (intro bexI [of _ StepCancelled]) (auto simp: step_known_cases step_final_def)
qed (auto simp: step_known_cases step_final_def)

section \<open>Histories of Transition calls\<close>

text \<open>A caller that applies \<open>Transition\<close> to a workload again and again, ignoring the errors.\<close>

fun workload_history :: "Workload \<Rightarrow> (WorkloadState \<times> time) list \<Rightarrow> Workload" where
  "workload_history w [] = w"
| "workload_history w ((to, at) # calls) = workload_history (snd (Workload_Transition w to at)) calls"

fun step_history :: "Step \<Rightarrow> (StepState \<times> time) list \<Rightarrow> Step" where
  "step_history s [] = s"
| "step_history s ((to, at) # calls) = step_history (snd (Step_Transition s to at)) calls"

lemma workload_history_path:
  "\<exists>ts. path CanTransitionWorkload (wl_State w) ts (wl_State (workload_history w calls))"
proof (induction calls arbitrary: w)
  case (Cons call calls)
  obtain to at where call: "call = (to, at)" by (cases call)
  show ?case
    using Cons [of "snd (Workload_Transition w to at)"]
    by (auto simp: call Workload_Transition_def intro: path_cons split: if_splits)
qed (auto intro: path_nil)

lemma step_history_path:
  "\<exists>ts. path CanTransitionStep (st_State s) ts (st_State (step_history s calls))"
proof (induction calls arbitrary: s)
  case (Cons call calls)
  obtain to at where call: "call = (to, at)" by (cases call)
  show ?case
    using Cons [of "snd (Step_Transition s to at)"]
    by (auto simp: call Step_Transition_def intro: path_cons split: if_splits)
qed (auto intro: path_nil)

text \<open>
  Final states are absorbing: once a workload has succeeded, failed or been cancelled, or
  a step has, no sequence of \<open>Transition\<close> calls changes its state or its record at all.
\<close>

theorem final_states_absorbing:
  "(wl_State w \<in> workload_final \<longrightarrow> workload_history w wcalls = w) \<and>
   (st_State s \<in> step_final \<longrightarrow> step_history s scalls = s)"
proof (intro conjI impI)
  assume f: "wl_State w \<in> workload_final"
  have "snd (Workload_Transition w to at) = w" for to at
    using workload_machine.final_absorbing [OF f] by (simp add: Workload_Transition_def)
  then show "workload_history w wcalls = w" by (induction wcalls) auto
next
  assume f: "st_State s \<in> step_final"
  have "snd (Step_Transition s to at) = s" for to at
    using step_machine.final_absorbing [OF f] by (simp add: Step_Transition_def)
  then show "step_history s scalls = s" by (induction scalls) auto
qed


section \<open>Concrete records for the witnesses\<close>

definition sample_budget :: Budget where
  "sample_budget = \<lparr>bg_MaxSteps = 1, bg_MaxInputTokens = 1000, bg_MaxOutputTokens = 1000,
     bg_MaxModelCalls = 3, bg_MaxToolCalls = 3, bg_MaxChildSteps = 0, bg_MaxCost = 100,
     bg_MaxWallTime = 1000000\<rparr>"

definition sample_requirements :: Requirements where
  "sample_requirements = \<lparr>rq_Modalities = [], rq_RequiredTools = [], rq_MinContextTokens = 0,
     rq_MinQualityClass = [], rq_AllowedZones = [ZonePersonal], rq_NativeToolUse = False,
     rq_StructuredOutput = False\<rparr>"

definition sample_workload :: Workload where
  "sample_workload = \<lparr>wl_ID = sample_id, wl_SessionID = sample_id2, wl_Goal = ''goal'',
     wl_State = WorkloadFailed, wl_Budget = sample_budget, wl_CreatedAt = 1, wl_UpdatedAt = 1\<rparr>"

definition sample_step :: Step where
  "sample_step = \<lparr>st_ID = sample_id, st_WorkloadID = sample_id, st_ParentStepID = [],
     st_Kind = StepModelTurn, st_State = StepPending, st_Requirements = sample_requirements,
     st_Budget = sample_budget, st_Attempt = 1, st_IdempotencyKey = [], st_CreatedAt = 1,
     st_UpdatedAt = 1\<rparr>"

theorem final_states_absorbing_witness:
  "workload_history sample_workload [(WorkloadRunning, 2)] = sample_workload"
  using final_states_absorbing [of sample_workload "[(WorkloadRunning, 2)]" sample_step "[]"]
  by (simp add: sample_workload_def workload_final_def)


end
