(* ===== verification/JsonValid.thy ===== *)
theory JsonValid
  imports GoLib
begin

text \<open>
  \<open>json.Valid\<close>: the byte-at-a-time scanner of Go's \<open>encoding/json\<close>. A scanner state is the
  next step function (here a constructor), the stack of open objects and arrays, and the flag
  that the top-level value is complete. The scanner accepts exactly one JSON value surrounded
  by white space, nested at most 10000 deep; bytes of a string are not checked to be UTF-8.
\<close>

datatype jstep =
    BeginValueOrEmpty | BeginValue | BeginStringOrEmpty | BeginString
  | EndValue | EndTop | InString | InStringEsc | InStringEscU nat
  | Neg | Int1 | Int0 | Dot | Dot0 | Exp | ExpSign | Exp0 | Literal string

datatype jparse = ObjectKey | ObjectValue | ArrayValue

record scanner =
  sc_step :: jstep
  sc_endTop :: bool
  sc_parse :: "jparse list"

definition json_space :: "char \<Rightarrow> bool" where
  "json_space c \<longleftrightarrow> c \<in> {CHR 0x20, CHR 0x09, CHR 0x0D, CHR 0x0A}"

definition digit :: "char \<Rightarrow> bool" where
  "digit c \<longleftrightarrow> (let n = of_char c :: nat in 48 \<le> n \<and> n \<le> 57)"

definition max_nesting :: nat where "max_nesting = 10000"

definition goto :: "jstep \<Rightarrow> scanner \<Rightarrow> scanner option" where
  "goto st s = Some (s\<lparr>sc_step := st\<rparr>)"

definition push_parse :: "jparse \<Rightarrow> jstep \<Rightarrow> scanner \<Rightarrow> scanner option" where
  "push_parse p st s =
     (if length (sc_parse s) < max_nesting
      then Some (s\<lparr>sc_step := st, sc_parse := p # sc_parse s\<rparr>) else None)"

definition pop_parse :: "scanner \<Rightarrow> scanner option" where
  "pop_parse s =
     (let rest = tl (sc_parse s) in
      if rest = [] then Some (s\<lparr>sc_step := EndTop, sc_endTop := True, sc_parse := rest\<rparr>)
      else Some (s\<lparr>sc_step := EndValue, sc_parse := rest\<rparr>))"

definition step_end_top :: "char \<Rightarrow> scanner \<Rightarrow> scanner option" where
  "step_end_top c s = (if json_space c then Some s else None)"

definition step_end_value :: "char \<Rightarrow> scanner \<Rightarrow> scanner option" where
  "step_end_value c s =
     (case sc_parse s of
        [] \<Rightarrow> step_end_top c (s\<lparr>sc_step := EndTop, sc_endTop := True\<rparr>)
      | p # rest \<Rightarrow>
          if json_space c then goto EndValue s
          else (case p of
              ObjectKey \<Rightarrow>
                if c = CHR '':'' then Some (s\<lparr>sc_step := BeginValue, sc_parse := ObjectValue # rest\<rparr>)
                else None
            | ObjectValue \<Rightarrow>
                if c = CHR '','' then Some (s\<lparr>sc_step := BeginString, sc_parse := ObjectKey # rest\<rparr>)
                else if c = CHR ''}'' then pop_parse s
                else None
            | ArrayValue \<Rightarrow>
                if c = CHR '','' then goto BeginValue s
                else if c = CHR '']'' then pop_parse s
                else None))"

definition step_begin_value :: "char \<Rightarrow> scanner \<Rightarrow> scanner option" where
  "step_begin_value c s =
     (if json_space c then Some s
      else if c = CHR ''{'' then push_parse ObjectKey BeginStringOrEmpty s
      else if c = CHR ''['' then push_parse ArrayValue BeginValueOrEmpty s
      else if c = CHR 0x22 then goto InString s
      else if c = CHR ''-'' then goto Neg s
      else if c = CHR ''0'' then goto Int0 s
      else if digit c then goto Int1 s
      else if c = CHR ''t'' then goto (Literal ''rue'') s
      else if c = CHR ''f'' then goto (Literal ''alse'') s
      else if c = CHR ''n'' then goto (Literal ''ull'') s
      else None)"

definition step_begin_string :: "char \<Rightarrow> scanner \<Rightarrow> scanner option" where
  "step_begin_string c s =
     (if json_space c then Some s else if c = CHR 0x22 then goto InString s else None)"

definition step_int0 :: "char \<Rightarrow> scanner \<Rightarrow> scanner option" where
  "step_int0 c s =
     (if c = CHR ''.'' then goto Dot s
      else if c = CHR ''e'' \<or> c = CHR ''E'' then goto Exp s
      else step_end_value c s)"

definition step_exp_sign :: "char \<Rightarrow> scanner \<Rightarrow> scanner option" where
  "step_exp_sign c s = (if digit c then goto Exp0 s else None)"

definition scan_byte :: "scanner \<Rightarrow> char \<Rightarrow> scanner option" where
  "scan_byte s c =
     (case sc_step s of
        BeginValueOrEmpty \<Rightarrow>
          if json_space c then Some s
          else if c = CHR '']'' then step_end_value c s else step_begin_value c s
      | BeginValue \<Rightarrow> step_begin_value c s
      | BeginStringOrEmpty \<Rightarrow>
          if json_space c then Some s
          else if c = CHR ''}''
            then step_end_value c (s\<lparr>sc_parse := ObjectValue # tl (sc_parse s)\<rparr>)
          else step_begin_string c s
      | BeginString \<Rightarrow> step_begin_string c s
      | EndValue \<Rightarrow> step_end_value c s
      | EndTop \<Rightarrow> step_end_top c s
      | InString \<Rightarrow>
          if c = CHR 0x22 then goto EndValue s
          else if c = CHR 0x5C then goto InStringEsc s
          else if (of_char c :: nat) < 32 then None
          else Some s
      | InStringEsc \<Rightarrow>
          if c \<in> {CHR ''b'', CHR ''f'', CHR ''n'', CHR ''r'', CHR ''t'', CHR 0x5C, CHR ''/'', CHR 0x22}
            then goto InString s
          else if c = CHR ''u'' then goto (InStringEscU 3) s
          else None
      | InStringEscU k \<Rightarrow>
          if hex_value c = None then None
          else goto (if k = 0 then InString else InStringEscU (k - 1)) s
      | Neg \<Rightarrow> if c = CHR ''0'' then goto Int0 s else if digit c then goto Int1 s else None
      | Int1 \<Rightarrow> if digit c then goto Int1 s else step_int0 c s
      | Int0 \<Rightarrow> step_int0 c s
      | Dot \<Rightarrow> if digit c then goto Dot0 s else None
      | Dot0 \<Rightarrow>
          if digit c then goto Dot0 s
          else if c = CHR ''e'' \<or> c = CHR ''E'' then goto Exp s
          else step_end_value c s
      | Exp \<Rightarrow> if c = CHR ''+'' \<or> c = CHR ''-'' then goto ExpSign s else step_exp_sign c s
      | ExpSign \<Rightarrow> step_exp_sign c s
      | Exp0 \<Rightarrow> if digit c then goto Exp0 s else step_end_value c s
      | Literal ds \<Rightarrow>
          (case ds of
             [] \<Rightarrow> None
           | d # rest \<Rightarrow>
               if c = d then goto (if rest = [] then EndValue else Literal rest) s else None))"

fun scan_bytes :: "scanner \<Rightarrow> bytes \<Rightarrow> scanner option" where
  "scan_bytes s [] = Some s"
| "scan_bytes s (c # cs) = (case scan_byte s c of None \<Rightarrow> None | Some s' \<Rightarrow> scan_bytes s' cs)"

definition new_scanner :: scanner where
  "new_scanner = \<lparr>sc_step = BeginValue, sc_endTop = False, sc_parse = []\<rparr>"

text \<open>At the end of input the scanner is given one more blank, to finish a number.\<close>

definition json_Valid :: "bytes \<Rightarrow> bool" where
  "json_Valid data =
     (case scan_bytes new_scanner data of
        None \<Rightarrow> False
      | Some s \<Rightarrow>
          sc_endTop s \<or> (case scan_byte s CHR 0x20 of None \<Rightarrow> False | Some s' \<Rightarrow> sc_endTop s'))"

lemmas json_simps = json_Valid_def new_scanner_def scan_byte_def step_begin_value_def
  step_begin_string_def step_end_value_def step_end_top_def step_int0_def step_exp_sign_def
  goto_def push_parse_def pop_parse_def json_space_def digit_def max_nesting_def

lemma json_Valid_Nil [simp]: "json_Valid [] \<longleftrightarrow> False"
  by (simp add: json_simps)

text \<open>The source's test \<open>len(x) == 0 || !json.Valid(x)\<close>: the scanner alone refuses the empty text.\<close>

lemma json_Valid_nonempty: "json_Valid s \<Longrightarrow> s \<noteq> []"
  by auto

text \<open>Concrete documents, as the scanner of the standard library judges them.\<close>

lemma json_Valid_examples:
  "json_Valid ''{}''"
  "json_Valid (''{'' @ [CHR 0x22] @ ''a'' @ [CHR 0x22] @ '':[1,-2.5e+3,true,null]}'')"
  "json_Valid '' 0 ''"
  "\<not> json_Valid ''01''"
  "\<not> json_Valid ''{} {}''"
  "\<not> json_Valid ''[1,]''"
  by (simp_all add: json_simps hex_value_def)

end
