(* ===== verification/Events.thy ===== *)
theory Events
  imports Domain JsonValid
begin

text \<open>
  Events and the store contract (\<open>src/event.go\<close>, \<open>src/store.go\<close>): drafts, immutable
  events with their payload hash, the \<open>EventStore\<close> interface as a locale and \<open>Replay\<close>.
\<close>

record AggregateRef =
  ag_Type :: string
  ag_ID :: ID

definition AggregateRef_Validate :: "AggregateRef \<Rightarrow> error option" where
  "AggregateRef_Validate r =
     first_error
       [fail_if (ag_Type r = []) ''aggregate type is required'',
        map_option (wrapf ''aggregate ID'') (ID_Validate (ag_ID r))]"

record EventDraft =
  dr_Type :: string
  dr_SchemaVersion :: "32 word"
  dr_CausationID :: ID
  dr_CorrelationID :: ID
  dr_AttemptID :: ID
  dr_Payload :: bytes

text \<open>An identifier that may be absent. Go ranges over the three named ones in any order.\<close>

definition optional_id_error :: "string \<Rightarrow> ID \<Rightarrow> error option" where
  "optional_id_error name i =
     (if ID_IsZero i then None else map_option (wrapf name) (ID_Validate i))"

definition EventDraft_Validate :: "EventDraft \<Rightarrow> error option" where
  "EventDraft_Validate d =
     first_error
       [fail_if (dr_Type d = []) ''event type is required'',
        fail_if (dr_SchemaVersion d = 0) ''event schema version must be positive'',
        fail_if (dr_Payload d = [] \<or> \<not> json_Valid (dr_Payload d)) ''event payload must be valid JSON'',
        optional_id_error ''causation ID'' (dr_CausationID d),
        optional_id_error ''correlation ID'' (dr_CorrelationID d),
        optional_id_error ''attempt ID'' (dr_AttemptID d)]"

record Event =
  ev_ID :: ID
  ev_Aggregate :: AggregateRef
  ev_Sequence :: "64 word"
  ev_Type :: string
  ev_SchemaVersion :: "32 word"
  ev_CausationID :: ID
  ev_CorrelationID :: ID
  ev_AttemptID :: ID
  ev_OccurredAt :: time
  ev_Payload :: bytes
  ev_PayloadSHA256 :: string

text \<open>
  What one event takes from the environment: the store's clock, and the clock and the entropy
  that \<open>NewID\<close> reads.
\<close>

type_synonym tick = "time \<times> time \<times> byte list"

definition NewID :: "time \<Rightarrow> byte list \<Rightarrow> error + ID" where
  "NewID now entropy = newIDAt now entropy"

definition NewEvent ::
  "AggregateRef \<Rightarrow> 64 word \<Rightarrow> EventDraft \<Rightarrow> time \<Rightarrow> time \<Rightarrow> byte list \<Rightarrow> error + Event" where
  "NewEvent ref sequence draft occurredAt now entropy =
     (case first_error
        [AggregateRef_Validate ref,
         fail_if (sequence = 0) ''event sequence must be positive'',
         EventDraft_Validate draft,
         fail_if (Time_IsZero occurredAt) ''event occurrence time is required''] of
        Some e \<Rightarrow> Inl e
      | None \<Rightarrow>
          (case NewID now entropy of
             Inl e \<Rightarrow> Inl e
           | Inr i \<Rightarrow>
               Inr \<lparr>ev_ID = i, ev_Aggregate = ref, ev_Sequence = sequence,
                    ev_Type = dr_Type draft, ev_SchemaVersion = dr_SchemaVersion draft,
                    ev_CausationID = dr_CausationID draft,
                    ev_CorrelationID = dr_CorrelationID draft,
                    ev_AttemptID = dr_AttemptID draft, ev_OccurredAt = occurredAt,
                    ev_Payload = dr_Payload draft,
                    ev_PayloadSHA256 = sha256Hex (dr_Payload draft)\<rparr>))"

definition event_draft :: "Event \<Rightarrow> EventDraft" where
  "event_draft e =
     \<lparr>dr_Type = ev_Type e, dr_SchemaVersion = ev_SchemaVersion e,
      dr_CausationID = ev_CausationID e, dr_CorrelationID = ev_CorrelationID e,
      dr_AttemptID = ev_AttemptID e, dr_Payload = ev_Payload e\<rparr>"

definition Event_Validate :: "Event \<Rightarrow> error option" where
  "Event_Validate e =
     first_error
       [map_option (wrapf ''event ID'') (ID_Validate (ev_ID e)),
        AggregateRef_Validate (ev_Aggregate e),
        fail_if (ev_Sequence e = 0) ''event sequence must be positive'',
        EventDraft_Validate (event_draft e),
        fail_if (Time_IsZero (ev_OccurredAt e)) ''event occurrence time is required'',
        fail_if (ev_PayloadSHA256 e \<noteq> sha256Hex (ev_Payload e)) ''event payload hash mismatch'']"

definition VersionConflictError :: error where
  "VersionConflictError = Error [ErrVersionConflict] ''event stream version conflict''"

section \<open>Validation\<close>

lemma optional_id_error_None [simp]:
  "optional_id_error n i = None \<longleftrightarrow> ID_IsZero i \<or> ID_Validate i = None"
  by (simp add: optional_id_error_def)

lemma AggregateRef_Validate_None [valid_simps]:
  "AggregateRef_Validate r = None \<longleftrightarrow> ag_Type r \<noteq> [] \<and> ID_Validate (ag_ID r) = None"
  by (simp add: AggregateRef_Validate_def)

lemma NewEvent_InrD:
  assumes "NewEvent ref sequence draft at now ent = Inr e"
  shows "Event_Validate e = None" "ev_Aggregate e = ref" "ev_Sequence e = sequence"
    "event_draft e = draft" "ev_OccurredAt e = at"
proof -
  have ok: "AggregateRef_Validate ref = None" "sequence \<noteq> 0" "EventDraft_Validate draft = None"
    "\<not> Time_IsZero at"
    using assms by (auto simp: NewEvent_def split: option.splits sum.splits)
  from ok assms obtain i where i: "newIDAt now ent = Inr i"
    and e: "e = \<lparr>ev_ID = i, ev_Aggregate = ref, ev_Sequence = sequence,
                    ev_Type = dr_Type draft, ev_SchemaVersion = dr_SchemaVersion draft,
                    ev_CausationID = dr_CausationID draft,
                    ev_CorrelationID = dr_CorrelationID draft,
                    ev_AttemptID = dr_AttemptID draft, ev_OccurredAt = at,
                    ev_Payload = dr_Payload draft,
                    ev_PayloadSHA256 = sha256Hex (dr_Payload draft)\<rparr>"
    by (auto simp: NewEvent_def NewID_def split: option.splits sum.splits)
  show d: "event_draft e = draft" by (simp add: e event_draft_def)
  show "ev_Aggregate e = ref" "ev_Sequence e = sequence" "ev_OccurredAt e = at"
    by (simp_all add: e)
  have "ID_Validate i = None"
    using newIDAt_accepted [OF i] by (simp add: ID_Validate_iff)
  with ok show "Event_Validate e = None"
    by (simp add: Event_Validate_def d) (simp add: e)
qed

lemma NewEvent_total:
  assumes "AggregateRef_Validate ref = None" "sequence \<noteq> 0" "EventDraft_Validate draft = None"
    "\<not> Time_IsZero at" "newIDAt now ent = Inr i"
  shows "\<exists>e. NewEvent ref sequence draft at now ent = Inr e"
  using assms by (simp add: NewEvent_def NewID_def)

section \<open>The store contract\<close>

text \<open>
  What the engine relies on from an \<open>EventStore\<close>. \<open>stream\<close> is the stored history of an
  aggregate; \<open>ref\<close> says which references the store serves. The provider promises that a
  successful append extends exactly one history by the requested drafts, only at the expected
  length, that a failed one changes nothing, and that a load returns a suffix. The bound on a
  history's length keeps its 64-bit sequence numbers distinct; no Go slice reaches it.
\<close>

locale event_store =
  fixes append :: "'st \<Rightarrow> ctx \<Rightarrow> AggregateRef \<Rightarrow> 64 word \<Rightarrow> EventDraft list \<Rightarrow> (nat \<Rightarrow> tick)
      \<Rightarrow> (error + Event list) \<times> 'st"
    and load :: "'st \<Rightarrow> ctx \<Rightarrow> AggregateRef \<Rightarrow> 64 word \<Rightarrow> error + Event list"
    and stream :: "'st \<Rightarrow> AggregateRef \<Rightarrow> Event list"
    and version :: "'st \<Rightarrow> AggregateRef \<Rightarrow> 64 word"
    and invar :: "'st \<Rightarrow> bool"
  assumes append_error: "append st c a n ds k = (Inl e, st') \<Longrightarrow> st' = st"
    and append_stream:
      "invar st \<Longrightarrow> append st c a n ds k = (Inr es, st') \<Longrightarrow> stream st' a = stream st a @ es"
    and append_events:
      "append st c a n ds k = (Inr es, st') \<Longrightarrow> map event_draft es = ds"
    and append_version:
      "append st c a n ds k = (Inr es, st') \<Longrightarrow> ds \<noteq> [] \<Longrightarrow>
        n = version st a \<and> version st' a = n + of_nat (length ds)"
    and append_frame:
      "invar st \<Longrightarrow> append st c a n ds k = (Inr es, st') \<Longrightarrow> AggregateRef_Validate b = None \<Longrightarrow>
        b \<noteq> a \<Longrightarrow> stream st' b = stream st b"
    and append_invar:
      "invar st \<Longrightarrow> append st c a n ds k = (r, st') \<Longrightarrow>
        length (stream st a) + length ds < 2 ^ 64 \<Longrightarrow> invar st'"
    and load_stream:
      "invar st \<Longrightarrow> load st c a m = Inr es \<Longrightarrow> es = drop (unat m) (stream st a)"
    and invar_version:
      "invar st \<Longrightarrow> AggregateRef_Validate a = None \<Longrightarrow> version st a = of_nat (length (stream st a))"
    and invar_events:
      "invar st \<Longrightarrow> i < length (stream st a) \<Longrightarrow> AggregateRef_Validate a = None \<Longrightarrow>
        Event_Validate (stream st a ! i) = None \<and> ev_Aggregate (stream st a ! i) = a \<and>
        ev_Sequence (stream st a ! i) = of_nat (Suc i)"
begin

lemma append_length: "append st c a n ds k = (Inr es, st') \<Longrightarrow> length es = length ds"
  by (metis append_events length_map)

text \<open>
  Optimistic concurrency: of two non-empty appends that name the same expected sequence, the
  second cannot succeed once the first has, whoever issued them.
\<close>

lemma no_lost_update:
  assumes first: "append st c a n ds k = (Inr es, st')" "ds \<noteq> []" "length ds < 2 ^ 64"
    and second: "append st' c' a n ds' k' = (r, st'')" "ds' \<noteq> []"
  shows "\<exists>e. r = Inl e \<and> st'' = st'"
proof (cases r)
  case (Inl e)
  with append_error second(1) show ?thesis by blast
next
  case (Inr es')
  have "n = n + of_nat (length ds)"
    using append_version [OF first(1,2)] append_version [OF second(1) [unfolded Inr] second(2)] by simp
  moreover have "(of_nat (length ds) :: 64 word) \<noteq> 0"
    using first(2,3) by (simp add: word_of_nat_eq_0_iff nat_dvd_not_less)
  ultimately show ?thesis by simp
qed

text \<open>Read your writes: a load from the old end returns exactly what was appended.\<close>

lemma load_after_append:
  assumes "invar st" "append st c a n ds k = (Inr es, st')"
    and "load st' c' a m = Inr es'" "unat m = length (stream st a)"
    and "length (stream st a) + length ds < 2 ^ 64"
  shows "es' = es"
  using append_stream [OF assms(1,2)] load_stream [OF _ assms(3)]
    append_invar [OF assms(1,2,5)] assms(4) by simp

lemma load_all:
  assumes "invar st" "load st c a 0 = Inr es"
  shows "es = stream st a"
  using load_stream [OF assms] by simp

end

section \<open>Replay\<close>

text \<open>
  \<open>Replay\<close> loads a stream from the beginning and applies each event in order; the context is
  asked before each event. \<open>step\<close> is the apply callback: it returns its error and the state it leaves.
\<close>

fun replay_events ::
  "ctx \<Rightarrow> (Event \<Rightarrow> 's \<Rightarrow> error option \<times> 's) \<Rightarrow> Event list \<Rightarrow> 's \<Rightarrow> error option \<times> 's" where
  "replay_events c step [] s = (None, s)"
| "replay_events c step (e # es) s =
     (case c 0 of
        Some err \<Rightarrow> (Some err, s)
      | None \<Rightarrow>
          (case step e s of
             (Some err, s') \<Rightarrow> (Some (wrapf ''apply event'' err), s')
           | (None, s') \<Rightarrow> replay_events (ctx_from 1 c) step es s'))"

definition Replay ::
  "ctx \<Rightarrow> (error + Event list) \<Rightarrow> (Event \<Rightarrow> 's \<Rightarrow> error option \<times> 's) \<Rightarrow> 's \<Rightarrow> error option \<times> 's" where
  "Replay c loaded step s =
     (case loaded of Inl e \<Rightarrow> (Some e, s) | Inr events \<Rightarrow> replay_events c step events s)"

lemma replay_events_append:
  "ctx_live c \<Longrightarrow> replay_events c step (xs @ ys) s =
     (case replay_events c step xs s of
        (Some err, s') \<Rightarrow> (Some err, s')
      | (None, s') \<Rightarrow> replay_events c step ys s')"
proof (induction xs arbitrary: s c)
  case (Cons x xs)
  have from_c: "ctx_from (Suc 0) c = c" "c 0 = None"
    using Cons.prems by (auto simp: ctx_live_def ctx_from_def fun_eq_iff)
  show ?case
    using Cons.IH [OF Cons.prems] by (simp add: from_c split: prod.splits option.splits)
qed simp

lemma replay_events_invariant:
  assumes "\<And>e s s'. P s \<Longrightarrow> step e s = (None, s') \<Longrightarrow> P s'"
    and "replay_events c step es s = (None, s')" "P s"
  shows "P s'"
  using assms(2,3)
proof (induction es arbitrary: c s)
  case (Cons e es)
  from Cons.prems(1) obtain s1 where s1: "step e s = (None, s1)"
    and rest: "replay_events (ctx_from 1 c) step es s1 = (None, s')"
    by (auto split: option.splits prod.splits)
  from assms(1) [OF Cons.prems(2) s1] have "P s1" .
  with rest show ?case by (rule Cons.IH)
qed simp

text \<open>
  Every event \<open>NewEvent\<close> builds passes \<open>Event.Validate\<close> and carries the aggregate, the
  sequence number, the time and every field of its draft unchanged.
\<close>

theorem NewEvent_validates:
  assumes "NewEvent ref sequence draft at now ent = Inr e"
  shows "Event_Validate e = None \<and> ev_Aggregate e = ref \<and> ev_Sequence e = sequence \<and>
    event_draft e = draft \<and> ev_OccurredAt e = at"
  using NewEvent_InrD [OF assms] by simp

text \<open>
  Tamper evidence: if an event validates, then replacing its payload leaves a valid event
  only when the two payloads have the same SHA-256 digest.
\<close>

theorem Event_payload_tamper_evident:
  assumes "Event_Validate e = None" and "Event_Validate (e\<lparr>ev_Payload := p\<rparr>) = None"
  shows "sha256_Sum256 p = sha256_Sum256 (ev_Payload e)"
  using assms by (auto simp: Event_Validate_def sha256Hex_def hex_encode_inj)

section \<open>Concrete events for the witnesses\<close>

definition sample_aggregate :: AggregateRef where
  "sample_aggregate = \<lparr>ag_Type = ''workload'', ag_ID = sample_id\<rparr>"

definition sample_draft :: EventDraft where
  "sample_draft = \<lparr>dr_Type = ''note'', dr_SchemaVersion = 1, dr_CausationID = [],
     dr_CorrelationID = sample_id, dr_AttemptID = [], dr_Payload = ''{}''\<rparr>"

definition sample_now :: time where
  "sample_now = 62135596801 * 10 ^ 9"

definition sample_ticks :: "nat \<Rightarrow> tick" where
  "sample_ticks i = (sample_now, sample_now, no_entropy)"

lemma sample_aggregate_valid [simp]: "AggregateRef_Validate sample_aggregate = None"
  by (simp add: valid_simps sample_aggregate_def)

lemma sample_draft_valid [simp]: "EventDraft_Validate sample_draft = None"
  by (simp add: EventDraft_Validate_def sample_draft_def json_Valid_examples(1))

lemma newIDAt_sample [simp]: "newIDAt sample_now no_entropy = Inr sample_id"
  using sample_ids_generated(1) by (simp add: sample_now_def)

lemma sample_now_simps [simp]: "\<not> Time_IsZero sample_now"
  by (simp add: sample_now_def Time_IsZero_def)

theorem NewEvent_validates_witness:
  "\<exists>e. NewEvent sample_aggregate 1 sample_draft sample_now sample_now no_entropy = Inr e \<and>
     Event_Validate e = None \<and> ev_Sequence e = 1"
proof -
  obtain e where e: "NewEvent sample_aggregate 1 sample_draft sample_now sample_now no_entropy = Inr e"
    using NewEvent_total [of sample_aggregate 1 sample_draft sample_now sample_now no_entropy] by auto
  from NewEvent_validates [OF e] e show ?thesis by auto
qed

theorem Event_payload_tamper_evident_witness:
  "\<exists>e. Event_Validate e = None \<and> Event_Validate (e\<lparr>ev_Payload := ''{}''\<rparr>) = None \<and>
     sha256_Sum256 ''{}'' = sha256_Sum256 (ev_Payload e)"
proof -
  obtain e where e: "NewEvent sample_aggregate 1 sample_draft sample_now sample_now no_entropy = Inr e"
    using NewEvent_total [of sample_aggregate 1 sample_draft sample_now sample_now no_entropy] by auto
  note v = NewEvent_InrD [OF e]
  have p: "ev_Payload e = ''{}''"
    using v(4) by (auto simp: event_draft_def sample_draft_def)
  then have same: "e\<lparr>ev_Payload := ''{}''\<rparr> = e" by simp
  have v': "Event_Validate (e\<lparr>ev_Payload := ''{}''\<rparr>) = None"
    using v(1) unfolding same .
  show ?thesis
    using v(1) v' Event_payload_tamper_evident [OF v(1) v'] by blast
qed

end
