(* ===== verification/Model.thy ===== *)
theory Model
  imports Events
begin

text \<open>
  The provider-neutral model vocabulary (\<open>src/model.go\<close>, and the deep copies of
  \<open>src/loop.go\<close>): messages and their content parts, tool definitions, model requests,
  capabilities, and the events of a model stream, each with its validator.

  A Go map that the source ranges over is an association list in some order; a nil map is
  \<open>None\<close> where the source tells it from an empty one. Values carry no aliasing, so a deep
  copy is visible only where it changes the value.
\<close>

section \<open>Messages\<close>

datatype MessageRole = RoleSystem | RoleUser | RoleAssistant | RoleTool | RoleOther string

datatype ToolUseMode =
  ToolUseNone | ToolUseNative | ToolUseConstrained | ToolUseParsed | ToolUseOther string

definition ToolUseMode_Validate :: "ToolUseMode \<Rightarrow> error option" where
  "ToolUseMode_Validate m =
     (case m of ToolUseOther _ \<Rightarrow> Some (errorf ''unknown tool-use mode'') | _ \<Rightarrow> None)"

datatype ContentType =
    ContentText | ContentImage | ContentDocument | ContentArtifact
  | ContentToolCall | ContentToolResult | ContentOther string

type_synonym json_map = "(string \<times> bytes) list option"

record ContentPart =
  cp_Type :: ContentType
  cp_Classification :: Classification
  cp_Text :: string
  cp_MediaType :: string
  cp_ArtifactID :: ID
  cp_ToolCallID :: string
  cp_ToolName :: string
  cp_JSON :: bytes
  cp_IsError :: bool
  cp_Extension :: json_map

record Message =
  mg_Role :: MessageRole
  mg_Content :: "ContentPart list"

definition ContentPart_Validate :: "ContentPart \<Rightarrow> error option" where
  "ContentPart_Validate p =
     (case Classification_Validate (cp_Classification p) of
        Some e \<Rightarrow> Some e
      | None \<Rightarrow>
          (case cp_Type p of
             ContentText \<Rightarrow> None
           | ContentToolCall \<Rightarrow>
               first_error
                 [fail_if (cp_ToolCallID p = [] \<or> cp_ToolName p = []) ''tool call ID and name are required'',
                  fail_if (cp_JSON p = [] \<or> \<not> json_Valid (cp_JSON p)) ''tool call input must be valid JSON'']
           | ContentToolResult \<Rightarrow>
               first_error
                 [fail_if (cp_ToolCallID p = []) ''tool result call ID is required'',
                  fail_if (cp_JSON p \<noteq> [] \<and> \<not> json_Valid (cp_JSON p)) ''tool result JSON must be valid'']
           | ContentOther _ \<Rightarrow> Some (errorf ''unknown content type'')
           | _ \<Rightarrow> map_option (wrapf ''artifact ID'') (ID_Validate (cp_ArtifactID p))))"

definition Message_Validate :: "Message \<Rightarrow> error option" where
  "Message_Validate m =
     (case mg_Role m of
        RoleOther _ \<Rightarrow> Some (errorf ''unknown message role'')
      | _ \<Rightarrow>
          first_error
            [fail_if (mg_Content m = []) ''message content is required'',
             first_invalid ''content part'' ContentPart_Validate (mg_Content m)])"

section \<open>Requests\<close>

record ToolDefinition =
  td_SideEffecting :: bool
  td_Name :: string
  td_Description :: string
  td_InputSchema :: bytes
  td_OutputSchema :: bytes
  td_Strict :: bool

definition ToolDefinition_Validate :: "ToolDefinition \<Rightarrow> error option" where
  "ToolDefinition_Validate t =
     first_error
       [fail_if (td_Name t = []) ''tool name is required'',
        fail_if (td_InputSchema t = [] \<or> \<not> json_Valid (td_InputSchema t)) ''input schema must be valid JSON'',
        fail_if (td_OutputSchema t \<noteq> [] \<and> \<not> json_Valid (td_OutputSchema t)) ''output schema must be valid JSON'']"

record ModelRef =
  mr_Provider :: string
  mr_Model :: string

definition ModelRef_Validate :: "ModelRef \<Rightarrow> error option" where
  "ModelRef_Validate r =
     first_error
       [fail_if (untrimmed (mr_Provider r)) ''provider is required without surrounding whitespace'',
        fail_if (untrimmed (mr_Model r)) ''model is required without surrounding whitespace'']"

datatype ToolChoiceMode =
  ToolChoiceAuto | ToolChoiceNone | ToolChoiceRequired | ToolChoiceNamed | ToolChoiceOther string

record ToolChoice =
  tc_Mode :: ToolChoiceMode
  tc_Name :: string

record OutputConstraint =
  oc_Name :: string
  oc_Schema :: bytes
  oc_Strict :: bool

record ModelRequest =
  mq_AutomaticCompaction :: bool
  mq_Model :: ModelRef
  mq_Messages :: "Message list"
  mq_Tools :: "ToolDefinition list"
  mq_ToolChoice :: ToolChoice
  mq_Output :: "OutputConstraint option"
  mq_MaxOutputTokens :: int
  mq_Metadata :: "(string \<times> string) list option"
  mq_Extension :: json_map

definition ModelRequest_Validate :: "ModelRequest \<Rightarrow> error option" where
  "ModelRequest_Validate r =
     first_error
       [ModelRef_Validate (mq_Model r),
        fail_if (mq_Messages r = []) ''at least one message is required'',
        fail_if (mq_MaxOutputTokens r < 0) ''maximum output tokens cannot be negative'',
        first_invalid ''message'' Message_Validate (mq_Messages r),
        distinct_valid ''tool'' ToolDefinition_Validate td_Name [] (mq_Tools r),
        (case mq_Output r of
           None \<Rightarrow> None
         | Some out \<Rightarrow>
             fail_if (oc_Schema out = [] \<or> \<not> json_Valid (oc_Schema out))
               ''output constraint schema must be valid JSON''),
        fail_if (tc_Mode (mq_ToolChoice r) = ToolChoiceNamed \<and> tc_Name (mq_ToolChoice r) = [])
          ''named tool choice requires a name'',
        (case tc_Mode (mq_ToolChoice r) of
           ToolChoiceOther _ \<Rightarrow> Some (errorf ''unknown tool choice mode'') | _ \<Rightarrow> None),
        fail_if (tc_Mode (mq_ToolChoice r) = ToolChoiceNamed \<and>
                 tc_Name (mq_ToolChoice r) \<notin> td_Name ` set (mq_Tools r))
          ''named tool choice is not defined'']"

section \<open>Capabilities\<close>

record ModelCapabilities =
  mc_ContextTokens :: int
  mc_MaxOutputTokens :: int
  mc_Modalities :: "string list"
  mc_ToolUse :: ToolUseMode
  mc_ParallelToolCalls :: bool
  mc_StrictToolSchemas :: bool
  mc_DynamicTools :: bool
  mc_MultimodalToolResults :: bool
  mc_Streaming :: bool
  mc_StructuredOutput :: bool
  mc_PromptCaching :: bool
  mc_AutomaticCompaction :: bool
  mc_ReasoningSummaries :: bool

definition ModelCapabilities_Validate :: "ModelCapabilities \<Rightarrow> error option" where
  "ModelCapabilities_Validate c =
     first_error
       [fail_if (mc_ContextTokens c < 0) ''context tokens cannot be negative'',
        fail_if (mc_MaxOutputTokens c < 0) ''maximum output tokens cannot be negative'',
        fail_if (0 < mc_ContextTokens c \<and> mc_ContextTokens c < mc_MaxOutputTokens c)
          ''maximum output tokens cannot exceed context tokens'',
        ToolUseMode_Validate (mc_ToolUse c),
        fail_if (mc_ToolUse c = ToolUseNone \<and>
                 (mc_ParallelToolCalls c \<or> mc_StrictToolSchemas c \<or> mc_DynamicTools c \<or>
                  mc_MultimodalToolResults c))
          ''tool capabilities require a tool-use mode'',
        distinct_valid ''modality''
          (\<lambda>m. fail_if (untrimmed m) ''modality is empty or has surrounding whitespace'')
          (\<lambda>m. m) [] (mc_Modalities c)]"

record ModelDescriptor =
  md_Ref :: ModelRef
  md_Capabilities :: ModelCapabilities
  md_Labels :: "(string \<times> string) list option"

definition ModelDescriptor_Validate :: "ModelDescriptor \<Rightarrow> error option" where
  "ModelDescriptor_Validate d =
     first_error
       [ModelRef_Validate (md_Ref d),
        map_option (wrapf ''model capabilities'') (ModelCapabilities_Validate (md_Capabilities d)),
        first_error
          (map (\<lambda>(k, v). fail_if (untrimmed k) ''model label key is empty or has surrounding whitespace'')
             (case md_Labels d of None \<Rightarrow> [] | Some labels \<Rightarrow> labels))]"

section \<open>Stream events\<close>

datatype ModelEventType =
    ModelEventStart | ModelEventTextDelta | ModelEventToolCallDelta | ModelEventToolCall
  | ModelEventUsage | ModelEventStop | ModelEventError | ModelEventOther string

record ToolCall =
  tk_ID :: string
  tk_Name :: string
  tk_Input :: bytes

record ToolCallDelta =
  td2_Index :: int
  td2_ID :: string
  td2_Name :: string
  td2_InputFragment :: string

definition ToolCallDelta_Validate :: "ToolCallDelta \<Rightarrow> error option" where
  "ToolCallDelta_Validate d =
     first_error
       [fail_if (td2_Index d < 0) ''tool-call delta index cannot be negative'',
        fail_if (td2_ID d = [] \<and> td2_Name d = [] \<and> td2_InputFragment d = [])
          ''tool-call delta requires an ID, name, or input fragment'',
        fail_if (td2_ID d \<noteq> [] \<and> untrimmed (td2_ID d)) ''tool-call delta ID has invalid whitespace'',
        fail_if (td2_Name d \<noteq> [] \<and> untrimmed (td2_Name d)) ''tool-call delta name has invalid whitespace'']"

record Usage =
  us_InputTokens :: int
  us_OutputTokens :: int
  us_CacheReadTokens :: int
  us_CacheWriteTokens :: int
  us_Cost :: int

definition Usage_Validate :: "Usage \<Rightarrow> error option" where
  "Usage_Validate u =
     fail_if (us_InputTokens u < 0 \<or> us_OutputTokens u < 0 \<or> us_CacheReadTokens u < 0 \<or>
              us_CacheWriteTokens u < 0 \<or> us_Cost u < 0)
       ''usage values cannot be negative''"

datatype StopReason =
    StopEndTurn | StopToolUse | StopMaxTokens | StopRefusal | StopCancelled | StopUnknown
  | StopOther string

abbreviation no_stop :: StopReason where "no_stop \<equiv> StopOther []"

definition StopReason_Validate :: "StopReason \<Rightarrow> error option" where
  "StopReason_Validate s =
     (case s of StopOther _ \<Rightarrow> Some (errorf ''unknown stop reason'') | _ \<Rightarrow> None)"

record ModelError =
  me_Code :: string
  me_Message :: string
  me_Retryable :: bool
  me_SafeToReroute :: bool

record ModelEvent =
  mv_Type :: ModelEventType
  mv_Sequence :: "64 word"
  mv_Text :: string
  mv_ToolCallDelta :: "ToolCallDelta option"
  mv_ToolCall :: "ToolCall option"
  mv_Usage :: "Usage option"
  mv_Stop :: StopReason
  mv_Error :: "ModelError option"
  mv_Extension :: json_map

definition validatePayload :: "ModelEvent \<Rightarrow> bool \<Rightarrow> bool \<Rightarrow> bool \<Rightarrow> bool \<Rightarrow> bool \<Rightarrow> error option" where
  "validatePayload e text delta call usage stop =
     first_error
       [fail_if (\<not> text \<and> mv_Text e \<noteq> []) ''model event contains text payload'',
        fail_if (\<not> delta \<and> mv_ToolCallDelta e \<noteq> None) ''model event contains tool-call delta payload'',
        fail_if (\<not> call \<and> mv_ToolCall e \<noteq> None) ''model event contains completed tool-call payload'',
        fail_if (\<not> usage \<and> mv_Usage e \<noteq> None) ''model event contains usage payload'',
        fail_if (\<not> stop \<and> mv_Stop e \<noteq> no_stop) ''model event contains stop payload'',
        fail_if (mv_Type e \<noteq> ModelEventError \<and> mv_Error e \<noteq> None) ''model event contains error payload'']"

definition ToolCall_invalid :: "ToolCall option \<Rightarrow> bool" where
  "ToolCall_invalid c =
     (case c of
        None \<Rightarrow> True
      | Some k \<Rightarrow> untrimmed (tk_ID k) \<or> untrimmed (tk_Name k) \<or> tk_Input k = [] \<or> \<not> json_Valid (tk_Input k))"

definition ModelError_invalid :: "ModelError option \<Rightarrow> bool" where
  "ModelError_invalid m =
     (case m of None \<Rightarrow> True | Some e \<Rightarrow> untrimmed (me_Code e) \<or> blank (me_Message e))"

definition ModelEvent_Validate :: "ModelEvent \<Rightarrow> error option" where
  "ModelEvent_Validate e =
     (if mv_Sequence e = 0 then Some (errorf ''model event sequence must be positive'')
      else case mv_Type e of
        ModelEventStart \<Rightarrow> validatePayload e False False False False False
      | ModelEventTextDelta \<Rightarrow>
          first_error [fail_if (mv_Text e = []) ''text delta is empty'',
                       validatePayload e True False False False False]
      | ModelEventToolCallDelta \<Rightarrow>
          first_error
            [(case mv_ToolCallDelta e of
                None \<Rightarrow> Some (errorf ''tool-call delta event requires a delta'')
              | Some d \<Rightarrow> ToolCallDelta_Validate d),
             validatePayload e False True False False False]
      | ModelEventUsage \<Rightarrow>
          first_error
            [(case mv_Usage e of
                None \<Rightarrow> Some (errorf ''usage event requires usage'')
              | Some u \<Rightarrow> Usage_Validate u),
             validatePayload e False False False True False]
      | ModelEventToolCall \<Rightarrow>
          first_error [fail_if (ToolCall_invalid (mv_ToolCall e)) ''completed tool-call event is invalid'',
                       validatePayload e False False True False False]
      | ModelEventStop \<Rightarrow>
          first_error [StopReason_Validate (mv_Stop e), validatePayload e False False False False True]
      | ModelEventError \<Rightarrow>
          first_error [fail_if (ModelError_invalid (mv_Error e)) ''error event requires a code and message'',
                       validatePayload e False False False False False]
      | ModelEventOther _ \<Rightarrow> Some (errorf ''unknown model event type''))"

section \<open>Deep copies\<close>

definition cloneStringMap :: "(string \<times> string) list option \<Rightarrow> (string \<times> string) list option" where
  "cloneStringMap m = map_option (map (\<lambda>(k, v). (k, v))) m"

definition cloneToolCall :: "ToolCall \<Rightarrow> ToolCall" where
  "cloneToolCall c = c\<lparr>tk_Input := [] @ tk_Input c\<rparr>"

definition cloneToolDefinition :: "ToolDefinition \<Rightarrow> ToolDefinition" where
  "cloneToolDefinition d =
     d\<lparr>td_InputSchema := [] @ td_InputSchema d, td_OutputSchema := [] @ td_OutputSchema d\<rparr>"

definition CloneContentParts :: "ContentPart list \<Rightarrow> ContentPart list" where
  "CloneContentParts ps =
     map (\<lambda>p. p\<lparr>cp_JSON := [] @ cp_JSON p,
                cp_Extension := map_option (map (\<lambda>(k, v). (k, [] @ v))) (cp_Extension p)\<rparr>) ps"

definition CloneMessages :: "Message list \<Rightarrow> Message list" where
  "CloneMessages ms = map (\<lambda>m. \<lparr>mg_Role = mg_Role m, mg_Content = CloneContentParts (mg_Content m)\<rparr>) ms"

definition ModelDescriptor_Clone :: "ModelDescriptor \<Rightarrow> ModelDescriptor" where
  "ModelDescriptor_Clone d =
     d\<lparr>md_Capabilities := (md_Capabilities d)\<lparr>mc_Modalities := [] @ mc_Modalities (md_Capabilities d)\<rparr>,
       md_Labels := cloneStringMap (md_Labels d)\<rparr>"

definition ModelEvent_Clone :: "ModelEvent \<Rightarrow> ModelEvent" where
  "ModelEvent_Clone e =
     e\<lparr>mv_ToolCall := map_option cloneToolCall (mv_ToolCall e),
       mv_Extension := map_option (map (\<lambda>(k, v). (k, [] @ v))) (mv_Extension e)\<rparr>"

text \<open>
  \<open>CloneModelRequest\<close> first replaces the extension map by a fresh empty one and then ranges
  over the replacement, so its copy loop runs over the map it has just made.
\<close>

definition CloneModelRequest :: "ModelRequest \<Rightarrow> ModelRequest" where
  "CloneModelRequest r =
     (let fresh = [] :: (string \<times> bytes) list in
      r\<lparr>mq_Messages := CloneMessages (mq_Messages r),
        mq_Tools := map cloneToolDefinition (mq_Tools r),
        mq_Output := map_option (\<lambda>out. out\<lparr>oc_Schema := [] @ oc_Schema out\<rparr>) (mq_Output r),
        mq_Metadata := cloneStringMap (mq_Metadata r),
        mq_Extension :=
          (case mq_Extension r of
             None \<Rightarrow> None
           | Some _ \<Rightarrow> Some (fold (\<lambda>(k, v) m. m @ [(k, [] @ v)]) fresh fresh))\<rparr>)"

lemma map_split_id [simp]: "map (\<lambda>(k, v). (k, v)) xs = xs" "map_option (map (\<lambda>(k, v). (k, v))) m = m"
  by (simp_all add: case_prod_unfold option.map_ident)

lemma cloneToolCall_id [simp, clone_simps]: "cloneToolCall c = c"
  by (simp add: cloneToolCall_def)

lemma map_option_cloneToolCall [simp]: "map_option cloneToolCall x = x"
  by (cases x) simp_all

lemma clone_ids [simp, clone_simps]:
  "cloneStringMap m = m" "cloneToolDefinition d = d"
  "CloneContentParts ps = ps" "CloneMessages ms = ms" "ModelDescriptor_Clone md = md"
  "ModelEvent_Clone e = e"
  by (simp_all add: cloneStringMap_def cloneToolDefinition_def
      CloneContentParts_def CloneMessages_def ModelDescriptor_Clone_def ModelEvent_Clone_def
      case_prod_unfold option.map_ident map_idI)

lemma CloneModelRequest_eq:
  "CloneModelRequest r = r\<lparr>mq_Extension := map_option (\<lambda>_. []) (mq_Extension r)\<rparr>"
  by (cases "mq_Extension r"; cases "mq_Output r")
     (simp_all add: CloneModelRequest_def map_idI)

lemma CloneModelRequest_simps [simp]:
  "mq_Messages (CloneModelRequest r) = mq_Messages r"
  "mq_Tools (CloneModelRequest r) = mq_Tools r"
  "mq_Model (CloneModelRequest r) = mq_Model r"
  "ModelRequest_Validate (CloneModelRequest r) = ModelRequest_Validate r"
  by (simp_all add: CloneModelRequest_eq ModelRequest_Validate_def)

section \<open>What the validators accept\<close>

lemma ModelRef_Validate_None [valid_simps]:
  "ModelRef_Validate r = None \<longleftrightarrow> \<not> untrimmed (mr_Provider r) \<and> \<not> untrimmed (mr_Model r)"
  by (simp add: ModelRef_Validate_def)

lemma Usage_Validate_None [valid_simps]:
  "Usage_Validate u = None \<longleftrightarrow>
     0 \<le> us_InputTokens u \<and> 0 \<le> us_OutputTokens u \<and> 0 \<le> us_CacheReadTokens u \<and>
     0 \<le> us_CacheWriteTokens u \<and> 0 \<le> us_Cost u"
  by (auto simp: Usage_Validate_def)

lemma Message_Validate_None:
  "Message_Validate m = None \<longleftrightarrow>
     (\<forall>s. mg_Role m \<noteq> RoleOther s) \<and> mg_Content m \<noteq> [] \<and>
     (\<forall>p\<in>set (mg_Content m). ContentPart_Validate p = None)"
  by (cases "mg_Role m") (auto simp: Message_Validate_def)

lemma validatePayload_None:
  "validatePayload e text delta call usage stop = None \<longleftrightarrow>
     (text \<or> mv_Text e = []) \<and> (delta \<or> mv_ToolCallDelta e = None) \<and>
     (call \<or> mv_ToolCall e = None) \<and> (usage \<or> mv_Usage e = None) \<and>
     (stop \<or> mv_Stop e = no_stop) \<and> (mv_Type e = ModelEventError \<or> mv_Error e = None)"
  by (auto simp: validatePayload_def)

text \<open>
  [C40] A model event that validates carries exactly the payload its type announces: text only
  in a non-empty text delta, a call fragment only in a fragment event, a completed call only in
  a call event, usage only in a usage event, a known stop reason only in a stop event, an error
  only in an error event.
\<close>

theorem ModelEvent_payload_exclusive:
  assumes "ModelEvent_Validate e = None"
  shows "mv_Sequence e \<noteq> 0 \<and>
    (mv_Text e \<noteq> [] \<longleftrightarrow> mv_Type e = ModelEventTextDelta) \<and>
    (mv_ToolCallDelta e \<noteq> None \<longleftrightarrow> mv_Type e = ModelEventToolCallDelta) \<and>
    (mv_ToolCall e \<noteq> None \<longleftrightarrow> mv_Type e = ModelEventToolCall) \<and>
    (mv_Usage e \<noteq> None \<longleftrightarrow> mv_Type e = ModelEventUsage) \<and>
    (mv_Stop e \<noteq> no_stop \<longleftrightarrow> mv_Type e = ModelEventStop) \<and>
    (mv_Error e \<noteq> None \<longleftrightarrow> mv_Type e = ModelEventError)"
  using assms
  by (cases "mv_Type e")
     (auto simp: ModelEvent_Validate_def validatePayload_None StopReason_Validate_def
        ToolCall_invalid_def ModelError_invalid_def split: if_splits option.splits StopReason.splits)

text \<open>
  The deep copy of a model request keeps every field except the provider extensions: a
  request that carries an extension map, whatever its entries, is copied to one whose extension
  map is empty.
\<close>

theorem CloneModelRequest_drops_extensions:
  "CloneModelRequest r = r\<lparr>mq_Extension := map_option (\<lambda>_. []) (mq_Extension r)\<rparr>"
  by (rule CloneModelRequest_eq)

definition blank_event :: "ModelEventType \<Rightarrow> 64 word \<Rightarrow> ModelEvent" where
  "blank_event t n = \<lparr>mv_Type = t, mv_Sequence = n, mv_Text = [], mv_ToolCallDelta = None,
     mv_ToolCall = None, mv_Usage = None, mv_Stop = no_stop, mv_Error = None, mv_Extension = None\<rparr>"

theorem ModelEvent_payload_exclusive_witness:
  "mv_Text ((blank_event ModelEventTextDelta 1)\<lparr>mv_Text := ''hi''\<rparr>) \<noteq> [] \<and>
   mv_ToolCall ((blank_event ModelEventTextDelta 1)\<lparr>mv_Text := ''hi''\<rparr>) = None"
  using ModelEvent_payload_exclusive [of "(blank_event ModelEventTextDelta 1)\<lparr>mv_Text := ''hi''\<rparr>"]
  by (simp add: blank_event_def ModelEvent_Validate_def validatePayload_def)

end
