(* ===== verification/Policy.thy ===== *)
theory Policy
  imports Model
begin

text \<open>
  Policy (src/policy.go): the content manifest and its digest, execution targets, the two policy
  requests, scopes and verdicts, and the two guards \<open>EvaluateExecutionPolicy\<close> and
  \<open>EvaluateDataEgressPolicy\<close> that every policy decision of the program passes through. A policy
  is an argument: its answer is any verdict and error. The guards return the verdict and the
  error side by side, as the source does.

  The locales \<open>execution_policy\<close> and \<open>egress_policy\<close> state what a well-behaved policy promises;
  the baseline policy interprets them.
\<close>

section \<open>Content\<close>

definition validateSHA256 :: "string \<Rightarrow> string \<Rightarrow> error option" where
  "validateSHA256 name value =
     first_error
       [fail_if (length value \<noteq> 64) (name @ '' must contain 64 hexadecimal characters''),
        fail_if (hex_decode value = None) name,
        fail_if (value \<noteq> ToLower_ascii value) (name @ '' must use lowercase hexadecimal'')]"

record ContentItem =
  ci_SHA256 :: string
  ci_MediaType :: string
  ci_SizeBytes :: int
  ci_Classification :: Classification

definition ContentItem_Validate :: "ContentItem \<Rightarrow> error option" where
  "ContentItem_Validate item =
     first_error
       [validateSHA256 ''content SHA-256'' (ci_SHA256 item),
        fail_if (blank (ci_MediaType item)) ''content media type is required'',
        fail_if (ci_SizeBytes item < 0) ''content size cannot be negative'',
        if ci_Classification item \<noteq> no_class then Classification_Validate (ci_Classification item) else None]"

definition ContentItem_EffectiveClassification :: "ContentItem \<Rightarrow> Classification" where
  "ContentItem_EffectiveClassification item =
     (if ci_Classification item = no_class then ClassConfidential else ci_Classification item)"

record ContentManifest =
  cm_Items :: "ContentItem list"

definition ContentManifest_Validate :: "ContentManifest \<Rightarrow> error option" where
  "ContentManifest_Validate m =
     first_error
       [fail_if (cm_Items m = []) ''content manifest cannot be empty'',
        distinct_valid ''content item'' ContentItem_Validate ci_SHA256 [] (cm_Items m)]"

definition ContentManifest_Clone :: "ContentManifest \<Rightarrow> ContentManifest" where
  "ContentManifest_Clone m = \<lparr>cm_Items = [] @ cm_Items m\<rparr>"

definition put_uint64 :: "64 word \<Rightarrow> bytes" where
  "put_uint64 w = map (\<lambda>b. char_of (unat b)) (big_endian64 w)"

definition writeDigestString :: "string \<Rightarrow> bytes" where
  "writeDigestString value = put_uint64 (of_nat (length value)) @ value"

definition digest_item :: "ContentItem \<Rightarrow> bytes" where
  "digest_item item =
     writeDigestString (ci_SHA256 item) @ writeDigestString (ci_MediaType item) @
     put_uint64 (of_int (ci_SizeBytes item)) @
     writeDigestString (classification_text (ci_Classification item))"

definition digest_input :: "ContentManifest \<Rightarrow> bytes" where
  "digest_input m =
     ''fabricrunner.content-manifest.v1'' @ [CHR 0x00] @ concat (map digest_item (cm_Items m))"

definition digestUnchecked :: "ContentManifest \<Rightarrow> string" where
  "digestUnchecked m = hex_encode (sha256_Sum256 (digest_input m))"

definition ContentManifest_Digest :: "ContentManifest \<Rightarrow> error + string" where
  "ContentManifest_Digest m =
     (case ContentManifest_Validate m of Some err \<Rightarrow> Inl err | None \<Rightarrow> Inr (digestUnchecked m))"

definition classificationRank :: "Classification \<Rightarrow> int" where
  "classificationRank c =
     (case c of ClassPublic \<Rightarrow> 0 | ClassInternal \<Rightarrow> 1 | ClassConfidential \<Rightarrow> 2 | ClassSecret \<Rightarrow> 3
      | ClassOther _ \<Rightarrow> -1)"

definition raise_class :: "Classification \<Rightarrow> ContentItem \<Rightarrow> Classification" where
  "raise_class result item =
     (let c = ContentItem_EffectiveClassification item
      in if classificationRank result < classificationRank c then c else result)"

definition EffectiveClassification :: "ContentManifest \<Rightarrow> error + Classification" where
  "EffectiveClassification m =
     (case ContentManifest_Validate m of
        Some err \<Rightarrow> Inl err
      | None \<Rightarrow> Inr (foldl raise_class ClassPublic (cm_Items m)))"

section \<open>Targets and requests\<close>

record SandboxCapability =
  sc_Established :: bool
  sc_Backend :: string

datatype ExecutionTargetKind = ExecutionTargetModel | ExecutionTargetTool | ExecutionTargetOther string

record ExecutionTarget =
  et_Sandbox :: SandboxCapability
  et_Kind :: ExecutionTargetKind
  et_Zone :: Zone
  et_Model :: "ModelRef option"
  et_ToolName :: string

definition ExecutionTarget_Validate :: "ExecutionTarget \<Rightarrow> error option" where
  "ExecutionTarget_Validate t =
     first_error
       [Zone_Validate (et_Zone t),
        (case et_Kind t of
           ExecutionTargetModel \<Rightarrow>
             (case et_Model t of
                None \<Rightarrow> Some (errorf ''model target requires a model'')
              | Some m \<Rightarrow> first_error [ModelRef_Validate m,
                           fail_if (et_ToolName t \<noteq> []) ''model target cannot name a tool''])
         | ExecutionTargetTool \<Rightarrow>
             first_error [fail_if (blank (et_ToolName t)) ''tool target requires a tool name'',
                          fail_if (et_Model t \<noteq> None) ''tool target cannot name a model'']
         | ExecutionTargetOther _ \<Rightarrow> Some (errorf ''unknown execution target kind''))]"

definition ExecutionTarget_clone :: "ExecutionTarget \<Rightarrow> ExecutionTarget" where
  "ExecutionTarget_clone t = t\<lparr>et_Model := map_option (\<lambda>m. m) (et_Model t)\<rparr>"

record ExecutionPolicyRequest =
  ep_WorkloadID :: ID
  ep_StepID :: ID
  ep_AttemptID :: ID
  ep_StepKind :: StepKind
  ep_Target :: ExecutionTarget
  ep_Manifest :: ContentManifest
  ep_Autonomous :: bool

definition ExecutionPolicyRequest_Validate :: "ExecutionPolicyRequest \<Rightarrow> error option" where
  "ExecutionPolicyRequest_Validate r =
     first_error
       [map_option (wrapf ''workload ID'') (ID_Validate (ep_WorkloadID r)),
        map_option (wrapf ''step ID'') (ID_Validate (ep_StepID r)),
        map_option (wrapf ''attempt ID'') (ID_Validate (ep_AttemptID r)),
        StepKind_Validate (ep_StepKind r),
        map_option (wrapf ''execution target'') (ExecutionTarget_Validate (ep_Target r)),
        fail_if (ep_StepKind r = StepModelTurn \<and> et_Kind (ep_Target r) \<noteq> ExecutionTargetModel)
          ''model-turn step requires a model target'',
        fail_if (ep_StepKind r = StepTool \<and> et_Kind (ep_Target r) \<noteq> ExecutionTargetTool)
          ''tool step requires a tool target'',
        fail_if (ep_StepKind r \<noteq> StepModelTurn \<and> ep_StepKind r \<noteq> StepTool)
          ''execution policy does not evaluate this step kind'',
        map_option (wrapf ''execution manifest'') (ContentManifest_Validate (ep_Manifest r))]"

definition ExecutionPolicyRequest_Clone :: "ExecutionPolicyRequest \<Rightarrow> ExecutionPolicyRequest" where
  "ExecutionPolicyRequest_Clone r =
     r\<lparr>ep_Target := ExecutionTarget_clone (ep_Target r), ep_Manifest := ContentManifest_Clone (ep_Manifest r)\<rparr>"

record DataEgressPolicyRequest =
  eg_WorkloadID :: ID
  eg_StepID :: ID
  eg_Source :: Zone
  eg_Destination :: Zone
  eg_Manifest :: ContentManifest
  eg_Purpose :: string
  eg_DerivedFromSHA :: string

definition DataEgressPolicyRequest_Validate :: "DataEgressPolicyRequest \<Rightarrow> error option" where
  "DataEgressPolicyRequest_Validate r =
     first_error
       [map_option (wrapf ''workload ID'') (ID_Validate (eg_WorkloadID r)),
        map_option (wrapf ''step ID'') (ID_Validate (eg_StepID r)),
        map_option (wrapf ''source zone'') (Zone_Validate (eg_Source r)),
        map_option (wrapf ''destination zone'') (Zone_Validate (eg_Destination r)),
        map_option (wrapf ''egress manifest'') (ContentManifest_Validate (eg_Manifest r)),
        fail_if (blank (eg_Purpose r)) ''egress purpose is required'',
        if eg_DerivedFromSHA r \<noteq> [] then validateSHA256 ''derived-from SHA-256'' (eg_DerivedFromSHA r) else None]"

definition DataEgressPolicyRequest_Clone :: "DataEgressPolicyRequest \<Rightarrow> DataEgressPolicyRequest" where
  "DataEgressPolicyRequest_Clone r = r\<lparr>eg_Manifest := ContentManifest_Clone (eg_Manifest r)\<rparr>"

section \<open>Scopes and verdicts\<close>

datatype PolicyAction =
    PolicyAllow | PolicyDeny | PolicyRequireApproval | PolicyTransform | PolicyRedact
  | PolicyActionOther string

definition PolicyAction_Validate :: "PolicyAction \<Rightarrow> error option" where
  "PolicyAction_Validate a =
     (case a of PolicyActionOther _ \<Rightarrow> Some (errorf ''unknown policy action'') | _ \<Rightarrow> None)"

datatype PolicyScopeKind = PolicyScopeExecution | PolicyScopeDataEgress | PolicyScopeOther string

record PolicyScope =
  ps_Kind :: PolicyScopeKind
  ps_WorkloadID :: ID
  ps_StepID :: ID
  ps_AttemptID :: ID
  ps_StepKind :: StepKind
  ps_Autonomous :: bool
  ps_Target :: "ExecutionTarget option"
  ps_Source :: Zone
  ps_Destination :: Zone
  ps_Purpose :: string
  ps_DerivedFromSHA :: string

definition PolicyScopeForExecution :: "ExecutionPolicyRequest \<Rightarrow> PolicyScope" where
  "PolicyScopeForExecution r =
     \<lparr>ps_Kind = PolicyScopeExecution, ps_WorkloadID = ep_WorkloadID r, ps_StepID = ep_StepID r,
      ps_AttemptID = ep_AttemptID r, ps_StepKind = ep_StepKind r, ps_Autonomous = ep_Autonomous r,
      ps_Target = Some (ExecutionTarget_clone (ep_Target r)), ps_Source = no_zone,
      ps_Destination = no_zone, ps_Purpose = [], ps_DerivedFromSHA = []\<rparr>"

definition PolicyScopeForDataEgress :: "DataEgressPolicyRequest \<Rightarrow> PolicyScope" where
  "PolicyScopeForDataEgress r =
     \<lparr>ps_Kind = PolicyScopeDataEgress, ps_WorkloadID = eg_WorkloadID r, ps_StepID = eg_StepID r,
      ps_AttemptID = [], ps_StepKind = no_step_kind, ps_Autonomous = False, ps_Target = None,
      ps_Source = eg_Source r, ps_Destination = eg_Destination r, ps_Purpose = eg_Purpose r,
      ps_DerivedFromSHA = eg_DerivedFromSHA r\<rparr>"

definition PolicyScope_Validate :: "PolicyScope \<Rightarrow> error option" where
  "PolicyScope_Validate s =
     first_error
       [map_option (wrapf ''policy scope workload ID'') (ID_Validate (ps_WorkloadID s)),
        map_option (wrapf ''policy scope step ID'') (ID_Validate (ps_StepID s)),
        (case ps_Kind s of
           PolicyScopeExecution \<Rightarrow>
             first_error
               [map_option (wrapf ''policy scope attempt ID'') (ID_Validate (ps_AttemptID s)),
                (case ps_Target s of
                   None \<Rightarrow> Some (errorf ''execution policy scope requires a target'')
                 | Some t \<Rightarrow>
                     first_error
                       [map_option (wrapf ''execution policy scope target'') (ExecutionTarget_Validate t),
                        map_option (wrapf ''execution policy scope step kind'') (StepKind_Validate (ps_StepKind s)),
                        fail_if (ps_StepKind s = StepModelTurn \<and> et_Kind t \<noteq> ExecutionTargetModel \<or>
                                 ps_StepKind s = StepTool \<and> et_Kind t \<noteq> ExecutionTargetTool \<or>
                                 ps_StepKind s \<noteq> StepModelTurn \<and> ps_StepKind s \<noteq> StepTool)
                          ''execution policy scope step and target kinds do not match'']),
                fail_if (ps_Source s \<noteq> no_zone \<or> ps_Destination s \<noteq> no_zone \<or> ps_Purpose s \<noteq> [] \<or>
                         ps_DerivedFromSHA s \<noteq> [])
                  ''execution policy scope cannot contain an egress path'']
         | PolicyScopeDataEgress \<Rightarrow>
             first_error
               [fail_if (\<not> ID_IsZero (ps_AttemptID s) \<or> ps_StepKind s \<noteq> no_step_kind \<or> ps_Autonomous s \<or>
                         ps_Target s \<noteq> None)
                  ''data-egress policy scope cannot contain execution fields'',
                map_option (wrapf ''policy scope source'') (Zone_Validate (ps_Source s)),
                map_option (wrapf ''policy scope destination'') (Zone_Validate (ps_Destination s)),
                fail_if (blank (ps_Purpose s)) ''data-egress policy scope purpose is required'',
                if ps_DerivedFromSHA s \<noteq> []
                then validateSHA256 ''policy scope derived-from SHA-256'' (ps_DerivedFromSHA s) else None]
         | PolicyScopeOther _ \<Rightarrow> Some (errorf ''unknown policy scope kind''))]"

definition PolicyScope_Clone :: "PolicyScope \<Rightarrow> PolicyScope" where
  "PolicyScope_Clone s = s\<lparr>ps_Target := map_option ExecutionTarget_clone (ps_Target s)\<rparr>"

definition executionTargetsEqual :: "ExecutionTarget \<Rightarrow> ExecutionTarget \<Rightarrow> bool" where
  "executionTargetsEqual l r \<longleftrightarrow>
     \<not> (et_Kind l \<noteq> et_Kind r \<or> et_Zone l \<noteq> et_Zone r \<or> et_ToolName l \<noteq> et_ToolName r \<or>
        et_Sandbox l \<noteq> et_Sandbox r) \<and>
     (case (et_Model l, et_Model r) of
        (Some a, Some b) \<Rightarrow> a = b
      | (a, b) \<Rightarrow> a = None \<and> b = None)"

definition PolicyScope_Equal :: "PolicyScope \<Rightarrow> PolicyScope \<Rightarrow> bool" where
  "PolicyScope_Equal s t \<longleftrightarrow>
     \<not> (ps_Kind s \<noteq> ps_Kind t \<or> ps_WorkloadID s \<noteq> ps_WorkloadID t \<or> ps_StepID s \<noteq> ps_StepID t \<or>
        ps_AttemptID s \<noteq> ps_AttemptID t \<or> ps_StepKind s \<noteq> ps_StepKind t \<or>
        ps_Autonomous s \<noteq> ps_Autonomous t \<or> ps_Source s \<noteq> ps_Source t \<or>
        ps_Destination s \<noteq> ps_Destination t \<or> ps_Purpose s \<noteq> ps_Purpose t \<or>
        ps_DerivedFromSHA s \<noteq> ps_DerivedFromSHA t) \<and>
     (case (ps_Target s, ps_Target t) of
        (Some a, Some b) \<Rightarrow> executionTargetsEqual a b
      | (a, b) \<Rightarrow> a = None \<and> b = None)"

record PolicyVerdict =
  vd_Policy :: string
  vd_PolicyVersion :: string
  vd_RuleID :: string
  vd_Action :: PolicyAction
  vd_Reason :: string
  vd_ManifestSHA256 :: string
  vd_Scope :: PolicyScope
  vd_Transformation :: string

definition PolicyVerdict_Validate :: "PolicyVerdict \<Rightarrow> error option" where
  "PolicyVerdict_Validate v =
     (let requires = (vd_Action v = PolicyTransform \<or> vd_Action v = PolicyRedact) in
      first_error
        [fail_if (blank (vd_Policy v)) ''policy name is required'',
         fail_if (blank (vd_PolicyVersion v)) ''policy version is required'',
         fail_if (blank (vd_RuleID v)) ''policy rule ID is required'',
         PolicyAction_Validate (vd_Action v),
         fail_if (blank (vd_Reason v)) ''policy reason is required'',
         validateSHA256 ''verdict manifest SHA-256'' (vd_ManifestSHA256 v),
         PolicyScope_Validate (vd_Scope v),
         fail_if (requires \<and> blank (vd_Transformation v))
           ''transform and redact verdicts require transformation instructions'',
         fail_if (\<not> requires \<and> vd_Transformation v \<noteq> [])
           ''transformation instructions require a transform or redact action''])"

definition PolicyVerdict_Clone :: "PolicyVerdict \<Rightarrow> PolicyVerdict" where
  "PolicyVerdict_Clone v = v\<lparr>vd_Scope := PolicyScope_Clone (vd_Scope v)\<rparr>"

definition Allows :: "PolicyVerdict \<Rightarrow> bool" where
  "Allows v \<longleftrightarrow> vd_Action v = PolicyAllow"

definition RequiresApproval :: "PolicyVerdict \<Rightarrow> bool" where
  "RequiresApproval v \<longleftrightarrow> vd_Action v = PolicyRequireApproval"

section \<open>The guards\<close>

type_synonym 'r policy = "ctx \<Rightarrow> 'r \<Rightarrow> PolicyVerdict \<times> error option"

definition zero_scope :: PolicyScope where
  "zero_scope =
     \<lparr>ps_Kind = PolicyScopeOther [], ps_WorkloadID = [], ps_StepID = [], ps_AttemptID = [],
      ps_StepKind = no_step_kind, ps_Autonomous = False, ps_Target = None, ps_Source = no_zone,
      ps_Destination = no_zone, ps_Purpose = [], ps_DerivedFromSHA = []\<rparr>"

definition zero_verdict :: PolicyVerdict where
  "zero_verdict =
     \<lparr>vd_Policy = [], vd_PolicyVersion = [], vd_RuleID = [], vd_Action = PolicyActionOther [],
      vd_Reason = [], vd_ManifestSHA256 = [], vd_Scope = zero_scope, vd_Transformation = []\<rparr>"

definition failClosedVerdict :: "string \<Rightarrow> string \<Rightarrow> PolicyScope \<Rightarrow> PolicyVerdict" where
  "failClosedVerdict ruleID digest scope =
     \<lparr>vd_Policy = ''fabricrunner.fail-closed'', vd_PolicyVersion = ''1'', vd_RuleID = ruleID,
      vd_Action = PolicyDeny,
      vd_Reason = ''policy evaluation did not produce a valid authorization'',
      vd_ManifestSHA256 = digest, vd_Scope = PolicyScope_Clone scope, vd_Transformation = []\<rparr>"

definition evaluation_error :: "error \<Rightarrow> error option" where
  "evaluation_error err = Some (wrap_sentinel ErrPolicyEvaluation err)"

text \<open>
  The guard asks its context twice, before anything else and right after the policy; the policy
  is given the rest of the context's answers.
\<close>

definition EvaluateExecutionPolicy ::
  "ctx \<Rightarrow> ExecutionPolicyRequest policy option \<Rightarrow> ExecutionPolicyRequest \<Rightarrow> PolicyVerdict \<times> error option" where
  "EvaluateExecutionPolicy ctx policy request =
     (case ctx 0 of
        Some err \<Rightarrow> (zero_verdict, Some err)
      | None \<Rightarrow>
     let manifestDigest = digestUnchecked (ep_Manifest request);
         scope = PolicyScopeForExecution request;
         denied = (\<lambda>rule err. (failClosedVerdict rule manifestDigest scope, err))
     in case ExecutionPolicyRequest_Validate request of
        Some err \<Rightarrow> denied ''execution.request.invalid'' (evaluation_error err)
      | None \<Rightarrow>
     (case EffectiveClassification (ep_Manifest request) of
        Inl err \<Rightarrow> denied ''execution.manifest.invalid'' (evaluation_error err)
      | Inr classification \<Rightarrow>
     if et_Kind (ep_Target request) = ExecutionTargetModel \<and> classification = ClassSecret
     then denied ''execution.secret-model.denied'' None
     else case policy of
        None \<Rightarrow> denied ''execution.policy.missing'' (evaluation_error (errorf ''execution policy is nil''))
      | Some evaluate \<Rightarrow>
     let (verdict, err) = evaluate (ctx_from 2 ctx) (ExecutionPolicyRequest_Clone request)
     in case ctx 1 of
        Some contextError \<Rightarrow> (zero_verdict, Some contextError)
      | None \<Rightarrow>
     (case err of
        Some e \<Rightarrow> denied ''execution.policy.error'' (evaluation_error e)
      | None \<Rightarrow>
     (case PolicyVerdict_Validate verdict of
        Some e \<Rightarrow> denied ''execution.verdict.invalid'' (evaluation_error e)
      | None \<Rightarrow>
          if vd_ManifestSHA256 verdict \<noteq> [] \<and> vd_ManifestSHA256 verdict \<noteq> manifestDigest
          then denied ''execution.verdict.manifest-mismatch''
                 (evaluation_error (errorf ''verdict does not match evaluated manifest''))
          else if \<not> PolicyScope_Equal (vd_Scope verdict) scope
          then denied ''execution.verdict.scope-mismatch''
                 (evaluation_error (errorf ''verdict does not match execution scope''))
          else (verdict, None)))))"

definition EvaluateDataEgressPolicy ::
  "ctx \<Rightarrow> DataEgressPolicyRequest policy option \<Rightarrow> DataEgressPolicyRequest \<Rightarrow> PolicyVerdict \<times> error option" where
  "EvaluateDataEgressPolicy ctx policy request =
     (case ctx 0 of
        Some err \<Rightarrow> (zero_verdict, Some err)
      | None \<Rightarrow>
     let manifestDigest = digestUnchecked (eg_Manifest request);
         scope = PolicyScopeForDataEgress request;
         denied = (\<lambda>rule err. (failClosedVerdict rule manifestDigest scope, err))
     in case DataEgressPolicyRequest_Validate request of
        Some err \<Rightarrow> denied ''egress.request.invalid'' (evaluation_error err)
      | None \<Rightarrow>
     (case policy of
        None \<Rightarrow> denied ''egress.policy.missing'' (evaluation_error (errorf ''data egress policy is nil''))
      | Some evaluate \<Rightarrow>
     let (verdict, err) = evaluate (ctx_from 2 ctx) (DataEgressPolicyRequest_Clone request)
     in case ctx 1 of
        Some contextError \<Rightarrow> (zero_verdict, Some contextError)
      | None \<Rightarrow>
     (case err of
        Some e \<Rightarrow> denied ''egress.policy.error'' (evaluation_error e)
      | None \<Rightarrow>
     (case PolicyVerdict_Validate verdict of
        Some e \<Rightarrow> denied ''egress.verdict.invalid'' (evaluation_error e)
      | None \<Rightarrow>
          if vd_ManifestSHA256 verdict \<noteq> [] \<and> vd_ManifestSHA256 verdict \<noteq> manifestDigest
          then denied ''egress.verdict.manifest-mismatch''
                 (evaluation_error (errorf ''verdict does not match evaluated manifest''))
          else if \<not> PolicyScope_Equal (vd_Scope verdict) scope
          then denied ''egress.verdict.scope-mismatch''
                 (evaluation_error (errorf ''verdict does not match egress scope''))
          else (verdict, None)))))"

section \<open>Copies, equality, digests\<close>

lemma policy_clone_ids [simp, clone_simps]:
  "ContentManifest_Clone m = m" "ExecutionTarget_clone t = t"
  by (simp_all add: ContentManifest_Clone_def ExecutionTarget_clone_def option.map_ident)

lemma map_option_target_clone [simp]: "map_option ExecutionTarget_clone x = x"
  by (cases x) simp_all

lemma policy_clone_ids2 [simp, clone_simps]:
  "ExecutionPolicyRequest_Clone r = r" "DataEgressPolicyRequest_Clone d = d"
  "PolicyScope_Clone s = s" "PolicyVerdict_Clone v = v"
  by (simp_all add: ExecutionPolicyRequest_Clone_def DataEgressPolicyRequest_Clone_def
      PolicyScope_Clone_def PolicyVerdict_Clone_def)

lemma executionTargetsEqual_iff [simp]: "executionTargetsEqual l r \<longleftrightarrow> l = r"
  by (cases l; cases r) (auto simp: executionTargetsEqual_def split: option.splits)

lemma PolicyScope_Equal_iff [simp]: "PolicyScope_Equal s t \<longleftrightarrow> s = t"
  by (cases s; cases t) (auto simp: PolicyScope_Equal_def split: option.splits)

definition sha256_text :: "string \<Rightarrow> bool" where
  "sha256_text value \<longleftrightarrow> length value = 64 \<and> hex_decode value \<noteq> None \<and> value = ToLower_ascii value"

lemma validateSHA256_None [valid_simps]: "validateSHA256 name value = None \<longleftrightarrow> sha256_text value"
  by (simp add: validateSHA256_def sha256_text_def)

lemma validateSHA256_hex [simp]: "validateSHA256 name (hex_encode (sha256_Sum256 x)) = None"
  by (simp add: validateSHA256_def ToLower_lower_hex lower_hex_encode)

lemma validateSHA256_digest [simp]: "validateSHA256 name (digestUnchecked m) = None"
  by (simp add: digestUnchecked_def)

lemma digestUnchecked_ne_Nil [simp]: "digestUnchecked m \<noteq> []"
  using validateSHA256_digest [of "[]" m] by (auto simp: validateSHA256_def simp del: validateSHA256_digest)

lemma scope_of_valid_request:
  "ExecutionPolicyRequest_Validate r = None \<Longrightarrow> PolicyScope_Validate (PolicyScopeForExecution r) = None"
  "DataEgressPolicyRequest_Validate d = None \<Longrightarrow> PolicyScope_Validate (PolicyScopeForDataEgress d) = None"
  by (auto simp: ExecutionPolicyRequest_Validate_def DataEgressPolicyRequest_Validate_def
      PolicyScope_Validate_def PolicyScopeForExecution_def PolicyScopeForDataEgress_def ID_IsZero_def
      validateSHA256_None)

lemma manifest_of_valid_request:
  "ExecutionPolicyRequest_Validate r = None \<Longrightarrow> ContentManifest_Validate (ep_Manifest r) = None"
  "DataEgressPolicyRequest_Validate d = None \<Longrightarrow> ContentManifest_Validate (eg_Manifest d) = None"
  by (auto simp: ExecutionPolicyRequest_Validate_def DataEgressPolicyRequest_Validate_def)

lemma failClosed_deny [simp]:
  "vd_Action (failClosedVerdict rule d s) = PolicyDeny" "\<not> Allows (failClosedVerdict rule d s)"
  "\<not> RequiresApproval (failClosedVerdict rule d s)" "\<not> Allows zero_verdict" "\<not> RequiresApproval zero_verdict"
  by (simp_all add: failClosedVerdict_def Allows_def RequiresApproval_def zero_verdict_def)

definition known_classes :: "Classification set" where
  "known_classes = {ClassPublic, ClassInternal, ClassConfidential, ClassSecret}"

lemma valid_item_class:
  "ContentItem_Validate i = None \<Longrightarrow>
     ContentItem_EffectiveClassification i \<in> known_classes"
  by (cases "ci_Classification i")
     (auto simp: ContentItem_Validate_def ContentItem_EffectiveClassification_def Classification_Validate_def
       known_classes_def split: if_splits)

lemma ContentManifest_Validate_None [valid_simps]:
  "ContentManifest_Validate m = None \<longleftrightarrow>
     cm_Items m \<noteq> [] \<and> (\<forall>i\<in>set (cm_Items m). ContentItem_Validate i = None) \<and>
     distinct (map ci_SHA256 (cm_Items m))"
  by (auto simp: ContentManifest_Validate_def)

lemma raise_class_rank:
  "classificationRank (foldl raise_class c items) \<ge> classificationRank c \<and>
   (\<forall>i\<in>set items. classificationRank (ContentItem_EffectiveClassification i)
      \<le> classificationRank (foldl raise_class c items)) \<and>
   foldl raise_class c items \<in> insert c (ContentItem_EffectiveClassification ` set items)"
proof (induction items arbitrary: c)
  case (Cons i items)
  let ?c = "raise_class c i"
  have "classificationRank c \<le> classificationRank ?c"
    "classificationRank (ContentItem_EffectiveClassification i) \<le> classificationRank ?c"
    "?c = c \<or> ?c = ContentItem_EffectiveClassification i"
    by (auto simp: raise_class_def Let_def)
  with Cons.IH [of ?c] show ?case by fastforce
qed simp

lemma classificationRank_inj:
  "c \<in> known_classes \<Longrightarrow>
   d \<in> known_classes \<Longrightarrow>
   classificationRank c = classificationRank d \<Longrightarrow> c = d"
  by (auto simp: classificationRank_def known_classes_def)

lemma EffectiveClassification_cases:
  assumes "ContentManifest_Validate m = None"
  obtains c where "EffectiveClassification m = Inr c"
    "c \<in> known_classes"
    "\<forall>i\<in>set (cm_Items m). classificationRank (ContentItem_EffectiveClassification i) \<le> classificationRank c"
    "\<exists>i\<in>set (cm_Items m). ContentItem_EffectiveClassification i = c"
proof -
  let ?c = "foldl raise_class ClassPublic (cm_Items m)"
  note rank = raise_class_rank [of ClassPublic "cm_Items m"]
  have known: "\<forall>i\<in>set (cm_Items m). ContentItem_EffectiveClassification i
      \<in> known_classes"
    using assms valid_item_class unfolding ContentManifest_Validate_None by blast
  have c: "?c \<in> known_classes" using rank known by (auto simp: known_classes_def)
  obtain i where i: "i \<in> set (cm_Items m)"
    using assms by (cases "cm_Items m") (auto simp: ContentManifest_Validate_None)
  have "\<exists>j\<in>set (cm_Items m). ContentItem_EffectiveClassification j = ?c"
  proof (cases "?c = ClassPublic")
    case True
    then have "classificationRank (ContentItem_EffectiveClassification i) \<le> 0"
      using rank i by (auto simp: classificationRank_def)
    then have "ContentItem_EffectiveClassification i = ClassPublic"
      using known i by (auto simp: classificationRank_def known_classes_def)
    with True i show ?thesis by auto
  qed (use rank in auto)
  with that [of ?c] rank c assms show thesis by (simp add: EffectiveClassification_def)
qed

lemma secret_item_iff:
  assumes "ContentManifest_Validate m = None"
  shows "EffectiveClassification m = Inr ClassSecret \<longleftrightarrow> (\<exists>i\<in>set (cm_Items m). ci_Classification i = ClassSecret)"
proof -
  obtain c where c: "EffectiveClassification m = Inr c"
    "c \<in> known_classes"
    "\<forall>i\<in>set (cm_Items m). classificationRank (ContentItem_EffectiveClassification i) \<le> classificationRank c"
    "\<exists>i\<in>set (cm_Items m). ContentItem_EffectiveClassification i = c"
    using EffectiveClassification_cases [OF assms] .
  show ?thesis
  proof
    assume "EffectiveClassification m = Inr ClassSecret"
    then show "\<exists>i\<in>set (cm_Items m). ci_Classification i = ClassSecret"
      using c by (auto simp: ContentItem_EffectiveClassification_def split: if_splits)
  next
    assume "\<exists>i\<in>set (cm_Items m). ci_Classification i = ClassSecret"
    then have "3 \<le> classificationRank c"
      using c(3) by (force simp: ContentItem_EffectiveClassification_def classificationRank_def)
    then show "EffectiveClassification m = Inr ClassSecret" using c(1,2) by (auto simp: classificationRank_def known_classes_def)
  qed
qed

section \<open>What a policy promises\<close>

text \<open>
  A well-behaved execution policy answers every valid request under a live context with a valid
  verdict bound to the request's manifest and scope, and never allows secret content. The guard
  then never falls back on its own verdict except for secret content sent to a model.
\<close>

locale execution_policy =
  fixes evaluate :: "ExecutionPolicyRequest policy"
  assumes answers: "ctx_live ctx \<Longrightarrow> ExecutionPolicyRequest_Validate r = None \<Longrightarrow>
      \<exists>v. evaluate ctx r = (v, None) \<and> PolicyVerdict_Validate v = None \<and>
        vd_ManifestSHA256 v = digestUnchecked (ep_Manifest r) \<and> vd_Scope v = PolicyScopeForExecution r"
    and no_secret: "evaluate ctx r = (v, e) \<Longrightarrow> EffectiveClassification (ep_Manifest r) = Inr ClassSecret \<Longrightarrow>
      \<not> Allows v \<and> \<not> RequiresApproval v"
begin

lemma guard_transparent:
  assumes "ctx_live ctx" "ExecutionPolicyRequest_Validate r = None"
    "\<not> (et_Kind (ep_Target r) = ExecutionTargetModel \<and> EffectiveClassification (ep_Manifest r) = Inr ClassSecret)"
  shows "EvaluateExecutionPolicy ctx (Some evaluate) r = evaluate (ctx_from 2 ctx) r"
proof -
  obtain v where "evaluate (ctx_from 2 ctx) r = (v, None)" "PolicyVerdict_Validate v = None"
    "vd_ManifestSHA256 v = digestUnchecked (ep_Manifest r)" "vd_Scope v = PolicyScopeForExecution r"
    using answers [of "ctx_from 2 ctx" r] assms by auto
  moreover obtain c where "EffectiveClassification (ep_Manifest r) = Inr c"
    using EffectiveClassification_cases manifest_of_valid_request(1) assms(2) by metis
  ultimately show ?thesis using assms by (auto simp: EvaluateExecutionPolicy_def Let_def)
qed

lemma guard_answers:
  assumes "ctx_live ctx" "ExecutionPolicyRequest_Validate r = None"
  shows "\<exists>v. EvaluateExecutionPolicy ctx (Some evaluate) r = (v, None) \<and>
    vd_ManifestSHA256 v = digestUnchecked (ep_Manifest r) \<and> vd_Scope v = PolicyScopeForExecution r \<and>
    (EffectiveClassification (ep_Manifest r) = Inr ClassSecret \<longrightarrow> \<not> Allows v \<and> \<not> RequiresApproval v)"
proof (cases "et_Kind (ep_Target r) = ExecutionTargetModel \<and> EffectiveClassification (ep_Manifest r) = Inr ClassSecret")
  case True
  then show ?thesis using assms
    by (simp add: EvaluateExecutionPolicy_def Let_def) (simp add: failClosedVerdict_def)
next
  case False
  obtain v where "evaluate (ctx_from 2 ctx) r = (v, None)"
    "vd_ManifestSHA256 v = digestUnchecked (ep_Manifest r)" "vd_Scope v = PolicyScopeForExecution r"
    using answers [of "ctx_from 2 ctx" r] assms by auto
  with guard_transparent [OF assms False] no_secret [of "ctx_from 2 ctx" r v None] show ?thesis by auto
qed

end

locale egress_policy =
  fixes evaluate :: "DataEgressPolicyRequest policy"
  assumes answers: "ctx_live ctx \<Longrightarrow> DataEgressPolicyRequest_Validate r = None \<Longrightarrow>
      \<exists>v. evaluate ctx r = (v, None) \<and> PolicyVerdict_Validate v = None \<and>
        vd_ManifestSHA256 v = digestUnchecked (eg_Manifest r) \<and> vd_Scope v = PolicyScopeForDataEgress r"
begin

lemma guard_transparent:
  assumes "ctx_live ctx" "DataEgressPolicyRequest_Validate r = None"
  shows "EvaluateDataEgressPolicy ctx (Some evaluate) r = evaluate (ctx_from 2 ctx) r"
proof -
  obtain v where "evaluate (ctx_from 2 ctx) r = (v, None)" "PolicyVerdict_Validate v = None"
    "vd_ManifestSHA256 v = digestUnchecked (eg_Manifest r)" "vd_Scope v = PolicyScopeForDataEgress r"
    using answers [of "ctx_from 2 ctx" r] assms by auto
  then show ?thesis using assms by (simp add: EvaluateDataEgressPolicy_def Let_def)
qed

end

section \<open>Digest binding\<close>

text \<open>
  What a manifest of Go values satisfies: lengths and sizes fit a signed 64-bit integer.
\<close>

definition go_item :: "ContentItem \<Rightarrow> bool" where
  "go_item i \<longleftrightarrow> length (ci_MediaType i) < 2 ^ 63 \<and> ci_SizeBytes i < 2 ^ 63"

lemma length_put_uint64 [simp]: "length (put_uint64 w) = 8"
  by (simp add: put_uint64_def big_endian64_def)

lemma big_endian64_inj: "big_endian64 v = big_endian64 w \<Longrightarrow> v = w"
proof (rule bit_word_eqI)
  fix n assume eq: "big_endian64 v = big_endian64 w" and "n < LENGTH(64)"
  then have n: "n < 64" by simp
  have "\<forall>k\<in>{0, 8, 16, 24, 32, 40, 48, 56}. ucast (drop_bit k v) = (ucast (drop_bit k w) :: byte)"
    using eq by (simp add: big_endian64_def)
  moreover have k: "8 * (n div 8) \<in> {0, 8, 16, 24, 32, 40, 48, 56}"
  proof -
    have "n div 8 < 8" using n by simp
    then have "n div 8 \<in> {0, 1, 2, 3, 4, 5, 6, 7}" by auto
    then show ?thesis by auto
  qed
  ultimately have "ucast (drop_bit (8 * (n div 8)) v) = (ucast (drop_bit (8 * (n div 8)) w) :: byte)" by blast
  then have "bit (ucast (drop_bit (8 * (n div 8)) v) :: byte) (n mod 8)
     = bit (ucast (drop_bit (8 * (n div 8)) w) :: byte) (n mod 8)" by simp
  then show "bit v n = bit w n" by (simp add: bit_ucast_iff bit_drop_bit_eq)
qed

lemma put_uint64_inj: "put_uint64 v = put_uint64 w \<longleftrightarrow> v = w"
proof -
  have "inj (\<lambda>b :: byte. char_of (unat b) :: char)"
  proof (rule injI)
    fix a b :: byte assume "char_of (unat a) = (char_of (unat b) :: char)"
    then have "of_char (char_of (unat a) :: char) = (of_char (char_of (unat b) :: char) :: nat)" by simp
    then show "a = b" using unat_byte_less [of a] unat_byte_less [of b] by (simp add: word_unat_eq_iff)
  qed
  then show ?thesis unfolding put_uint64_def using big_endian64_inj by (auto simp: inj_map_eq_map)
qed

lemma writeDigestString_prefix_free:
  assumes "length a < 2 ^ 63" "length b < 2 ^ 63" "writeDigestString a @ x = writeDigestString b @ y"
  shows "a = b \<and> x = y"
proof -
  have len: "put_uint64 (of_nat (length a)) = put_uint64 (of_nat (length b))" and rest: "a @ x = b @ y"
    using assms(3) by (simp_all add: writeDigestString_def append_eq_append_conv)
  have "(of_nat (length a) :: 64 word) = of_nat (length b)" using len by (simp add: put_uint64_inj)
  then have "unat (of_nat (length a) :: 64 word) = unat (of_nat (length b) :: 64 word)" by simp
  then have "length a = length b" using assms(1,2) by (simp add: unat_of_nat)
  with rest show ?thesis by simp
qed

lemma put_size_prefix_free:
  assumes "0 \<le> m" "m < 2 ^ 63" "0 \<le> n" "n < 2 ^ 63" "put_uint64 (of_int m) @ x = put_uint64 (of_int n) @ y"
  shows "m = n \<and> x = y"
proof -
  have w: "(of_int m :: 64 word) = of_int n" and rest: "x = y"
    using assms(5) by (simp_all add: append_eq_append_conv put_uint64_inj)
  then have "uint (of_int m :: 64 word) = uint (of_int n :: 64 word)" by simp
  then show ?thesis using assms rest by (simp add: uint_word_of_int)
qed

lemma digest_item_prefix_free:
  assumes "ContentItem_Validate i = None" "ContentItem_Validate j = None" "go_item i" "go_item j"
    "digest_item i @ x = digest_item j @ y"
  shows "i = j \<and> x = y"
proof -
  have sha: "length (ci_SHA256 i) < 2 ^ 63" "length (ci_SHA256 j) < 2 ^ 63"
    using assms(1,2) by (simp_all add: ContentItem_Validate_def validateSHA256_None sha256_text_def)
  have "ci_Classification i \<in> insert no_class known_classes" "ci_Classification j \<in> insert no_class known_classes"
    using assms(1,2) by (auto simp: ContentItem_Validate_def Classification_Validate_def known_classes_def
        split: if_splits Classification.splits)
  then have class_len: "length (classification_text (ci_Classification i)) < 2 ^ 63"
      "length (classification_text (ci_Classification j)) < 2 ^ 63"
    and class_inj: "classification_text (ci_Classification i) = classification_text (ci_Classification j)
      \<Longrightarrow> ci_Classification i = ci_Classification j"
    by (auto simp: known_classes_def classification_text_def)
  have sizes: "0 \<le> ci_SizeBytes i" "0 \<le> ci_SizeBytes j"
    using assms(1,2) by (simp_all add: ContentItem_Validate_def)
  have eq: "writeDigestString (ci_SHA256 i) @ writeDigestString (ci_MediaType i) @
       put_uint64 (of_int (ci_SizeBytes i)) @ writeDigestString (classification_text (ci_Classification i)) @ x =
     writeDigestString (ci_SHA256 j) @ writeDigestString (ci_MediaType j) @
       put_uint64 (of_int (ci_SizeBytes j)) @ writeDigestString (classification_text (ci_Classification j)) @ y"
    using assms(5) by (simp add: digest_item_def)
  note s1 = writeDigestString_prefix_free [OF sha eq]
  note s2 = writeDigestString_prefix_free [OF _ _ conjunct2 [OF s1]]
  have "ci_MediaType i = ci_MediaType j" and r: "put_uint64 (of_int (ci_SizeBytes i)) @
       writeDigestString (classification_text (ci_Classification i)) @ x =
     put_uint64 (of_int (ci_SizeBytes j)) @ writeDigestString (classification_text (ci_Classification j)) @ y"
    using s2 assms(3,4) by (simp_all add: go_item_def)
  moreover note s3 = put_size_prefix_free [OF sizes(1) _ sizes(2) _ r]
  moreover note writeDigestString_prefix_free [OF class_len conjunct2 [OF s3]]
  ultimately show ?thesis
    using s1 class_inj assms(3,4) by (auto simp: go_item_def)
qed

lemma digest_items_inj:
  assumes "\<forall>i\<in>set xs. ContentItem_Validate i = None \<and> go_item i"
    "\<forall>i\<in>set ys. ContentItem_Validate i = None \<and> go_item i"
    "concat (map digest_item xs) = concat (map digest_item ys)"
  shows "xs = ys"
  using assms
proof (induction xs arbitrary: ys)
  case Nil
  then show ?case by (cases ys) (auto simp: digest_item_def writeDigestString_def put_uint64_def big_endian64_def)
next
  case (Cons x xs)
  then obtain y zs where ys: "ys = y # zs"
    by (cases ys) (auto simp: digest_item_def writeDigestString_def put_uint64_def big_endian64_def)
  then have "x = y \<and> concat (map digest_item xs) = concat (map digest_item zs)"
    using Cons.prems by (intro digest_item_prefix_free) auto
  then show ?case using Cons.IH [of zs] Cons.prems ys by simp
qed

section \<open>Properties\<close>

text \<open>
  [C5] Whatever an execution policy does, the guard hands out an allowing or an approval verdict
  only when the request is valid, no secret item goes to a model, the context is live before and
  after, and the verdict is the policy's own error-free answer, valid, and bound to exactly the
  request's manifest digest and scope. Every other outcome denies.
\<close>

theorem EvaluateExecutionPolicy_fail_closed:
  assumes "EvaluateExecutionPolicy ctx policy r = (v, err)" "Allows v \<or> RequiresApproval v"
  shows "err = None \<and> ctx 0 = None \<and> ctx 1 = None \<and> ExecutionPolicyRequest_Validate r = None \<and>
    \<not> (et_Kind (ep_Target r) = ExecutionTargetModel \<and>
       (\<exists>i\<in>set (cm_Items (ep_Manifest r)). ci_Classification i = ClassSecret)) \<and>
    (\<exists>evaluate. policy = Some evaluate \<and> evaluate (ctx_from 2 ctx) r = (v, None)) \<and>
    PolicyVerdict_Validate v = None \<and> vd_ManifestSHA256 v = digestUnchecked (ep_Manifest r) \<and>
    vd_Scope v = PolicyScopeForExecution r"
proof -
  have nil: "PolicyVerdict_Validate v = None \<Longrightarrow> vd_ManifestSHA256 v \<noteq> []"
    by (auto simp: PolicyVerdict_Validate_def Let_def validateSHA256_None sha256_text_def)
  have "ContentManifest_Validate (ep_Manifest r) = None \<and> err = None \<and> ctx 0 = None \<and> ctx 1 = None \<and>
    ExecutionPolicyRequest_Validate r = None \<and>
    \<not> (et_Kind (ep_Target r) = ExecutionTargetModel \<and> EffectiveClassification (ep_Manifest r) = Inr ClassSecret) \<and>
    (\<exists>evaluate. policy = Some evaluate \<and> evaluate (ctx_from 2 ctx) r = (v, None)) \<and>
    PolicyVerdict_Validate v = None \<and> (vd_ManifestSHA256 v \<noteq> [] \<longrightarrow> vd_ManifestSHA256 v = digestUnchecked (ep_Manifest r)) \<and>
    vd_Scope v = PolicyScopeForExecution r"
    using assms manifest_of_valid_request(1) [of r]
    by (auto simp: EvaluateExecutionPolicy_def Let_def split: option.splits sum.splits if_splits prod.splits)
  then show ?thesis using nil secret_item_iff [of "ep_Manifest r"] by blast
qed

text \<open>
  The data-egress guard fails closed in the same way: an allowing or an approval verdict is
  the policy's own valid answer for a valid request, bound to its manifest, source, destination
  and purpose.
\<close>

theorem EvaluateDataEgressPolicy_fail_closed:
  assumes "EvaluateDataEgressPolicy ctx policy r = (v, err)" "Allows v \<or> RequiresApproval v"
  shows "err = None \<and> ctx 0 = None \<and> ctx 1 = None \<and> DataEgressPolicyRequest_Validate r = None \<and>
    (\<exists>evaluate. policy = Some evaluate \<and> evaluate (ctx_from 2 ctx) r = (v, None)) \<and>
    PolicyVerdict_Validate v = None \<and> vd_ManifestSHA256 v = digestUnchecked (eg_Manifest r) \<and>
    vd_Scope v = PolicyScopeForDataEgress r"
proof -
  have nil: "PolicyVerdict_Validate v = None \<Longrightarrow> vd_ManifestSHA256 v \<noteq> []"
    by (auto simp: PolicyVerdict_Validate_def Let_def validateSHA256_None sha256_text_def)
  then show ?thesis using assms
    by (auto simp: EvaluateDataEgressPolicy_def Let_def split: option.splits sum.splits if_splits prod.splits)
qed

text \<open>
  The classification of a valid manifest is the highest of its items' classifications, an
  unlabelled item counting as confidential.
\<close>

theorem EffectiveClassification_max:
  assumes "ContentManifest_Validate m = None"
  shows "\<exists>c. EffectiveClassification m = Inr c \<and> Classification_Validate c = None \<and>
    c \<in> ContentItem_EffectiveClassification ` set (cm_Items m) \<and>
    classificationRank c = Max (classificationRank ` ContentItem_EffectiveClassification ` set (cm_Items m)) \<and>
    (no_class \<in> ci_Classification ` set (cm_Items m) \<longrightarrow> c \<in> {ClassConfidential, ClassSecret})"
proof -
  obtain c where c: "EffectiveClassification m = Inr c" "c \<in> known_classes"
    "\<forall>i\<in>set (cm_Items m). classificationRank (ContentItem_EffectiveClassification i) \<le> classificationRank c"
    "\<exists>i\<in>set (cm_Items m). ContentItem_EffectiveClassification i = c"
    using EffectiveClassification_cases [OF assms] .
  have "classificationRank c = Max (classificationRank ` ContentItem_EffectiveClassification ` set (cm_Items m))"
    using c by (intro Max_eqI [symmetric]) auto
  moreover have "c \<in> {ClassConfidential, ClassSecret}" if "no_class \<in> ci_Classification ` set (cm_Items m)"
  proof -
    have "2 \<le> classificationRank c"
      using that c(3) by (force simp: ContentItem_EffectiveClassification_def classificationRank_def)
    then show ?thesis using c(2) by (auto simp: known_classes_def classificationRank_def)
  qed
  moreover have "Classification_Validate c = None"
    using c(2) by (auto simp: known_classes_def Classification_Validate_def)
  ultimately show ?thesis using c(1,4) by (intro exI [of _ c]) (auto simp del: insert_iff)
qed

text \<open>
  The digest of a manifest binds its content: two valid manifests with the same digest are
  equal, item by item and in the same order, or their encodings are two different inputs on which
  SHA-256 collides.
\<close>

theorem manifest_digest_binding:
  assumes "ContentManifest_Digest m = Inr d" "ContentManifest_Digest n = Inr d"
    "\<forall>i\<in>set (cm_Items m) \<union> set (cm_Items n). go_item i"
  shows "m = n \<or> (digest_input m \<noteq> digest_input n \<and> sha256_Sum256 (digest_input m) = sha256_Sum256 (digest_input n))"
proof -
  have valid: "ContentManifest_Validate m = None" "ContentManifest_Validate n = None"
    and d: "digestUnchecked m = digestUnchecked n"
    using assms by (auto simp: ContentManifest_Digest_def split: option.splits)
  from d have sha: "sha256_Sum256 (digest_input m) = sha256_Sum256 (digest_input n)"
    by (simp add: digestUnchecked_def hex_encode_inj)
  have "m = n" if "digest_input m = digest_input n"
  proof -
    have "cm_Items m = cm_Items n"
      using that valid assms(3) by (intro digest_items_inj) (auto simp: digest_input_def ContentManifest_Validate_None)
    then show ?thesis by simp
  qed
  with sha show ?thesis by blast
qed

section \<open>A concrete request\<close>

definition sample_item :: "Classification \<Rightarrow> ContentItem" where
  "sample_item c =
     \<lparr>ci_SHA256 = sha256Hex ''hello'', ci_MediaType = ''text/plain'', ci_SizeBytes = 5, ci_Classification = c\<rparr>"

definition sample_manifest :: "Classification \<Rightarrow> ContentManifest" where
  "sample_manifest c = \<lparr>cm_Items = [sample_item c]\<rparr>"

definition sample_target :: ExecutionTarget where
  "sample_target =
     \<lparr>et_Sandbox = \<lparr>sc_Established = False, sc_Backend = []\<rparr>, et_Kind = ExecutionTargetModel,
      et_Zone = ZonePersonal, et_Model = Some \<lparr>mr_Provider = ''acme'', mr_Model = ''m1''\<rparr>, et_ToolName = []\<rparr>"

definition sample_execution :: "Classification \<Rightarrow> ExecutionPolicyRequest" where
  "sample_execution c =
     \<lparr>ep_WorkloadID = sample_id, ep_StepID = sample_id, ep_AttemptID = sample_id,
      ep_StepKind = StepModelTurn, ep_Target = sample_target, ep_Manifest = sample_manifest c,
      ep_Autonomous = False\<rparr>"

definition sample_egress :: "Zone \<Rightarrow> Classification \<Rightarrow> DataEgressPolicyRequest" where
  "sample_egress z c =
     \<lparr>eg_WorkloadID = sample_id, eg_StepID = sample_id, eg_Source = ZonePersonal, eg_Destination = z,
      eg_Manifest = sample_manifest c, eg_Purpose = ''model turn'', eg_DerivedFromSHA = []\<rparr>"

definition sample_verdict :: "ContentManifest \<Rightarrow> PolicyScope \<Rightarrow> PolicyVerdict" where
  "sample_verdict m s =
     \<lparr>vd_Policy = ''p'', vd_PolicyVersion = ''1'', vd_RuleID = ''r'', vd_Action = PolicyAllow,
      vd_Reason = ''ok'', vd_ManifestSHA256 = digestUnchecked m, vd_Scope = s, vd_Transformation = []\<rparr>"

lemma sample_manifest_valid [eval_simps]:
  "Classification_Validate c = None \<Longrightarrow> ContentManifest_Validate (sample_manifest c) = None"
  by (simp add: ContentManifest_Validate_None sample_manifest_def sample_item_def ContentItem_Validate_def
      sha256Hex_def text_simps)

lemma sample_execution_valid [eval_simps]:
  "Classification_Validate c = None \<Longrightarrow> ExecutionPolicyRequest_Validate (sample_execution c) = None"
  by (simp add: ExecutionPolicyRequest_Validate_def sample_execution_def sample_target_def
      StepKind_Validate_def ExecutionTarget_Validate_def Zone_Validate_def ModelRef_Validate_None
      sample_manifest_valid text_simps)

lemma sample_egress_valid [eval_simps]:
  "Classification_Validate c = None \<Longrightarrow> Zone_Validate z = None \<Longrightarrow>
   DataEgressPolicyRequest_Validate (sample_egress z c) = None"
  by (simp add: DataEgressPolicyRequest_Validate_def sample_egress_def Zone_Validate_def
      sample_manifest_valid text_simps)

lemma sample_verdict_valid [eval_simps]:
  "PolicyScope_Validate s = None \<Longrightarrow> PolicyVerdict_Validate (sample_verdict m s) = None"
  by (simp add: PolicyVerdict_Validate_def sample_verdict_def PolicyAction_Validate_def text_simps)

lemma class_valid [eval_simps, simp]:
  "Classification_Validate ClassPublic = None" "Classification_Validate ClassInternal = None"
  "Classification_Validate ClassConfidential = None" "Classification_Validate ClassSecret = None"
  by (simp_all add: Classification_Validate_def)

lemma EffectiveClassification_sample [eval_simps]:
  "c \<in> known_classes \<Longrightarrow> EffectiveClassification (sample_manifest c) = Inr c"
  by (auto simp: EffectiveClassification_def sample_manifest_valid known_classes_def)
     (auto simp: sample_manifest_def sample_item_def raise_class_def ContentItem_EffectiveClassification_def
       classificationRank_def)

theorem EvaluateExecutionPolicy_fail_closed_witness:
  "EvaluateExecutionPolicy background
     (Some (\<lambda>_ r. (sample_verdict (ep_Manifest r) (PolicyScopeForExecution r), None)))
     (sample_execution ClassPublic) =
   (sample_verdict (sample_manifest ClassPublic) (PolicyScopeForExecution (sample_execution ClassPublic)), None) \<and>
   ExecutionPolicyRequest_Validate (sample_execution ClassPublic) = None"
proof -
  let ?r = "sample_execution ClassPublic"
  let ?v = "sample_verdict (ep_Manifest ?r) (PolicyScopeForExecution ?r)"
  have m: "ep_Manifest ?r = sample_manifest ClassPublic" by (simp add: sample_execution_def)
  have eval: "EvaluateExecutionPolicy background
       (Some (\<lambda>_ r. (sample_verdict (ep_Manifest r) (PolicyScopeForExecution r), None))) ?r = (?v, None)"
    by (simp add: EvaluateExecutionPolicy_def Let_def sample_execution_valid sample_verdict_valid
        scope_of_valid_request m EffectiveClassification_sample known_classes_def)
       (simp add: sample_verdict_def)
  have "Allows ?v" by (simp add: sample_verdict_def Allows_def)
  with eval EvaluateExecutionPolicy_fail_closed [OF eval] m show ?thesis by simp
qed

theorem EvaluateDataEgressPolicy_fail_closed_witness:
  "snd (EvaluateDataEgressPolicy background
     (Some (\<lambda>_ r. (sample_verdict (eg_Manifest r) (PolicyScopeForDataEgress r), None)))
     (sample_egress ZoneSelfCloud ClassPublic)) = None \<and>
   DataEgressPolicyRequest_Validate (sample_egress ZoneSelfCloud ClassPublic) = None"
proof -
  let ?r = "sample_egress ZoneSelfCloud ClassPublic"
  let ?v = "sample_verdict (eg_Manifest ?r) (PolicyScopeForDataEgress ?r)"
  have z: "Zone_Validate ZoneSelfCloud = None" by (simp add: Zone_Validate_def)
  have eval: "EvaluateDataEgressPolicy background
       (Some (\<lambda>_ r. (sample_verdict (eg_Manifest r) (PolicyScopeForDataEgress r), None))) ?r = (?v, None)"
    using z by (simp add: EvaluateDataEgressPolicy_def Let_def sample_egress_valid sample_verdict_valid
        scope_of_valid_request) (simp add: sample_verdict_def)
  have "Allows ?v" by (simp add: sample_verdict_def Allows_def)
  with eval EvaluateDataEgressPolicy_fail_closed [OF eval] show ?thesis by simp
qed

theorem EffectiveClassification_max_witness:
  "EffectiveClassification (sample_manifest ClassSecret) = Inr ClassSecret \<and>
   classificationRank ClassSecret =
     Max (classificationRank ` ContentItem_EffectiveClassification ` set (cm_Items (sample_manifest ClassSecret)))"
  using EffectiveClassification_max [of "sample_manifest ClassSecret"]
  by (simp add: sample_manifest_valid EffectiveClassification_sample known_classes_def)

theorem manifest_digest_binding_witness:
  "\<exists>m d. ContentManifest_Digest m = Inr d \<and> ContentManifest_Digest (sample_manifest ClassPublic) = Inr d \<and>
     m = sample_manifest ClassPublic"
proof -
  have d: "ContentManifest_Digest (sample_manifest ClassPublic) = Inr (digestUnchecked (sample_manifest ClassPublic))"
    by (simp add: ContentManifest_Digest_def sample_manifest_valid)
  have "\<forall>i\<in>set (cm_Items (sample_manifest ClassPublic)) \<union> set (cm_Items (sample_manifest ClassPublic)). go_item i"
    by (simp add: sample_manifest_def sample_item_def go_item_def)
  from d manifest_digest_binding [OF d d this] show ?thesis by blast
qed

end
