(* ===== verification/Baseline.thy ===== *)
theory Baseline
  imports Policy
begin

text \<open>
  The baseline policy (src/policy/baseline/policy.go), the policy the program ships with, and
  its interpretation of the two policy interfaces.
\<close>

definition verdict :: "string \<Rightarrow> PolicyScope \<Rightarrow> PolicyAction \<Rightarrow> string \<Rightarrow> string \<Rightarrow> PolicyVerdict" where
  "verdict manifestDigest scope action ruleID reason =
     \<lparr>vd_Policy = ''fabricrunner.baseline'', vd_PolicyVersion = ''1'', vd_RuleID = ruleID,
      vd_Action = action, vd_Reason = reason, vd_ManifestSHA256 = manifestDigest, vd_Scope = scope,
      vd_Transformation = []\<rparr>"

definition EvaluateExecution :: "ExecutionPolicyRequest policy" where
  "EvaluateExecution ctx request =
     (case ctx 0 of
        Some err \<Rightarrow> (zero_verdict, Some err)
      | None \<Rightarrow>
     (case ExecutionPolicyRequest_Validate request of
        Some err \<Rightarrow> (zero_verdict, Some err)
      | None \<Rightarrow>
     (case EffectiveClassification (ep_Manifest request) of
        Inl err \<Rightarrow> (zero_verdict, Some err)
      | Inr classification \<Rightarrow>
     (case ContentManifest_Digest (ep_Manifest request) of
        Inl err \<Rightarrow> (zero_verdict, Some err)
      | Inr manifestDigest \<Rightarrow>
          let scope = PolicyScopeForExecution request in
          if classification = ClassSecret
          then (verdict manifestDigest scope PolicyDeny ''execution.secret.denied''
                  ''baseline policy does not grant execution access to secret content'', None)
          else case et_Kind (ep_Target request) of
             ExecutionTargetModel \<Rightarrow>
               (verdict manifestDigest scope PolicyAllow ''execution.model.eligible''
                  ''model execution is eligible after content classification checks'', None)
           | ExecutionTargetTool \<Rightarrow>
               (verdict manifestDigest scope PolicyRequireApproval ''execution.tool.approval''
                  ''baseline policy requires approval for tool execution'', None)
           | ExecutionTargetOther _ \<Rightarrow> (zero_verdict, Some (errorf ''unsupported target kind''))))))"

definition EvaluateDataEgress :: "DataEgressPolicyRequest policy" where
  "EvaluateDataEgress ctx request =
     (case ctx 0 of
        Some err \<Rightarrow> (zero_verdict, Some err)
      | None \<Rightarrow>
     (case DataEgressPolicyRequest_Validate request of
        Some err \<Rightarrow> (zero_verdict, Some err)
      | None \<Rightarrow>
     (case ContentManifest_Digest (eg_Manifest request) of
        Inl err \<Rightarrow> (zero_verdict, Some err)
      | Inr manifestDigest \<Rightarrow>
          let scope = PolicyScopeForDataEgress request in
          if eg_Source request = eg_Destination request
          then (verdict manifestDigest scope PolicyAllow ''egress.same-zone''
                  ''content remains within the same trust zone'', None)
          else case EffectiveClassification (eg_Manifest request) of
             Inl err \<Rightarrow> (zero_verdict, Some err)
           | Inr classification \<Rightarrow>
               (case classification of
                  ClassPublic \<Rightarrow>
                    (verdict manifestDigest scope PolicyAllow ''egress.public''
                       ''public content may cross trust zones'', None)
                | ClassInternal \<Rightarrow>
                    (verdict manifestDigest scope PolicyRequireApproval ''egress.approval''
                       ''non-public content requires approval before crossing trust zones'', None)
                | ClassConfidential \<Rightarrow>
                    (verdict manifestDigest scope PolicyRequireApproval ''egress.approval''
                       ''non-public content requires approval before crossing trust zones'', None)
                | ClassSecret \<Rightarrow>
                    (verdict manifestDigest scope PolicyDeny ''egress.secret.denied''
                       ''secret content cannot cross trust zones under baseline policy'', None)
                | ClassOther _ \<Rightarrow> (zero_verdict, Some (errorf ''unsupported classification''))))))"

lemma verdict_fields [simp]:
  "vd_Action (verdict d s a r w) = a" "vd_ManifestSHA256 (verdict d s a r w) = d" "vd_Scope (verdict d s a r w) = s"
  "Allows (verdict d s a r w) \<longleftrightarrow> a = PolicyAllow"
  "RequiresApproval (verdict d s a r w) \<longleftrightarrow> a = PolicyRequireApproval"
  by (simp_all add: verdict_def Allows_def RequiresApproval_def)

lemma verdict_eq [simp]:
  "verdict d s a r w = verdict d' s' a' r' w' \<longleftrightarrow> d = d' \<and> s = s' \<and> a = a' \<and> r = r' \<and> w = w'"
  by (auto simp: verdict_def)

lemma verdict_valid:
  assumes "PolicyScope_Validate s = None" "a \<in> {PolicyAllow, PolicyDeny, PolicyRequireApproval}"
    "\<not> blank r" "\<not> blank w" "sha256_text d"
  shows "PolicyVerdict_Validate (verdict d s a r w) = None"
  using assms by (auto simp: PolicyVerdict_Validate_def verdict_def PolicyAction_Validate_def
      validateSHA256_None text_simps)

lemma sha256_text_digest [simp]: "sha256_text (digestUnchecked m)"
  using validateSHA256_digest [of "[]" m] by (simp add: validateSHA256_None del: validateSHA256_digest)

lemma Digest_of_valid: "ContentManifest_Validate m = None \<Longrightarrow> ContentManifest_Digest m = Inr (digestUnchecked m)"
  by (simp add: ContentManifest_Digest_def)

lemma valid_target_kind:
  "ExecutionPolicyRequest_Validate r = None \<Longrightarrow>
     et_Kind (ep_Target r) = ExecutionTargetModel \<or> et_Kind (ep_Target r) = ExecutionTargetTool"
  by (auto simp: ExecutionPolicyRequest_Validate_def)

lemma EvaluateExecution_live:
  assumes "ctx 0 = None" "ExecutionPolicyRequest_Validate r = None" "EffectiveClassification (ep_Manifest r) = Inr c"
  shows "\<exists>a rule why. EvaluateExecution ctx r =
      (verdict (digestUnchecked (ep_Manifest r)) (PolicyScopeForExecution r) a rule why, None) \<and>
    \<not> blank rule \<and> \<not> blank why \<and>
    a = (if c = ClassSecret then PolicyDeny
         else if et_Kind (ep_Target r) = ExecutionTargetModel then PolicyAllow else PolicyRequireApproval)"
  using assms valid_target_kind [OF assms(2)] Digest_of_valid [OF manifest_of_valid_request(1) [OF assms(2)]]
  by (auto simp: EvaluateExecution_def Let_def text_simps)

lemma EvaluateDataEgress_live:
  assumes "ctx 0 = None" "DataEgressPolicyRequest_Validate r = None" "EffectiveClassification (eg_Manifest r) = Inr c"
    "c \<in> known_classes"
  shows "\<exists>a rule why. EvaluateDataEgress ctx r =
      (verdict (digestUnchecked (eg_Manifest r)) (PolicyScopeForDataEgress r) a rule why, None) \<and>
    \<not> blank rule \<and> \<not> blank why \<and>
    a = (if eg_Source r = eg_Destination r \<or> c = ClassPublic then PolicyAllow
         else if c = ClassSecret then PolicyDeny else PolicyRequireApproval)"
  using assms Digest_of_valid [OF manifest_of_valid_request(2) [OF assms(2)]]
  by (auto simp: EvaluateDataEgress_def Let_def known_classes_def text_simps)

interpretation baseline_execution: execution_policy EvaluateExecution
proof
  fix ctx r assume live: "ctx_live ctx" and valid: "ExecutionPolicyRequest_Validate r = None"
  obtain c where "EffectiveClassification (ep_Manifest r) = Inr c"
    using EffectiveClassification_cases [OF manifest_of_valid_request(1) [OF valid]] .
  with EvaluateExecution_live [of ctx r c] live valid
  show "\<exists>v. EvaluateExecution ctx r = (v, None) \<and> PolicyVerdict_Validate v = None \<and>
    vd_ManifestSHA256 v = digestUnchecked (ep_Manifest r) \<and> vd_Scope v = PolicyScopeForExecution r"
    by (auto intro!: verdict_valid scope_of_valid_request)
next
  fix ctx r v e
  assume "EvaluateExecution ctx r = (v, e)" "EffectiveClassification (ep_Manifest r) = Inr ClassSecret"
  then show "\<not> Allows v \<and> \<not> RequiresApproval v"
    by (auto simp: EvaluateExecution_def Let_def split: option.splits sum.splits)
qed

interpretation baseline_egress: egress_policy EvaluateDataEgress
proof
  fix ctx r assume live: "ctx_live ctx" and valid: "DataEgressPolicyRequest_Validate r = None"
  obtain c where "EffectiveClassification (eg_Manifest r) = Inr c" "c \<in> known_classes"
    using EffectiveClassification_cases [OF manifest_of_valid_request(2) [OF valid]] by metis
  with EvaluateDataEgress_live [of ctx r c] live valid
  show "\<exists>v. EvaluateDataEgress ctx r = (v, None) \<and> PolicyVerdict_Validate v = None \<and>
    vd_ManifestSHA256 v = digestUnchecked (eg_Manifest r) \<and> vd_Scope v = PolicyScopeForDataEgress r"
    by (auto intro!: verdict_valid scope_of_valid_request)
qed

section \<open>Properties\<close>

text \<open>
  Behind the guard, the baseline policy decides every valid execution request: secret content
  is denied for models and tools alike, other content may go to a model, and a tool call needs
  approval. No valid request ends in an error.
\<close>

theorem baseline_execution_decision:
  assumes "ctx_live ctx" "ExecutionPolicyRequest_Validate r = None"
  shows "\<exists>v. EvaluateExecutionPolicy ctx (Some EvaluateExecution) r = (v, None) \<and>
    vd_Scope v = PolicyScopeForExecution r \<and>
    vd_Action v =
      (if \<exists>i\<in>set (cm_Items (ep_Manifest r)). ci_Classification i = ClassSecret then PolicyDeny
       else if et_Kind (ep_Target r) = ExecutionTargetModel then PolicyAllow else PolicyRequireApproval)"
proof -
  note m = manifest_of_valid_request(1) [OF assms(2)]
  obtain c where c: "EffectiveClassification (ep_Manifest r) = Inr c"
    using EffectiveClassification_cases [OF m] .
  show ?thesis
  proof (cases "et_Kind (ep_Target r) = ExecutionTargetModel \<and> c = ClassSecret")
    case True
    then show ?thesis using assms c secret_item_iff [OF m]
      by (simp add: EvaluateExecutionPolicy_def Let_def) (simp add: failClosedVerdict_def)
  next
    case False
    then have "EvaluateExecutionPolicy ctx (Some EvaluateExecution) r = EvaluateExecution (ctx_from 2 ctx) r"
      using baseline_execution.guard_transparent [OF assms] c by simp
    then show ?thesis using EvaluateExecution_live [of "ctx_from 2 ctx" r c] assms c secret_item_iff [OF m] by auto
  qed
qed

text \<open>
  Behind the guard, the baseline policy decides every valid egress request: content that stays
  in its zone and public content may move, secret content may not cross zones, everything else needs
  approval.
\<close>

theorem baseline_egress_decision:
  assumes "ctx_live ctx" "DataEgressPolicyRequest_Validate r = None"
  shows "\<exists>v c. EvaluateDataEgressPolicy ctx (Some EvaluateDataEgress) r = (v, None) \<and>
    EffectiveClassification (eg_Manifest r) = Inr c \<and> vd_Scope v = PolicyScopeForDataEgress r \<and>
    vd_Action v =
      (if eg_Source r = eg_Destination r \<or> c = ClassPublic then PolicyAllow
       else if c = ClassSecret then PolicyDeny else PolicyRequireApproval)"
proof -
  note m = manifest_of_valid_request(2) [OF assms(2)]
  obtain c where c: "EffectiveClassification (eg_Manifest r) = Inr c" "c \<in> known_classes"
    using EffectiveClassification_cases [OF m] by metis
  have "EvaluateDataEgressPolicy ctx (Some EvaluateDataEgress) r = EvaluateDataEgress (ctx_from 2 ctx) r"
    by (rule baseline_egress.guard_transparent [OF assms])
  then show ?thesis using EvaluateDataEgress_live [of "ctx_from 2 ctx" r c] assms c by auto
qed

theorem baseline_execution_decision_witness:
  "\<exists>v. EvaluateExecutionPolicy background (Some EvaluateExecution) (sample_execution ClassInternal) = (v, None) \<and>
     Allows v"
  using baseline_execution_decision [of background "sample_execution ClassInternal"]
  by (auto simp: sample_execution_valid Allows_def)
     (auto simp: sample_execution_def sample_manifest_def sample_item_def sample_target_def)

theorem baseline_egress_decision_witness:
  "\<exists>v. EvaluateDataEgressPolicy background (Some EvaluateDataEgress) (sample_egress ZoneManagedCloud ClassInternal) =
     (v, None) \<and> RequiresApproval v"
proof -
  let ?r = "sample_egress ZoneManagedCloud ClassInternal"
  have "DataEgressPolicyRequest_Validate ?r = None" by (simp add: sample_egress_valid Zone_Validate_def)
  moreover have "EffectiveClassification (eg_Manifest ?r) = Inr ClassInternal" "eg_Source ?r \<noteq> eg_Destination ?r"
    by (simp_all add: sample_egress_def EffectiveClassification_sample known_classes_def)
  ultimately show ?thesis using baseline_egress_decision [of background ?r] by (auto simp: RequiresApproval_def)
qed

end
