(* ===== verification/Streams.thy ===== *)
theory Streams
  imports Model
begin

text \<open>
  Providers and their streams: the catalogue check \<open>DiscoverModels\<close>, the stream state machine
  \<open>ModelStreamValidator\<close> (src/provider.go) and \<open>DrainStream\<close> (src/model.go).

  A provider and a stream are code of the application; they enter as records of the answers
  they give. \<open>None\<close> as a result of draining stands for a panic of the stream, which is not recovered.
  A context that has been asked for its error gives the same error when asked again,
  so \<open>if ctx.Err() != nil { return ctx.Err() }\<close> is one sample. A stream's \<open>i\<close>-th \<open>Recv\<close> is \<open>sm_Recv i\<close>, with end of file as an error that is
  \<open>io.EOF\<close>. Draining needs no fuel: an accepted event raises the last sequence number by one
  and an event with sequence number zero is invalid, so at most \<open>2 ^ 64 - 1\<close> events are read.
\<close>

section \<open>Providers\<close>

record ModelStream =
  sm_Recv :: "nat \<Rightarrow> ModelEvent answer"
  sm_Close :: "error option"

record Provider =
  pv_Name :: string
  pv_Models :: "error + ModelDescriptor list"
  pv_Stream :: "ModelRequest \<Rightarrow> ModelStream option answer"

definition catalog_error :: "string \<Rightarrow> error" where
  "catalog_error msg = Error [ErrProviderCatalog] msg"

fun discover_loop :: "string \<Rightarrow> string list \<Rightarrow> ModelDescriptor list \<Rightarrow> error + ModelDescriptor list" where
  "discover_loop name seen [] = Inr []"
| "discover_loop name seen (d # ds) =
     (case ModelDescriptor_Validate d of
        Some err \<Rightarrow> Inl (wrap_sentinel ErrProviderCatalog (wrapf ''model'' err))
      | None \<Rightarrow>
          if mr_Provider (md_Ref d) \<noteq> name then Inl (catalog_error ''model belongs to another provider'')
          else if mr_Model (md_Ref d) \<in> set seen then Inl (catalog_error ''duplicate model'')
          else (case discover_loop name (mr_Model (md_Ref d) # seen) ds of
                  Inl err \<Rightarrow> Inl err
                | Inr rest \<Rightarrow> Inr (ModelDescriptor_Clone d # rest)))"

definition DiscoverModels :: "ctx \<Rightarrow> Provider option \<Rightarrow> error + ModelDescriptor list" where
  "DiscoverModels ctx provider =
     (case ctx 0 of
        Some err \<Rightarrow> Inl err
      | None \<Rightarrow>
          (case provider of
             None \<Rightarrow> Inl (catalog_error ''provider is nil'')
           | Some p \<Rightarrow>
               if blank (pv_Name p) \<or> pv_Name p \<noteq> TrimSpace (pv_Name p)
               then Inl (catalog_error ''provider name is empty or has surrounding whitespace'')
               else
                 (case pv_Models p of
                    Inl err \<Rightarrow>
                      (case ctx 1 of Some ctxErr \<Rightarrow> Inl ctxErr | None \<Rightarrow> Inl err)
                  | Inr ds \<Rightarrow>
                      (case ctx 1 of
                         Some err \<Rightarrow> Inl err
                       | None \<Rightarrow> discover_loop (pv_Name p) [] ds))))"

section \<open>The stream state machine\<close>

record ModelStreamValidator =
  sv_lastSequence :: "64 word"
  sv_started :: bool
  sv_terminal :: bool

definition zero_validator :: ModelStreamValidator where
  "zero_validator = \<lparr>sv_lastSequence = 0, sv_started = False, sv_terminal = False\<rparr>"

definition protocol_error :: "string \<Rightarrow> error" where
  "protocol_error msg = Error [ErrModelStreamProtocol] msg"

definition terminal_event :: "ModelEvent \<Rightarrow> bool" where
  "terminal_event e \<longleftrightarrow> mv_Type e = ModelEventStop \<or> mv_Type e = ModelEventError"

text \<open>
  The start flag is set before the sequence number is checked, so a first event with a wrong
  number is refused but leaves the validator started.
\<close>

definition Accept :: "ModelStreamValidator \<Rightarrow> ModelEvent \<Rightarrow> ModelStreamValidator \<times> error option" where
  "Accept v e =
     (if sv_terminal v then (v, Some (protocol_error ''event followed terminal event''))
      else case ModelEvent_Validate e of
        Some err \<Rightarrow> (v, Some (wrap_sentinel ErrModelStreamProtocol err))
      | None \<Rightarrow>
          if \<not> sv_started v \<and> mv_Type e \<noteq> ModelEventStart
          then (v, Some (protocol_error ''first event is not a start event''))
          else if sv_started v \<and> mv_Type e = ModelEventStart
          then (v, Some (protocol_error ''repeated start event''))
          else
            let v = v\<lparr>sv_started := True\<rparr> in
            if mv_Sequence e \<noteq> sv_lastSequence v + 1
            then (v, Some (protocol_error ''sequence out of order''))
            else (v\<lparr>sv_lastSequence := mv_Sequence e, sv_terminal := terminal_event e\<rparr>, None))"

definition Complete :: "ModelStreamValidator \<Rightarrow> error option" where
  "Complete v =
     first_error
       [if \<not> sv_started v then Some (protocol_error ''stream ended before start'') else None,
        if \<not> sv_terminal v then Some (protocol_error ''stream ended without a terminal event'') else None]"

text \<open>Both methods have a pointer receiver; a nil one is an error.\<close>

definition ModelStreamValidator_Accept ::
  "ModelStreamValidator option \<Rightarrow> ModelEvent \<Rightarrow> ModelStreamValidator option \<times> error option" where
  "ModelStreamValidator_Accept p e =
     (case p of
        None \<Rightarrow> (None, Some (protocol_error ''validator is nil''))
      | Some v \<Rightarrow> map_prod Some id (Accept v e))"

definition ModelStreamValidator_Complete :: "ModelStreamValidator option \<Rightarrow> error option" where
  "ModelStreamValidator_Complete p =
     (case p of None \<Rightarrow> Some (protocol_error ''validator is nil'') | Some v \<Rightarrow> Complete v)"

lemma ModelEvent_Validate_sequence: "ModelEvent_Validate e = None \<Longrightarrow> mv_Sequence e \<noteq> 0"
  by (auto simp: ModelEvent_Validate_def)

lemma Accept_None:
  "Accept v e = (v', None) \<longleftrightarrow>
     \<not> sv_terminal v \<and> ModelEvent_Validate e = None \<and>
     (mv_Type e = ModelEventStart \<longleftrightarrow> \<not> sv_started v) \<and>
     mv_Sequence e = sv_lastSequence v + 1 \<and>
     v' = \<lparr>sv_lastSequence = mv_Sequence e, sv_started = True, sv_terminal = terminal_event e\<rparr>"
  by (cases v) (auto simp: Accept_def Let_def split: option.splits)

lemma Accept_progress:
  assumes "Accept v e = (v', None)"
  shows "unat (sv_lastSequence v') = Suc (unat (sv_lastSequence v))"
proof -
  have "sv_lastSequence v + 1 \<noteq> 0" and "sv_lastSequence v' = sv_lastSequence v + 1"
    using assms ModelEvent_Validate_sequence [of e] by (auto simp: Accept_None)
  then show ?thesis by (simp add: unatSuc add.commute)
qed

lemma Accept_measure:
  assumes "Accept v e = (v', None)"
  shows "2 ^ 64 - unat (sv_lastSequence v') < 2 ^ 64 - unat (sv_lastSequence v)"
proof -
  have "unat (sv_lastSequence v') < 2 ^ 64" using unsigned_less [of "sv_lastSequence v'"] by simp
  with Accept_progress [OF assms] show ?thesis by simp
qed

lemma Complete_None: "Complete v = None \<longleftrightarrow> sv_started v \<and> sv_terminal v"
  by (simp add: Complete_def)

section \<open>Draining\<close>

function drain :: "(nat \<Rightarrow> ModelEvent answer) \<Rightarrow> ctx \<Rightarrow> nat \<Rightarrow> ModelStreamValidator \<Rightarrow> ModelEvent list
    \<Rightarrow> (ModelEvent list \<times> error option) option" where
  "drain recv ctx i v events =
     (case recv i of
        Panics \<Rightarrow> None
      | Fails err \<Rightarrow>
          if errors_Is err ErrEOF then Some (events, Complete v)
          else Some (events, Some (case ctx 0 of Some ctxErr \<Rightarrow> ctxErr | None \<Rightarrow> err))
      | Answers e \<Rightarrow>
          (case Accept v e of
             (_, Some err) \<Rightarrow> Some (events, Some err)
           | (v', None) \<Rightarrow> drain recv ctx (Suc i) v' (events @ [ModelEvent_Clone e])))"
  by pat_completeness auto
termination
  by (relation "measure (\<lambda>(_, _, _, v, _). 2 ^ 64 - unat (sv_lastSequence v))") (auto dest: Accept_measure [OF sym])

declare drain.simps [simp del]

definition DrainStream :: "ctx \<Rightarrow> ModelStream option \<Rightarrow> (ModelEvent list \<times> error option) option" where
  "DrainStream ctx stream =
     (case stream of
        None \<Rightarrow> Some ([], Some (errorf ''model stream is nil''))
      | Some s \<Rightarrow>
          map_option (\<lambda>(events, err). (events, errors_Join err (sm_Close s)))
            (drain (sm_Recv s) ctx 0 zero_validator []))"

section \<open>The language of the state machine\<close>

text \<open>
  A canonical stream: valid events numbered from one, a start event first and only there, a stop
  or error event last and only there.
\<close>

definition canonical :: "ModelEvent list \<Rightarrow> bool" where
  "canonical es \<longleftrightarrow>
     es \<noteq> [] \<and> (\<forall>e\<in>set es. ModelEvent_Validate e = None) \<and>
     map mv_Sequence es = map of_nat [1..<Suc (length es)] \<and>
     mv_Type (hd es) = ModelEventStart \<and> (\<forall>e\<in>set (tl es). mv_Type e \<noteq> ModelEventStart) \<and>
     terminal_event (last es) \<and> (\<forall>e\<in>set (butlast es). \<not> terminal_event e)"

fun accept_all :: "ModelStreamValidator \<Rightarrow> ModelEvent list \<Rightarrow> error + ModelStreamValidator" where
  "accept_all v [] = Inr v"
| "accept_all v (e # es) =
     (case Accept v e of (_, Some err) \<Rightarrow> Inl err | (v', None) \<Rightarrow> accept_all v' es)"

lemma accept_all_Cons_Inr:
  "accept_all v (e # es) = Inr w \<longleftrightarrow> (\<exists>v'. Accept v e = (v', None) \<and> accept_all v' es = Inr w)"
  by (auto split: prod.splits option.splits)

lemma accept_all_terminal: "sv_terminal v \<Longrightarrow> accept_all v es = Inr w \<longleftrightarrow> es = [] \<and> w = v"
  by (cases es) (auto simp: accept_all_Cons_Inr Accept_None simp del: accept_all.simps(2))

lemma accept_all_started:
  assumes "sv_started v" "\<not> sv_terminal v"
  shows "(\<exists>w. accept_all v es = Inr w \<and> sv_terminal w) \<longleftrightarrow>
     es \<noteq> [] \<and> (\<forall>e\<in>set es. ModelEvent_Validate e = None \<and> mv_Type e \<noteq> ModelEventStart) \<and>
     map mv_Sequence es = map (\<lambda>k. sv_lastSequence v + of_nat k) [1..<Suc (length es)] \<and>
     terminal_event (last es) \<and> (\<forall>e\<in>set (butlast es). \<not> terminal_event e)"
  using assms
proof (induction es arbitrary: v)
  case (Cons e es)
  let ?v = "\<lparr>sv_lastSequence = mv_Sequence e, sv_started = True, sv_terminal = terminal_event e\<rparr>"
  have numbers: "map (\<lambda>k. sv_lastSequence v + of_nat k) [1..<Suc (length (e # es))] =
     (sv_lastSequence v + 1) # map (\<lambda>k. sv_lastSequence v + 1 + of_nat k) [1..<Suc (length es)]"
    by (simp add: upt_conv_Cons map_Suc_upt [symmetric] comp_def algebra_simps del: upt_Suc map_Suc_upt)
  show ?case
  proof (cases "terminal_event e")
    case True
    then show ?thesis using Cons.prems
      by (cases es)
         (auto simp: accept_all_Cons_Inr Accept_None accept_all_terminal simp del: accept_all.simps(2))
  next
    case False
    note IH = Cons.IH [of ?v]
    have "(\<exists>w. accept_all v (e # es) = Inr w \<and> sv_terminal w) \<longleftrightarrow>
       ModelEvent_Validate e = None \<and> mv_Type e \<noteq> ModelEventStart \<and>
       mv_Sequence e = sv_lastSequence v + 1 \<and> (\<exists>w. accept_all ?v es = Inr w \<and> sv_terminal w)"
      using Cons.prems by (auto simp: accept_all_Cons_Inr Accept_None simp del: accept_all.simps)
    also have "\<dots> \<longleftrightarrow> ModelEvent_Validate e = None \<and> mv_Type e \<noteq> ModelEventStart \<and>
       mv_Sequence e = sv_lastSequence v + 1 \<and> es \<noteq> [] \<and>
       (\<forall>e\<in>set es. ModelEvent_Validate e = None \<and> mv_Type e \<noteq> ModelEventStart) \<and>
       map mv_Sequence es = map (\<lambda>k. sv_lastSequence v + 1 + of_nat k) [1..<Suc (length es)] \<and>
       terminal_event (last es) \<and> (\<forall>e\<in>set (butlast es). \<not> terminal_event e)"
      using IH False by (auto simp del: upt_Suc)
    finally show ?thesis using False unfolding numbers by (auto simp del: upt_Suc)
  qed
qed simp

lemma accept_all_language:
  "(\<exists>w. accept_all zero_validator es = Inr w \<and> Complete w = None) \<longleftrightarrow> canonical es"
proof (cases es)
  case Nil
  then show ?thesis by (simp add: canonical_def Complete_None zero_validator_def)
next
  case (Cons e rest)
  let ?v = "\<lparr>sv_lastSequence = mv_Sequence e, sv_started = True, sv_terminal = terminal_event e\<rparr>"
  have started: "accept_all v xs = Inr w \<Longrightarrow> sv_started v \<Longrightarrow> sv_started w" for v w xs
    by (induction v xs rule: accept_all.induct) (auto simp: Accept_None split: prod.splits option.splits)
  have numbers: "map of_nat [1..<Suc (length es)] =
     (1 :: 64 word) # map (\<lambda>k. 1 + of_nat k) [1..<Suc (length rest)]"
    by (simp add: Cons upt_conv_Cons map_Suc_upt [symmetric] comp_def del: upt_Suc map_Suc_upt)
  have "(\<exists>w. accept_all zero_validator es = Inr w \<and> Complete w = None) \<longleftrightarrow>
     ModelEvent_Validate e = None \<and> mv_Type e = ModelEventStart \<and> mv_Sequence e = 1 \<and>
     (\<exists>w. accept_all ?v rest = Inr w \<and> sv_terminal w)"
    using started [of ?v]
    by (auto simp: Cons accept_all_Cons_Inr Accept_None Complete_None zero_validator_def
        simp del: accept_all.simps)
  also have "\<dots> \<longleftrightarrow> ModelEvent_Validate e = None \<and> mv_Type e = ModelEventStart \<and> mv_Sequence e = 1 \<and>
     rest \<noteq> [] \<and> (\<forall>e\<in>set rest. ModelEvent_Validate e = None \<and> mv_Type e \<noteq> ModelEventStart) \<and>
     map mv_Sequence rest = map (\<lambda>k. 1 + of_nat k) [1..<Suc (length rest)] \<and>
     terminal_event (last rest) \<and> (\<forall>e\<in>set (butlast rest). \<not> terminal_event e)"
    using accept_all_started [of ?v rest] by (auto simp: terminal_event_def simp del: upt_Suc)
  finally show ?thesis
    unfolding canonical_def numbers by (auto simp: Cons terminal_event_def simp del: upt_Suc)
qed

lemma drain_sound:
  "drain recv ctx i v acc = Some (es, None) \<Longrightarrow>
     \<exists>new w err. es = acc @ new \<and> map recv [i..<i + length new] = map Answers new \<and>
       accept_all v new = Inr w \<and> Complete w = None \<and>
       recv (i + length new) = Fails err \<and> errors_Is err ErrEOF"
proof (induction recv ctx i v acc rule: drain.induct)
  case (1 recv ctx i v acc)
  show ?case
  proof (cases "recv i")
    case (Fails err)
    then have "es = acc \<and> Complete v = None \<and> errors_Is err ErrEOF"
      using "1.prems" by (simp add: drain.simps [of recv ctx i] split: if_splits option.splits)
    then show ?thesis using Fails by (intro exI [of _ "[]"]) simp
  next
    case (Answers e)
    then obtain v' where v': "Accept v e = (v', None)"
      and "drain recv ctx (Suc i) v' (acc @ [ModelEvent_Clone e]) = Some (es, None)"
      using "1.prems" by (auto simp: drain.simps [of recv ctx i] split: prod.splits option.splits)
    then obtain new w err where new: "es = acc @ e # new" "map recv [Suc i..<Suc i + length new] = map Answers new"
      "accept_all v' new = Inr w" "Complete w = None" "recv (Suc i + length new) = Fails err" "errors_Is err ErrEOF"
      using "1.IH" [OF Answers v' [symmetric]] by auto
    have "map recv [i..<i + length (e # new)] = map Answers (e # new)"
      using new Answers by (simp add: upt_conv_Cons del: upt_Suc)
    moreover have "accept_all v (e # new) = Inr w" using v' new by simp
    ultimately show ?thesis using new by (intro exI [of _ "e # new"] exI [of _ w] exI [of _ err]) simp
  next
    case Panics
    then show ?thesis using "1.prems" by (simp add: drain.simps [of recv ctx i])
  qed
qed

lemma drain_complete:
  assumes "map recv [i..<i + length new] = map Answers new" "accept_all v new = Inr w" "Complete w = None"
    "recv (i + length new) = Fails err" "errors_Is err ErrEOF"
  shows "drain recv ctx i v acc = Some (acc @ new, None)"
  using assms
proof (induction new arbitrary: i v acc)
  case Nil
  then show ?case by (simp add: drain.simps)
next
  case (Cons e new)
  from Cons.prems(2) obtain v' where v': "Accept v e = (v', None)" "accept_all v' new = Inr w"
    unfolding accept_all_Cons_Inr by blast
  have "recv i = Answers e" "map recv [Suc i..<Suc i + length new] = map Answers new"
    using Cons.prems(1) by (simp_all add: upt_conv_Cons del: upt_Suc)
  then show ?case using Cons.IH [of "Suc i" v' "acc @ [e]"] Cons.prems v' by (simp add: drain.simps [of recv ctx i])
qed

section \<open>Properties\<close>

text \<open>
  Draining a stream returns without an error exactly when the stream's answers, up to an
  end of file, form a canonical stream and closing it succeeds; the result is then the stream's
  events in order. In particular the loop ends on every stream, and no event of a malformed
  stream is ever reported as a completed turn.
\<close>

theorem DrainStream_exact:
  "DrainStream ctx (Some s) = Some (es, None) \<longleftrightarrow>
     canonical es \<and> map (sm_Recv s) [0..<length es] = map Answers es \<and>
     (\<exists>err. sm_Recv s (length es) = Fails err \<and> errors_Is err ErrEOF) \<and> sm_Close s = None"
proof -
  have "DrainStream ctx (Some s) = Some (es, None) \<longleftrightarrow>
     drain (sm_Recv s) ctx 0 zero_validator [] = Some (es, None) \<and> sm_Close s = None"
    by (auto simp: DrainStream_def split: prod.splits)
  also have "drain (sm_Recv s) ctx 0 zero_validator [] = Some (es, None) \<longleftrightarrow>
     canonical es \<and> map (sm_Recv s) [0..<length es] = map Answers es \<and>
     (\<exists>err. sm_Recv s (length es) = Fails err \<and> errors_Is err ErrEOF)"
    using drain_sound [of "sm_Recv s" ctx 0 zero_validator "[]" es]
      drain_complete [of "sm_Recv s" 0 es zero_validator _ _ ctx "[]"]
      accept_all_language [of es]
    by fastforce
  finally show ?thesis by blast
qed

text \<open>
  The validator accepts every event of a sequence and then its completion exactly when the
  sequence is canonical: numbered from one without gaps, a start event first and only there, one
  terminal event last, every event valid. A nil validator accepts nothing.
\<close>

theorem stream_validator_language:
  "((\<exists>w. accept_all zero_validator es = Inr w \<and> ModelStreamValidator_Complete (Some w) = None)
      \<longleftrightarrow> canonical es) \<and>
   snd (ModelStreamValidator_Accept None e) \<noteq> None \<and> ModelStreamValidator_Complete None \<noteq> None"
  using accept_all_language [of es]
  by (simp add: ModelStreamValidator_Complete_def ModelStreamValidator_Accept_def)

lemma discover_loop_Inr:
  "discover_loop name seen ds = Inr r \<longleftrightarrow>
     r = ds \<and> (\<forall>d\<in>set ds. ModelDescriptor_Validate d = None \<and> mr_Provider (md_Ref d) = name) \<and>
     distinct (map (\<lambda>d. mr_Model (md_Ref d)) ds) \<and>
     (\<lambda>d. mr_Model (md_Ref d)) ` set ds \<inter> set seen = {}"
proof (induction ds arbitrary: seen r)
  case (Cons d ds)
  let ?rest = "discover_loop name (mr_Model (md_Ref d) # seen) ds"
  have step: "discover_loop name seen (d # ds) = Inr r \<longleftrightarrow>
     ModelDescriptor_Validate d = None \<and> mr_Provider (md_Ref d) = name \<and>
     mr_Model (md_Ref d) \<notin> set seen \<and> (\<exists>rest. ?rest = Inr rest \<and> r = d # rest)"
    by (auto split: option.splits sum.splits)
  show ?case unfolding step Cons.IH by auto
qed auto

text \<open>
  \<open>DiscoverModels\<close> returns a catalogue only under a live context and for a provider with a
  proper name, and the catalogue is the provider's own, every entry valid, owned by that
  provider, and no model listed twice.
\<close>

theorem DiscoverModels_catalog:
  assumes "DiscoverModels ctx provider = Inr ds"
  shows "\<exists>p. provider = Some p \<and> \<not> untrimmed (pv_Name p) \<and> pv_Models p = Inr ds \<and> ctx 0 = None \<and> ctx 1 = None \<and>
     (\<forall>d\<in>set ds. ModelDescriptor_Validate d = None \<and> mr_Provider (md_Ref d) = pv_Name p) \<and>
     distinct (map (\<lambda>d. mr_Model (md_Ref d)) ds)"
  using assms
  by (auto simp: DiscoverModels_def untrimmed_def discover_loop_Inr split: option.splits if_splits sum.splits)

definition sample_capabilities :: ModelCapabilities where
  "sample_capabilities =
     \<lparr>mc_ContextTokens = 1000, mc_MaxOutputTokens = 100, mc_Modalities = [''text''],
      mc_ToolUse = ToolUseNone, mc_ParallelToolCalls = False, mc_StrictToolSchemas = False,
      mc_DynamicTools = False, mc_MultimodalToolResults = False, mc_Streaming = True,
      mc_StructuredOutput = False, mc_PromptCaching = False, mc_AutomaticCompaction = False,
      mc_ReasoningSummaries = False\<rparr>"

definition sample_descriptor :: ModelDescriptor where
  "sample_descriptor =
     \<lparr>md_Ref = \<lparr>mr_Provider = ''acme'', mr_Model = ''m1''\<rparr>, md_Capabilities = sample_capabilities,
      md_Labels = None\<rparr>"

definition sample_provider :: Provider where
  "sample_provider =
     \<lparr>pv_Name = ''acme'', pv_Models = Inr [sample_descriptor],
      pv_Stream = (\<lambda>_. Fails (errorf ''unavailable''))\<rparr>"

lemma sample_descriptor_valid [eval_simps]: "ModelDescriptor_Validate sample_descriptor = None"
  by (simp add: ModelDescriptor_Validate_def ModelRef_Validate_def ModelCapabilities_Validate_def
      ToolUseMode_Validate_def sample_descriptor_def sample_capabilities_def text_simps)

theorem DiscoverModels_catalog_witness:
  "DiscoverModels background (Some sample_provider) = Inr [sample_descriptor] \<and>
   mr_Provider (md_Ref sample_descriptor) = pv_Name sample_provider"
proof -
  have "DiscoverModels background (Some sample_provider) = Inr [sample_descriptor]"
    by (simp add: DiscoverModels_def sample_provider_def sample_descriptor_valid TrimSpace_safe text_simps)
       (simp add: sample_descriptor_def)
  from this DiscoverModels_catalog [OF this] show ?thesis by auto
qed

end
