(* ===== verification/LoopTypes.thy ===== *)
theory LoopTypes
  imports Streams
begin

text \<open>
  The vocabulary of the turn loop (src/loop.go): tool bindings and outputs, loop events, results,
  checkpoints and requests, with their validators and copies.

  Collaborators of the application enter as functions. A tool handler and a result middleware see
  the whole invocation, which within one execution is never repeated (its turn and call identifier
  are unique), and a sink sees the event with its sequence number, so a function of the argument
  is as general as a stateful object. An error of a handler may carry a public code and message,
  which is what \<open>errors.As\<close> finds.
\<close>

section \<open>Tools\<close>

record TurnContext =
  tx_WorkloadID :: ID
  tx_StepID :: ID
  tx_AttemptID :: ID
  tx_Turn :: int
  tx_Messages :: "Message list"
  tx_Usage :: Usage

record TurnSelection =
  ts_Messages :: "Message list option"
  ts_Provider :: "Provider option"
  ts_Model :: ModelRef

record ToolInvocation =
  ti_WorkloadID :: ID
  ti_StepID :: ID
  ti_AttemptID :: ID
  ti_Turn :: int
  ti_Call :: ToolCall

record ToolOutput =
  to_JSON :: bytes
  to_Content :: "ContentPart list"
  to_Classification :: Classification
  to_IsError :: bool

definition output_part_Validate :: "ContentPart \<Rightarrow> error option" where
  "output_part_Validate p =
     first_error
       [map_option (wrapf ''tool output content'') (ContentPart_Validate p),
        fail_if (cp_Type p \<notin> {ContentText, ContentImage, ContentDocument, ContentArtifact})
          ''tool output content has unsupported type'']"

definition ToolOutput_Validate :: "ToolOutput \<Rightarrow> error option" where
  "ToolOutput_Validate out =
     first_error
       [Classification_Validate (to_Classification out),
        fail_if (to_JSON out = [] \<and> to_Content out = []) ''tool output requires JSON or content'',
        fail_if (to_JSON out \<noteq> [] \<and> \<not> json_Valid (to_JSON out)) ''tool output JSON is invalid'',
        first_error (map output_part_Validate (to_Content out))]"

definition ToolOutput_Clone :: "ToolOutput \<Rightarrow> ToolOutput" where
  "ToolOutput_Clone out =
     out\<lparr>to_JSON := [] @ to_JSON out, to_Content := CloneContentParts (to_Content out)\<rparr>"

record tool_error =
  te_error :: error
  te_public :: "(string \<times> string) option"

datatype tool_answer = ToolReturns ToolOutput | ToolFails tool_error | ToolPanics

record ToolHandler =
  th_Execute :: "ToolInvocation \<Rightarrow> tool_answer"
  th_Close :: "unit answer"

record ToolBinding =
  tb_Definition :: ToolDefinition
  tb_Handler :: "ToolHandler option"
  tb_ParallelSafe :: bool

type_synonym ToolResultMiddleware = "ToolInvocation \<Rightarrow> ToolOutput \<Rightarrow> ToolOutput answer"

record ToolFailure =
  tf_CallID :: string
  tf_ToolName :: string
  tf_Code :: string
  tf_Message :: string
  tf_Cause :: error

definition NormalizeToolError :: "tool_error option \<Rightarrow> string \<times> string" where
  "NormalizeToolError err =
     (case err of
        None \<Rightarrow> ([], [])
      | Some e \<Rightarrow>
          (case te_public e of
             Some (c, m) \<Rightarrow>
               let code = TrimSpace c; message = TrimSpace m in
               if code \<noteq> [] \<and> message \<noteq> [] then (code, message)
               else (''tool_execution_failed'', ''tool execution failed'')
           | None \<Rightarrow> (''tool_execution_failed'', ''tool execution failed'')))"

section \<open>Results and events\<close>

record LoopResult =
  lr_Messages :: "Message list"
  lr_Usage :: Usage
  lr_Stop :: StopReason
  lr_ModelCalls :: int
  lr_ToolCalls :: int
  lr_Failures :: "ToolFailure list"
  lr_BudgetExceeded :: string

record LoopCheckpoint =
  lc_Sequence :: "64 word"
  lc_Result :: LoopResult

definition LoopResult_Clone :: "LoopResult \<Rightarrow> LoopResult" where
  "LoopResult_Clone r =
     r\<lparr>lr_Messages := CloneMessages (lr_Messages r), lr_Failures := [] @ lr_Failures r\<rparr>"

datatype LoopEventType =
    LoopEventTurnStarted | LoopEventModel | LoopEventMessageAppended | LoopEventToolStarted
  | LoopEventToolCompleted | LoopEventStopped | LoopEventCheckpoint | LoopEventOther string

record LoopEvent =
  le_Checkpoint :: "LoopResult option"
  le_Sequence :: "64 word"
  le_Type :: LoopEventType
  le_Turn :: int
  le_Model :: ModelRef
  le_ModelEvent :: "ModelEvent option"
  le_Message :: "Message option"
  le_ToolCall :: "ToolCall option"
  le_ToolOutput :: "ToolOutput option"
  le_FailureCode :: string
  le_Stop :: StopReason

definition LoopEvent_Clone :: "LoopEvent \<Rightarrow> LoopEvent" where
  "LoopEvent_Clone e =
     e\<lparr>le_Checkpoint := map_option LoopResult_Clone (le_Checkpoint e),
       le_ModelEvent := map_option ModelEvent_Clone (le_ModelEvent e),
       le_Message := map_option (\<lambda>m. \<lparr>mg_Role = mg_Role m, mg_Content = CloneContentParts (mg_Content m)\<rparr>)
         (le_Message e),
       le_ToolCall := map_option cloneToolCall (le_ToolCall e),
       le_ToolOutput := map_option ToolOutput_Clone (le_ToolOutput e)\<rparr>"

section \<open>Requests\<close>

type_synonym TurnSelector = "TurnContext \<Rightarrow> TurnSelection answer"
type_synonym LoopSink = "LoopEvent \<Rightarrow> unit answer"

record LoopRequest =
  lq_Continuation :: "LoopCheckpoint option"
  lq_WorkloadID :: ID
  lq_StepID :: ID
  lq_AttemptID :: ID
  lq_Initial :: ModelRequest
  lq_Tools :: "ToolBinding list"
  lq_Middleware :: "ToolResultMiddleware option list"
  lq_Selector :: "TurnSelector option"
  lq_Sink :: "LoopSink option"
  lq_Budget :: Budget
  lq_ParallelTools :: bool
  lq_ModelOutputClassification :: Classification
  lq_ToolErrorClassification :: Classification

definition continuation_error :: "LoopRequest \<Rightarrow> error option" where
  "continuation_error r =
     (case lq_Continuation r of
        None \<Rightarrow> None
      | Some c \<Rightarrow>
          let res = lc_Result c in
          first_error
            ([fail_if (lc_Sequence c < 1 \<or> lr_ModelCalls res < 1 \<or>
                       lr_ModelCalls res > bg_MaxModelCalls (lq_Budget r) \<or> lr_ToolCalls res < 0 \<or>
                       lr_ToolCalls res > bg_MaxToolCalls (lq_Budget r) \<or> lr_Stop res \<noteq> StopToolUse)
                ''invalid continuation checkpoint'',
              Usage_Validate (lr_Usage res)] @
             map Message_Validate (lr_Messages res)))"

definition binding_Validate :: "ToolBinding \<Rightarrow> error option" where
  "binding_Validate b =
     first_error [fail_if (tb_Handler b = None) ''loop tool handler is nil'',
                  ToolDefinition_Validate (tb_Definition b)]"

definition LoopRequest_Validate :: "LoopRequest \<Rightarrow> error option" where
  "LoopRequest_Validate r =
     first_error
       [continuation_error r,
        map_option (wrapf ''loop workload ID'') (ID_Validate (lq_WorkloadID r)),
        map_option (wrapf ''loop step ID'') (ID_Validate (lq_StepID r)),
        map_option (wrapf ''loop attempt ID'') (ID_Validate (lq_AttemptID r)),
        fail_if (lq_Selector r = None) ''loop turn selector is required'',
        Budget_Validate (lq_Budget r),
        fail_if (bg_MaxModelCalls (lq_Budget r) \<le> 0) ''loop model-call budget must be positive'',
        fail_if (bg_MaxWallTime (lq_Budget r) \<le> 0) ''loop wall-time budget must be positive'',
        map_option (wrapf ''model output classification'') (Classification_Validate (lq_ModelOutputClassification r)),
        map_option (wrapf ''tool error classification'') (Classification_Validate (lq_ToolErrorClassification r)),
        distinct_valid ''loop tool'' binding_Validate (td_Name \<circ> tb_Definition) [] (lq_Tools r),
        fail_if (\<exists>m\<in>set (lq_Middleware r). m = None) ''loop result middleware is nil'',
        map_option (wrapf ''initial model request'')
          (ModelRequest_Validate
            ((CloneModelRequest (lq_Initial r))
               \<lparr>mq_Tools := map (cloneToolDefinition \<circ> tb_Definition) (lq_Tools r)\<rparr>))]"

definition LoopRequest_Clone :: "LoopRequest \<Rightarrow> LoopRequest" where
  "LoopRequest_Clone r =
     r\<lparr>lq_Continuation := map_option (\<lambda>c. c\<lparr>lc_Result := LoopResult_Clone (lc_Result c)\<rparr>) (lq_Continuation r),
       lq_Initial := CloneModelRequest (lq_Initial r),
       lq_Tools := map (\<lambda>b. b\<lparr>tb_Definition := cloneToolDefinition (tb_Definition b)\<rparr>) (lq_Tools r),
       lq_Middleware := [] @ lq_Middleware r\<rparr>"

section \<open>Copies\<close>

lemma loop_clone_ids [simp, clone_simps]: "ToolOutput_Clone t = t" "LoopResult_Clone r = r"
  by (simp_all add: ToolOutput_Clone_def LoopResult_Clone_def)

lemma map_option_id_if: "(\<And>x. f x = x) \<Longrightarrow> map_option f y = y"
  by (cases y) simp_all

lemma LoopEvent_Clone_id [simp, clone_simps]: "LoopEvent_Clone e = e"
  by (simp add: LoopEvent_Clone_def map_option_id_if)

lemma LoopRequest_Clone_eq [clone_simps]:
  "LoopRequest_Clone r = r\<lparr>lq_Initial := CloneModelRequest (lq_Initial r)\<rparr>"
  by (simp add: LoopRequest_Clone_def map_option_id_if map_idI)

lemma validated_messages:
  "LoopRequest_Validate r = None \<Longrightarrow> m \<in> set (mq_Messages (lq_Initial r)) \<Longrightarrow> Message_Validate m = None"
  by (simp add: LoopRequest_Validate_def ModelRequest_Validate_def)

end
