(* ===== verification/Routing.thy ===== *)
theory Routing
  imports Policy "HOL-Library.Signed_Division"
begin

text \<open>
  Routing (src/routing.go): weights, candidates, requests, the ordered eligibility gates, scores,
  assessments and decisions, and the guard \<open>EvaluateRouter\<close> around a router. A router is an
  argument; \<open>None\<close> as its answer stands for a run-time panic, which the guard does not recover.
  A reason that quotes a value carries the value itself.
\<close>

definition ScorePermilleMax :: int where "ScorePermilleMax = 1000"

record RoutingWeights =
  rw_Quality :: int
  rw_Locality :: int
  rw_Availability :: int
  rw_CacheAffinity :: int
  rw_Cost :: int
  rw_Latency :: int
  rw_InverseLoad :: int

definition DefaultRoutingWeights :: RoutingWeights where
  "DefaultRoutingWeights =
     \<lparr>rw_Quality = 250, rw_Locality = 200, rw_Availability = 100, rw_CacheAffinity = 100,
      rw_Cost = 150, rw_Latency = 150, rw_InverseLoad = 50\<rparr>"

definition permille :: "int \<Rightarrow> bool" where
  "permille v \<longleftrightarrow> \<not> (v < 0 \<or> v > ScorePermilleMax)"

definition RoutingWeights_Validate :: "RoutingWeights \<Rightarrow> error option" where
  "RoutingWeights_Validate w =
     (let values = [rw_Quality w, rw_Locality w, rw_Availability w, rw_CacheAffinity w, rw_Cost w,
                    rw_Latency w, rw_InverseLoad w] in
      first_error
        (map (\<lambda>v. fail_if (\<not> permille v) ''routing weight out of range'') values @
         [fail_if (wrap64 (sum_list values) \<noteq> ScorePermilleMax) ''routing weights do not total 1000'']))"

definition validateStringSet :: "string \<Rightarrow> string list \<Rightarrow> error option" where
  "validateStringSet name values =
     distinct_valid name (\<lambda>v. fail_if (blank v) ''is empty'') (\<lambda>v. v) [] values"

definition validateZoneSet :: "Zone list \<Rightarrow> error option" where
  "validateZoneSet zones = distinct_valid ''allowed zone'' Zone_Validate (\<lambda>z. z) [] zones"

section \<open>Candidates and requests\<close>

record RoutingCandidate =
  rc_ID :: ID
  rc_Zone :: Zone
  rc_Model :: ModelDescriptor
  rc_Authenticated :: bool
  rc_Compatible :: bool
  rc_Healthy :: bool
  rc_Draining :: bool
  rc_ExecutionVerdict :: PolicyVerdict
  rc_EgressVerdict :: "PolicyVerdict option"
  rc_AvailableTools :: "string list"
  rc_AvailableSlots :: int
  rc_AvailableAt :: time
  rc_ExpectedCost :: int
  rc_ExpectedLatency :: duration
  rc_QualityPermille :: int
  rc_CacheAffinityPermille :: int
  rc_LoadPermille :: int

definition RoutingCandidate_Validate :: "RoutingCandidate \<Rightarrow> error option" where
  "RoutingCandidate_Validate c =
     first_error
       [map_option (wrapf ''candidate ID'') (ID_Validate (rc_ID c)),
        map_option (wrapf ''candidate zone'') (Zone_Validate (rc_Zone c)),
        map_option (wrapf ''candidate model'') (ModelDescriptor_Validate (rc_Model c)),
        validateStringSet ''candidate available tool'' (rc_AvailableTools c),
        fail_if (rc_AvailableSlots c < 0) ''candidate available slots cannot be negative'',
        fail_if (Time_IsZero (rc_AvailableAt c)) ''candidate available-at time is required'',
        fail_if (rc_ExpectedCost c < 0) ''candidate expected cost cannot be negative'',
        fail_if (rc_ExpectedLatency c < 0) ''candidate expected latency cannot be negative'',
        fail_if (\<not> permille (rc_QualityPermille c)) ''candidate quality out of range'',
        fail_if (\<not> permille (rc_CacheAffinityPermille c)) ''candidate cache affinity out of range'',
        fail_if (\<not> permille (rc_LoadPermille c)) ''candidate load out of range'']"

definition RoutingCandidate_Clone :: "RoutingCandidate \<Rightarrow> RoutingCandidate" where
  "RoutingCandidate_Clone c =
     c\<lparr>rc_Model := ModelDescriptor_Clone (rc_Model c),
       rc_AvailableTools := [] @ rc_AvailableTools c,
       rc_ExecutionVerdict := PolicyVerdict_Clone (rc_ExecutionVerdict c),
       rc_EgressVerdict := map_option PolicyVerdict_Clone (rc_EgressVerdict c)\<rparr>"

record RoutingRequest =
  rr_WorkloadID :: ID
  rr_StepID :: ID
  rr_AttemptID :: ID
  rr_ManifestSHA256 :: string
  rr_SourceZone :: Zone
  rr_Autonomous :: bool
  rr_EgressPurpose :: string
  rr_DerivedFromSHA :: string
  rr_Requirements :: Requirements
  rr_Budget :: Budget
  rr_ObservedAt :: time
  rr_Deadline :: time
  rr_Weights :: RoutingWeights
  rr_Candidates :: "RoutingCandidate list"

definition RoutingRequest_Validate :: "RoutingRequest \<Rightarrow> error option" where
  "RoutingRequest_Validate r =
     (let window = Time_Sub (rr_Deadline r) (rr_ObservedAt r);
          crossZone = (\<exists>c\<in>set (rr_Candidates r). rc_Zone c \<noteq> rr_SourceZone r) in
      first_error
        [map_option (wrapf ''workload ID'') (ID_Validate (rr_WorkloadID r)),
         map_option (wrapf ''step ID'') (ID_Validate (rr_StepID r)),
         map_option (wrapf ''attempt ID'') (ID_Validate (rr_AttemptID r)),
         validateSHA256 ''routing manifest SHA-256'' (rr_ManifestSHA256 r),
         map_option (wrapf ''routing source zone'') (Zone_Validate (rr_SourceZone r)),
         (if rr_DerivedFromSHA r \<noteq> [] then validateSHA256 ''routing derived-from SHA-256'' (rr_DerivedFromSHA r)
          else None),
         Requirements_Validate (rr_Requirements r),
         validateStringSet ''required modality'' (rq_Modalities (rr_Requirements r)),
         validateStringSet ''required tool'' (rq_RequiredTools (rr_Requirements r)),
         validateZoneSet (rq_AllowedZones (rr_Requirements r)),
         Budget_Validate (rr_Budget r),
         fail_if (Time_IsZero (rr_ObservedAt r)) ''routing observation time is required'',
         fail_if (Time_IsZero (rr_Deadline r) \<or> \<not> Time_After (rr_Deadline r) (rr_ObservedAt r))
           ''routing deadline must be after observation time'',
         fail_if (Time_Add (rr_ObservedAt r) window \<noteq> rr_Deadline r)
           ''routing observation-to-deadline window exceeds time.Duration range'',
         RoutingWeights_Validate (rr_Weights r),
         fail_if (rr_Candidates r = []) ''routing candidates are required'',
         distinct_valid ''routing candidate'' RoutingCandidate_Validate rc_ID [] (rr_Candidates r),
         fail_if (crossZone \<and> blank (rr_EgressPurpose r))
           ''routing egress purpose is required for cross-zone candidates''])"

definition RoutingRequest_Clone :: "RoutingRequest \<Rightarrow> RoutingRequest" where
  "RoutingRequest_Clone r =
     r\<lparr>rr_Requirements := (rr_Requirements r)
         \<lparr>rq_Modalities := [] @ rq_Modalities (rr_Requirements r),
          rq_RequiredTools := [] @ rq_RequiredTools (rr_Requirements r),
          rq_AllowedZones := [] @ rq_AllowedZones (rr_Requirements r)\<rparr>,
       rr_Candidates := map RoutingCandidate_Clone (rr_Candidates r)\<rparr>"

section \<open>Eligibility gates\<close>

record RoutingExclusion =
  rx_Code :: string
  rx_Reason :: string

definition routingExcluded :: "string \<Rightarrow> string \<Rightarrow> RoutingExclusion option" where
  "routingExcluded code reason = Some \<lparr>rx_Code = code, rx_Reason = reason\<rparr>"

fun routingContainsString :: "string list \<Rightarrow> string \<Rightarrow> bool" where
  "routingContainsString [] wanted = False"
| "routingContainsString (v # vs) wanted = (if v = wanted then True else routingContainsString vs wanted)"

fun routingContainsZone :: "Zone list \<Rightarrow> Zone \<Rightarrow> bool" where
  "routingContainsZone [] wanted = False"
| "routingContainsZone (v # vs) wanted = (if v = wanted then True else routingContainsZone vs wanted)"

definition routingMaxTime :: "time \<Rightarrow> time \<Rightarrow> time" where
  "routingMaxTime left right = (if Time_After right left then right else left)"

definition routingPolicyExclusion ::
  "string \<Rightarrow> PolicyVerdict \<Rightarrow> string \<Rightarrow> PolicyScope \<Rightarrow> RoutingExclusion option" where
  "routingPolicyExclusion kind v manifestDigest expectedScope =
     (if PolicyVerdict_Validate v \<noteq> None
      then routingExcluded (''policy.'' @ kind @ ''.invalid'') (''candidate has an invalid '' @ kind @ '' policy verdict'')
      else if vd_ManifestSHA256 v \<noteq> manifestDigest
      then routingExcluded (''policy.'' @ kind @ ''.manifest_mismatch'')
             ''candidate policy verdict does not bind the routing manifest''
      else if \<not> PolicyScope_Equal (vd_Scope v) expectedScope
      then routingExcluded (''policy.'' @ kind @ ''.scope_mismatch'')
             ''candidate policy verdict does not bind the routing scope''
      else if \<not> Allows v
      then routingExcluded (''policy.'' @ kind @ ''.not_allowed'')
             ''candidate policy verdict does not allow the operation''
      else None)"

definition no_sandbox :: SandboxCapability where
  "no_sandbox = \<lparr>sc_Established = False, sc_Backend = []\<rparr>"

definition routingExecutionScope :: "RoutingRequest \<Rightarrow> RoutingCandidate \<Rightarrow> PolicyScope" where
  "routingExecutionScope r c =
     PolicyScopeForExecution
       \<lparr>ep_WorkloadID = rr_WorkloadID r, ep_StepID = rr_StepID r, ep_AttemptID = rr_AttemptID r,
        ep_StepKind = StepModelTurn,
        ep_Target = \<lparr>et_Sandbox = no_sandbox, et_Kind = ExecutionTargetModel, et_Zone = rc_Zone c,
                     et_Model = Some (md_Ref (rc_Model c)), et_ToolName = []\<rparr>,
        ep_Manifest = \<lparr>cm_Items = []\<rparr>, ep_Autonomous = rr_Autonomous r\<rparr>"

definition routingEgressScope :: "RoutingRequest \<Rightarrow> RoutingCandidate \<Rightarrow> PolicyScope" where
  "routingEgressScope r c =
     PolicyScopeForDataEgress
       \<lparr>eg_WorkloadID = rr_WorkloadID r, eg_StepID = rr_StepID r, eg_Source = rr_SourceZone r,
        eg_Destination = rc_Zone c, eg_Manifest = \<lparr>cm_Items = []\<rparr>, eg_Purpose = rr_EgressPurpose r,
        eg_DerivedFromSHA = rr_DerivedFromSHA r\<rparr>"

text \<open>The chain of early returns: the first gate that refuses decides.\<close>

definition first_exclusion :: "RoutingExclusion option list \<Rightarrow> RoutingExclusion option" where
  "first_exclusion gates = (case dropWhile (\<lambda>g. g = None) gates of [] \<Rightarrow> None | g # _ \<Rightarrow> g)"

definition exclude_if :: "bool \<Rightarrow> string \<Rightarrow> string \<Rightarrow> RoutingExclusion option" where
  "exclude_if bad code reason = (if bad then routingExcluded code reason else None)"

definition candidateExclusion :: "RoutingRequest \<Rightarrow> RoutingCandidate \<Rightarrow> RoutingExclusion option" where
  "candidateExclusion r c =
     (let reqs = rr_Requirements r;
          caps = md_Capabilities (rc_Model c);
          start = routingMaxTime (rr_ObservedAt r) (rc_AvailableAt c) in
      first_exclusion
        ([exclude_if (\<not> rc_Authenticated c) ''identity.unauthenticated'' ''candidate is not authenticated'',
          exclude_if (\<not> rc_Compatible c) ''compatibility.unsatisfied''
            ''candidate is not protocol or workload compatible'',
          exclude_if (\<not> rc_Healthy c) ''health.unhealthy'' ''candidate is not healthy'',
          exclude_if (rc_Draining c) ''health.draining'' ''candidate is draining'',
          exclude_if (rq_AllowedZones reqs \<noteq> [] \<and> \<not> routingContainsZone (rq_AllowedZones reqs) (rc_Zone c))
            ''policy.zone.denied'' ''candidate zone is not allowed by workload requirements'',
          routingPolicyExclusion ''execution'' (rc_ExecutionVerdict c) (rr_ManifestSHA256 r)
            (routingExecutionScope r c),
          (if rc_Zone c \<noteq> rr_SourceZone r
           then (case rc_EgressVerdict c of
                   None \<Rightarrow> routingExcluded ''egress.verdict.missing'' ''cross-zone candidate requires an egress verdict''
                 | Some v \<Rightarrow> routingPolicyExclusion ''egress'' v (rr_ManifestSHA256 r) (routingEgressScope r c))
           else None)] @
         map (\<lambda>m. exclude_if (\<not> routingContainsString (mc_Modalities caps) m) ''capability.modality.missing''
                    (''candidate does not support required modality '' @ m)) (rq_Modalities reqs) @
         map (\<lambda>t. exclude_if (\<not> routingContainsString (rc_AvailableTools c) t) ''capability.tool.missing''
                    (''candidate does not provide required tool '' @ t)) (rq_RequiredTools reqs) @
         [exclude_if (rq_RequiredTools reqs \<noteq> [] \<and> mc_ToolUse caps = ToolUseNone) ''capability.tool_use.missing''
            ''candidate model cannot request tools'',
          exclude_if (rq_NativeToolUse reqs \<and> mc_ToolUse caps \<noteq> ToolUseNative) ''capability.native_tool_use.missing''
            ''candidate does not support native tool use'',
          exclude_if (rq_StructuredOutput reqs \<and> \<not> mc_StructuredOutput caps) ''capability.structured_output.missing''
            ''candidate does not support structured output'',
          exclude_if (mc_ContextTokens caps < rq_MinContextTokens reqs) ''limit.context.insufficient''
            ''candidate context limit is insufficient'',
          exclude_if (mc_MaxOutputTokens caps < bg_MaxOutputTokens (rr_Budget r)) ''limit.output.insufficient''
            ''candidate output limit is insufficient'',
          exclude_if (rc_ExpectedCost c > bg_MaxCost (rr_Budget r)) ''budget.cost.unreservable''
            ''candidate expected cost exceeds the step budget'',
          exclude_if (rc_AvailableSlots c = 0) ''capacity.unavailable'' ''candidate has no available capacity'',
          exclude_if (Time_After start (rr_Deadline r) \<or> rc_ExpectedLatency c > Time_Sub (rr_Deadline r) start)
            ''capacity.deadline'' ''candidate cannot complete before the deadline'']))"

record CandidateEligibility =
  el_CandidateID :: ID
  el_Zone :: Zone
  el_Model :: ModelRef
  el_Exclusion :: "RoutingExclusion option"

definition CandidateEligibility_Eligible :: "CandidateEligibility \<Rightarrow> bool" where
  "CandidateEligibility_Eligible e \<longleftrightarrow> el_Exclusion e = None"

definition eligibility_of :: "RoutingRequest \<Rightarrow> RoutingCandidate \<Rightarrow> CandidateEligibility" where
  "eligibility_of r c =
     \<lparr>el_CandidateID = rc_ID c, el_Zone = rc_Zone c, el_Model = md_Ref (rc_Model c),
      el_Exclusion = candidateExclusion r c\<rparr>"

fun eligibility_loop :: "RoutingRequest \<Rightarrow> ctx \<Rightarrow> RoutingCandidate list \<Rightarrow> error + CandidateEligibility list" where
  "eligibility_loop r ctx [] = Inr []"
| "eligibility_loop r ctx (c # cs) =
     (case ctx 0 of
        Some err \<Rightarrow> Inl err
      | None \<Rightarrow>
          (case eligibility_loop r (ctx_from 1 ctx) cs of
             Inl err \<Rightarrow> Inl err
           | Inr rest \<Rightarrow> Inr (eligibility_of r c # rest)))"

definition EvaluateRoutingEligibility :: "ctx \<Rightarrow> RoutingRequest \<Rightarrow> error + CandidateEligibility list" where
  "EvaluateRoutingEligibility ctx r =
     (case ctx 0 of
        Some err \<Rightarrow> Inl err
      | None \<Rightarrow>
     (case RoutingRequest_Validate r of
        Some err \<Rightarrow> Inl err
      | None \<Rightarrow> eligibility_loop r (ctx_from 1 ctx) (rr_Candidates r)))"

section \<open>Scores, assessments, decisions\<close>

definition RoutingExclusion_Validate :: "RoutingExclusion \<Rightarrow> error option" where
  "RoutingExclusion_Validate x =
     first_error
       [fail_if (blank (rx_Code x)) ''routing exclusion code is required'',
        fail_if (blank (rx_Reason x)) ''routing exclusion reason is required'']"

record RoutingScore =
  sr_Quality :: int
  sr_Locality :: int
  sr_Availability :: int
  sr_CacheAffinity :: int
  sr_Cost :: int
  sr_Latency :: int
  sr_InverseLoad :: int
  sr_Total :: int

definition RoutingScore_Validate :: "RoutingScore \<Rightarrow> error option" where
  "RoutingScore_Validate s =
     first_error
       (map (\<lambda>v. fail_if (\<not> permille v) ''routing score out of range'')
         [sr_Quality s, sr_Locality s, sr_Availability s, sr_CacheAffinity s, sr_Cost s, sr_Latency s,
          sr_InverseLoad s, sr_Total s])"

record CandidateAssessment =
  as_CandidateID :: ID
  as_Zone :: Zone
  as_Model :: ModelRef
  as_Eligible :: bool
  as_Exclusion :: "RoutingExclusion option"
  as_Score :: "RoutingScore option"

definition CandidateAssessment_Validate :: "CandidateAssessment \<Rightarrow> error option" where
  "CandidateAssessment_Validate a =
     first_error
       [map_option (wrapf ''assessed candidate ID'') (ID_Validate (as_CandidateID a)),
        map_option (wrapf ''assessed candidate zone'') (Zone_Validate (as_Zone a)),
        map_option (wrapf ''assessed candidate model'') (ModelRef_Validate (as_Model a)),
        (if as_Eligible a
         then (case (as_Exclusion a, as_Score a) of
                 (None, Some score) \<Rightarrow> RoutingScore_Validate score
               | _ \<Rightarrow> Some (errorf ''eligible candidate requires a score and no exclusion''))
         else (case (as_Exclusion a, as_Score a) of
                 (Some x, None) \<Rightarrow> RoutingExclusion_Validate x
               | _ \<Rightarrow> Some (errorf ''excluded candidate requires one exclusion and no score'')))]"

record RoutingDecision =
  rd_Router :: string
  rd_RouterVersion :: string
  rd_WorkloadID :: ID
  rd_StepID :: ID
  rd_AttemptID :: ID
  rd_ManifestSHA256 :: string
  rd_SourceZone :: Zone
  rd_Autonomous :: bool
  rd_EgressPurpose :: string
  rd_DerivedFromSHA :: string
  rd_ObservedAt :: time
  rd_Deadline :: time
  rd_Weights :: RoutingWeights
  rd_Assessments :: "CandidateAssessment list"
  rd_SelectedCandidateID :: ID

text \<open>One round of the loop over the assessments, \<open>Inl\<close> when it returns an error.\<close>

definition check_assessment :: "RoutingRequest \<Rightarrow> CandidateAssessment \<Rightarrow> RoutingCandidate \<Rightarrow> error option" where
  "check_assessment r a c =
     (let expected = candidateExclusion r c in
      first_error
        [fail_if (as_CandidateID a \<noteq> rc_ID c) ''routing assessment does not preserve candidate order'',
         fail_if (as_Zone a \<noteq> rc_Zone c \<or> as_Model a \<noteq> md_Ref (rc_Model c))
           ''routing assessment candidate snapshot mismatch'',
         map_option (wrapf ''routing assessment'') (CandidateAssessment_Validate a),
         fail_if (expected = None \<and> \<not> as_Eligible a) ''routing assessment excluded an eligible candidate'',
         fail_if (expected \<noteq> None \<and>
                  (as_Eligible a \<or> as_Exclusion a = None \<or> as_Exclusion a \<noteq> expected))
           ''routing assessment changed mandatory eligibility''])"

definition RoutingDecision_Validate :: "RoutingDecision \<Rightarrow> RoutingRequest \<Rightarrow> error option" where
  "RoutingDecision_Validate d r =
     (let eligible = filter as_Eligible (rd_Assessments d);
          selectedFound = (\<exists>a\<in>set eligible. as_CandidateID a = rd_SelectedCandidateID d) in
      first_error
        [map_option (wrapf ''routing decision request'') (RoutingRequest_Validate r),
         fail_if (blank (rd_Router d) \<or> blank (rd_RouterVersion d))
           ''routing decision requires router name and version'',
         fail_if (rd_WorkloadID d \<noteq> rr_WorkloadID r \<or> rd_StepID d \<noteq> rr_StepID r \<or>
                  rd_AttemptID d \<noteq> rr_AttemptID r) ''routing decision request identity mismatch'',
         fail_if (rd_ManifestSHA256 d \<noteq> rr_ManifestSHA256 r) ''routing decision manifest mismatch'',
         fail_if (rd_SourceZone d \<noteq> rr_SourceZone r \<or> rd_Autonomous d \<noteq> rr_Autonomous r \<or>
                  rd_EgressPurpose d \<noteq> rr_EgressPurpose r \<or> rd_DerivedFromSHA d \<noteq> rr_DerivedFromSHA r \<or>
                  rd_ObservedAt d \<noteq> rr_ObservedAt r \<or> rd_Deadline d \<noteq> rr_Deadline r)
           ''routing decision request snapshot mismatch'',
         fail_if (rd_Weights d \<noteq> rr_Weights r) ''routing decision weights mismatch'',
         fail_if (length (rd_Assessments d) \<noteq> length (rr_Candidates r))
           ''routing decision must assess every candidate'',
         first_error (map2 (check_assessment r) (rd_Assessments d) (rr_Candidates r)),
         (if ID_IsZero (rd_SelectedCandidateID d)
          then fail_if (length eligible \<noteq> 0) ''routing decision omitted selection with eligible candidates''
          else first_error
                 [map_option (wrapf ''selected candidate ID'') (ID_Validate (rd_SelectedCandidateID d)),
                  fail_if (\<not> selectedFound)
                    ''routing decision selected an ineligible or unknown candidate''])])"

section \<open>The guard\<close>

type_synonym router = "ctx \<Rightarrow> RoutingRequest \<Rightarrow> (RoutingDecision \<times> error option) option"

definition zero_decision :: RoutingDecision where
  "zero_decision =
     \<lparr>rd_Router = [], rd_RouterVersion = [], rd_WorkloadID = [], rd_StepID = [], rd_AttemptID = [],
      rd_ManifestSHA256 = [], rd_SourceZone = no_zone, rd_Autonomous = False, rd_EgressPurpose = [],
      rd_DerivedFromSHA = [], rd_ObservedAt = 0, rd_Deadline = 0,
      rd_Weights = \<lparr>rw_Quality = 0, rw_Locality = 0, rw_Availability = 0, rw_CacheAffinity = 0,
                    rw_Cost = 0, rw_Latency = 0, rw_InverseLoad = 0\<rparr>,
      rd_Assessments = [], rd_SelectedCandidateID = []\<rparr>"

definition no_route :: error where
  "no_route = Error [ErrNoEligibleCandidates] ''no eligible routing candidates''"

definition is_no_route :: "error option \<Rightarrow> bool" where
  "is_no_route err \<longleftrightarrow> (case err of None \<Rightarrow> False | Some e \<Rightarrow> errors_Is e ErrNoEligibleCandidates)"

definition routing_failure :: "error \<Rightarrow> (RoutingDecision \<times> error option) option" where
  "routing_failure err = Some (zero_decision, Some (wrap_sentinel ErrRoutingEvaluation err))"

definition EvaluateRouter ::
  "ctx \<Rightarrow> router option \<Rightarrow> RoutingRequest \<Rightarrow> (RoutingDecision \<times> error option) option" where
  "EvaluateRouter ctx router request =
     (case ctx 0 of
        Some err \<Rightarrow> Some (zero_decision, Some err)
      | None \<Rightarrow>
     (case RoutingRequest_Validate request of
        Some err \<Rightarrow> routing_failure err
      | None \<Rightarrow>
     (case router of
        None \<Rightarrow> routing_failure (errorf ''router is nil'')
      | Some route \<Rightarrow>
     (case route (ctx_from 2 ctx) (RoutingRequest_Clone request) of
        None \<Rightarrow> None
      | Some (decision, err) \<Rightarrow>
     (case ctx 1 of
        Some contextError \<Rightarrow> Some (zero_decision, Some contextError)
      | None \<Rightarrow>
          if err \<noteq> None \<and> \<not> is_no_route err then routing_failure (the err)
          else case RoutingDecision_Validate decision request of
             Some validationError \<Rightarrow> routing_failure validationError
           | None \<Rightarrow>
               if is_no_route err
               then if \<not> ID_IsZero (rd_SelectedCandidateID decision)
                    then routing_failure (errorf ''no-route result selected a candidate'')
                    else Some (decision, Some no_route)
               else if ID_IsZero (rd_SelectedCandidateID decision)
               then routing_failure (errorf ''successful route omitted a selection'')
               else Some (decision, None))))))"

section \<open>What the gates admit\<close>

lemma routing_clone_ids [simp, clone_simps]: "RoutingCandidate_Clone c = c" "RoutingRequest_Clone r = r"
proof -
  have v: "map_option PolicyVerdict_Clone x = x" for x by (cases x) simp_all
  show c: "RoutingCandidate_Clone c = c" for c by (simp add: RoutingCandidate_Clone_def v)
  have "map RoutingCandidate_Clone cs = cs" for cs by (simp add: c map_idI)
  then show "RoutingRequest_Clone r = r" by (simp add: RoutingRequest_Clone_def)
qed

lemma first_exclusion_None: "first_exclusion gates = None \<longleftrightarrow> (\<forall>g\<in>set gates. g = None)"
proof (induction gates)
  case (Cons g gates)
  then show ?case by (cases g) (simp_all add: first_exclusion_def)
qed (simp add: first_exclusion_def)

lemma first_exclusion_mem: "first_exclusion gates = Some x \<Longrightarrow> Some x \<in> set gates"
proof (induction gates)
  case (Cons g gates)
  then show ?case by (cases g) (simp_all add: first_exclusion_def)
qed (simp add: first_exclusion_def)

lemma first_exclusion_gates [simp]:
  "first_exclusion [] = None"
  "first_exclusion (g # gates) = None \<longleftrightarrow> g = None \<and> first_exclusion gates = None"
  "first_exclusion (xs @ ys) = None \<longleftrightarrow> first_exclusion xs = None \<and> first_exclusion ys = None"
  "first_exclusion (map f vs) = None \<longleftrightarrow> (\<forall>v\<in>set vs. f v = None)"
  by (auto simp: first_exclusion_None)

lemma exclude_if_None [simp]: "exclude_if b c w = None \<longleftrightarrow> \<not> b"
  by (simp add: exclude_if_def routingExcluded_def)

lemma routingContainsString_iff [simp]: "routingContainsString vs w \<longleftrightarrow> w \<in> set vs"
  by (induction vs) auto

lemma routingContainsZone_iff [simp]: "routingContainsZone zs z \<longleftrightarrow> z \<in> set zs"
  by (induction zs) auto

lemma routingPolicyExclusion_None [simp]:
  "routingPolicyExclusion kind v d s = None \<longleftrightarrow>
     PolicyVerdict_Validate v = None \<and> vd_ManifestSHA256 v = d \<and> vd_Scope v = s \<and> Allows v"
  by (simp add: routingPolicyExclusion_def routingExcluded_def)

text \<open>
  What a placement must satisfy, as a specification without gates or saturating arithmetic: the
  candidate is trusted and running, its verdicts allow exactly this execution and this movement
  of content, it has what the step requires, fits the budget and ends by the deadline.
\<close>

definition authorizes :: "PolicyVerdict \<Rightarrow> string \<Rightarrow> PolicyScope \<Rightarrow> bool" where
  "authorizes v digest scope \<longleftrightarrow>
     PolicyVerdict_Validate v = None \<and> vd_ManifestSHA256 v = digest \<and> vd_Scope v = scope \<and> Allows v"

definition admissible :: "RoutingRequest \<Rightarrow> RoutingCandidate \<Rightarrow> bool" where
  "admissible r c \<longleftrightarrow>
     rc_Authenticated c \<and> rc_Compatible c \<and> rc_Healthy c \<and> \<not> rc_Draining c \<and>
     (rq_AllowedZones (rr_Requirements r) = [] \<or> rc_Zone c \<in> set (rq_AllowedZones (rr_Requirements r))) \<and>
     authorizes (rc_ExecutionVerdict c) (rr_ManifestSHA256 r) (routingExecutionScope r c) \<and>
     (rc_Zone c = rr_SourceZone r \<or>
      (\<exists>v. rc_EgressVerdict c = Some v \<and> authorizes v (rr_ManifestSHA256 r) (routingEgressScope r c))) \<and>
     set (rq_Modalities (rr_Requirements r)) \<subseteq> set (mc_Modalities (md_Capabilities (rc_Model c))) \<and>
     set (rq_RequiredTools (rr_Requirements r)) \<subseteq> set (rc_AvailableTools c) \<and>
     (rq_RequiredTools (rr_Requirements r) = [] \<or> mc_ToolUse (md_Capabilities (rc_Model c)) \<noteq> ToolUseNone) \<and>
     (rq_NativeToolUse (rr_Requirements r) \<longrightarrow> mc_ToolUse (md_Capabilities (rc_Model c)) = ToolUseNative) \<and>
     (rq_StructuredOutput (rr_Requirements r) \<longrightarrow> mc_StructuredOutput (md_Capabilities (rc_Model c))) \<and>
     rq_MinContextTokens (rr_Requirements r) \<le> mc_ContextTokens (md_Capabilities (rc_Model c)) \<and>
     bg_MaxOutputTokens (rr_Budget r) \<le> mc_MaxOutputTokens (md_Capabilities (rc_Model c)) \<and>
     rc_ExpectedCost c \<le> bg_MaxCost (rr_Budget r) \<and> rc_AvailableSlots c \<noteq> 0 \<and>
     max (rr_ObservedAt r) (rc_AvailableAt c) + rc_ExpectedLatency c \<le> rr_Deadline r"

lemma request_window:
  assumes "RoutingRequest_Validate r = None"
  shows "rr_ObservedAt r < rr_Deadline r" "in64 (rr_Deadline r - rr_ObservedAt r)"
proof -
  have after: "rr_ObservedAt r < rr_Deadline r"
    and window: "rr_ObservedAt r + Time_Sub (rr_Deadline r) (rr_ObservedAt r) = rr_Deadline r"
    using assms by (simp_all add: RoutingRequest_Validate_def Let_def Time_After_def Time_Add_def)
  from after show "rr_ObservedAt r < rr_Deadline r" .
  from window show "in64 (rr_Deadline r - rr_ObservedAt r)"
    by (simp add: Time_Sub_def in64_def min64_def max64_def) linarith
qed

lemma request_candidates:
  assumes "RoutingRequest_Validate r = None"
  shows "c \<in> set (rr_Candidates r) \<Longrightarrow> RoutingCandidate_Validate c = None"
    "distinct (map rc_ID (rr_Candidates r))" "rr_Candidates r \<noteq> []"
  using assms by (simp_all add: RoutingRequest_Validate_def Let_def)

lemma deadline_gate:
  fixes avail latency :: int
  assumes "RoutingRequest_Validate r = None" "0 \<le> latency"
  defines "start \<equiv> routingMaxTime (rr_ObservedAt r) avail"
  shows "\<not> (Time_After start (rr_Deadline r) \<or> latency > Time_Sub (rr_Deadline r) start) \<longleftrightarrow>
    max (rr_ObservedAt r) avail + latency \<le> rr_Deadline r"
proof -
  have start: "start = max (rr_ObservedAt r) avail" by (simp add: start_def routingMaxTime_def Time_After_def)
  have "Time_Sub (rr_Deadline r) start = rr_Deadline r - start" if "start \<le> rr_Deadline r"
    using that request_window [OF assms(1)] by (intro Time_Sub_exact) (auto simp: start in64_def min64_def)
  then show ?thesis using assms(2)
    unfolding start [symmetric] Time_After_def by (cases "start \<le> rr_Deadline r") auto
qed

lemma egress_gate:
  "(if z then (case e of None \<Rightarrow> routingExcluded code why | Some v \<Rightarrow> routingPolicyExclusion ''egress'' v d s) else None)
     = None \<longleftrightarrow> \<not> z \<or> (\<exists>v. e = Some v \<and> authorizes v d s)"
  by (cases e) (auto simp: authorizes_def routingExcluded_def)

lemma candidateExclusion_iff:
  assumes "RoutingRequest_Validate r = None" "c \<in> set (rr_Candidates r)"
  shows "candidateExclusion r c = None \<longleftrightarrow> admissible r c"
proof -
  have "0 \<le> rc_ExpectedLatency c"
    using request_candidates(1) [OF assms] by (simp add: RoutingCandidate_Validate_def)
  note deadline = deadline_gate [OF assms(1) this, of "rc_AvailableAt c"]
  show ?thesis
    unfolding candidateExclusion_def admissible_def Let_def first_exclusion_gates exclude_if_None
      routingPolicyExclusion_None egress_gate routingContainsString_iff routingContainsZone_iff deadline
      authorizes_def [of "rc_ExecutionVerdict c"] subset_eq
    by (simp only: not_not not_less de_Morgan_conj not_False_eq_True simp_thms conj_assoc imp_conv_disj)
qed

section \<open>What a valid decision says\<close>

lemma check_assessment_None:
  "check_assessment r a c = None \<longleftrightarrow>
     as_CandidateID a = rc_ID c \<and> as_Zone a = rc_Zone c \<and> as_Model a = md_Ref (rc_Model c) \<and>
     CandidateAssessment_Validate a = None \<and> as_Eligible a = (candidateExclusion r c = None) \<and>
     (candidateExclusion r c \<noteq> None \<longrightarrow> as_Exclusion a = candidateExclusion r c)"
  by (auto simp: check_assessment_def Let_def)

lemma valid_decision_assessments:
  assumes "RoutingDecision_Validate d r = None"
  shows "list_all2 (\<lambda>a c. check_assessment r a c = None) (rd_Assessments d) (rr_Candidates r)"
proof -
  have "length (rd_Assessments d) = length (rr_Candidates r)"
    "first_error (map2 (check_assessment r) (rd_Assessments d) (rr_Candidates r)) = None"
    using assms by (simp_all add: RoutingDecision_Validate_def Let_def)
  then show ?thesis by (auto simp: first_error_None_iff list_all2_iff)
qed

lemma valid_decision_eligible:
  assumes "RoutingDecision_Validate d r = None"
  shows "(\<exists>a\<in>set (rd_Assessments d). as_Eligible a \<and> as_CandidateID a = i) \<longleftrightarrow>
    (\<exists>c\<in>set (rr_Candidates r). candidateExclusion r c = None \<and> rc_ID c = i)"
  using valid_decision_assessments [OF assms]
  by (induction rule: list_all2_induct) (auto simp: check_assessment_None)

lemma valid_decision_request: "RoutingDecision_Validate d r = None \<Longrightarrow> RoutingRequest_Validate r = None"
  by (simp add: RoutingDecision_Validate_def Let_def)

lemma valid_decision_selected:
  assumes "RoutingDecision_Validate d r = None"
  shows "(if ID_IsZero (rd_SelectedCandidateID d) then \<not> (\<exists>c\<in>set (rr_Candidates r). admissible r c)
    else \<exists>c\<in>set (rr_Candidates r). rc_ID c = rd_SelectedCandidateID d \<and> admissible r c)"
proof -
  note request = valid_decision_request [OF assms]
  have "if ID_IsZero (rd_SelectedCandidateID d) then \<not> (\<exists>a\<in>set (rd_Assessments d). as_Eligible a)
    else \<exists>a\<in>set (rd_Assessments d). as_Eligible a \<and> as_CandidateID a = rd_SelectedCandidateID d"
    using assms by (auto simp: RoutingDecision_Validate_def Let_def filter_empty_conv split: if_splits)
  then show ?thesis
    using valid_decision_eligible [OF assms] candidateExclusion_iff [OF request] by (fastforce split: if_splits)
qed

text \<open>
  The contract of a router: on a live context it answers every valid request without panicking,
  with a decision that is valid for the request, and it reports \<open>ErrNoEligibleCandidates\<close> exactly
  when it selects nothing.
\<close>

definition go_request :: "RoutingRequest \<Rightarrow> bool" where
  "go_request r \<longleftrightarrow> in64 (bg_MaxCost (rr_Budget r))"

locale routing_engine =
  fixes route :: router
  assumes answers: "ctx_live ctx \<Longrightarrow> RoutingRequest_Validate r = None \<Longrightarrow> go_request r \<Longrightarrow>
    \<exists>d. RoutingDecision_Validate d r = None \<and>
      route ctx r = Some (d, if ID_IsZero (rd_SelectedCandidateID d) then Some no_route else None)"
begin

lemma guard_transparent:
  assumes "ctx_live ctx" "RoutingRequest_Validate r = None" "go_request r"
  shows "EvaluateRouter ctx (Some route) r = route (ctx_from 2 ctx) r"
proof -
  obtain d where "RoutingDecision_Validate d r = None"
    "route (ctx_from 2 ctx) r = Some (d, if ID_IsZero (rd_SelectedCandidateID d) then Some no_route else None)"
    using answers [of "ctx_from 2 ctx" r] assms by auto
  then show ?thesis using assms by (simp add: EvaluateRouter_def is_no_route_def no_route_def)
qed

lemma routes_iff_admissible:
  assumes "ctx_live ctx" "RoutingRequest_Validate r = None" "go_request r"
  shows "(\<exists>d. EvaluateRouter ctx (Some route) r = Some (d, None)) \<longleftrightarrow> (\<exists>c\<in>set (rr_Candidates r). admissible r c)"
proof -
  obtain d where d: "RoutingDecision_Validate d r = None"
    "route (ctx_from 2 ctx) r = Some (d, if ID_IsZero (rd_SelectedCandidateID d) then Some no_route else None)"
    using answers [of "ctx_from 2 ctx" r] assms by auto
  then show ?thesis
    using guard_transparent [OF assms] valid_decision_selected [OF d(1)] by (auto split: if_splits)
qed

end

section \<open>Properties\<close>

text \<open>
  [C36] The gates decide exactly the specified placements: on a valid request, a candidate is
  eligible if and only if it is authenticated, compatible, healthy, authorised by verdicts bound to
  this manifest, execution and data path, equipped as required, within budget, has capacity and
  ends by the deadline, all without overflow in the time arithmetic.
\<close>

theorem eligibility_exact:
  assumes "ctx_live ctx" "RoutingRequest_Validate r = None"
  shows "\<exists>es. EvaluateRoutingEligibility ctx r = Inr es \<and>
    map el_CandidateID es = map rc_ID (rr_Candidates r) \<and>
    map CandidateEligibility_Eligible es = map (admissible r) (rr_Candidates r)"
proof -
  have "eligibility_loop r ctx' cs = Inr (map (eligibility_of r) cs)" if "ctx_live ctx'" for ctx' cs
    using that by (induction cs arbitrary: ctx') auto
  then have "EvaluateRoutingEligibility ctx r = Inr (map (eligibility_of r) (rr_Candidates r))"
    using assms by (simp add: EvaluateRoutingEligibility_def)
  then show ?thesis
    using candidateExclusion_iff [OF assms(2)]
    by (simp add: eligibility_of_def CandidateEligibility_Eligible_def)
qed

text \<open>
  Whatever router is plugged in, a route that the guard returns without error goes to a
  candidate of the request, the only one with the selected identifier, and that candidate is
  admissible: no router can place work on an unauthorised, unhealthy or unaffordable candidate.
\<close>

theorem EvaluateRouter_selects_admissible:
  assumes "EvaluateRouter ctx router r = Some (d, None)"
  shows "RoutingDecision_Validate d r = None \<and>
    (\<exists>!c. c \<in> set (rr_Candidates r) \<and> rc_ID c = rd_SelectedCandidateID d) \<and>
    (\<exists>c\<in>set (rr_Candidates r). rc_ID c = rd_SelectedCandidateID d \<and> admissible r c)"
proof -
  have d: "RoutingDecision_Validate d r = None" "\<not> ID_IsZero (rd_SelectedCandidateID d)"
    using assms by (auto simp: EvaluateRouter_def routing_failure_def split: option.splits if_splits prod.splits)
  with valid_decision_selected [OF d(1)]
  have c: "\<exists>c\<in>set (rr_Candidates r). rc_ID c = rd_SelectedCandidateID d \<and> admissible r c" by simp
  moreover have "inj_on rc_ID (set (rr_Candidates r))"
    using request_candidates(2) [OF valid_decision_request [OF d(1)]] by (simp add: distinct_map)
  ultimately have "\<exists>!c. c \<in> set (rr_Candidates r) \<and> rc_ID c = rd_SelectedCandidateID d"
    by (metis inj_onD)
  with d c show ?thesis by blast
qed

end
