(* ===== verification/Records.thy ===== *)
theory Records
  imports LoopTypes Routing
begin

text \<open>
  The durable execution records: approvals, spend bounds, budget and cleanup records
  (src/lifecycle.go), compaction records (src/context.go), sandbox events (src/sandbox.go) and the
  execution record that carries them in the workload's event stream (src/execution_event.go).
\<close>

record ApprovalRequest =
  aq_Scope :: PolicyScope
  aq_Manifest :: ContentManifest

record ApprovalDecision =
  ad_Approved :: bool
  ad_Actor :: string
  ad_Reason :: string

record ApprovalRecord =
  ar_Request :: ApprovalRequest
  ar_Decision :: ApprovalDecision

record SpendBound =
  sb_InputTokens :: int
  sb_OutputTokens :: int
  sb_Cost :: int

definition SpendBound_Validate :: "SpendBound \<Rightarrow> error option" where
  "SpendBound_Validate b =
     fail_if (sb_InputTokens b < 0 \<or> sb_OutputTokens b < 0 \<or> sb_Cost b < 0) ''negative spend bound''"

definition no_spend :: SpendBound where
  "no_spend = \<lparr>sb_InputTokens = 0, sb_OutputTokens = 0, sb_Cost = 0\<rparr>"

record BudgetRecord =
  br_Reserved :: SpendBound
  br_Dimension :: string

record CleanupRecord =
  cr_Failed :: bool
  cr_Resource :: string

record CompactionRecord =
  co_Inputs :: "Message list"
  co_Summary :: Message
  co_Excluded :: "int list"
  co_Model :: ModelRef
  co_Usage :: Usage
  co_BeforeTokens :: int
  co_AfterTokens :: int
  co_FirstEvent :: "64 word"
  co_LastEvent :: "64 word"

record SandboxEvent =
  se_Phase :: string
  se_Backend :: string
  se_PartialEffects :: bool

datatype ExecutionStage =
    ExecutionPolicyEvaluated | ExecutionRoutingDecided | ExecutionLoopEvent | ExecutionFinished
  | ExecutionSandbox | ExecutionApproval | ExecutionBudget | ExecutionCleanup | ExecutionCompaction
  | ExecutionRequest | ExecutionResumed | ExecutionStageOther string

record RoutingRecord =
  rt_Request :: RoutingRequest
  rt_Decision :: RoutingDecision

record ExecutionRecord =
  er_StepID :: ID
  er_Turn :: int
  er_Stage :: ExecutionStage
  er_Classification :: Classification
  er_Manifest :: "ContentManifest option"
  er_Verdict :: "PolicyVerdict option"
  er_Routing :: "RoutingRecord option"
  er_Loop :: "LoopEvent option"
  er_Result :: "LoopResult option"
  er_FailureCode :: string
  er_Sandbox :: "SandboxEvent option"
  er_Approval :: "ApprovalRecord option"
  er_Budget :: "BudgetRecord option"
  er_Cleanup :: "CleanupRecord option"
  er_Compaction :: "CompactionRecord option"
  er_RequestSHA256 :: string

definition blank_record :: ExecutionRecord where
  "blank_record =
     \<lparr>er_StepID = [], er_Turn = 0, er_Stage = ExecutionStageOther [], er_Classification = no_class,
      er_Manifest = None, er_Verdict = None, er_Routing = None, er_Loop = None, er_Result = None,
      er_FailureCode = [], er_Sandbox = None, er_Approval = None, er_Budget = None, er_Cleanup = None,
      er_Compaction = None, er_RequestSHA256 = []\<rparr>"

end
