(* ===== verification/MemoryStore.thy ===== *)
theory MemoryStore
  imports Events
begin

text \<open>
  The in-memory event store (\<open>src/store/memory/store.go\<close>). Its mutex makes each call one
  step, so the store is a value passed from call to call. It interprets the event-store
  contract: the interpretation discharges the laws, among them that the key of a stream
  separates the valid aggregates.
\<close>

record Store =
  ms_streams :: "string \<rightharpoonup> Event list"

definition New :: Store where
  "New = \<lparr>ms_streams = Map.empty\<rparr>"

definition streamKey :: "AggregateRef \<Rightarrow> string" where
  "streamKey r = ag_Type r @ [CHR 0x00] @ ag_ID r"

text \<open>Reading an absent key of a Go map gives the empty slice.\<close>

definition streams_at :: "Store \<Rightarrow> string \<Rightarrow> Event list" where
  "streams_at st key = (case ms_streams st key of None \<Rightarrow> [] | Some es \<Rightarrow> es)"

definition cloneEvents :: "Event list \<Rightarrow> Event list" where
  "cloneEvents es = map (\<lambda>e. e\<lparr>ev_Payload := [] @ ev_Payload e\<rparr>) es"

fun materialize ::
  "AggregateRef \<Rightarrow> 64 word \<Rightarrow> (nat \<Rightarrow> tick) \<Rightarrow> nat \<Rightarrow> EventDraft list \<Rightarrow> error + Event list" where
  "materialize a actual ticks i [] = Inr []"
| "materialize a actual ticks i (d # ds) =
     (case ticks i of
        (at, now, ent) \<Rightarrow>
          (case NewEvent a (actual + of_nat i + 1) d at now ent of
             Inl e \<Rightarrow> Inl (wrapf ''materialize draft'' e)
           | Inr ev \<Rightarrow>
               (case materialize a actual ticks (Suc i) ds of
                  Inl e \<Rightarrow> Inl e
                | Inr evs \<Rightarrow> Inr (ev # evs))))"

definition Append ::
  "Store \<Rightarrow> ctx \<Rightarrow> AggregateRef \<Rightarrow> 64 word \<Rightarrow> EventDraft list \<Rightarrow> (nat \<Rightarrow> tick)
    \<Rightarrow> (error + Event list) \<times> Store" where
  "Append st ctx a expected drafts ticks =
     (case first_error
        [ctx 0, AggregateRef_Validate a, first_invalid ''draft'' EventDraft_Validate drafts] of
        Some e \<Rightarrow> (Inl e, st)
      | None \<Rightarrow>
          if drafts = [] then (Inr [], st)
          else
            let key = streamKey a;
                actual = of_nat (length (streams_at st key)) :: 64 word
            in if actual \<noteq> expected then (Inl VersionConflictError, st)
               else (case materialize a actual ticks 0 drafts of
                       Inl e \<Rightarrow> (Inl e, st)
                     | Inr created \<Rightarrow>
                         (Inr (cloneEvents created),
                          st\<lparr>ms_streams := (ms_streams st)
                               (key \<mapsto> streams_at st key @ cloneEvents created)\<rparr>)))"

definition Load :: "Store \<Rightarrow> ctx \<Rightarrow> AggregateRef \<Rightarrow> 64 word \<Rightarrow> error + Event list" where
  "Load st ctx a after =
     (case first_error [ctx 0, AggregateRef_Validate a] of
        Some e \<Rightarrow> Inl e
      | None \<Rightarrow>
          let events = streams_at st (streamKey a)
          in if of_nat (length events) \<le> after then Inr []
             else Inr (cloneEvents (drop (unat after) events)))"

section \<open>The invariant and the laws of the contract\<close>

definition stream_of :: "Store \<Rightarrow> AggregateRef \<Rightarrow> Event list" where
  "stream_of st a = streams_at st (streamKey a)"

definition good_stream :: "AggregateRef \<Rightarrow> Event list \<Rightarrow> bool" where
  "good_stream a es \<longleftrightarrow>
     (\<forall>i<length es. Event_Validate (es ! i) = None \<and> ev_Aggregate (es ! i) = a \<and>
        ev_Sequence (es ! i) = of_nat (Suc i))"

definition store_inv :: "Store \<Rightarrow> bool" where
  "store_inv st \<longleftrightarrow>
     (\<forall>a. AggregateRef_Validate a = None \<longrightarrow>
        length (stream_of st a) < 2 ^ 64 \<and> good_stream a (stream_of st a))"

lemma cloneEvents_id [simp, clone_simps]: "cloneEvents es = es"
  by (simp add: cloneEvents_def)

text \<open>A valid identifier has 36 bytes, so the separator's position is known.\<close>

lemma streamKey_inj:
  assumes "AggregateRef_Validate a = None" "AggregateRef_Validate b = None"
  shows "streamKey a = streamKey b \<longleftrightarrow> a = b"
proof
  assume eq: "streamKey a = streamKey b"
  have "length (ag_ID a) = length (ag_ID b)"
    using assms by (simp add: valid_simps ID_Validate_length)
  with eq have "ag_Type a = ag_Type b \<and> ag_ID a = ag_ID b"
    by (simp add: streamKey_def append_eq_append_conv)
  then show "a = b" by simp
qed simp

lemma materialize_InrD:
  assumes "materialize a actual ticks i ds = Inr es"
  shows "map event_draft es = ds"
    "j < length es \<Longrightarrow> Event_Validate (es ! j) = None \<and> ev_Aggregate (es ! j) = a \<and>
       ev_Sequence (es ! j) = actual + of_nat (i + j) + 1"
proof -
  have "map event_draft es = ds \<and> (\<forall>j<length es. Event_Validate (es ! j) = None \<and>
      ev_Aggregate (es ! j) = a \<and> ev_Sequence (es ! j) = actual + of_nat (i + j) + 1)"
    using assms
  proof (induction a actual ticks i ds arbitrary: es rule: materialize.induct)
    case (2 a actual ticks i d ds)
    obtain at now ent where t: "ticks i = (at, now, ent)" by (cases "ticks i")
    from "2.prems" obtain ev evs where
      ev: "NewEvent a (actual + of_nat i + 1) d at now ent = Inr ev"
      and evs: "materialize a actual ticks (Suc i) ds = Inr evs" and es: "es = ev # evs"
      by (auto simp: t split: sum.splits)
    have "map event_draft evs = ds \<and> (\<forall>j<length evs. Event_Validate (evs ! j) = None \<and>
      ev_Aggregate (evs ! j) = a \<and> ev_Sequence (evs ! j) = actual + of_nat (Suc i + j) + 1)"
      using "2.IH" t ev evs by (metis (no_types, lifting))
    with NewEvent_InrD [OF ev] show ?case
      by (auto simp: es nth_Cons split: nat.splits)
  qed simp
  then show "map event_draft es = ds"
    "j < length es \<Longrightarrow> Event_Validate (es ! j) = None \<and> ev_Aggregate (es ! j) = a \<and>
       ev_Sequence (es ! j) = actual + of_nat (i + j) + 1"
    by blast+
qed

lemma Append_InrD:
  assumes "Append st ctx a expected ds ticks = (Inr es, st')"
  shows "AggregateRef_Validate a = None"
    "(ds = [] \<and> es = [] \<and> st' = st) \<or>
     (ds \<noteq> [] \<and> expected = of_nat (length (stream_of st a)) \<and>
      materialize a expected ticks 0 ds = Inr es \<and>
      st' = st\<lparr>ms_streams := (ms_streams st)(streamKey a \<mapsto> stream_of st a @ es)\<rparr>)"
  using assms
  by (auto simp: Append_def Let_def stream_of_def split: option.splits if_splits sum.splits)

lemma Append_InlD: "Append st ctx a expected ds ticks = (Inl e, st') \<Longrightarrow> st' = st"
  by (auto simp: Append_def Let_def split: option.splits if_splits sum.splits)

lemma stream_of_update:
  "stream_of (st\<lparr>ms_streams := (ms_streams st)(key \<mapsto> es)\<rparr>) b =
     (if streamKey b = key then es else stream_of st b)"
  by (simp add: stream_of_def streams_at_def)

lemma good_stream_append:
  assumes "good_stream a xs" "materialize a (of_nat (length xs)) ticks 0 ds = Inr ys"
  shows "good_stream a (xs @ ys)"
  unfolding good_stream_def
proof (intro allI impI)
  fix i assume i: "i < length (xs @ ys)"
  show "Event_Validate ((xs @ ys) ! i) = None \<and> ev_Aggregate ((xs @ ys) ! i) = a \<and>
      ev_Sequence ((xs @ ys) ! i) = of_nat (Suc i)"
  proof (cases "i < length xs")
    case True
    with assms(1) show ?thesis by (simp add: good_stream_def nth_append)
  next
    case False
    then obtain j where j: "i = length xs + j" by (metis le_add_diff_inverse not_less)
    with i have "j < length ys" by simp
    from materialize_InrD(2) [OF assms(2) this] show ?thesis
      by (simp add: j nth_append)
  qed
qed

lemma Append_store_inv:
  assumes inv: "store_inv st" and app: "Append st ctx a expected ds ticks = (r, st')"
    and room: "length (stream_of st a) + length ds < 2 ^ 64"
  shows "store_inv st'"
proof (cases r)
  case (Inl e)
  with app inv Append_InlD show ?thesis by blast
next
  case (Inr es)
  note D = Append_InrD [OF app [unfolded Inr]]
  show ?thesis
  proof (cases "ds = []")
    case True
    with D inv show ?thesis by auto
  next
    case False
    with D have m: "materialize a (of_nat (length (stream_of st a))) ticks 0 ds = Inr es"
      and st': "st' = st\<lparr>ms_streams := (ms_streams st)(streamKey a \<mapsto> stream_of st a @ es)\<rparr>"
      by auto
    from inv D(1) have "good_stream a (stream_of st a)" by (simp add: store_inv_def)
    from good_stream_append [OF this m] have good: "good_stream a (stream_of st a @ es)" .
    have "length es = length ds" using materialize_InrD(1) [OF m] by (metis length_map)
    with room have "length (stream_of st a @ es) < 2 ^ 64" by simp
    with good inv show ?thesis
      unfolding store_inv_def st' stream_of_update
      by (simp add: streamKey_inj [OF _ D(1)])
  qed
qed

lemma store_inv_New: "store_inv New"
  by (simp add: store_inv_def New_def stream_of_def streams_at_def good_stream_def)

lemma Load_InrD:
  assumes "store_inv st" "Load st ctx a after = Inr es"
  shows "es = drop (unat after) (stream_of st a)"
proof -
  from assms(2) have "AggregateRef_Validate a = None"
    by (auto simp: Load_def split: option.splits)
  with assms(1) have "length (stream_of st a) < 2 ^ 64"
    by (simp add: store_inv_def)
  then have "unat (of_nat (length (stream_of st a)) :: 64 word) = length (stream_of st a)"
    by (simp add: unat_of_nat)
  with assms(2) show ?thesis
    by (auto simp: Load_def Let_def stream_of_def word_le_nat_alt split: option.splits if_splits)
qed

text \<open>The version of a stream is its length, as \<open>Append\<close> computes it.\<close>

definition version_of :: "Store \<Rightarrow> AggregateRef \<Rightarrow> 64 word" where
  "version_of st a = of_nat (length (stream_of st a))"

interpretation memory: event_store Append Load stream_of version_of store_inv
proof
  show "st' = st" if "Append st c a n ds k = (Inl e, st')" for st c a n ds k e st'
    using that by (rule Append_InlD)
  show "stream_of st' a = stream_of st a @ es"
    if "Append st c a n ds k = (Inr es, st')" for st c a n ds k es st'
    using Append_InrD [OF that] by (auto simp: stream_of_update)
  show "map event_draft es = ds"
    if "Append st c a n ds k = (Inr es, st')" for st c a n ds k es st'
    using Append_InrD [OF that] materialize_InrD(1) by auto
  show "n = version_of st a \<and> version_of st' a = n + of_nat (length ds)"
    if "Append st c a n ds k = (Inr es, st')" "ds \<noteq> []" for st c a n ds k es st'
  proof -
    have "length es = length ds" if "materialize a n k 0 ds = Inr es"
      using materialize_InrD(1) [OF that] by (metis length_map)
    then show ?thesis using Append_InrD [OF that(1)] that(2) by (auto simp: version_of_def stream_of_update)
  qed
  show "version_of st a = of_nat (length (stream_of st a))" for st a
    by (simp add: version_of_def)
  show "stream_of st' b = stream_of st b"
    if "Append st c a n ds k = (Inr es, st')" "AggregateRef_Validate b = None" "b \<noteq> a"
    for st c a n ds k es st' b
    using Append_InrD [OF that(1)] that(2,3) by (auto simp: stream_of_update streamKey_inj)
  show "store_inv st'"
    if "store_inv st" "Append st c a n ds k = (r, st')" "length (stream_of st a) + length ds < 2 ^ 64"
    for st c a n ds k r st'
    using that by (rule Append_store_inv)
  show "es = drop (unat m) (stream_of st a)"
    if "store_inv st" "Load st c a m = Inr es" for st c a m es
    using that by (rule Load_InrD)
  show "Event_Validate (stream_of st a ! i) = None \<and> ev_Aggregate (stream_of st a ! i) = a \<and>
      ev_Sequence (stream_of st a ! i) = of_nat (Suc i)"
    if "store_inv st" "i < length (stream_of st a)" "AggregateRef_Validate a = None" for st i a
    using that by (simp add: store_inv_def good_stream_def)
qed

text \<open>
  [C4] Optimistic concurrency: when a non-empty append at an expected sequence succeeds, every
  later non-empty append to the same aggregate that names the same expected sequence fails and
  leaves the store as it was, so no writer overwrites another's events.
\<close>

theorem memory_no_lost_update:
  assumes "Append st ctx a n ds ticks = (Inr es, st')" "ds \<noteq> []" "length ds < 2 ^ 64"
    and "Append st' ctx' a n ds' ticks' = (r, st'')" "ds' \<noteq> []"
  shows "\<exists>e. r = Inl e \<and> st'' = st'"
  using assms by (rule memory.no_lost_update)

text \<open>
  Append-only streams: a successful append to an aggregate extends that aggregate's stream
  by one event per draft, in order and carrying the drafts, leaves the stream of every other
  valid aggregate unchanged, and keeps every stored event valid with sequence numbers
  \<open>1, 2, 3, ...\<close>; a failed append changes nothing.
\<close>

theorem memory_append_only:
  assumes "store_inv st" and "Append st ctx a n ds ticks = (r, st')"
    and "length (stream_of st a) + length ds < 2 ^ 64"
  shows "(case r of
      Inl e \<Rightarrow> st' = st
    | Inr es \<Rightarrow> stream_of st' a = stream_of st a @ es \<and> map event_draft es = ds \<and>
        (\<forall>b. AggregateRef_Validate b = None \<longrightarrow> b \<noteq> a \<longrightarrow> stream_of st' b = stream_of st b)) \<and>
    (\<forall>b i. AggregateRef_Validate b = None \<longrightarrow> i < length (stream_of st' b) \<longrightarrow>
       Event_Validate (stream_of st' b ! i) = None \<and> ev_Aggregate (stream_of st' b ! i) = b \<and>
       ev_Sequence (stream_of st' b ! i) = of_nat (Suc i))"
proof -
  have inv': "store_inv st'" using memory.append_invar assms by blast
  show ?thesis
  proof (cases r)
    case (Inl e)
    with assms(2) have "st' = st" using memory.append_error by blast
    with Inl inv' show ?thesis using memory.invar_events by simp
  next
    case (Inr es)
    note app = assms(2) [unfolded Inr]
    from memory.append_stream [OF assms(1) app] memory.append_events [OF app]
      memory.append_frame [OF assms(1) app] inv' Inr
    show ?thesis using memory.invar_events by simp
  qed
qed

text \<open>
  Read your writes: after a successful append, a load from the sequence the writer
  expected returns exactly the appended events.
\<close>

theorem memory_load_after_append:
  assumes "store_inv st" and "Append st ctx a n ds ticks = (Inr es, st')"
    and "Load st' ctx' a m = Inr es'" and "unat m = length (stream_of st a)"
    and "length (stream_of st a) + length ds < 2 ^ 64"
  shows "es' = es"
  using assms by (rule memory.load_after_append)

section \<open>A concrete run\<close>

lemma Append_sample:
  "\<exists>es. Append New background sample_aggregate 0 [sample_draft] sample_ticks =
     (Inr es, New\<lparr>ms_streams := [streamKey sample_aggregate \<mapsto> es]\<rparr>) \<and> es \<noteq> []"
proof -
  obtain e where "NewEvent sample_aggregate 1 sample_draft sample_now sample_now no_entropy = Inr e"
    using NewEvent_total [of sample_aggregate 1 sample_draft sample_now sample_now no_entropy] by auto
  then show ?thesis
    by (simp add: Append_def New_def streams_at_def sample_ticks_def eval_simps)
qed

lemma stream_of_New [simp]: "stream_of New a = []"
  by (simp add: stream_of_def streams_at_def New_def)

theorem memory_no_lost_update_witness:
  "\<exists>es st' e. Append New background sample_aggregate 0 [sample_draft] sample_ticks = (Inr es, st') \<and>
     Append st' background sample_aggregate 0 [sample_draft] sample_ticks = (Inl e, st')"
proof -
  obtain es st' where a: "Append New background sample_aggregate 0 [sample_draft] sample_ticks = (Inr es, st')"
    using Append_sample by blast
  obtain r st'' where b: "Append st' background sample_aggregate 0 [sample_draft] sample_ticks = (r, st'')"
    by (cases "Append st' background sample_aggregate 0 [sample_draft] sample_ticks")
  from memory_no_lost_update [OF a _ _ b] a b show ?thesis by auto
qed

theorem memory_append_only_witness:
  "\<exists>es st'. Append New background sample_aggregate 0 [sample_draft] sample_ticks = (Inr es, st') \<and>
     stream_of st' sample_aggregate = es \<and> map event_draft es = [sample_draft]"
proof -
  obtain es st' where a: "Append New background sample_aggregate 0 [sample_draft] sample_ticks = (Inr es, st')"
    using Append_sample by blast
  from memory_append_only [OF store_inv_New a] a show ?thesis by auto
qed

theorem memory_load_after_append_witness:
  "\<exists>es st'. Append New background sample_aggregate 0 [sample_draft] sample_ticks = (Inr es, st') \<and>
     Load st' background sample_aggregate 0 = Inr es"
proof -
  obtain es where a: "Append New background sample_aggregate 0 [sample_draft] sample_ticks =
      (Inr es, New\<lparr>ms_streams := [streamKey sample_aggregate \<mapsto> es]\<rparr>)" and "es \<noteq> []"
    using Append_sample by blast
  let ?st = "New\<lparr>ms_streams := [streamKey sample_aggregate \<mapsto> es]\<rparr>"
  have "\<exists>es'. Load ?st background sample_aggregate 0 = Inr es'"
    by (simp add: Load_def Let_def)
  then obtain es' where l: "Load ?st background sample_aggregate 0 = Inr es'" ..
  have "es' = es"
    by (rule memory_load_after_append [OF store_inv_New a l]) simp_all
  with a l show ?thesis by blast
qed

end
