(* ===== verification/Projection.thy ===== *)
theory Projection
  imports Records MemoryStore
begin

text \<open>
  The workload projection (src/projection.go, src/execution_event.go): the state of one workload
  rebuilt from its event stream. Every method returns its error and the projection it leaves.

  Typed payload decoding (\<open>encoding/json\<close> with unknown fields disallowed) is an argument, one
  decoder per payload type, which returns the value and the bytes it has not read; what the source
  checks of the rest of the payload is modelled. The theorems hold for every decoder.
\<close>

section \<open>State and payloads\<close>

record WorkloadCreatedPayload =
  wc_SessionID :: ID
  wc_Goal :: string
  wc_Budget :: Budget

record WorkloadTransitionedPayload =
  wt_From :: WorkloadState
  wt_To :: WorkloadState

record StepCreatedPayload =
  sp_ID :: ID
  sp_ParentStepID :: ID
  sp_Kind :: StepKind
  sp_Requirements :: Requirements
  sp_Budget :: Budget
  sp_Attempt :: int
  sp_IdempotencyKey :: string

record StepTransitionedPayload =
  su_StepID :: ID
  su_From :: StepState
  su_To :: StepState

record codec =
  dc_WorkloadCreated :: "bytes \<Rightarrow> error + (WorkloadCreatedPayload \<times> bytes)"
  dc_WorkloadTransitioned :: "bytes \<Rightarrow> error + (WorkloadTransitionedPayload \<times> bytes)"
  dc_StepCreated :: "bytes \<Rightarrow> error + (StepCreatedPayload \<times> bytes)"
  dc_StepTransitioned :: "bytes \<Rightarrow> error + (StepTransitionedPayload \<times> bytes)"
  dc_ExecutionRecorded :: "bytes \<Rightarrow> error + (ExecutionRecord \<times> bytes)"

record WorkloadProjection =
  pj_Aggregate :: AggregateRef
  pj_Version :: "64 word"
  pj_Workload :: Workload
  pj_Steps :: "ID \<rightharpoonup> Step"
  pj_Execution :: "ExecutionRecord list"

definition WorkloadAggregateType :: string where "WorkloadAggregateType = ''workload''"
definition CoreEventSchemaV1 :: "32 word" where "CoreEventSchemaV1 = 1"
definition EventTypeWorkloadCreated :: string where "EventTypeWorkloadCreated = ''workload.created''"
definition EventTypeWorkloadTransitioned :: string where "EventTypeWorkloadTransitioned = ''workload.transitioned''"
definition EventTypeStepCreated :: string where "EventTypeStepCreated = ''step.created''"
definition EventTypeStepTransitioned :: string where "EventTypeStepTransitioned = ''step.transitioned''"
definition EventTypeExecutionRecorded :: string where "EventTypeExecutionRecorded = ''execution.recorded''"

lemmas event_types = EventTypeWorkloadCreated_def EventTypeWorkloadTransitioned_def EventTypeStepCreated_def
  EventTypeStepTransitioned_def EventTypeExecutionRecorded_def

definition zero_budget :: Budget where
  "zero_budget =
     \<lparr>bg_MaxSteps = 0, bg_MaxInputTokens = 0, bg_MaxOutputTokens = 0, bg_MaxModelCalls = 0,
      bg_MaxToolCalls = 0, bg_MaxChildSteps = 0, bg_MaxCost = 0, bg_MaxWallTime = 0\<rparr>"

definition zero_workload :: Workload where
  "zero_workload =
     \<lparr>wl_ID = [], wl_SessionID = [], wl_Goal = [], wl_State = WorkloadStateOther [], wl_Budget = zero_budget,
      wl_CreatedAt = 0, wl_UpdatedAt = 0\<rparr>"

definition NewWorkloadProjection :: "AggregateRef \<Rightarrow> error + WorkloadProjection" where
  "NewWorkloadProjection a =
     (case first_error
        [AggregateRef_Validate a,
         fail_if (ag_Type a \<noteq> WorkloadAggregateType) ''workload projection requires the workload aggregate type''] of
        Some err \<Rightarrow> Inl err
      | None \<Rightarrow>
          Inr \<lparr>pj_Aggregate = a, pj_Version = 0, pj_Workload = zero_workload, pj_Steps = Map.empty,
               pj_Execution = []\<rparr>)"

text \<open>Serialisation of a payload is the argument \<open>encoded\<close>: what \<open>json.Marshal\<close> gives for it.\<close>

definition NewCoreEventDraft :: "string \<Rightarrow> error + bytes \<Rightarrow> error + EventDraft" where
  "NewCoreEventDraft eventType encoded =
     (case encoded of
        Inl err \<Rightarrow> Inl (wrapf ''marshal payload'' err)
      | Inr payload \<Rightarrow>
          let draft = \<lparr>dr_Type = eventType, dr_SchemaVersion = CoreEventSchemaV1, dr_CausationID = [],
                       dr_CorrelationID = [], dr_AttemptID = [], dr_Payload = payload\<rparr>
          in case EventDraft_Validate draft of Some err \<Rightarrow> Inl err | None \<Rightarrow> Inr draft)"

text \<open>
  The second \<open>Decode\<close> reports end of file exactly when only white space is left; any other
  outcome of it is an error.
\<close>

definition decodeProjectionPayload :: "(bytes \<Rightarrow> error + ('p \<times> bytes)) \<Rightarrow> bytes \<Rightarrow> error + 'p" where
  "decodeProjectionPayload decode payload =
     (case decode payload of
        Inl err \<Rightarrow> Inl (wrapf ''decode event payload'' err)
      | Inr (value, rest) \<Rightarrow>
          if list_all json_space rest then Inr value
          else Inl (errorf ''event payload contains trailing data''))"

definition cloneRequirements :: "Requirements \<Rightarrow> Requirements" where
  "cloneRequirements r =
     r\<lparr>rq_Modalities := [] @ rq_Modalities r, rq_RequiredTools := [] @ rq_RequiredTools r,
       rq_AllowedZones := [] @ rq_AllowedZones r\<rparr>"

section \<open>Applying core events\<close>

definition applyWorkloadCreated :: "codec \<Rightarrow> Event \<Rightarrow> WorkloadProjection \<Rightarrow> error option \<times> WorkloadProjection" where
  "applyWorkloadCreated dc event p =
     (if pj_Version p \<noteq> 0 \<or> \<not> ID_IsZero (wl_ID (pj_Workload p))
      then (Some (errorf ''workload already created''), p)
      else case decodeProjectionPayload (dc_WorkloadCreated dc) (ev_Payload event) of
        Inl err \<Rightarrow> (Some err, p)
      | Inr payload \<Rightarrow>
          (case first_error
             [map_option (wrapf ''session ID'') (ID_Validate (wc_SessionID payload)),
              fail_if (blank (wc_Goal payload)) ''workload goal is required'',
              map_option (wrapf ''workload budget'') (Budget_Validate (wc_Budget payload))] of
             Some err \<Rightarrow> (Some err, p)
           | None \<Rightarrow>
               (None,
                p\<lparr>pj_Workload :=
                    \<lparr>wl_ID = ag_ID (pj_Aggregate p), wl_SessionID = wc_SessionID payload, wl_Goal = wc_Goal payload,
                     wl_State = WorkloadCreated, wl_Budget = wc_Budget payload,
                     wl_CreatedAt = ev_OccurredAt event, wl_UpdatedAt = ev_OccurredAt event\<rparr>\<rparr>)))"

definition applyWorkloadTransitioned ::
  "codec \<Rightarrow> Event \<Rightarrow> WorkloadProjection \<Rightarrow> error option \<times> WorkloadProjection" where
  "applyWorkloadTransitioned dc event p =
     (if ID_IsZero (wl_ID (pj_Workload p)) then (Some (errorf ''workload has not been created''), p)
      else case decodeProjectionPayload (dc_WorkloadTransitioned dc) (ev_Payload event) of
        Inl err \<Rightarrow> (Some err, p)
      | Inr payload \<Rightarrow>
          (case first_error
             [WorkloadState_Validate (wt_From payload), WorkloadState_Validate (wt_To payload),
              fail_if (wt_From payload \<noteq> wl_State (pj_Workload p)) ''workload is in another state''] of
             Some err \<Rightarrow> (Some err, p)
           | None \<Rightarrow>
               (case Workload_Transition (pj_Workload p) (wt_To payload) (ev_OccurredAt event) of
                  (Some err, _) \<Rightarrow> (Some err, p)
                | (None, candidate) \<Rightarrow> (None, p\<lparr>pj_Workload := candidate\<rparr>))))"

definition applyStepCreated :: "codec \<Rightarrow> Event \<Rightarrow> WorkloadProjection \<Rightarrow> error option \<times> WorkloadProjection" where
  "applyStepCreated dc event p =
     (if ID_IsZero (wl_ID (pj_Workload p)) then (Some (errorf ''workload has not been created''), p)
      else case decodeProjectionPayload (dc_StepCreated dc) (ev_Payload event) of
        Inl err \<Rightarrow> (Some err, p)
      | Inr payload \<Rightarrow>
          (case first_error
             [map_option (wrapf ''step ID'') (ID_Validate (sp_ID payload)),
              fail_if (pj_Steps p (sp_ID payload) \<noteq> None) ''step already exists'',
              StepKind_Validate (sp_Kind payload),
              map_option (wrapf ''step requirements'') (Requirements_Validate (sp_Requirements payload)),
              map_option (wrapf ''step budget'') (Budget_Validate (sp_Budget payload)),
              fail_if (sp_Attempt payload < 1) ''step attempt must be positive'',
              (if \<not> ID_IsZero (sp_ParentStepID payload)
               then first_error
                 [map_option (wrapf ''parent step ID'') (ID_Validate (sp_ParentStepID payload)),
                  fail_if (pj_Steps p (sp_ParentStepID payload) = None) ''parent step does not exist'']
               else None)] of
             Some err \<Rightarrow> (Some err, p)
           | None \<Rightarrow>
               (let step =
                  \<lparr>st_ID = sp_ID payload, st_WorkloadID = wl_ID (pj_Workload p),
                   st_ParentStepID = sp_ParentStepID payload, st_Kind = sp_Kind payload, st_State = StepPending,
                   st_Requirements = cloneRequirements (sp_Requirements payload), st_Budget = sp_Budget payload,
                   st_Attempt = sp_Attempt payload, st_IdempotencyKey = sp_IdempotencyKey payload,
                   st_CreatedAt = ev_OccurredAt event, st_UpdatedAt = ev_OccurredAt event\<rparr>
                in (None, p\<lparr>pj_Steps := (pj_Steps p)(st_ID step \<mapsto> step)\<rparr>))))"

definition applyStepTransitioned :: "codec \<Rightarrow> Event \<Rightarrow> WorkloadProjection \<Rightarrow> error option \<times> WorkloadProjection" where
  "applyStepTransitioned dc event p =
     (if ID_IsZero (wl_ID (pj_Workload p)) then (Some (errorf ''workload has not been created''), p)
      else case decodeProjectionPayload (dc_StepTransitioned dc) (ev_Payload event) of
        Inl err \<Rightarrow> (Some err, p)
      | Inr payload \<Rightarrow>
          (case first_error
             [map_option (wrapf ''step ID'') (ID_Validate (su_StepID payload)),
              StepState_Validate (su_From payload), StepState_Validate (su_To payload)] of
             Some err \<Rightarrow> (Some err, p)
           | None \<Rightarrow>
               (case pj_Steps p (su_StepID payload) of
                  None \<Rightarrow> (Some (errorf ''step does not exist''), p)
                | Some step \<Rightarrow>
                    if su_From payload \<noteq> st_State step then (Some (errorf ''step is in another state''), p)
                    else case Step_Transition step (su_To payload) (ev_OccurredAt event) of
                      (Some err, _) \<Rightarrow> (Some err, p)
                    | (None, step) \<Rightarrow> (None, p\<lparr>pj_Steps := (pj_Steps p)(st_ID step \<mapsto> step)\<rparr>))))"

section \<open>Applying execution records\<close>

text \<open>What the loop over the earlier records of the step finds: the last loop event and the last
  routing record of the turn; a finished record is an error.\<close>

fun scan_previous :: "ExecutionRecord \<Rightarrow> ExecutionRecord list \<Rightarrow> LoopEvent option \<Rightarrow> RoutingRecord option
    \<Rightarrow> error + (LoopEvent option \<times> RoutingRecord option)" where
  "scan_previous r [] previousLoop lastRouting = Inr (previousLoop, lastRouting)"
| "scan_previous r (previous # rest) previousLoop lastRouting =
     (if er_StepID previous \<noteq> er_StepID r then scan_previous r rest previousLoop lastRouting
      else if er_Stage previous = ExecutionFinished then Inl (errorf ''execution already finished'')
      else scan_previous r rest
             (if er_Loop previous \<noteq> None then er_Loop previous else previousLoop)
             (if er_Routing previous \<noteq> None \<and> er_Turn previous = er_Turn r then er_Routing previous else lastRouting))"

definition payload_count :: "ExecutionRecord \<Rightarrow> nat" where
  "payload_count r =
     length (filter (\<lambda>b. b)
       [er_Verdict r \<noteq> None, er_Routing r \<noteq> None, er_Loop r \<noteq> None, er_Result r \<noteq> None, er_Sandbox r \<noteq> None,
        er_Approval r \<noteq> None, er_Budget r \<noteq> None, er_Cleanup r \<noteq> None, er_Compaction r \<noteq> None,
        er_RequestSHA256 r \<noteq> []])"

definition compaction_message_error :: "ExecutionRecord \<Rightarrow> Message \<Rightarrow> error option" where
  "compaction_message_error r m =
     first_error
       [Message_Validate m,
        fail_if (\<exists>part\<in>set (mg_Content m). classificationRank (cp_Classification part) > classificationRank (er_Classification r))
          ''compaction classification mismatch'']"

definition compaction_error :: "Event \<Rightarrow> ExecutionRecord \<Rightarrow> error option" where
  "compaction_error event r =
     (case er_Compaction r of
        None \<Rightarrow> Some (errorf ''invalid compaction range or counts'')
      | Some c \<Rightarrow>
          first_error
            ([fail_if (co_FirstEvent c < 1 \<or> co_LastEvent c < co_FirstEvent c \<or> co_LastEvent c \<ge> ev_Sequence event \<or>
                       co_BeforeTokens c < 0 \<or> co_AfterTokens c < 0 \<or> co_Inputs c = [])
                ''invalid compaction range or counts'',
              ModelRef_Validate (co_Model c), Usage_Validate (co_Usage c), Message_Validate (co_Summary c)] @
             map (compaction_message_error r) (CloneMessages (co_Inputs c) @ [co_Summary c])))"

definition approval_error :: "WorkloadProjection \<Rightarrow> ExecutionRecord \<Rightarrow> error option" where
  "approval_error p r =
     (case er_Approval r of
        None \<Rightarrow> Some (errorf ''approval actor required'')
      | Some a \<Rightarrow>
          let scope = aq_Scope (ar_Request a); manifest = aq_Manifest (ar_Request a) in
          first_error
            [fail_if (ad_Actor (ar_Decision a) = []) ''approval actor required'',
             PolicyScope_Validate scope,
             fail_if (ps_WorkloadID scope \<noteq> wl_ID (pj_Workload p) \<or> ps_StepID scope \<noteq> er_StepID r)
               ''approval scope mismatch'',
             ContentManifest_Validate manifest,
             fail_if (EffectiveClassification manifest = Inr ClassSecret) ''secret approval forbidden''])"

definition budget_dimensions :: "string list" where
  "budget_dimensions =
     [[], ''input_tokens'', ''output_tokens'', ''cost'', ''steps'', ''model_calls'', ''tool_calls'', ''wall_time'']"

definition budget_error :: "ExecutionRecord \<Rightarrow> error option" where
  "budget_error r =
     (case er_Budget r of
        None \<Rightarrow> Some (errorf ''budget payload required'')
      | Some b \<Rightarrow>
          first_error
            [SpendBound_Validate (br_Reserved b),
             fail_if (br_Dimension b \<notin> set budget_dimensions) ''invalid budget dimension''])"

definition cleanup_error :: "ExecutionRecord \<Rightarrow> error option" where
  "cleanup_error r =
     (case er_Cleanup r of
        None \<Rightarrow> Some (errorf ''cleanup resource required'')
      | Some c \<Rightarrow> fail_if (cr_Resource c = []) ''cleanup resource required'')"

definition sandbox_phases :: "string list" where
  "sandbox_phases = [''established'', ''denied'', ''teardown'', ''execution_completed'', ''execution_failed'']"

definition sandbox_error :: "ExecutionRecord \<Rightarrow> error option" where
  "sandbox_error r =
     (case er_Sandbox r of
        None \<Rightarrow> Some (errorf ''sandbox record requires backend'')
      | Some s \<Rightarrow>
          first_error
            [fail_if (se_Backend s = []) ''sandbox record requires backend'',
             fail_if (se_Phase s \<notin> set sandbox_phases) ''invalid sandbox lifecycle phase''])"

definition policy_error :: "WorkloadProjection \<Rightarrow> Event \<Rightarrow> ExecutionRecord \<Rightarrow> error option" where
  "policy_error p event r =
     (case (er_Verdict r, er_Manifest r) of
        (Some v, Some m) \<Rightarrow>
          (case PolicyVerdict_Validate v of
             Some err \<Rightarrow> Some err
           | None \<Rightarrow>
               (case ContentManifest_Digest m of
                  Inl err \<Rightarrow> Some err
                | Inr digest \<Rightarrow>
                    first_error
                      [fail_if (digest \<noteq> vd_ManifestSHA256 v \<or> ps_WorkloadID (vd_Scope v) \<noteq> wl_ID (pj_Workload p) \<or>
                                ps_StepID (vd_Scope v) \<noteq> er_StepID r)
                         ''policy record scope or manifest mismatch'',
                       fail_if (ps_Kind (vd_Scope v) = PolicyScopeExecution \<and>
                                ps_AttemptID (vd_Scope v) \<noteq> ev_AttemptID event)
                         ''policy attempt mismatch'']))
      | _ \<Rightarrow> Some (errorf ''policy record requires verdict and manifest''))"

definition routing_error :: "WorkloadProjection \<Rightarrow> Event \<Rightarrow> ExecutionRecord \<Rightarrow> error option" where
  "routing_error p event r =
     (case er_Routing r of
        None \<Rightarrow> Some (errorf ''routing record requires a turn and decision'')
      | Some rt \<Rightarrow>
          first_error
            [fail_if (er_Turn r < 1) ''routing record requires a turn and decision'',
             RoutingDecision_Validate (rt_Decision rt) (rt_Request rt),
             fail_if (rr_WorkloadID (rt_Request rt) \<noteq> wl_ID (pj_Workload p) \<or> rr_StepID (rt_Request rt) \<noteq> er_StepID r \<or>
                      rr_AttemptID (rt_Request rt) \<noteq> ev_AttemptID event)
               ''routing identity mismatch''])"

definition checkpoint_error :: "ExecutionRecord \<Rightarrow> LoopEvent \<Rightarrow> LoopEvent option \<Rightarrow> error option" where
  "checkpoint_error r l previousLoop =
     (case (le_Checkpoint l, previousLoop) of
        (Some c, Some prev) \<Rightarrow>
          first_error
            ([fail_if (le_Type prev \<noteq> LoopEventMessageAppended \<or>
                       (case le_Message prev of None \<Rightarrow> True | Some m \<Rightarrow> mg_Role m \<noteq> RoleTool) \<or>
                       lr_ModelCalls c \<noteq> er_Turn r \<or> lr_ToolCalls c < 1 \<or> lr_Stop c \<noteq> StopToolUse)
                ''invalid turn checkpoint'',
              Usage_Validate (lr_Usage c)] @
             map Message_Validate (lr_Messages c))
      | _ \<Rightarrow> Some (errorf ''invalid turn checkpoint''))"

definition placement_matches :: "RoutingRecord \<Rightarrow> ModelRef \<Rightarrow> bool" where
  "placement_matches rt model \<longleftrightarrow>
     (\<exists>c\<in>set (rr_Candidates (rt_Request rt)).
        rc_ID c = rd_SelectedCandidateID (rt_Decision rt) \<and> md_Ref (rc_Model c) = model)"

definition loop_error ::
  "ExecutionRecord \<Rightarrow> LoopEvent option \<Rightarrow> RoutingRecord option \<Rightarrow> error option" where
  "loop_error r previousLoop lastRouting =
     (case er_Loop r of
        None \<Rightarrow> Some (errorf ''invalid recorded loop event'')
      | Some l \<Rightarrow>
          first_error
            [fail_if (le_Sequence l < 1 \<or> le_Turn l \<noteq> er_Turn r) ''invalid recorded loop event'',
             (case previousLoop of
                Some prev \<Rightarrow> fail_if (le_Type prev = LoopEventStopped) ''loop already stopped'' | None \<Rightarrow> None),
             fail_if (le_Sequence l \<noteq> (case previousLoop of Some prev \<Rightarrow> le_Sequence prev + 1 | None \<Rightarrow> 1))
               ''recorded loop sequence gap'',
             (if le_Type l \<noteq> LoopEventStopped
              then (case lastRouting of
                      None \<Rightarrow> Some (errorf ''loop activity lacks routing decision'')
                    | Some rt \<Rightarrow>
                        first_error
                          [fail_if (ID_IsZero (rd_SelectedCandidateID (rt_Decision rt)))
                             ''loop activity lacks routing decision'',
                           fail_if (\<not> placement_matches rt (le_Model l)) ''loop model differs from selected placement''])
              else None),
             (case le_Type l of LoopEventOther _ \<Rightarrow> Some (errorf ''unknown recorded loop event'') | _ \<Rightarrow> None),
             (case le_ModelEvent l of Some e \<Rightarrow> ModelEvent_Validate e | None \<Rightarrow> None),
             fail_if (le_Type l = LoopEventModel \<and> le_ModelEvent l = None) ''model event payload missing'',
             fail_if (le_Type l = LoopEventMessageAppended \<and> le_Message l = None) ''message event payload missing'',
             (if le_Type l = LoopEventCheckpoint then checkpoint_error r l previousLoop else None),
             fail_if ((le_Type l = LoopEventToolStarted \<or> le_Type l = LoopEventToolCompleted) \<and> le_ToolCall l = None)
               ''tool event payload missing'',
             (case le_Message l of Some m \<Rightarrow> Message_Validate m | None \<Rightarrow> None)])"

definition finished_error :: "ExecutionRecord \<Rightarrow> error option" where
  "finished_error r =
     (case er_Result r of
        None \<Rightarrow> Some (errorf ''finished record requires result'')
      | Some res \<Rightarrow> Usage_Validate (lr_Usage res))"

definition stage_error ::
  "WorkloadProjection \<Rightarrow> Event \<Rightarrow> ExecutionRecord \<Rightarrow> LoopEvent option \<Rightarrow> RoutingRecord option \<Rightarrow> error option" where
  "stage_error p event r previousLoop lastRouting =
     (case er_Stage r of
        ExecutionRequest \<Rightarrow> validateSHA256 ''request digest'' (er_RequestSHA256 r)
      | ExecutionResumed \<Rightarrow> validateSHA256 ''request digest'' (er_RequestSHA256 r)
      | ExecutionCompaction \<Rightarrow> compaction_error event r
      | ExecutionApproval \<Rightarrow> approval_error p r
      | ExecutionBudget \<Rightarrow> budget_error r
      | ExecutionCleanup \<Rightarrow> cleanup_error r
      | ExecutionSandbox \<Rightarrow> sandbox_error r
      | ExecutionPolicyEvaluated \<Rightarrow> policy_error p event r
      | ExecutionRoutingDecided \<Rightarrow> routing_error p event r
      | ExecutionLoopEvent \<Rightarrow> loop_error r previousLoop lastRouting
      | ExecutionFinished \<Rightarrow> finished_error r
      | ExecutionStageOther _ \<Rightarrow> Some (errorf ''unknown execution stage''))"

definition applyExecutionRecorded ::
  "codec \<Rightarrow> Event \<Rightarrow> WorkloadProjection \<Rightarrow> error option \<times> WorkloadProjection" where
  "applyExecutionRecorded dc event p =
     (case decodeProjectionPayload (dc_ExecutionRecorded dc) (ev_Payload event) of
        Inl err \<Rightarrow> (Some err, p)
      | Inr r \<Rightarrow>
          (case first_error
             [fail_if (wl_State (pj_Workload p) \<noteq> WorkloadRunning) ''execution record requires a running workload'',
              fail_if (case pj_Steps p (er_StepID r) of None \<Rightarrow> True | Some step \<Rightarrow> st_State step \<noteq> StepRunning)
                ''execution record requires a running step'',
              ID_Validate (ev_AttemptID event),
              fail_if (ev_CorrelationID event \<noteq> wl_ID (pj_Workload p))
                ''execution correlation does not match workload''] of
             Some err \<Rightarrow> (Some err, p)
           | None \<Rightarrow>
               (case scan_previous r (pj_Execution p) None None of
                  Inl err \<Rightarrow> (Some err, p)
                | Inr (previousLoop, lastRouting) \<Rightarrow>
                    (case first_error
                       [fail_if (er_Turn r < 0) ''negative turn'',
                        Classification_Validate (er_Classification r),
                        fail_if (payload_count r \<noteq> 1) ''execution record must have exactly one payload'',
                        stage_error p event r previousLoop lastRouting,
                        fail_if (er_Stage r \<noteq> ExecutionPolicyEvaluated \<and> er_Manifest r \<noteq> None)
                          ''unexpected manifest''] of
                       Some err \<Rightarrow> (Some err, p)
                     | None \<Rightarrow> (None, p\<lparr>pj_Execution := pj_Execution p @ [r]\<rparr>)))))"

section \<open>Applying an event\<close>

definition projection_error :: "error \<Rightarrow> error option" where
  "projection_error err = Some (wrap_sentinel ErrInvalidProjectionEvent err)"

definition apply_by_type :: "codec \<Rightarrow> Event \<Rightarrow> WorkloadProjection \<Rightarrow> error option \<times> WorkloadProjection" where
  "apply_by_type dc event p =
     (if ev_Type event = EventTypeWorkloadCreated then applyWorkloadCreated dc event p
      else if ev_Type event = EventTypeWorkloadTransitioned then applyWorkloadTransitioned dc event p
      else if ev_Type event = EventTypeStepCreated then applyStepCreated dc event p
      else if ev_Type event = EventTypeStepTransitioned then applyStepTransitioned dc event p
      else if ev_Type event = EventTypeExecutionRecorded then applyExecutionRecorded dc event p
      else (Some (errorf ''unknown event type''), p))"

definition WorkloadProjection_Apply ::
  "codec \<Rightarrow> Event \<Rightarrow> WorkloadProjection \<Rightarrow> error option \<times> WorkloadProjection" where
  "WorkloadProjection_Apply dc event p =
     (case first_error
        [map_option (wrapf ''projection aggregate'') (AggregateRef_Validate (pj_Aggregate p)),
         fail_if (ag_Type (pj_Aggregate p) \<noteq> WorkloadAggregateType) ''projection aggregate type'',
         Event_Validate event,
         fail_if (ev_Aggregate event \<noteq> pj_Aggregate p) ''event aggregate does not match projection'',
         fail_if (ev_Sequence event \<noteq> pj_Version p + 1) ''event sequence out of order'',
         fail_if (ev_SchemaVersion event \<noteq> CoreEventSchemaV1) ''schema version is unsupported''] of
        Some err \<Rightarrow> (projection_error err, p)
      | None \<Rightarrow>
          (case apply_by_type dc event p of
             (Some err, p') \<Rightarrow> (projection_error err, p')
           | (None, p') \<Rightarrow> (None, p'\<lparr>pj_Version := ev_Sequence event\<rparr>)))"

text \<open>
  The store enters as the answer of its \<open>Load\<close>; a nil store is \<open>None\<close>. The replay asks its own
  context between events.
\<close>

definition LoadWorkloadProjection ::
  "codec \<Rightarrow> ctx \<Rightarrow> (ctx \<Rightarrow> AggregateRef \<Rightarrow> 64 word \<Rightarrow> error + Event list) option \<Rightarrow> AggregateRef
    \<Rightarrow> error + WorkloadProjection" where
  "LoadWorkloadProjection dc ctx store a =
     (case store of
        None \<Rightarrow> Inl (errorf ''event store is nil'')
      | Some load \<Rightarrow>
     (case NewWorkloadProjection a of
        Inl err \<Rightarrow> Inl err
      | Inr projection \<Rightarrow>
     (case Replay (ctx_from 1 ctx) (load ctx a 0) (WorkloadProjection_Apply dc) projection of
        (Some err, _) \<Rightarrow> Inl err
      | (None, p) \<Rightarrow>
          if pj_Version p = 0 then Inl (Error [ErrAggregateNotFound] ''aggregate not found'') else Inr p)))"

end
