(* ===== verification/Telemetry.thy ===== *)
theory Telemetry
  imports Policy
begin

text \<open>
  Operational records (src/telemetry.go): \<open>NewRecord\<close> builds a record and drops content and attributes
  from confidential data up, \<open>Emit\<close> hands a rebuilt record to an observer callback if one of the 64
  process-wide slots is free. Callbacks run in their own goroutines; what is modelled of them is the slot
  they hold, so the slots form a small state machine.

  A nil byte slice and a nil map are \<open>None\<close>; copying an empty slice onto nil gives nil, as in Go.
\<close>

section \<open>Records\<close>

definition RecordSchemaV1 :: "32 word" where
  "RecordSchemaV1 = 1"

datatype RecordKind =
    RecordWorkload | RecordStep | RecordAttempt | RecordRouting | RecordPolicy | RecordProvider
  | RecordTool | RecordKindOther string

datatype AttributeKey = AttrOutcome | AttrPhase | AttributeKeyOther string

record Record =
  ob_SchemaVersion :: "32 word"
  ob_Kind :: RecordKind
  ob_WorkloadID :: ID
  ob_StepID :: ID
  ob_AttemptID :: ID
  ob_Sequence :: "64 word"
  ob_Classification :: Classification
  ob_Content :: "bytes option"
  ob_ContentSize :: int
  ob_ContentSHA256 :: string
  ob_Attributes :: "(AttributeKey \<times> string) list option"

record RecordInput =
  ri_Kind :: RecordKind
  ri_WorkloadID :: ID
  ri_StepID :: ID
  ri_AttemptID :: ID
  ri_Sequence :: "64 word"
  ri_Classification :: Classification
  ri_Content :: "bytes option"
  ri_Attributes :: "(AttributeKey \<times> string) list option"

definition clone_bytes :: "bytes option \<Rightarrow> bytes option" where
  "clone_bytes b = (case b of None \<Rightarrow> None | Some bs \<Rightarrow> if bs = [] then None else Some bs)"

definition unknown_attribute :: "(AttributeKey \<times> string) list option \<Rightarrow> bool" where
  "unknown_attribute attrs \<longleftrightarrow>
     (case attrs of None \<Rightarrow> False | Some kvs \<Rightarrow> \<exists>(k, v)\<in>set kvs. case k of AttributeKeyOther _ \<Rightarrow> True | _ \<Rightarrow> False)"

definition NewRecord :: "RecordInput \<Rightarrow> error + Record" where
  "NewRecord input =
     (case ri_Kind input of
        RecordKindOther _ \<Rightarrow> Inl (errorf ''unknown observation kind'')
      | _ \<Rightarrow>
          let class = (if ri_Classification input = no_class then ClassConfidential else ri_Classification input) in
          case Classification_Validate class of
            Some err \<Rightarrow> Inl err
          | None \<Rightarrow>
              if unknown_attribute (ri_Attributes input) then Inl (errorf ''unknown observation attribute key'')
              else
                let open_class = classificationRank class < classificationRank ClassConfidential in
                Inr \<lparr>ob_SchemaVersion = RecordSchemaV1, ob_Kind = ri_Kind input, ob_WorkloadID = ri_WorkloadID input,
                     ob_StepID = ri_StepID input, ob_AttemptID = ri_AttemptID input, ob_Sequence = ri_Sequence input,
                     ob_Classification = class,
                     ob_Content = (if open_class then clone_bytes (ri_Content input) else None),
                     ob_ContentSize = (case ri_Content input of None \<Rightarrow> 0 | Some bs \<Rightarrow> int (length bs)),
                     ob_ContentSHA256 = (case ri_Content input of None \<Rightarrow> [] | Some bs \<Rightarrow> sha256Hex bs),
                     ob_Attributes = (if open_class then ri_Attributes input else None)\<rparr>)"

section \<open>Observation\<close>

record Observation =
  on_observer :: "Record \<Rightarrow> unit answer"
  on_timeout :: duration

definition NewObservation :: "(Record \<Rightarrow> unit answer) option \<Rightarrow> duration \<Rightarrow> Observation option" where
  "NewObservation observer timeout =
     (case observer of
        None \<Rightarrow> None
      | Some f \<Rightarrow> Some \<lparr>on_observer = f, on_timeout = (if timeout \<le> 0 then 100 * 10 ^ 6 else timeout)\<rparr>)"

definition observation_slots :: nat where
  "observation_slots = 64"

text \<open>The record that crosses the boundary, if any.\<close>

definition safe_record :: "Record \<Rightarrow> Record option" where
  "safe_record r =
     (case NewRecord \<lparr>ri_Kind = ob_Kind r, ri_WorkloadID = ob_WorkloadID r, ri_StepID = ob_StepID r,
                      ri_AttemptID = ob_AttemptID r, ri_Sequence = ob_Sequence r,
                      ri_Classification = ob_Classification r, ri_Content = ob_Content r,
                      ri_Attributes = ob_Attributes r\<rparr> of
        Inl _ \<Rightarrow> None
      | Inr safe \<Rightarrow>
          if ob_Content r = None \<and> ob_ContentSHA256 r \<noteq> []
          then if validateSHA256 ''observation hash'' (ob_ContentSHA256 r) \<noteq> None \<or> ob_ContentSize r < 0 then None
               else Some (safe\<lparr>ob_ContentSHA256 := ob_ContentSHA256 r, ob_ContentSize := ob_ContentSize r\<rparr>)
          else Some safe)"

text \<open>\<open>Emit\<close> from \<open>used\<close> occupied slots: the record handed to a new callback and the slots then occupied.\<close>

definition Emit :: "Observation option \<Rightarrow> error option \<Rightarrow> Record \<Rightarrow> nat \<Rightarrow> Record option \<times> nat" where
  "Emit obs ctx_error r used =
     (case obs of
        None \<Rightarrow> (None, used)
      | Some _ \<Rightarrow>
          if ctx_error \<noteq> None then (None, used)
          else case safe_record r of
            None \<Rightarrow> (None, used)
          | Some safe \<Rightarrow> if used < observation_slots then (Some safe, Suc used) else (None, used))"

section \<open>The boundary\<close>

lemma NewRecord_Inr:
  assumes "NewRecord input = Inr r"
  shows "Classification_Validate (ob_Classification r) = None" "ob_Kind r = ri_Kind input"
    "\<not> (\<exists>s. ob_Kind r = RecordKindOther s)" "\<not> unknown_attribute (ri_Attributes input)"
    "ob_Classification r = (if ri_Classification input = no_class then ClassConfidential else ri_Classification input)"
    "classificationRank (ob_Classification r) \<ge> classificationRank ClassConfidential \<Longrightarrow>
       ob_Content r = None \<and> ob_Attributes r = None"
    "classificationRank (ob_Classification r) < classificationRank ClassConfidential \<Longrightarrow>
       ob_Content r = clone_bytes (ri_Content input) \<and> ob_Attributes r = ri_Attributes input"
  using assms by (auto simp: NewRecord_def Let_def split: RecordKind.splits option.splits if_splits)

text \<open>
  [C32] Nothing confidential leaves through telemetry, however the record was assembled: a record
  handed to an observer has a known kind, a valid class and known attribute keys, it carries neither
  content nor attributes unless its class is below confidential (an unlabelled record counts as
  confidential), and at no time do more than 64 callbacks exist.
\<close>

theorem Emit_protects:
  assumes "Emit obs ctx_error r used = (Some safe, used')" "used \<le> observation_slots"
  shows "(\<forall>s. ob_Kind safe \<noteq> RecordKindOther s) \<and> Classification_Validate (ob_Classification safe) = None \<and>
    \<not> unknown_attribute (ob_Attributes safe) \<and>
    (classificationRank (ob_Classification safe) \<ge> classificationRank ClassConfidential \<longrightarrow>
       ob_Content safe = None \<and> ob_Attributes safe = None) \<and>
    (ob_Classification r = no_class \<longrightarrow> ob_Content safe = None \<and> ob_Attributes safe = None) \<and>
    used' = Suc used \<and> used' \<le> observation_slots"
proof -
  obtain x where x: "NewRecord \<lparr>ri_Kind = ob_Kind r, ri_WorkloadID = ob_WorkloadID r, ri_StepID = ob_StepID r,
      ri_AttemptID = ob_AttemptID r, ri_Sequence = ob_Sequence r, ri_Classification = ob_Classification r,
      ri_Content = ob_Content r, ri_Attributes = ob_Attributes r\<rparr> = Inr x"
    and safe: "ob_Kind safe = ob_Kind x" "ob_Classification safe = ob_Classification x" "ob_Content safe = ob_Content x"
      "ob_Attributes safe = ob_Attributes x"
    and used: "used' = Suc used" "used' \<le> observation_slots"
    using assms by (auto simp: Emit_def safe_record_def split: if_splits option.splits sum.splits)
  note facts = NewRecord_Inr [OF x]
  have "\<not> unknown_attribute (ob_Attributes x)"
    using facts(4,6,7) by (cases "classificationRank (ob_Classification x) < classificationRank ClassConfidential")
      (auto simp: unknown_attribute_def)
  then show ?thesis using facts used safe by auto
qed

text \<open>A record assembled by hand, with confidential content and no label.\<close>

definition unlabelled_record :: Record where
  "unlabelled_record =
     \<lparr>ob_SchemaVersion = 1, ob_Kind = RecordTool, ob_WorkloadID = sample_id, ob_StepID = sample_id,
      ob_AttemptID = sample_id, ob_Sequence = 1, ob_Classification = no_class, ob_Content = Some ''key'',
      ob_ContentSize = 3, ob_ContentSHA256 = [], ob_Attributes = Some [(AttrOutcome, ''started'')]\<rparr>"

theorem Emit_protects_witness:
  "\<exists>safe. Emit (NewObservation (Some (\<lambda>_. Answers ())) 0) None unlabelled_record 63 = (Some safe, 64) \<and>
     ob_Content safe = None \<and> ob_Attributes safe = None"
proof -
  have "\<exists>safe. Emit (NewObservation (Some (\<lambda>_. Answers ())) 0) None unlabelled_record 63 = (Some safe, 64)"
    by (simp add: Emit_def NewObservation_def safe_record_def NewRecord_def unlabelled_record_def unknown_attribute_def
        observation_slots_def Let_def)
  then obtain safe where e: "Emit (NewObservation (Some (\<lambda>_. Answers ())) 0) None unlabelled_record 63 = (Some safe, 64)" ..
  from Emit_protects [OF this] e show ?thesis by (auto simp: observation_slots_def unlabelled_record_def)
qed

end
