(* ===== verification/EngineState.thy ===== *)
theory EngineState
  imports Projection Telemetry
begin

text \<open>
  The execution engine's shared state and the operations every callback goes through: appending and
  recording events, policy records, approvals and spend reservations (src/engine.go, src/lifecycle.go).

  An operation is a function on the \<open>engineRun\<close> state that answers, fails or panics. The collaborators
  of the engine are the fields of \<open>Engine\<close>; what Go takes from the runtime is the environment: the
  answers of a context each time one is passed on or asked (the \<open>n\<close>-th use gets \<open>v_ctx n\<close>), the clock, the
  store's clock and entropy, \<open>json.Marshal\<close> and the decoder, the occupied observation slots, and
  \<open>context.Cause\<close> of the run's context given what was passed to its \<open>stop\<close>. The approval timeout only
  decides what the approval context answers. Of the state, \<open>s_closed\<close> holds the \<open>sync.Once\<close> of each tool
  wrapper; three fields are not in the source: the event store, the entries committed so far and
  the calls that reached a tool handler, which the theorems speak about.
\<close>

section \<open>Configuration\<close>

type_synonym 'st store_append =
  "'st \<Rightarrow> ctx \<Rightarrow> AggregateRef \<Rightarrow> 64 word \<Rightarrow> EventDraft list \<Rightarrow> (nat \<Rightarrow> tick) \<Rightarrow> (error + Event list) \<times> 'st"

type_synonym 'st store_load = "'st \<Rightarrow> ctx \<Rightarrow> AggregateRef \<Rightarrow> 64 word \<Rightarrow> error + Event list"

record 'st Engine =
  e_ContextCounter :: "(ctx \<Rightarrow> ModelRequest \<Rightarrow> ModelDescriptor \<Rightarrow> int answer) option"
  e_Approver :: "(ctx \<Rightarrow> ApprovalRequest \<Rightarrow> ApprovalDecision answer) option"
  e_SpendEstimator :: "(ctx \<Rightarrow> ModelRequest \<Rightarrow> ModelDescriptor \<Rightarrow> SpendBound answer) option"
  e_Append :: "'st store_append"
  e_Load :: "'st store_load"
  e_ExecutionPolicy :: "ExecutionPolicyRequest policy option"
  e_DataEgressPolicy :: "DataEgressPolicyRequest policy option"
  e_Router :: "router option"
  e_Providers :: "string \<Rightarrow> Provider option"
  e_Observer :: "(Record \<Rightarrow> unit answer) option"
  e_ObserverTimeout :: duration

text \<open>A tool that is also a \<open>SandboxedTool\<close> has its \<open>PrepareSandbox\<close> in \<open>q_Sandboxed\<close>, by tool name.\<close>

record EngineRequest =
  q_WorkloadID :: ID
  q_SessionID :: ID
  q_StepID :: ID
  q_AttemptID :: ID
  q_Goal :: string
  q_SourceZone :: Zone
  q_Classification :: Classification
  q_ModelOutputClassification :: Classification
  q_Initial :: ModelRequest
  q_Tools :: "ToolBinding list"
  q_Requirements :: Requirements
  q_Candidates :: "RoutingCandidate list"
  q_Budget :: Budget
  q_Autonomous :: bool
  q_ParallelTools :: bool
  q_Sandboxed :: "string \<Rightarrow> (ctx \<Rightarrow> SandboxCapability answer) option"

datatype engineDraft =
    WorkloadCreatedDraft WorkloadCreatedPayload
  | WorkloadTransitionedDraft WorkloadTransitionedPayload
  | StepCreatedDraft StepCreatedPayload
  | StepTransitionedDraft StepTransitionedPayload
  | ExecutionDraft ExecutionRecord

fun draft_kind :: "engineDraft \<Rightarrow> string" where
  "draft_kind (WorkloadCreatedDraft _) = EventTypeWorkloadCreated"
| "draft_kind (WorkloadTransitionedDraft _) = EventTypeWorkloadTransitioned"
| "draft_kind (StepCreatedDraft _) = EventTypeStepCreated"
| "draft_kind (StepTransitionedDraft _) = EventTypeStepTransitioned"
| "draft_kind (ExecutionDraft _) = EventTypeExecutionRecorded"

record environment =
  v_ctx :: "nat \<Rightarrow> ctx"
  v_now :: "nat \<Rightarrow> time"
  v_deadline :: time
  v_tick :: "nat \<Rightarrow> nat \<Rightarrow> tick"
  v_slot :: "nat \<Rightarrow> nat"
  v_marshal :: "engineDraft \<Rightarrow> error + bytes"
  v_marshal_event :: "ModelEvent \<Rightarrow> error + bytes"
  v_marshal_call :: "ToolCall \<Rightarrow> error + bytes"
  v_marshal_request :: "ModelRequest \<Rightarrow> error + bytes"
  v_marshal_messages :: "Message list \<Rightarrow> bytes"
  v_marshal_submission :: "EngineRequest \<Rightarrow> ToolDefinition list \<Rightarrow> error + bytes"
  v_codec :: codec
  v_cause :: "nat \<Rightarrow> error option \<Rightarrow> error option"

record 'st config =
  g_engine :: "'st Engine"
  g_request :: EngineRequest
  g_env :: environment

record 'st engineRun =
  s_stepApproved :: bool
  s_compactionUsage :: Usage
  s_extraCalls :: int
  s_reserved :: SpendBound
  s_budgetDimension :: string
  s_sequence :: "64 word"
  s_cause :: ID
  s_storeErr :: "error option"
  s_observationSequence :: "64 word"
  s_stopped :: "error option"
  s_closed :: "nat \<Rightarrow> error option option"
  s_uses :: nat
  s_observed :: "Record list"
  s_store :: 'st
  s_log :: "engineDraft list"
  s_executed :: "(bool \<times> SandboxCapability \<times> ToolInvocation) list"

type_synonym ('st, 'a) engine_op = "'st engineRun \<Rightarrow> 'a answer \<times> 'st engineRun"

definition aggregate :: "'st config \<Rightarrow> AggregateRef" where
  "aggregate g = \<lparr>ag_Type = WorkloadAggregateType, ag_ID = q_WorkloadID (g_request g)\<rparr>"

section \<open>Sequencing\<close>

definition seq :: "('st, 'a) engine_op \<Rightarrow> ('a \<Rightarrow> ('st, 'b) engine_op) \<Rightarrow> ('st, 'b) engine_op" where
  "seq m f s =
     (case m s of
        (Answers a, s') \<Rightarrow> f a s'
      | (Fails err, s') \<Rightarrow> (Fails err, s')
      | (Panics, s') \<Rightarrow> (Panics, s'))"

definition ret :: "'a \<Rightarrow> ('st, 'a) engine_op" where
  "ret a s = (Answers a, s)"

definition failing :: "error \<Rightarrow> ('st, 'a) engine_op" where
  "failing err s = (Fails err, s)"

definition check :: "error option \<Rightarrow> ('st, unit) engine_op" where
  "check err s = (case err of None \<Rightarrow> (Answers (), s) | Some e \<Rightarrow> (Fails e, s))"

definition lift_answer :: "'a answer \<Rightarrow> ('st, 'a) engine_op" where
  "lift_answer a s = (a, s)"

definition lift_sum :: "error + 'a \<Rightarrow> ('st, 'a) engine_op" where
  "lift_sum r s = (case r of Inl err \<Rightarrow> (Fails err, s) | Inr a \<Rightarrow> (Answers a, s))"

text \<open>The context at its next use, and \<open>ctx.Err()\<close> asked for once.\<close>

definition use_ctx :: "'st config \<Rightarrow> ('st, ctx) engine_op" where
  "use_ctx g s = (Answers (v_ctx (g_env g) (s_uses s)), s\<lparr>s_uses := Suc (s_uses s)\<rparr>)"

definition ask_ctx :: "'st config \<Rightarrow> ('st, error option) engine_op" where
  "ask_ctx g s = (Answers (v_ctx (g_env g) (s_uses s) 0), s\<lparr>s_uses := Suc (s_uses s)\<rparr>)"

definition check_ctx :: "'st config \<Rightarrow> ('st, unit) engine_op" where
  "check_ctx g = seq (ask_ctx g) check"

section \<open>Appending\<close>

fun engine_drafts :: "'st config \<Rightarrow> ID \<Rightarrow> engineDraft list \<Rightarrow> error + EventDraft list" where
  "engine_drafts g cause [] = Inr []"
| "engine_drafts g cause (entry # entries) =
     (case NewCoreEventDraft (draft_kind entry) (v_marshal (g_env g) entry) of
        Inl err \<Rightarrow> Inl err
      | Inr d \<Rightarrow>
          (case engine_drafts g cause entries of
             Inl err \<Rightarrow> Inl err
           | Inr ds \<Rightarrow>
               Inr (d\<lparr>dr_CausationID := cause, dr_CorrelationID := q_WorkloadID (g_request g),
                      dr_AttemptID := q_AttemptID (g_request g)\<rparr> # ds)))"

definition append_entries :: "'st config \<Rightarrow> engineDraft list \<Rightarrow> ('st, unit) engine_op" where
  "append_entries g entries s =
     (case s_storeErr s of
        Some err \<Rightarrow> (Fails err, s)
      | None \<Rightarrow>
     (case engine_drafts g (s_cause s) entries of
        Inl err \<Rightarrow> (Fails err, s\<lparr>s_storeErr := Some err\<rparr>)
      | Inr drafts \<Rightarrow>
     (let n = s_uses s; context = v_ctx (g_env g) n;
          (result, store) = e_Append (g_engine g) (s_store s) (ctx_from 1 context) (aggregate g) (s_sequence s) drafts
            (v_tick (g_env g) n);
          s = s\<lparr>s_store := store, s_uses := Suc n\<rparr> in
      case result of
        Inl err \<Rightarrow> if context 0 \<noteq> None then (Fails err, s) else (Fails err, s\<lparr>s_storeErr := Some err\<rparr>)
      | Inr events \<Rightarrow>
          if length events \<noteq> length drafts
          then let err = errorf ''store returned incomplete append'' in (Fails err, s\<lparr>s_storeErr := Some err\<rparr>)
          else if events = [] then (Answers (), s)
          else (Answers (), s\<lparr>s_sequence := ev_Sequence (last events), s_cause := ev_ID (last events),
                              s_log := s_log s @ entries\<rparr>))))"

section \<open>Observing and recording\<close>

definition observe :: "'st config \<Rightarrow> RecordKind \<Rightarrow> string \<Rightarrow> 'st engineRun \<Rightarrow> 'st engineRun" where
  "observe g kind outcome s =
     (case NewObservation (e_Observer (g_engine g)) (e_ObserverTimeout (g_engine g)) of
        None \<Rightarrow> s
      | Some obs \<Rightarrow>
          let n = s_observationSequence s + 1;
              r = NewRecord \<lparr>ri_Kind = kind, ri_WorkloadID = q_WorkloadID (g_request g), ri_StepID = q_StepID (g_request g),
                    ri_AttemptID = q_AttemptID (g_request g), ri_Sequence = n,
                    ri_Classification = q_Classification (g_request g), ri_Content = None,
                    ri_Attributes = Some [(AttrOutcome, outcome)]\<rparr>;
              s = s\<lparr>s_observationSequence := n, s_uses := Suc (s_uses s)\<rparr> in
          case r of
            Inl _ \<Rightarrow> s
          | Inr record \<Rightarrow>
              (case Emit (Some obs) None record (v_slot (g_env g) (s_uses s)) of
                 (None, _) \<Rightarrow> s
               | (Some safe, _) \<Rightarrow> s\<lparr>s_observed := s_observed s @ [safe]\<rparr>))"

definition observing :: "'st config \<Rightarrow> RecordKind \<Rightarrow> string \<Rightarrow> ('st, unit) engine_op" where
  "observing g kind outcome s = (Answers (), observe g kind outcome s)"

definition record_execution :: "'st config \<Rightarrow> ExecutionRecord \<Rightarrow> ('st, unit) engine_op" where
  "record_execution g r =
     append_entries g [ExecutionDraft (r\<lparr>er_StepID := q_StepID (g_request g),
       er_Classification := (if er_Classification r = no_class then q_Classification (g_request g) else er_Classification r)\<rparr>)]"

definition policy_record :: "int \<Rightarrow> Classification \<Rightarrow> ContentManifest \<Rightarrow> PolicyVerdict \<Rightarrow> ExecutionRecord" where
  "policy_record turn class manifest v =
     blank_record\<lparr>er_Turn := turn, er_Stage := ExecutionPolicyEvaluated, er_Classification := class,
       er_Manifest := Some manifest, er_Verdict := Some v\<rparr>"

fun action_text :: "PolicyAction \<Rightarrow> string" where
  "action_text PolicyAllow = ''allow''"
| "action_text PolicyDeny = ''deny''"
| "action_text PolicyRequireApproval = ''require_approval''"
| "action_text PolicyTransform = ''transform''"
| "action_text PolicyRedact = ''redact''"
| "action_text (PolicyActionOther t) = t"

definition recordPolicy :: "'st config \<Rightarrow> int \<Rightarrow> ContentManifest \<Rightarrow> PolicyVerdict \<Rightarrow> ('st, unit) engine_op" where
  "recordPolicy g turn manifest v =
     seq (lift_sum (EffectiveClassification manifest)) (\<lambda>class.
     seq (record_execution g (policy_record turn class manifest v)) (\<lambda>_.
     observing g RecordPolicy (action_text (vd_Action v))))"

section \<open>Approval\<close>

definition approval_denied :: error where
  "approval_denied = Error [ErrApprovalDenied, ErrExecutionDenied] ''execution not authorized: approval denied''"

definition callApprover ::
  "(ctx \<Rightarrow> ApprovalRequest \<Rightarrow> ApprovalDecision answer) \<Rightarrow> ctx \<Rightarrow> ApprovalRequest \<Rightarrow> ApprovalDecision \<times> error option" where
  "callApprover approver ctx request =
     (case approver ctx request of
        Answers d \<Rightarrow> (d, None)
      | Fails err \<Rightarrow> (\<lparr>ad_Approved = False, ad_Actor = [], ad_Reason = []\<rparr>, Some err)
      | Panics \<Rightarrow> (\<lparr>ad_Approved = False, ad_Actor = [], ad_Reason = []\<rparr>, Some (errorf ''approver panicked'')))"

text \<open>
  The decision that counts: an answer without error, within the time allowed and by a named actor.
  The approval context is asked up to three times; the approver is given the rest of its answers.
\<close>

definition settled_decision :: "ApprovalDecision \<Rightarrow> error option \<Rightarrow> ctx \<Rightarrow> ApprovalDecision" where
  "settled_decision decision approvalErr approvalCtx =
     (if approvalErr \<noteq> None \<or> approvalCtx 0 \<noteq> None \<or> blank (ad_Actor decision)
      then \<lparr>ad_Approved = False, ad_Actor = ''fabricrunner'',
            ad_Reason = (if approvalCtx 1 \<noteq> None then ''approval_timeout'' else ''approval_failed'')\<rparr>
      else decision)"

definition approval_record :: "int \<Rightarrow> Classification \<Rightarrow> PolicyScope \<Rightarrow> ContentManifest \<Rightarrow> ApprovalDecision \<Rightarrow> ExecutionRecord" where
  "approval_record turn class scope manifest decision =
     blank_record\<lparr>er_Turn := turn, er_Stage := ExecutionApproval, er_Classification := class,
       er_Approval := Some \<lparr>ar_Request = \<lparr>aq_Scope = PolicyScope_Clone scope, aq_Manifest = ContentManifest_Clone manifest\<rparr>,
                            ar_Decision = decision\<rparr>\<rparr>"

definition approve :: "'st config \<Rightarrow> int \<Rightarrow> ContentManifest \<Rightarrow> PolicyScope \<Rightarrow> ('st, unit) engine_op" where
  "approve g turn manifest scope =
     (case e_Approver (g_engine g) of
        None \<Rightarrow> failing approval_denied
      | Some approver \<Rightarrow>
          seq (lift_sum (EffectiveClassification manifest)) (\<lambda>class.
          if class = ClassSecret then failing approval_denied
          else
            seq (use_ctx g) (\<lambda>approvalCtx.
            let (answer, approvalErr) = callApprover approver (ctx_from 3 approvalCtx)
                  \<lparr>aq_Scope = PolicyScope_Clone scope, aq_Manifest = ContentManifest_Clone manifest\<rparr>;
                decision = settled_decision answer approvalErr approvalCtx in
            seq (record_execution g (approval_record turn class scope manifest decision)) (\<lambda>_.
            if \<not> ad_Approved decision
            then check (errors_Join (errors_Join (Some approval_denied) approvalErr) (approvalCtx 2))
            else check_ctx g))))"

definition granted :: "PolicyVerdict \<Rightarrow> PolicyVerdict" where
  "granted v =
     v\<lparr>vd_Policy := ''fabricrunner.approval'', vd_PolicyVersion := ''1'', vd_RuleID := ''approval.granted'',
       vd_Action := PolicyAllow, vd_Reason := ''recorded approval granted''\<rparr>"

definition resolveApproval ::
  "'st config \<Rightarrow> int \<Rightarrow> ContentManifest \<Rightarrow> PolicyVerdict \<Rightarrow> ('st, PolicyVerdict) engine_op" where
  "resolveApproval g turn manifest v =
     (if \<not> RequiresApproval v then ret v
      else
        seq (approve g turn manifest (vd_Scope v)) (\<lambda>_.
        seq (recordPolicy g turn manifest (granted v)) (\<lambda>_.
        ret (granted v))))"

section \<open>Spending\<close>

definition budget_record :: "int \<Rightarrow> SpendBound \<Rightarrow> string \<Rightarrow> ExecutionRecord" where
  "budget_record turn reserved dimension =
     blank_record\<lparr>er_Turn := turn, er_Stage := ExecutionBudget,
       er_Budget := Some \<lparr>br_Reserved = reserved, br_Dimension = dimension\<rparr>\<rparr>"

text \<open>A failed record does not replace the budget error but joins it.\<close>

definition spendFailure :: "'st config \<Rightarrow> int \<Rightarrow> string \<Rightarrow> ('st, 'a) engine_op" where
  "spendFailure g turn dimension s =
     (let budget_error = Some (Error [ErrLoopBudgetExceeded] dimension) in
      case record_execution g (budget_record turn no_spend dimension) (s\<lparr>s_budgetDimension := dimension\<rparr>) of
        (Answers _, s') \<Rightarrow> (Fails (the budget_error), s')
      | (Fails err, s') \<Rightarrow> (Fails (the (errors_Join budget_error (Some err))), s')
      | (Panics, s') \<Rightarrow> (Panics, s'))"

definition exceeded_dimension :: "SpendBound \<Rightarrow> int \<Rightarrow> int \<Rightarrow> int \<Rightarrow> SpendBound \<Rightarrow> string" where
  "exceeded_dimension bound maxInput maxOutput maxCost used =
     (if sb_InputTokens bound > wrap64 (maxInput - sb_InputTokens used) then ''input_tokens''
      else if sb_OutputTokens bound > wrap64 (maxOutput - sb_OutputTokens used) then ''output_tokens''
      else if sb_Cost bound > wrap64 (maxCost - sb_Cost used) then ''cost'' else [])"

definition add_spend :: "SpendBound \<Rightarrow> SpendBound \<Rightarrow> SpendBound" where
  "add_spend a b =
     \<lparr>sb_InputTokens = wrap64 (sb_InputTokens a + sb_InputTokens b),
      sb_OutputTokens = wrap64 (sb_OutputTokens a + sb_OutputTokens b), sb_Cost = wrap64 (sb_Cost a + sb_Cost b)\<rparr>"

definition reserve :: "'st config \<Rightarrow> int \<Rightarrow> ModelRequest \<Rightarrow> ModelDescriptor \<Rightarrow> ('st, SpendBound) engine_op" where
  "reserve g turn request descriptor =
     (case e_SpendEstimator (g_engine g) of
        None \<Rightarrow> failing (errorf ''engine requires conservative spend estimator before model calls'')
      | Some estimate \<Rightarrow>
          seq (use_ctx g) (\<lambda>ctx.
          seq (lift_answer (estimate ctx (CloneModelRequest request) (ModelDescriptor_Clone descriptor))) (\<lambda>bound.
          seq (check (SpendBound_Validate bound)) (\<lambda>_ s.
          let budget = q_Budget (g_request g);
              dimension = exceeded_dimension bound (bg_MaxInputTokens budget) (bg_MaxOutputTokens budget)
                (bg_MaxCost budget) (s_reserved s) in
          if dimension \<noteq> [] then spendFailure g turn dimension s
          else if mq_MaxOutputTokens request > sb_OutputTokens bound
          then failing (errorf ''requested output cap exceeds spend bound'') s
          else
            seq (record_execution g (budget_record turn bound [])) (\<lambda>_ s.
              (Answers bound, s\<lparr>s_reserved := add_spend (s_reserved s) bound\<rparr>)) s))))"

definition admit :: "'st config \<Rightarrow> ('st, unit) engine_op" where
  "admit g = (if bg_MaxSteps (q_Budget (g_request g)) < 1 then spendFailure g 0 ''steps'' else ret ())"

section \<open>Classes and manifests\<close>

definition higherClassification :: "Classification \<Rightarrow> Classification \<Rightarrow> Classification" where
  "higherClassification a b =
     (let b = (if b = no_class then ClassConfidential else b) in
      if classificationRank b > classificationRank a then b else a)"

definition valueManifest :: "error + bytes \<Rightarrow> Classification \<Rightarrow> error + ContentManifest" where
  "valueManifest encoded class =
     (case encoded of
        Inl err \<Rightarrow> Inl err
      | Inr data \<Rightarrow>
          Inr \<lparr>cm_Items = [\<lparr>ci_SHA256 = sha256Hex data, ci_MediaType = ''application/json'',
                            ci_SizeBytes = int (length data), ci_Classification = class\<rparr>]\<rparr>)"

fun manifest_class :: "ContentPart list \<Rightarrow> Classification \<Rightarrow> error + Classification" where
  "manifest_class [] class = Inr class"
| "manifest_class (part # parts) class =
     (let class = (if classificationRank (cp_Classification part) > classificationRank class
                   then cp_Classification part else class) in
      if cp_Type part = ContentArtifact \<or> cp_Type part = ContentImage \<or> cp_Type part = ContentDocument
      then Inl (errorf ''engine artifact materialization is not implemented'')
      else manifest_class parts class)"

definition modelManifest :: "'st config \<Rightarrow> ModelRequest \<Rightarrow> Classification \<Rightarrow> error + ContentManifest" where
  "modelManifest g request class =
     (case manifest_class (concat (map mg_Content (mq_Messages request))) class of
        Inl err \<Rightarrow> Inl err
      | Inr class \<Rightarrow>
          valueManifest (v_marshal_request (g_env g) (request\<lparr>mq_Model := \<lparr>mr_Provider = [], mr_Model = []\<rparr>\<rparr>)) class)"

end
