(* ===== verification/EngineRun.thy ===== *)
theory EngineRun
  imports EnginePlacement
begin

text \<open>
  A whole run of the engine (src/engine.go) and its resumption from the durable log
  (src/recovery.go). The turn loop is an interface of the engine and an argument here: it may change the
  engine's state through the callbacks of \<open>EnginePlacement\<close> and nothing else.
\<close>

section \<open>Requests\<close>

definition default_class :: "Classification \<Rightarrow> Classification" where
  "default_class c = (if c = no_class then ClassConfidential else c)"

definition label_messages :: "Message list \<Rightarrow> Message list" where
  "label_messages ms =
     map (\<lambda>m. m\<lparr>mg_Content := map (\<lambda>p. p\<lparr>cp_Classification := default_class (cp_Classification p)\<rparr>) (mg_Content m)\<rparr>) ms"

definition prepare_request :: "EngineRequest \<Rightarrow> error + EngineRequest" where
  "prepare_request r =
     (let initial = CloneModelRequest (q_Initial r);
          r' = r\<lparr>q_Requirements := cloneRequirements (q_Requirements r), q_Classification := default_class (q_Classification r),
                 q_ModelOutputClassification := default_class (q_ModelOutputClassification r),
                 q_Initial := initial\<lparr>mq_Messages := label_messages (mq_Messages initial)\<rparr>,
                 q_Candidates := map RoutingCandidate_Clone (q_Candidates r)\<rparr> in
      case first_error
        ([ID_Validate (q_SessionID r),
          fail_if (blank (q_Goal r)) ''workload goal is required'',
          Zone_Validate (q_SourceZone r),
          Requirements_Validate (q_Requirements r),
          Classification_Validate (q_Classification r')] @
         map RoutingCandidate_Validate (q_Candidates r') @
         [fail_if (q_Candidates r = []) ''engine requires routing candidates'']) of
        Some err \<Rightarrow> Inl err
      | None \<Rightarrow> Inr r')"

text \<open>The loop request; the engine is its selector and sink, of which validation only asks that they are there.\<close>

definition loop_request :: "EngineRequest \<Rightarrow> LoopRequest" where
  "loop_request r =
     \<lparr>lq_Continuation = None, lq_WorkloadID = q_WorkloadID r, lq_StepID = q_StepID r, lq_AttemptID = q_AttemptID r,
      lq_Initial = q_Initial r, lq_Tools = q_Tools r, lq_Middleware = [], lq_Selector = Some (\<lambda>_. Panics),
      lq_Sink = None, lq_Budget = q_Budget r, lq_ParallelTools = q_ParallelTools r,
      lq_ModelOutputClassification = q_ModelOutputClassification r, lq_ToolErrorClassification = q_Classification r\<rparr>"

definition requestDigest :: "'st config \<Rightarrow> error + string" where
  "requestDigest g =
     (case v_marshal_submission (g_env g) ((g_request g)\<lparr>q_Tools := []\<rparr>) (map tb_Definition (q_Tools (g_request g))) of
        Inl err \<Rightarrow> Inl err
      | Inr data \<Rightarrow> Inr (sha256Hex data))"

definition initial_entries :: "EngineRequest \<Rightarrow> engineDraft list" where
  "initial_entries r =
     [WorkloadCreatedDraft \<lparr>wc_SessionID = q_SessionID r, wc_Goal = q_Goal r, wc_Budget = q_Budget r\<rparr>,
      WorkloadTransitionedDraft \<lparr>wt_From = WorkloadCreated, wt_To = WorkloadRunning\<rparr>,
      StepCreatedDraft \<lparr>sp_ID = q_StepID r, sp_ParentStepID = [], sp_Kind = StepModelTurn, sp_Requirements = q_Requirements r,
        sp_Budget = q_Budget r, sp_Attempt = 1, sp_IdempotencyKey = []\<rparr>,
      StepTransitionedDraft \<lparr>su_StepID = q_StepID r, su_From = StepPending, su_To = StepReady\<rparr>,
      StepTransitionedDraft \<lparr>su_StepID = q_StepID r, su_From = StepReady, su_To = StepLeased\<rparr>,
      StepTransitionedDraft \<lparr>su_StepID = q_StepID r, su_From = StepLeased, su_To = StepRunning\<rparr>]"

definition request_entry :: "EngineRequest \<Rightarrow> string \<Rightarrow> engineDraft" where
  "request_entry r digest =
     ExecutionDraft (blank_record\<lparr>er_StepID := q_StepID r, er_Stage := ExecutionRequest,
       er_Classification := q_Classification r, er_RequestSHA256 := digest\<rparr>)"

section \<open>Recovery\<close>

record recovered =
  rv_match :: bool
  rv_checkpoint :: "LoopEvent option"
  rv_reserved :: SpendBound
  rv_extraCalls :: int
  rv_usage :: Usage

definition recover_record :: "string \<Rightarrow> recovered \<Rightarrow> ExecutionRecord \<Rightarrow> recovered" where
  "recover_record digest v r =
     (let v = (if er_Stage r = ExecutionRequest then v\<lparr>rv_match := (er_RequestSHA256 r = digest)\<rparr> else v);
          v = (case er_Budget r of
                 None \<Rightarrow> v
               | Some b \<Rightarrow> v\<lparr>rv_checkpoint := (if br_Dimension b = [] then None else rv_checkpoint v),
                              rv_reserved := add_spend (rv_reserved v) (br_Reserved b)\<rparr>);
          v = (case er_Compaction r of
                 None \<Rightarrow> v
               | Some c \<Rightarrow> v\<lparr>rv_extraCalls := wrap64 (rv_extraCalls v + 1), rv_usage := add_usage (rv_usage v) (co_Usage c)\<rparr>);
          v = (case er_Loop r of
                 None \<Rightarrow> v
               | Some l \<Rightarrow> v\<lparr>rv_checkpoint := (if le_Type l = LoopEventCheckpoint then Some (LoopEvent_Clone l) else None)\<rparr>) in
      if er_Compaction r \<noteq> None then v\<lparr>rv_checkpoint := None\<rparr> else v)"

definition recover_log :: "string \<Rightarrow> recovered \<Rightarrow> ExecutionRecord list \<Rightarrow> recovered" where
  "recover_log digest v rs = foldl (recover_record digest) v rs"

fun apply_events :: "codec \<Rightarrow> Event list \<Rightarrow> WorkloadProjection \<Rightarrow> error + WorkloadProjection" where
  "apply_events dc [] p = Inr p"
| "apply_events dc (e # es) p =
     (case WorkloadProjection_Apply dc e p of
        (Some err, _) \<Rightarrow> Inl err
      | (None, p') \<Rightarrow> apply_events dc es p')"

definition uncertain_outcome :: error where
  "uncertain_outcome = Error [ErrUncertainOutcome] ''execution outcome is uncertain; reconciliation required''"

definition restore :: "'st config \<Rightarrow> string \<Rightarrow> ('st, LoopCheckpoint \<times> time) engine_op" where
  "restore g digest =
     seq (use_ctx g) (\<lambda>ctx s. seq (lift_sum (e_Load (g_engine g) (s_store s) ctx (aggregate g) 0)) (\<lambda>events.
     seq (lift_sum (NewWorkloadProjection (aggregate g))) (\<lambda>p.
     seq (lift_sum (apply_events (v_codec (g_env g)) events p)) (\<lambda>p.
     seq (check (if events = [] then Some (Error [ErrAggregateNotFound] ''aggregate not found'') else None)) (\<lambda>_.
     seq (check (fail_if (wl_State (pj_Workload p) \<noteq> WorkloadRunning) ''only running workloads can resume'')) (\<lambda>_ s.
     let v = recover_log digest \<lparr>rv_match = False, rv_checkpoint = None, rv_reserved = s_reserved s,
               rv_extraCalls = s_extraCalls s, rv_usage = s_compactionUsage s\<rparr> (pj_Execution p);
         s = s\<lparr>s_reserved := rv_reserved v, s_extraCalls := rv_extraCalls v, s_compactionUsage := rv_usage v\<rparr> in
     seq (check (fail_if (\<not> rv_match v) ''resume request differs from committed request'')) (\<lambda>_.
     case rv_checkpoint v of
       None \<Rightarrow> failing uncertain_outcome
     | Some checkpoint \<Rightarrow>
         seq (check (fail_if (ev_AttemptID (last events) \<noteq> q_AttemptID (g_request g)) ''resume attempt mismatch'')) (\<lambda>_.
         seq (\<lambda>s. (Answers (), s\<lparr>s_sequence := ev_Sequence (last events), s_stepApproved := True,
                                s_cause := ev_ID (last events)\<rparr>)) (\<lambda>_.
         seq (record_execution g (blank_record\<lparr>er_Stage := ExecutionResumed, er_RequestSHA256 := digest\<rparr>)) (\<lambda>_.
         case le_Checkpoint checkpoint of
           None \<Rightarrow> lift_answer Panics
         | Some result \<Rightarrow>
             ret (\<lparr>lc_Sequence = le_Sequence checkpoint, lc_Result = LoopResult_Clone result\<rparr>,
                  Time_Add (wl_CreatedAt (pj_Workload p)) (bg_MaxWallTime (q_Budget (g_request g)))))))) s))))) s)"

section \<open>Run\<close>

type_synonym 'st turn_loop =
  "LoopRequest \<Rightarrow> 'st engineRun \<Rightarrow> (LoopResult \<times> error option) answer \<times> 'st engineRun"

fun cleanup_from :: "'st config \<Rightarrow> nat \<Rightarrow> ToolBinding list \<Rightarrow> error option \<Rightarrow> 'st engineRun \<Rightarrow> error option \<times> 'st engineRun" where
  "cleanup_from g i [] result s = (result, s)"
| "cleanup_from g i (b # bs) result s =
     (case engineToolHandler_Close g i b s of (err, s) \<Rightarrow> cleanup_from g (Suc i) bs (errors_Join result err) s)"

definition cleanup :: "'st config \<Rightarrow> 'st engineRun \<Rightarrow> error option \<times> 'st engineRun" where
  "cleanup g s = cleanup_from g 0 (q_Tools (g_request g)) None s"

definition new_run :: "'st \<Rightarrow> 'st engineRun" where
  "new_run store =
     \<lparr>s_stepApproved = False, s_compactionUsage = zero_usage, s_extraCalls = 0, s_reserved = no_spend, s_budgetDimension = [],
      s_sequence = 0, s_cause = [], s_storeErr = None, s_observationSequence = 0, s_stopped = None, s_closed = (\<lambda>_. None),
      s_uses = 0, s_observed = [], s_store = store, s_log = [], s_executed = []\<rparr>"

definition start_run :: "'st config \<Rightarrow> bool \<Rightarrow> string \<Rightarrow> ('st, LoopRequest) engine_op" where
  "start_run g resume digest =
     (if resume
      then seq (restore g digest) (\<lambda>(checkpoint, deadline). ret ((loop_request (g_request g))\<lparr>lq_Continuation := Some checkpoint\<rparr>))
      else seq (append_entries g (initial_entries (g_request g) @ [request_entry (g_request g) digest])) (\<lambda>_.
             ret (loop_request (g_request g))))"

definition zero_result :: LoopResult where
  "zero_result = \<lparr>lr_Messages = [], lr_Usage = zero_usage, lr_Stop = no_stop, lr_ModelCalls = 0, lr_ToolCalls = 0,
                  lr_Failures = [], lr_BudgetExceeded = []\<rparr>"

text \<open>Admission and the loop: the result and the error so far. A panic of the loop is not recovered here.\<close>

definition run_loop :: "'st config \<Rightarrow> 'st turn_loop \<Rightarrow> bool \<Rightarrow> LoopRequest \<Rightarrow> ('st, LoopResult \<times> error option) engine_op" where
  "run_loop g loop resume request s =
     (case (if resume then (Answers (), s) else admit g s) of
        (Panics, s) \<Rightarrow> (Panics, s)
      | (Fails err, s) \<Rightarrow> (Answers (zero_result, Some err), s)
      | (Answers _, s) \<Rightarrow> loop request s)"

definition closing_states :: "error option \<Rightarrow> bool \<Rightarrow> WorkloadState \<times> StepState" where
  "closing_states runErr cancelled =
     (if cancelled then (WorkloadCancelled, StepCancelled)
      else if runErr \<noteq> None then (WorkloadFailed, StepFailed) else (WorkloadSucceeded, StepSucceeded))"

definition closing_failure :: "error option \<Rightarrow> bool \<Rightarrow> LoopResult \<Rightarrow> string" where
  "closing_failure runErr cancelled result =
     (if lr_BudgetExceeded result \<noteq> [] then ''budget_exceeded''
      else if cancelled then ''cancelled'' else if runErr \<noteq> None then ''execution_failed'' else [])"

definition result_class :: "Classification \<Rightarrow> LoopResult \<Rightarrow> Classification" where
  "result_class class result =
     foldl higherClassification class (map cp_Classification (concat (map mg_Content (lr_Messages result))))"

definition closing_entries ::
  "EngineRequest \<Rightarrow> LoopResult \<Rightarrow> string \<Rightarrow> WorkloadState \<times> StepState \<Rightarrow> engineDraft list" where
  "closing_entries r result failure states =
     [ExecutionDraft (blank_record\<lparr>er_StepID := q_StepID r, er_Stage := ExecutionFinished,
        er_Classification := result_class (q_Classification r) result, er_Result := Some result, er_FailureCode := failure\<rparr>),
      StepTransitionedDraft \<lparr>su_StepID = q_StepID r, su_From = StepRunning, su_To = snd states\<rparr>,
      WorkloadTransitionedDraft \<lparr>wt_From = WorkloadRunning, wt_To = fst states\<rparr>]"

definition total_result :: "'st engineRun \<Rightarrow> LoopResult \<Rightarrow> LoopResult" where
  "total_result s r =
     r\<lparr>lr_BudgetExceeded := (if s_budgetDimension s \<noteq> [] then s_budgetDimension s else lr_BudgetExceeded r),
       lr_ModelCalls := wrap64 (lr_ModelCalls r + s_extraCalls s), lr_Usage := add_usage (lr_Usage r) (s_compactionUsage s)\<rparr>"

fun state_text :: "WorkloadState \<Rightarrow> string" where
  "state_text WorkloadCreated = ''created''"
| "state_text WorkloadRunning = ''running''"
| "state_text WorkloadWaiting = ''waiting''"
| "state_text WorkloadSucceeded = ''succeeded''"
| "state_text WorkloadFailed = ''failed''"
| "state_text WorkloadCancelled = ''cancelled''"
| "state_text (WorkloadStateOther t) = t"

text \<open>
  After the loop and the cleanup: the final result, the run's error, and whether it counts as
  cancelled. \<open>context.Cause\<close> and the caller's context are asked here.
\<close>

definition settle :: "'st config \<Rightarrow> LoopResult \<Rightarrow> error option \<Rightarrow> 'st engineRun \<Rightarrow> LoopResult \<times> error option \<times> bool" where
  "settle g result runErr s =
     (let result = total_result s result;
          runErr = (if lr_Stop result = StopCancelled then errors_Join runErr (Some (Error [ErrCanceled] ''context canceled'')) else runErr);
          cause = v_cause (g_env g) (s_uses s) (s_stopped s);
          result = (case cause of
            None \<Rightarrow> result
          | Some c \<Rightarrow> if errors_Is c ErrLoopBudgetExceeded then result\<lparr>lr_BudgetExceeded := ''wall_time''\<rparr> else result)
      in (result, errors_Join runErr cause, v_ctx (g_env g) (s_uses s) 0 \<noteq> None \<or> lr_Stop result = StopCancelled))"

text \<open>The closing entries, committed together, and the projection that is returned.\<close>

definition close_run ::
  "'st config \<Rightarrow> LoopResult \<Rightarrow> error option \<Rightarrow> bool \<Rightarrow> 'st engineRun \<Rightarrow> (WorkloadProjection option \<times> error option) \<times> 'st engineRun" where
  "close_run g result runErr cancelled s =
     (let states = closing_states runErr cancelled;
          (appended, s) = append_entries g (closing_entries (g_request g) result (closing_failure runErr cancelled result) states) s;
          err = (case appended of Fails e \<Rightarrow> Some e | _ \<Rightarrow> None);
          s = (if err = None
               then observe g RecordWorkload (state_text (fst states)) (observe g RecordStep (state_text (fst states))
                      (observe g RecordAttempt (state_text (fst states)) s))
               else s);
          loaded = LoadWorkloadProjection (v_codec (g_env g)) (v_ctx (g_env g) (s_uses s))
            (Some (e_Load (g_engine g) (s_store s))) (aggregate g) in
      ((case loaded of Inl _ \<Rightarrow> None | Inr p \<Rightarrow> Some p,
        errors_Join (errors_Join runErr err) (case loaded of Inl e \<Rightarrow> Some e | Inr _ \<Rightarrow> None)), s))"

definition finish_run ::
  "'st config \<Rightarrow> LoopResult \<Rightarrow> error option \<Rightarrow> 'st engineRun \<Rightarrow> (WorkloadProjection option \<times> error option) \<times> 'st engineRun" where
  "finish_run g result runErr s =
     (case cleanup g s of
        (cleanupErr, s) \<Rightarrow>
          (case settle g result (errors_Join runErr cleanupErr) s of
             (result, runErr, cancelled) \<Rightarrow> close_run g result runErr cancelled (s\<lparr>s_uses := Suc (s_uses s)\<rparr>)))"

text \<open>
  A run once the request is committed or restored, and the whole of it from the validation of the loop
  request on.
\<close>

definition started_run ::
  "'st config \<Rightarrow> 'st turn_loop \<Rightarrow> bool \<Rightarrow> LoopRequest \<Rightarrow> ('st, WorkloadProjection option \<times> error option) engine_op" where
  "started_run g loop resume loopRequest =
     seq (observing g RecordWorkload ''started'') (\<lambda>_.
     seq (observing g RecordStep ''started'') (\<lambda>_.
     seq (observing g RecordAttempt ''started'') (\<lambda>_.
     seq (run_loop g loop resume loopRequest) (\<lambda>(result, runErr) s.
     case finish_run g result runErr s of (answer, s) \<Rightarrow> (Answers answer, s)))))"

definition prepared_run :: "'st config \<Rightarrow> 'st turn_loop \<Rightarrow> bool \<Rightarrow> ('st, WorkloadProjection option \<times> error option) engine_op" where
  "prepared_run g loop resume =
     seq (check (LoopRequest_Validate (loop_request (g_request g)))) (\<lambda>_.
     seq (lift_sum (requestDigest g)) (\<lambda>digest.
     seq (start_run g resume digest) (started_run g loop resume)))"

definition engine_run :: "'st config \<Rightarrow> 'st turn_loop \<Rightarrow> bool \<Rightarrow> ('st, WorkloadProjection option \<times> error option) engine_op" where
  "engine_run g loop resume =
     seq (check_ctx g) (\<lambda>_.
     seq (check (fail_if (case e_Router (g_engine g) of None \<Rightarrow> True | Some _ \<Rightarrow> False) ''engine requires store, loop and router'')) (\<lambda>_.
     seq (lift_sum (prepare_request (g_request g))) (\<lambda>request.
     prepared_run (g\<lparr>g_request := request\<rparr>) loop resume)))"

definition Engine_Replay :: "'st config \<Rightarrow> ctx \<Rightarrow> 'st \<Rightarrow> ID \<Rightarrow> error + WorkloadProjection" where
  "Engine_Replay g ctx store i =
     LoadWorkloadProjection (v_codec (g_env g)) ctx (Some (e_Load (g_engine g) store))
       \<lparr>ag_Type = WorkloadAggregateType, ag_ID = i\<rparr>"

end
