(* ===== verification/EngineInv.thy ===== *)
theory EngineInv
  imports EngineRun "HOL-Library.Sublist"
begin

text \<open>
  Invariants of the execution engine. The locale \<open>engine_invariant\<close> states what an invariant must
  survive (a committed record, a reservation, a call that reaches a tool handler); that every callback of
  \<open>EnginePlacement\<close> keeps it is proved once. Interpretations give the growth of the log, the spending
  bound and the authorisation of tool calls. \<open>engine_step\<close> is the state machine of a run, its steps the
  callbacks in any order.
\<close>

section \<open>What the operations touch\<close>

definition ecore :: "'st engineRun \<Rightarrow>
    SpendBound \<times> 64 word \<times> ID \<times> error option \<times> 'st \<times> engineDraft list \<times> (bool \<times> SandboxCapability \<times> ToolInvocation) list" where
  "ecore s = (s_reserved s, s_sequence s, s_cause s, s_storeErr s, s_store s, s_log s, s_executed s)"

lemma observe_ecore [simp]: "ecore (observe g kind outcome s) = ecore s"
  by (simp add: observe_def ecore_def Let_def split: option.split sum.split prod.split)

lemma ecore_updates [simp]:
  "ecore (s\<lparr>s_uses := n\<rparr>) = ecore s" "ecore (s\<lparr>s_budgetDimension := d\<rparr>) = ecore s"
  "ecore (s\<lparr>s_stopped := c\<rparr>) = ecore s" "ecore (s\<lparr>s_extraCalls := x\<rparr>) = ecore s"
  "ecore (s\<lparr>s_stepApproved := b\<rparr>) = ecore s" "ecore (s\<lparr>s_compactionUsage := u\<rparr>) = ecore s"
  "ecore (s\<lparr>s_closed := cl\<rparr>) = ecore s"
  by (simp_all add: ecore_def)

text \<open>A committed append adds its entries to the log; anything else leaves the log alone.\<close>

lemma append_entries_log:
  assumes "append_entries g entries s = (a, s')" "entries \<noteq> []"
  shows "s_log s' = (if a = Answers () then s_log s @ entries else s_log s)" "s_reserved s' = s_reserved s"
    "s_executed s' = s_executed s" "a \<noteq> Panics"
proof -
  have length: "length ds = length es" if "engine_drafts g cause es = Inr ds" for cause ds es
    using that by (induction es arbitrary: ds) (auto split: sum.splits)
  have "s_log s' = (if a = Answers () then s_log s @ entries else s_log s) \<and> s_reserved s' = s_reserved s \<and>
      s_executed s' = s_executed s \<and> a \<noteq> Panics"
    using assms length by (auto simp: append_entries_def Let_def split: option.splits sum.splits prod.splits if_splits)
  then show "s_log s' = (if a = Answers () then s_log s @ entries else s_log s)" "s_reserved s' = s_reserved s"
    "s_executed s' = s_executed s" "a \<noteq> Panics" by simp_all
qed

definition committed_form :: "'st config \<Rightarrow> ExecutionRecord \<Rightarrow> ExecutionRecord" where
  "committed_form g r =
     r\<lparr>er_StepID := q_StepID (g_request g),
       er_Classification := (if er_Classification r = no_class then q_Classification (g_request g) else er_Classification r)\<rparr>"

lemma record_execution_eq: "record_execution g r = append_entries g [ExecutionDraft (committed_form g r)]"
  by (simp add: record_execution_def committed_form_def)

lemma committed_form_fields [simp]:
  "er_Budget (committed_form g r) = er_Budget r" "er_Routing (committed_form g r) = er_Routing r"
  "er_Verdict (committed_form g r) = er_Verdict r" "er_Manifest (committed_form g r) = er_Manifest r"
  "er_Turn (committed_form g r) = er_Turn r" "er_Approval (committed_form g r) = er_Approval r"
  "er_Loop (committed_form g r) = er_Loop r" "er_Compaction (committed_form g r) = er_Compaction r"
  "er_Stage (committed_form g r) = er_Stage r"
  by (simp_all add: committed_form_def)

lemma record_builders [simp]:
  "er_Budget (policy_record turn class manifest v) = None" "er_Verdict (policy_record turn class manifest v) = Some v"
  "er_Manifest (policy_record turn class manifest v) = Some manifest"
  "er_Budget (approval_record turn class scope manifest decision) = None"
  "er_Budget (routing_record turn request rd) = None"
  "er_Routing (routing_record turn request rd) = Some \<lparr>rt_Request = request, rt_Decision = rd\<rparr>"
  "er_Budget (budget_record turn bound dimension) = Some \<lparr>br_Reserved = bound, br_Dimension = dimension\<rparr>"
  "er_Budget (compaction_entry turn class record) = None" "er_Budget blank_record = None"
  by (simp_all add: policy_record_def approval_record_def routing_record_def budget_record_def compaction_entry_def
      blank_record_def)

text \<open>A record that reserves nothing.\<close>

definition plain :: "ExecutionRecord \<Rightarrow> bool" where
  "plain r \<longleftrightarrow> (case er_Budget r of None \<Rightarrow> True | Some b \<Rightarrow> br_Reserved b = no_spend)"

lemma plain_simps [simp]:
  "plain (committed_form g r) = plain r" "plain (policy_record turn class manifest v)"
  "plain (approval_record turn class scope manifest decision)" "plain (routing_record turn request rd)"
  "plain (budget_record turn no_spend dimension)" "plain (compaction_entry turn class record)"
  by (simp_all add: plain_def)

text \<open>An authorising record for a tool call: an allowing verdict for exactly this call and sandbox.\<close>

definition authorises :: "'st config \<Rightarrow> SandboxCapability \<Rightarrow> ToolInvocation \<Rightarrow> ExecutionRecord \<Rightarrow> bool" where
  "authorises g capability iv r \<longleftrightarrow>
     (\<exists>manifest v. er_Manifest r = Some manifest \<and> er_Verdict r = Some v \<and> Allows v \<and>
        vd_Scope v = PolicyScopeForExecution (tool_execution g capability iv manifest) \<and>
        valueManifest (v_marshal_call (g_env g) (ti_Call iv)) (q_ModelOutputClassification (g_request g)) = Inr manifest)"

definition fits :: "'st config \<Rightarrow> SpendBound \<Rightarrow> SpendBound \<Rightarrow> bool" where
  "fits g used bound \<longleftrightarrow>
     SpendBound_Validate bound = None \<and>
     exceeded_dimension bound (bg_MaxInputTokens (q_Budget (g_request g))) (bg_MaxOutputTokens (q_Budget (g_request g)))
       (bg_MaxCost (q_Budget (g_request g))) used = []"

section \<open>Invariants every callback keeps\<close>

locale engine_invariant =
  fixes g :: "'st config" and I :: "'st engineRun \<Rightarrow> bool"
  assumes frame: "I s \<Longrightarrow> ecore s' = ecore s \<Longrightarrow> I s'"
    and commit: "I s \<Longrightarrow> entries \<noteq> [] \<Longrightarrow> \<forall>r. ExecutionDraft r \<in> set entries \<longrightarrow> plain r \<Longrightarrow>
      append_entries g entries s = (a, s') \<Longrightarrow> I s'"
    and reservation: "I s \<Longrightarrow> fits g (s_reserved s) bound \<Longrightarrow>
      er_Budget r = Some \<lparr>br_Reserved = bound, br_Dimension = []\<rparr> \<Longrightarrow>
      append_entries g [ExecutionDraft r] s = (a, s') \<Longrightarrow>
      I (if a = Answers () then s'\<lparr>s_reserved := add_spend (s_reserved s') bound\<rparr> else s')"
    and execution: "I s \<Longrightarrow> (side \<longrightarrow> sc_Established capability) \<Longrightarrow>
      \<exists>r. ExecutionDraft r \<in> set (s_log s) \<and> authorises g capability iv r \<Longrightarrow>
      I (s\<lparr>s_executed := s_executed s @ [(side, capability, iv)]\<rparr>)"
begin

definition keeps :: "('st, 'a) engine_op \<Rightarrow> bool" where
  "keeps m \<longleftrightarrow> (\<forall>s. I s \<longrightarrow> I (snd (m s)))"

lemma keepsD: "keeps m \<Longrightarrow> I s \<Longrightarrow> m s = (a, s') \<Longrightarrow> I s'"
  by (metis keeps_def snd_conv)

lemma keeps_seq: "keeps m \<Longrightarrow> (\<And>a. keeps (f a)) \<Longrightarrow> keeps (seq m f)"
  by (fastforce simp: keeps_def seq_def split: prod.split answer.split dest: keepsD)

lemma keeps_same: "(\<And>s. ecore (snd (m s)) = ecore s) \<Longrightarrow> keeps m"
  by (auto simp: keeps_def intro: frame)

lemma keeps_point: "(\<And>s. keeps (\<lambda>_. f s s)) \<Longrightarrow> keeps (\<lambda>s. f s s)"
  by (auto simp: keeps_def)

lemma keeps_simple:
  "keeps (ret a)" "keeps (failing err)" "keeps (check e)" "keeps (lift_answer b)" "keeps (lift_sum r)"
  "keeps (use_ctx g')" "keeps (ask_ctx g')" "keeps (observing g' kind outcome)" "keeps (Pair x)"
  by (rule keeps_same;
      simp add: ret_def failing_def check_def lift_answer_def lift_sum_def use_ctx_def ask_ctx_def observing_def
        split: option.split sum.split)+

lemma keeps_check_ctx: "keeps (check_ctx g')"
  unfolding check_ctx_def by (intro keeps_seq keeps_simple)

lemma keeps_record: "plain r \<Longrightarrow> keeps (record_execution g r)"
  unfolding keeps_def record_execution_eq
proof (intro allI impI)
  fix s assume "plain r" "I s"
  obtain a s' where "append_entries g [ExecutionDraft (committed_form g r)] s = (a, s')" by fastforce
  with commit [OF \<open>I s\<close> _ _ this] \<open>plain r\<close>
  show "I (snd (append_entries g [ExecutionDraft (committed_form g r)] s))" by simp
qed

lemma keeps_if: "(b \<Longrightarrow> keeps m) \<Longrightarrow> (\<not> b \<Longrightarrow> keeps m') \<Longrightarrow> keeps (if b then m else m')"
  by simp

lemma keeps_option: "keeps m \<Longrightarrow> (\<And>a. keeps (f a)) \<Longrightarrow> keeps (case x of None \<Rightarrow> m | Some a \<Rightarrow> f a)"
  by (cases x) simp_all

lemma keeps_prod: "(\<And>a b. keeps (f a b)) \<Longrightarrow> keeps (case p of (a, b) \<Rightarrow> f a b)"
  by (cases p) simp

lemma keeps_let: "keeps (f x) \<Longrightarrow> keeps (Let x f)"
  by simp

lemma keeps_state: "(\<And>s. I s \<Longrightarrow> I (snd (m s s))) \<Longrightarrow> keeps (\<lambda>s. m s s)"
  by (simp add: keeps_def)

lemmas keeps_rules = keeps_seq keeps_simple keeps_check_ctx keeps_if keeps_option keeps_prod keeps_let

lemma keeps_recordPolicy: "keeps (recordPolicy g turn manifest v)"
  unfolding recordPolicy_def by (intro keeps_rules keeps_record) simp_all

lemma keeps_approve: "keeps (approve g turn manifest scope)"
  unfolding approve_def by (intro keeps_rules keeps_record) simp_all

lemma keeps_resolveApproval: "keeps (resolveApproval g turn manifest v)"
  unfolding resolveApproval_def by (intro keeps_rules keeps_approve keeps_recordPolicy)

lemma keeps_spendFailure: "keeps (spendFailure g turn dimension)"
  unfolding keeps_def
proof (intro allI impI)
  fix s assume "I s"
  then have "I (s\<lparr>s_budgetDimension := dimension\<rparr>)" by (rule frame) simp
  then show "I (snd (spendFailure g turn dimension s))"
    using keepsD [OF keeps_record [OF plain_simps(5)]]
    by (fastforce simp: spendFailure_def Let_def split: prod.split answer.split)
qed

lemma keeps_fun: "(\<And>s. I s \<Longrightarrow> I (snd (m s))) \<Longrightarrow> keeps m"
  by (simp add: keeps_def)

lemma keeps_apply: "keeps m \<Longrightarrow> I s \<Longrightarrow> I (snd (m s))"
  by (simp add: keeps_def)

lemma reserve_commit:
  assumes "I s" "fits g (s_reserved s) bound"
  shows "I (snd (seq (record_execution g (budget_record turn bound []))
    (\<lambda>_ s. (Answers bound, s\<lparr>s_reserved := add_spend (s_reserved s) bound\<rparr>)) s))"
proof -
  obtain a s' where r: "append_entries g [ExecutionDraft (committed_form g (budget_record turn bound []))] s = (a, s')" by fastforce
  have "I (if a = Answers () then s'\<lparr>s_reserved := add_spend (s_reserved s') bound\<rparr> else s')"
    by (rule reservation [OF assms _ r]) simp
  then show ?thesis by (cases a) (simp_all add: seq_def record_execution_eq r)
qed

lemma keeps_reserve: "keeps (reserve g turn request descriptor)"
proof -
  have "keeps (seq (check (SpendBound_Validate bound)) (\<lambda>_ s.
          let budget = q_Budget (g_request g);
              dimension = exceeded_dimension bound (bg_MaxInputTokens budget) (bg_MaxOutputTokens budget)
                (bg_MaxCost budget) (s_reserved s) in
          if dimension \<noteq> [] then spendFailure g turn dimension s
          else if mq_MaxOutputTokens request > sb_OutputTokens bound
          then failing (errorf ''requested output cap exceeds spend bound'') s
          else
            seq (record_execution g (budget_record turn bound [])) (\<lambda>_ s.
              (Answers bound, s\<lparr>s_reserved := add_spend (s_reserved s) bound\<rparr>)) s))" for bound
  proof (cases "SpendBound_Validate bound")
    case None
    then show ?thesis
      using reserve_commit
      by (auto simp: keeps_def seq_def [of "check None"] check_def Let_def fits_def failing_def intro: keeps_apply [OF keeps_spendFailure])
  qed (auto simp: keeps_def seq_def check_def)
  note rest = this
  show ?thesis
    unfolding reserve_def
    by (intro keeps_option keeps_simple(2) keeps_seq [OF keeps_simple(6)] keeps_seq [OF keeps_simple(4)] rest)
qed

lemma keeps_admit: "keeps (admit g)"
  unfolding admit_def by (intro keeps_rules keeps_spendFailure)

lemma keeps_stream: "keeps (engineProvider_Stream g p r)"
  unfolding engineProvider_Stream_def
  by (intro keeps_rules keeps_same) (simp split: answer.split option.split)

lemma keeps_account: "keeps (account g m e)"
  unfolding account_def by (intro keeps_rules keeps_spendFailure)

lemma keeps_admit_result: "keeps (admit_result g m e)"
  unfolding admit_result_def by (intro keeps_rules keeps_recordPolicy keeps_resolveApproval)

lemma keeps_Recv: "keeps (engineModelStream_Recv g m)"
  unfolding engineModelStream_Recv_def by (intro keeps_rules keeps_account keeps_admit_result)

lemma keeps_resolved: "keeps (resolved g turn manifest v)"
  unfolding resolved_def by (intro keeps_rules keeps_recordPolicy keeps_resolveApproval)

lemma keeps_place_candidate: "keeps (place_candidate g turn manifest c)"
  unfolding place_candidate_def by (intro keeps_rules keeps_resolved)

lemma keeps_place_candidates: "keeps (place_candidates g turn manifest cs)"
  by (induction cs) (auto intro!: keeps_rules keeps_place_candidate)

lemma keeps_approve_step: "keeps (approve_step g turn manifest scope)"
proof -
  have "keeps (seq (approve g turn manifest scope) (\<lambda>_ s. (Answers (), s\<lparr>s_stepApproved := True\<rparr>)))"
    by (intro keeps_seq keeps_approve keeps_same) simp
  then show ?thesis
    by (auto simp: keeps_def approve_step_def split: option.split)
qed

lemma keeps_take_placement: "keeps (take_placement g turn manifest modelRequest c)"
  unfolding take_placement_def by (intro keeps_rules keeps_approve_step keeps_reserve)

lemma keeps_route_placement: "keeps (route_placement g turn manifest modelRequest routing)"
  unfolding route_placement_def by (intro keeps_rules keeps_record keeps_take_placement) simp_all

lemma keeps_selectPlacement: "keeps (selectPlacement g turn usage messages initial tools)"
proof -
  have "keeps (\<lambda>s. let now = v_now (g_env g) (s_uses s) in
      seq (place_candidates g turn manifest (q_Candidates (g_request g))) (\<lambda>candidates.
      route_placement g turn manifest modelRequest (placement_routing g usage manifest now candidates)) s)" for manifest modelRequest
    using keeps_apply [OF keeps_seq [OF keeps_place_candidates keeps_route_placement]]
    by (auto simp: Let_def intro!: keeps_fun)
  then show ?thesis
    unfolding selectPlacement_def by (intro keeps_let keeps_seq keeps_simple)
qed

lemma keeps_context_size: "keeps (context_size g r cs acc)"
proof (induction cs arbitrary: acc)
  case (Cons c cs)
  then show ?case by (cases acc) (auto intro!: keeps_rules simp: Let_def split: option.split)
qed (simp add: keeps_simple)

lemma keeps_contextSize: "keeps (contextSize g r)"
  unfolding contextSize_def by (rule keeps_context_size)

lemma read_summary_keeps:
  "I s \<Longrightarrow> read_summary g m v t u i s = (a, m', s') \<Longrightarrow> I s'"
proof (induction "10001 - i" arbitrary: m v t u i s rule: less_induct)
  case less
  obtain r s1 where recv: "engineModelStream_Recv g m s = (r, s1)" by fastforce
  have s1: "I s1" by (rule keepsD [OF keeps_Recv less.prems(1) recv])
  have rec: "I s'" if "i < 10000" "read_summary g m2 v2 t2 u2 (Suc i) s1 = (a, m', s')" for m2 v2 t2 u2
    using less.hyps [of "Suc i"] that s1 by simp
  from less.prems(2) s1 show ?case
    by (auto simp: read_summary.simps [of g m v t u i s] recv
        split: answer.splits prod.splits option.splits if_splits intro: rec)
qed

lemma keeps_summarize: "keeps (summarize g m)"
proof (rule keeps_fun)
  fix s assume "I s"
  obtain a m' s' where r: "read_summary g m zero_validator [] zero_usage 0 s = (a, m', s')" using prod_cases3 by blast
  have "I s'" by (rule read_summary_keeps [OF \<open>I s\<close> r])
  moreover from this have "I (observe g RecordProvider ''finished'' s')" by (rule frame) simp
  ultimately show "I (snd (summarize g m s))"
    by (auto simp: summarize_def r engineModelStream_Close_def split: answer.splits option.splits)
qed

lemma keeps_adopt_summary: "keeps (adopt_summary g turn request model record text usage)"
proof -
  have "keeps (seq (record_execution g (compaction_entry turn cl r)) (\<lambda>_ s.
      (Answers ms, s\<lparr>s_compactionUsage := add_usage (s_compactionUsage s) usage\<rparr>)))"
    for cl r and ms :: "Message list option"
    by (intro keeps_seq keeps_record keeps_same) simp_all
  then show ?thesis
    unfolding adopt_summary_def Let_def
    by (intro keeps_if keeps_simple(2) keeps_seq [OF keeps_contextSize] keeps_prod)
qed

lemma keeps_compact: "keeps (compact g turn turnUsage messages request before)"
proof (rule keeps_fun)
  fix s assume "I s"
  obtain inputs excluded where split: "split_history (q_Classification (g_request g)) 0 messages = (inputs, excluded)" by fastforce
  have "keeps (seq (contextSize g sr) (\<lambda>(_, _, tooLarge).
        if tooLarge then failing err
        else
          seq (selectPlacement g turn turnUsage (mq_Messages sr) sr []) (\<lambda>selection.
          seq (\<lambda>s. (Answers (), s\<lparr>s_extraCalls := wrap64 (s_extraCalls s + 1)\<rparr>)) (\<lambda>_.
          seq (engineProvider_Stream g (sl_Provider selection) (sr\<lparr>mq_Model := sl_Model selection\<rparr>)) (\<lambda>stream.
          seq (summarize g stream) (\<lambda>(text, usage).
          adopt_summary g turn request (sl_Model selection) co text usage))))))" for sr err co
    by (intro keeps_seq keeps_contextSize keeps_prod keeps_if keeps_simple(2) keeps_selectPlacement keeps_stream
        keeps_summarize keeps_adopt_summary keeps_same) simp
  from keeps_apply [OF this \<open>I s\<close>] \<open>I s\<close> show "I (snd (compact g turn turnUsage messages request before s))"
    by (simp add: compact_def split Let_def failing_def)
qed

lemma keeps_prepareContext: "keeps (prepareContext g turn turnUsage messages)"
proof -
  have "keeps (\<lambda>s. if b then (if overflow then failing e s else ret None s)
      else if c then ret None s
      else if wrap64 (turn + s_extraCalls s) \<ge> k then spendFailure g turn ''model_calls'' s
      else compact g turn turnUsage messages request before s)" for b c overflow e k request before
    by (rule keeps_fun)
       (auto intro: keeps_apply [OF keeps_compact] keeps_apply [OF keeps_spendFailure] simp: failing_def ret_def)
  then show ?thesis
    unfolding prepareContext_def by (intro keeps_let keeps_seq [OF keeps_contextSize] keeps_prod)
qed

lemma keeps_SelectTurn: "keeps (SelectTurn g turn)"
proof (rule keeps_fun)
  fix s assume "I s"
  have "keeps (seq (prepareContext g (tx_Turn turn) (tx_Usage turn) (tx_Messages turn)) (\<lambda>messages.
        seq (selectPlacement g (tx_Turn turn) (tx_Usage turn)
               (case messages of None \<Rightarrow> tx_Messages turn | Some ms \<Rightarrow> ms)
               (q_Initial (g_request g)) (q_Tools (g_request g))) (\<lambda>selection.
        ret (selection\<lparr>sl_Messages := messages\<rparr>))))"
    by (intro keeps_seq keeps_prepareContext keeps_selectPlacement keeps_simple(1))
  then show "I (snd (SelectTurn g turn s))"
    using \<open>I s\<close> by (simp add: SelectTurn_def keeps_apply keeps_spendFailure)
qed

lemma keeps_RecordLoopEvent: "keeps (RecordLoopEvent g event)"
  unfolding RecordLoopEvent_def by (rule keeps_record) (simp add: plain_def blank_record_def)

lemma keeps_RecordSandboxEvent: "keeps (RecordSandboxEvent g event)"
proof (rule keeps_fun)
  fix s assume "I s"
  obtain a s' where r: "record_execution g (blank_record\<lparr>er_Stage := ExecutionSandbox, er_Sandbox := Some event\<rparr>) s = (a, s')" by fastforce
  have "I s'" by (rule keepsD [OF keeps_record \<open>I s\<close> r]) (simp add: plain_def blank_record_def)
  then show "I (snd (RecordSandboxEvent g event s))"
    by (auto simp: RecordSandboxEvent_def r split: answer.split intro: frame)
qed

lemma keeps_stop_on_failure: "keeps m \<Longrightarrow> keeps (stop_on_failure m)"
  by (auto simp: keeps_def stop_on_failure_def split: prod.split answer.split) (metis frame snd_conv ecore_updates(3))+

lemma keeps_prepare_sandbox: "keeps (prepare_sandbox g name)"
  unfolding prepare_sandbox_def by (intro keeps_rules)

lemma keeps_authorize_tool: "keeps (authorize_tool g capability iv manifest)"
  unfolding authorize_tool_def
  by (intro keeps_rules keeps_stop_on_failure keeps_recordPolicy keeps_resolveApproval)

lemma keeps_tool_Close: "I s \<Longrightarrow> I (snd (engineToolHandler_Close g i b s))"
proof -
  assume s: "I s"
  obtain a s' where r: "record_execution g (blank_record\<lparr>er_Stage := ExecutionCleanup,
      er_Cleanup := Some \<lparr>cr_Failed = (closeEngineTool b \<noteq> None), cr_Resource = ''tool''\<rparr>\<rparr>) s = (a, s')" by fastforce
  have "I s'" by (rule keepsD [OF keeps_record s r]) (simp add: plain_def blank_record_def)
  with s r show ?thesis by (auto simp: engineToolHandler_Close_def Let_def split: option.split intro: frame)
qed

end

section \<open>Growth of the log\<close>

interpretation growing: engine_invariant g "\<lambda>s. prefix l (s_log s)" for g l
proof unfold_locales
  show "prefix l (s_log s')" if "prefix l (s_log s)" "ecore s' = ecore s" for s s' :: "'a engineRun"
    using that by (simp add: ecore_def)
  show "prefix l (s_log s')"
    if "prefix l (s_log s)" "entries \<noteq> []" "append_entries g entries s = (a, s')" for s s' entries a
    using that append_entries_log(1) [OF that(3,2)] by (auto simp: prefix_def)
  show "prefix l (s_log (if a = Answers () then s'\<lparr>s_reserved := add_spend (s_reserved s') bound\<rparr> else s'))"
    if "prefix l (s_log s)" "append_entries g [ExecutionDraft r] s = (a, s')" for s s' r a bound
    using that append_entries_log(1) [OF that(2)] by (auto simp: prefix_def)
qed auto

lemma seq_AnswersE:
  assumes "seq m f s = (Answers b, s')"
  obtains a s1 where "m s = (Answers a, s1)" "f a s1 = (Answers b, s')"
  using assms by (cases "m s"; cases "fst (m s)") (auto simp: seq_def)

lemma simple_Answers:
  "ret a s = (Answers b, s') \<longleftrightarrow> a = b \<and> s' = s" "failing err s = (Answers b, s') \<longleftrightarrow> False"
  "check e s = (Answers u, s') \<longleftrightarrow> e = None \<and> s' = s" "lift_sum r s = (Answers b, s') \<longleftrightarrow> r = Inr b \<and> s' = s"
  "lift_answer x s = (Answers b, s') \<longleftrightarrow> x = Answers b \<and> s' = s"
  by (auto simp: ret_def failing_def check_def lift_sum_def lift_answer_def split: option.splits sum.splits)

lemma log_same:
  "use_ctx g s = (x, s') \<Longrightarrow> s_log s' = s_log s" "check_ctx g s = (y, s') \<Longrightarrow> s_log s' = s_log s"
  "observing g kind outcome s = (z, s') \<Longrightarrow> s_log s' = s_log s"
proof -
  have "s_log (observe g kind outcome s) = s_log s" using observe_ecore [of g kind outcome s] by (simp add: ecore_def)
  then show "observing g kind outcome s = (z, s') \<Longrightarrow> s_log s' = s_log s" by (auto simp: observing_def)
qed (auto simp: use_ctx_def check_ctx_def ask_ctx_def seq_def check_def split: option.splits)

lemma record_execution_logged:
  "record_execution g r s = (Answers u, s') \<Longrightarrow> s_log s' = s_log s @ [ExecutionDraft (committed_form g r)]"
  using append_entries_log(1) [of g "[ExecutionDraft (committed_form g r)]" s "Answers u" s'] by (simp add: record_execution_eq)

lemma recordPolicy_logged:
  assumes "recordPolicy g turn manifest v s = (Answers u, s')"
  shows "\<exists>r. s_log s' = s_log s @ [ExecutionDraft r] \<and> er_Manifest r = Some manifest \<and> er_Verdict r = Some v"
  using assms unfolding recordPolicy_def
  by (elim seq_AnswersE) (auto simp: simple_Answers dest!: record_execution_logged log_same(3))

lemma resolveApproval_logged:
  assumes "resolveApproval g turn manifest v s = (Answers w, s')" "RequiresApproval v"
  shows "w = granted v \<and> (\<exists>r. ExecutionDraft r \<in> set (s_log s') \<and> er_Manifest r = Some manifest \<and> er_Verdict r = Some w)"
  using assms unfolding resolveApproval_def
  by (auto elim!: seq_AnswersE simp: simple_Answers dest!: recordPolicy_logged)

lemma granted_simps [simp]: "Allows (granted v)" "vd_Scope (granted v) = vd_Scope v"
  by (simp_all add: granted_def Allows_def)

text \<open>A verdict that does not deny comes from the policy and is bound to the request.\<close>

lemma execution_guard_scope:
  assumes "EvaluateExecutionPolicy ctx policy r = (v, err)" "Allows v \<or> RequiresApproval v"
  shows "vd_Scope v = PolicyScopeForExecution r"
  using assms
  by (auto simp: EvaluateExecutionPolicy_def Let_def split: option.splits sum.splits if_splits prod.splits)

lemma egress_guard_scope:
  assumes "EvaluateDataEgressPolicy ctx policy r = (v, err)" "Allows v \<or> RequiresApproval v"
  shows "vd_Scope v = PolicyScopeForDataEgress r"
  using assms
  by (auto simp: EvaluateDataEgressPolicy_def Let_def split: option.splits sum.splits if_splits prod.splits)

lemma stop_on_failure_Answers [simp]: "stop_on_failure m s = (Answers a, s') \<longleftrightarrow> m s = (Answers a, s')"
  by (auto simp: stop_on_failure_def split: prod.splits answer.splits)

text \<open>What a sequence of recording and, if needed, approving leaves behind when it ends in an allowing verdict.\<close>

lemma recorded_and_allowed:
  assumes "seq (recordPolicy g turn manifest v) (\<lambda>_.
      seq (if \<not> Allows v \<and> RequiresApproval v then resolveApproval g turn manifest v else ret v) (\<lambda>w.
      if Allows w then ret () else failing err)) s = (Answers u, s')"
  shows "\<exists>r w. ExecutionDraft r \<in> set (s_log s') \<and> er_Manifest r = Some manifest \<and> er_Verdict r = Some w \<and>
    Allows w \<and> vd_Scope w = vd_Scope v \<and> (Allows v \<or> RequiresApproval v)"
proof -
  obtain u1 s1 w s2 where p: "recordPolicy g turn manifest v s = (Answers u1, s1)"
    and r: "(if \<not> Allows v \<and> RequiresApproval v then resolveApproval g turn manifest v else ret v) s1 = (Answers w, s2)"
    and w: "(if Allows w then ret () else failing err) s2 = (Answers u, s')"
    using assms by (elim seq_AnswersE)
  from w have "Allows w" "s' = s2" by (auto simp: simple_Answers split: if_splits)
  show ?thesis
  proof (cases "\<not> Allows v \<and> RequiresApproval v")
    case True
    with r have "resolveApproval g turn manifest v s1 = (Answers w, s2)" by simp
    from resolveApproval_logged [OF this] True \<open>s' = s2\<close> show ?thesis by (metis granted_simps)
  next
    case False
    with r have "v = w" "s2 = s1" by (auto simp: simple_Answers)
    with recordPolicy_logged [OF p] \<open>Allows w\<close> \<open>s' = s2\<close> show ?thesis by fastforce
  qed
qed

lemma authorize_tool_logged:
  assumes "authorize_tool g capability iv manifest s = (Answers u, s')"
    "valueManifest (v_marshal_call (g_env g) (ti_Call iv)) (q_ModelOutputClassification (g_request g)) = Inr manifest"
  shows "\<exists>r. ExecutionDraft r \<in> set (s_log s') \<and> authorises g capability iv r"
proof -
  define v where "v ctx = fst (EvaluateExecutionPolicy ctx (e_ExecutionPolicy (g_engine g)) (tool_execution g capability iv manifest))" for ctx
  obtain ctx s2 where
    "seq (recordPolicy g (ti_Turn iv) manifest (v ctx)) (\<lambda>_.
      seq (if \<not> Allows (v ctx) \<and> RequiresApproval (v ctx) then resolveApproval g (ti_Turn iv) manifest (v ctx) else ret (v ctx)) (\<lambda>w.
      if Allows w then ret () else failing execution_denied)) s2 = (Answers u, s')"
    using assms(1) unfolding authorize_tool_def Let_def v_def [symmetric]
    by (elim seq_AnswersE) (rule that, simp only: stop_on_failure_Answers)
  from recorded_and_allowed [OF this] show ?thesis
    using execution_guard_scope [of ctx "e_ExecutionPolicy (g_engine g)" "tool_execution g capability iv manifest" "v ctx"] assms(2)
    unfolding authorises_def v_def by (metis prod.collapse)
qed

section \<open>Tool calls and the state machine of a run\<close>

context engine_invariant
begin

lemma keeps_Execute:
  assumes "I s"
  shows "I (snd (engineToolHandler_Execute g b iv s))"
proof -
  define side where "side = td_SideEffecting (tb_Definition b)"
  define authorized where "authorized =
    seq (prepare_sandbox g (td_Name (tb_Definition b))) (\<lambda>capability.
      if side \<and> \<not> sc_Established capability then failing sandbox_denied
      else
        seq (lift_sum (valueManifest (v_marshal_call (g_env g) (ti_Call iv)) (q_ModelOutputClassification (g_request g)))) (\<lambda>manifest.
        seq (authorize_tool g capability iv manifest) (\<lambda>_. ret capability)))"
  obtain a s1 where a: "authorized s = (a, s1)" by fastforce
  have "keeps authorized"
    unfolding authorized_def by (intro keeps_rules keeps_prepare_sandbox keeps_authorize_tool)
  then have s1: "I s1" using a by (rule keepsD [OF _ assms])
  have I: "I (s1\<lparr>s_executed := s_executed s1 @ [(side, capability, iv)]\<rparr>)" if "a = Answers capability" for capability
  proof (rule execution [OF s1])
    from a that show "side \<longrightarrow> sc_Established capability"
      by (auto simp: authorized_def simple_Answers elim!: seq_AnswersE split: if_splits)
    from a that obtain manifest s2 where
      "valueManifest (v_marshal_call (g_env g) (ti_Call iv)) (q_ModelOutputClassification (g_request g)) = Inr manifest"
      "authorize_tool g capability iv manifest s2 = (Answers (), s1)"
      by (auto simp: authorized_def simple_Answers elim!: seq_AnswersE split: if_splits)
    then show "\<exists>r. ExecutionDraft r \<in> set (s_log s1) \<and> authorises g capability iv r"
      by (intro authorize_tool_logged)
  qed
  have observed: "I (observe g k1 o1 (observe g k2 o2 x))" if "I x" for k1 o1 k2 o2 x
    using that by (rule frame) simp
  show ?thesis
    unfolding engineToolHandler_Execute_def Let_def side_def [symmetric] authorized_def [symmetric] a
    by (cases a) (auto simp: s1 intro: observed I)
qed

end

text \<open>
  A run of the engine is a sequence of its callbacks, in whatever order the turn loop, the tools and
  the streams call them.
\<close>

inductive engine_step :: "'st config \<Rightarrow> 'st engineRun \<Rightarrow> 'st engineRun \<Rightarrow> bool" for g where
  select: "engine_step g s (snd (SelectTurn g turn s))"
| stream: "engine_step g s (snd (engineProvider_Stream g p r s))"
| recv: "engine_step g s (snd (engineModelStream_Recv g m s))"
| close: "engine_step g s (snd (engineModelStream_Close g m s))"
| event: "engine_step g s (snd (RecordLoopEvent g e s))"
| sandbox: "engine_step g s (snd (RecordSandboxEvent g se s))"
| execute: "engine_step g s (snd (engineToolHandler_Execute g b iv s))"
| close_tool: "engine_step g s (snd (engineToolHandler_Close g i b s))"

context engine_invariant
begin

lemma step_keeps: "engine_step g s s' \<Longrightarrow> I s \<Longrightarrow> I s'"
proof (induction rule: engine_step.induct)
  case (close s m)
  then show ?case by (auto simp: engineModelStream_Close_def intro: frame)
qed (simp_all add: keeps_apply keeps_SelectTurn keeps_stream keeps_Recv keeps_RecordLoopEvent keeps_RecordSandboxEvent
      keeps_Execute keeps_tool_Close)

lemma reach_keeps: "(engine_step g)\<^sup>*\<^sup>* s s' \<Longrightarrow> I s \<Longrightarrow> I s'"
  by (induction rule: rtranclp_induct) (auto intro: step_keeps)

end

section \<open>Spending\<close>

definition reservations :: "engineDraft list \<Rightarrow> SpendBound list" where
  "reservations log =
     concat (map (\<lambda>d. case d of
       ExecutionDraft r \<Rightarrow> (case er_Budget r of None \<Rightarrow> [] | Some b \<Rightarrow> [br_Reserved b]) | _ \<Rightarrow> []) log)"

definition total_spend :: "SpendBound \<Rightarrow> SpendBound list \<Rightarrow> SpendBound" where
  "total_spend base bs =
     \<lparr>sb_InputTokens = sb_InputTokens base + sum_list (map sb_InputTokens bs),
      sb_OutputTokens = sb_OutputTokens base + sum_list (map sb_OutputTokens bs),
      sb_Cost = sb_Cost base + sum_list (map sb_Cost bs)\<rparr>"

definition spend_within :: "SpendBound \<Rightarrow> Budget \<Rightarrow> bool" where
  "spend_within u b \<longleftrightarrow>
     0 \<le> sb_InputTokens u \<and> sb_InputTokens u \<le> bg_MaxInputTokens b \<and>
     0 \<le> sb_OutputTokens u \<and> sb_OutputTokens u \<le> bg_MaxOutputTokens b \<and>
     0 \<le> sb_Cost u \<and> sb_Cost u \<le> bg_MaxCost b"

text \<open>Budgets of Go values fit a signed 64-bit integer.\<close>

definition go_budget :: "Budget \<Rightarrow> bool" where
  "go_budget b \<longleftrightarrow> in64 (bg_MaxInputTokens b) \<and> in64 (bg_MaxOutputTokens b) \<and> in64 (bg_MaxCost b)"

definition spending_inv :: "'st config \<Rightarrow> SpendBound \<Rightarrow> 'st engineRun \<Rightarrow> bool" where
  "spending_inv g base s \<longleftrightarrow>
     go_budget (q_Budget (g_request g)) \<and> spend_within (s_reserved s) (q_Budget (g_request g)) \<and>
     s_reserved s = total_spend base (reservations (s_log s))"

lemma reservations_snoc:
  "reservations (log @ [ExecutionDraft r]) =
     reservations log @ (case er_Budget r of None \<Rightarrow> [] | Some b \<Rightarrow> [br_Reserved b])"
  by (simp add: reservations_def)

lemma total_spend_snoc:
  "total_spend base (bs @ [b]) =
     \<lparr>sb_InputTokens = sb_InputTokens (total_spend base bs) + sb_InputTokens b,
      sb_OutputTokens = sb_OutputTokens (total_spend base bs) + sb_OutputTokens b,
      sb_Cost = sb_Cost (total_spend base bs) + sb_Cost b\<rparr>"
  by (simp add: total_spend_def)

lemma plain_reservations:
  assumes "\<forall>r. ExecutionDraft r \<in> set entries \<longrightarrow> plain r"
  shows "total_spend base (reservations (log @ entries)) = total_spend base (reservations log)"
proof -
  have "\<forall>b\<in>set (reservations entries). b = no_spend"
    using assms by (auto simp: reservations_def plain_def split: engineDraft.splits option.splits)
  then have "map sb_InputTokens (reservations entries) = map (\<lambda>_. 0) (reservations entries)"
    "map sb_OutputTokens (reservations entries) = map (\<lambda>_. 0) (reservations entries)"
    "map sb_Cost (reservations entries) = map (\<lambda>_. 0) (reservations entries)"
    by (auto simp: no_spend_def)
  then show ?thesis by (simp add: reservations_def total_spend_def map_replicate_const sum_list_replicate)
qed

text \<open>A bound that fits what is left can be added without wrapping and without exceeding the budget.\<close>

lemma fit_one:
  assumes "in64 m" "0 \<le> u" "u \<le> m" "0 \<le> b" "b \<le> wrap64 (m - u)"
  shows "wrap64 (u + b) = u + b" "u + b \<le> m"
proof -
  have "wrap64 (m - u) = m - u" using assms by (intro wrap64_id) (auto simp: in64_def max64_def min64_def)
  with assms show "u + b \<le> m" by simp
  with assms show "wrap64 (u + b) = u + b" by (intro wrap64_id) (auto simp: in64_def max64_def min64_def)
qed

lemma fits_add:
  assumes "go_budget (q_Budget (g_request g))" "spend_within used (q_Budget (g_request g))" "fits g used bound"
  shows "spend_within (add_spend used bound) (q_Budget (g_request g)) \<and>
    add_spend used bound =
      \<lparr>sb_InputTokens = sb_InputTokens used + sb_InputTokens bound,
       sb_OutputTokens = sb_OutputTokens used + sb_OutputTokens bound, sb_Cost = sb_Cost used + sb_Cost bound\<rparr>"
proof -
  let ?b = "q_Budget (g_request g)"
  note fit = fit_one [of "bg_MaxInputTokens ?b" "sb_InputTokens used" "sb_InputTokens bound"]
    fit_one [of "bg_MaxOutputTokens ?b" "sb_OutputTokens used" "sb_OutputTokens bound"]
    fit_one [of "bg_MaxCost ?b" "sb_Cost used" "sb_Cost bound"]
  have "0 \<le> sb_InputTokens bound" "0 \<le> sb_OutputTokens bound" "0 \<le> sb_Cost bound"
    "sb_InputTokens bound \<le> wrap64 (bg_MaxInputTokens ?b - sb_InputTokens used)"
    "sb_OutputTokens bound \<le> wrap64 (bg_MaxOutputTokens ?b - sb_OutputTokens used)"
    "sb_Cost bound \<le> wrap64 (bg_MaxCost ?b - sb_Cost used)"
    using assms(3) by (auto simp: fits_def SpendBound_Validate_def exceeded_dimension_def split: if_splits)
  with assms fit show ?thesis by (simp add: go_budget_def spend_within_def add_spend_def)
qed

interpretation spending: engine_invariant g "spending_inv g base" for g base
proof unfold_locales
  show "spending_inv g base s'" if "spending_inv g base s" "ecore s' = ecore s" for s s' :: "'a engineRun"
    using that by (auto simp: spending_inv_def ecore_def)
  show "spending_inv g base s'"
    if "spending_inv g base s" "entries \<noteq> []" "\<forall>r. ExecutionDraft r \<in> set entries \<longrightarrow> plain r"
      "append_entries g entries s = (a, s')" for s s' entries a
    using that append_entries_log(1,2) [OF that(4,2)] by (auto simp: spending_inv_def plain_reservations)
  show "spending_inv g base (if a = Answers () then s'\<lparr>s_reserved := add_spend (s_reserved s') bound\<rparr> else s')"
    if "spending_inv g base s" "fits g (s_reserved s) bound"
      "er_Budget r = Some \<lparr>br_Reserved = bound, br_Dimension = []\<rparr>"
      "append_entries g [ExecutionDraft r] s = (a, s')" for s s' r a bound
    using that append_entries_log(1,2) [OF that(4)] fits_add [of g "s_reserved s" bound]
    by (auto simp: spending_inv_def reservations_snoc total_spend_snoc)
qed (auto simp: spending_inv_def)

definition authority_inv :: "'st config \<Rightarrow> 'st engineRun \<Rightarrow> bool" where
  "authority_inv g s \<longleftrightarrow>
     (\<forall>(side, capability, iv)\<in>set (s_executed s).
        (side \<longrightarrow> sc_Established capability) \<and> (\<exists>r. ExecutionDraft r \<in> set (s_log s) \<and> authorises g capability iv r))"

interpretation authority: engine_invariant g "authority_inv g" for g
proof unfold_locales
  show "authority_inv g s'" if "authority_inv g s" "ecore s' = ecore s" for s s' :: "'a engineRun"
    using that by (simp add: authority_inv_def ecore_def)
  show "authority_inv g s'"
    if "authority_inv g s" "entries \<noteq> []" "append_entries g entries s = (a, s')" for s s' entries a
    using that append_entries_log(1,3) [OF that(3,2)] by (fastforce simp: authority_inv_def)
  show "authority_inv g (if a = Answers () then s'\<lparr>s_reserved := add_spend (s_reserved s') bound\<rparr> else s')"
    if "authority_inv g s" "append_entries g [ExecutionDraft r] s = (a, s')" for s s' r a bound
    using that append_entries_log(1,3) [OF that(2)] by (fastforce simp: authority_inv_def)
qed (auto simp: authority_inv_def)

end
