(* ===== verification/EngineProps.thy ===== *)
theory EngineProps
  imports EngineInv
begin

text \<open>
  What the execution engine guarantees: spending and tool calls over whole runs, the authority behind
  a chosen placement, the quarantine of results from other zones and the accounting of streams.
\<close>

section \<open>Whole runs\<close>

text \<open>The turn loop works on the engine through its callbacks only.\<close>

definition well_behaved :: "'st config \<Rightarrow> 'st turn_loop \<Rightarrow> bool" where
  "well_behaved g loop \<longleftrightarrow> (\<forall>request s. (engine_step g)\<^sup>*\<^sup>* s (snd (loop request s)))"

context engine_invariant
begin

lemma cleanup_from_keeps: "I s \<Longrightarrow> I (snd (cleanup_from g i bs result s))"
proof (induction bs arbitrary: i result s)
  case (Cons b bs)
  then show ?case using keeps_tool_Close [of s i b] by (simp split: prod.split) (metis snd_conv)
qed simp

lemma observe_keeps: "I s \<Longrightarrow> I (observe g' kind outcome s)"
  by (rule frame) simp_all

lemma closing_keeps:
  assumes "I s" "append_entries g (closing_entries r result failure states) s = (a, s')"
  shows "I s'"
  by (rule commit [OF assms(1) _ _ assms(2)]) (auto simp: closing_entries_def plain_def blank_record_def)

lemma close_run_keeps:
  assumes "I s"
  shows "I (snd (close_run g result runErr cancelled s))"
proof -
  obtain a s' where a: "append_entries g (closing_entries (g_request g) result (closing_failure runErr cancelled result)
      (closing_states runErr cancelled)) s = (a, s')" by fastforce
  have "I s'" by (rule closing_keeps [OF assms a])
  then show ?thesis by (auto simp: close_run_def Let_def a intro: observe_keeps)
qed

lemma finish_keeps:
  assumes "I s"
  shows "I (snd (finish_run g result runErr s))"
proof -
  obtain e s1 where c: "cleanup g s = (e, s1)" by fastforce
  have "I s1" using cleanup_from_keeps [OF assms, of 0 "q_Tools (g_request g)" None] by (simp add: cleanup_def [symmetric] c)
  then have "I (s1\<lparr>s_uses := Suc (s_uses s1)\<rparr>)" by (rule frame) simp
  then show ?thesis by (simp add: finish_run_def c close_run_keeps split: prod.split)
qed

lemma keeps_run_loop:
  assumes "well_behaved g loop"
  shows "keeps (run_loop g loop resume request)"
proof (rule keeps_fun)
  fix s assume "I s"
  have loop: "I (snd (loop request s1))" if "I s1" for s1
    using assms that reach_keeps by (auto simp: well_behaved_def)
  obtain a s1 where a: "(if resume then (Answers (), s) else admit g s) = (a, s1)" by fastforce
  with \<open>I s\<close> keepsD [OF keeps_admit] have "I s1" by (auto split: if_splits)
  then show "I (snd (run_loop g loop resume request s))"
    by (cases a) (simp_all add: run_loop_def a loop)
qed

lemma start_keeps: "keeps (start_run g False digest)"
proof -
  have "keeps (append_entries g (initial_entries r @ [request_entry r digest]))" for r
  proof (rule keeps_fun)
    fix s assume "I s"
    obtain a s' where a: "append_entries g (initial_entries r @ [request_entry r digest]) s = (a, s')" by fastforce
    have "I s'"
      by (rule commit [OF \<open>I s\<close> _ _ a]) (auto simp: initial_entries_def request_entry_def plain_def blank_record_def)
    then show "I (snd (append_entries g (initial_entries r @ [request_entry r digest]) s))" by (simp add: a)
  qed
  then show ?thesis unfolding start_run_def if_False by (intro keeps_seq keeps_simple)
qed

text \<open>Everything after the run has started: the observations, the loop and the end.\<close>

lemma keeps_started_run:
  assumes "well_behaved g loop"
  shows "keeps (started_run g loop resume loopRequest)"
proof -
  have finish: "keeps (\<lambda>s. case finish_run g result runErr s of (answer, s) \<Rightarrow> (Answers answer, s))" for result runErr
  proof (rule keeps_fun)
    fix s assume "I s"
    from finish_keeps [OF this, of result runErr]
    show "I (snd (case finish_run g result runErr s of (answer, s) \<Rightarrow> (Answers answer, s)))"
      by (cases "finish_run g result runErr s") simp
  qed
  show ?thesis
    unfolding started_run_def
    by (intro keeps_seq keeps_simple keeps_run_loop [OF assms] keeps_prod finish)
qed

lemma keeps_prepared_run: "well_behaved g loop \<Longrightarrow> keeps (prepared_run g loop False)"
  unfolding prepared_run_def by (intro keeps_seq keeps_simple start_keeps keeps_started_run)

lemma engine_run_keeps:
  assumes "prepare_request (g_request g0) = Inr (g_request g)" "g = g0\<lparr>g_request := g_request g\<rparr>"
    "well_behaved g loop" "I s" "engine_run g0 loop False s = (a, s')"
  shows "I s'"
proof -
  have "keeps (engine_run g0 loop False)"
    unfolding engine_run_def assms(1)
  proof (intro keeps_seq [OF keeps_check_ctx] keeps_seq [OF keeps_simple(3)])
    show "keeps (seq (lift_sum (Inr (g_request g))) (\<lambda>request. prepared_run (g0\<lparr>g_request := request\<rparr>) loop False))"
      using keeps_prepared_run [OF assms(3)] assms(2) by (simp add: keeps_def seq_def lift_sum_def)
  qed
  then show ?thesis using assms(4,5) by (rule keepsD)
qed

end

text \<open>
  [C1] A run never commits to more than its budget: whatever the estimator answers and however many
  turns and compactions take place, what the run has reserved stays within the input, output and cost limits,
  no addition wraps, and it is exactly the sum of the reservations in the durable log.
\<close>

theorem run_spending_bounded:
  assumes "prepare_request (g_request g) = Inr request" "well_behaved (g\<lparr>g_request := request\<rparr>) loop"
    "go_budget (q_Budget request)" "Budget_Validate (q_Budget request) = None"
    "engine_run g loop False (new_run store) = (answer, s)"
  shows "spend_within (s_reserved s) (q_Budget request) \<and> s_reserved s = total_spend no_spend (reservations (s_log s))"
proof -
  let ?g = "g\<lparr>g_request := request\<rparr>"
  have "spending_inv ?g no_spend (new_run store)"
    using assms(3,4)
    by (simp add: spending_inv_def new_run_def spend_within_def no_spend_def total_spend_def reservations_def Budget_Validate_None)
  then have "spending_inv ?g no_spend s"
    using spending.engine_run_keeps [of g ?g loop no_spend "new_run store" answer s] assms(1,2,5) by simp
  then show ?thesis unfolding spending_inv_def by fastforce
qed

text \<open>
  [C2] No tool runs without authority: for every call that reached a tool handler during a run, the
  durable log holds an allowing verdict for exactly that call's content, identity and sandbox, and a side
  effecting tool ran only with its sandbox established.
\<close>

theorem run_tools_authorised:
  assumes "prepare_request (g_request g) = Inr request" "well_behaved (g\<lparr>g_request := request\<rparr>) loop"
    "engine_run g loop False (new_run store) = (answer, s)" "(side, capability, iv) \<in> set (s_executed s)"
  shows "(side \<longrightarrow> sc_Established capability) \<and>
    (\<exists>r. ExecutionDraft r \<in> set (s_log s) \<and> authorises (g\<lparr>g_request := request\<rparr>) capability iv r)"
proof -
  let ?g = "g\<lparr>g_request := request\<rparr>"
  have "authority_inv ?g (new_run store)" by (simp add: authority_inv_def new_run_def)
  then have "authority_inv ?g s"
    using authority.engine_run_keeps [of g ?g loop "new_run store" answer s] assms(1-3) by simp
  with assms(4) show ?thesis by (fastforce simp: authority_inv_def)
qed

section \<open>Placements\<close>

lemma reserve_logged:
  assumes "reserve g turn request descriptor s = (Answers bound, s')"
  shows "\<exists>r. ExecutionDraft r \<in> set (s_log s') \<and> er_Budget r = Some \<lparr>br_Reserved = bound, br_Dimension = []\<rparr>"
proof -
  obtain estimate where e: "e_SpendEstimator (g_engine g) = Some estimate"
    using assms by (cases "e_SpendEstimator (g_engine g)") (auto simp: reserve_def simple_Answers)
  have fail: "spendFailure g turn dimension s1 \<noteq> (Answers b, s2)" for dimension s1 s2 and b :: SpendBound
    by (auto simp: spendFailure_def Let_def split: prod.splits answer.splits)
  show ?thesis
    using assms unfolding reserve_def e
    by (auto elim!: seq_AnswersE simp: simple_Answers Let_def fail split: if_splits dest!: record_execution_logged
        intro!: exI [of _ "committed_form g (budget_record turn bound [])"])
qed

lemma EvaluateRouter_decides:
  assumes "EvaluateRouter ctx router r = Some (d, None)"
  shows "RoutingDecision_Validate d r = None" "rd_SelectedCandidateID d \<noteq> []"
  using assms
  by (auto simp: EvaluateRouter_def routing_failure_def is_no_route_def no_route_def ID_IsZero_def
      split: option.splits if_splits prod.splits)

text \<open>The candidate taken after a decision: admissible for the recorded routing request.\<close>

definition placement_grounds :: "engineDraft list \<Rightarrow> RoutingCandidate \<Rightarrow> bool" where
  "placement_grounds log c \<longleftrightarrow>
     (\<exists>r routing decision. ExecutionDraft r \<in> set log \<and> er_Routing r = Some \<lparr>rt_Request = routing, rt_Decision = decision\<rparr> \<and>
        RoutingDecision_Validate decision routing = None \<and> c \<in> set (rr_Candidates routing) \<and>
        rc_ID c = rd_SelectedCandidateID decision \<and> admissible routing c)"

definition reserved_in :: "engineDraft list \<Rightarrow> SpendBound \<Rightarrow> bool" where
  "reserved_in log bound \<longleftrightarrow>
     (\<exists>r. ExecutionDraft r \<in> set log \<and> er_Budget r = Some \<lparr>br_Reserved = bound, br_Dimension = []\<rparr>)"

definition grounded :: "'st config \<Rightarrow> engineDraft list \<Rightarrow> engine_selection \<Rightarrow> bool" where
  "grounded g log sel \<longleftrightarrow>
     (\<exists>c. placement_grounds log c \<and> pr_zone (sl_Provider sel) = rc_Zone c \<and> sl_Model sel = md_Ref (rc_Model c) \<and>
        e_Providers (g_engine g) (mr_Provider (sl_Model sel)) = Some (pr_provider (sl_Provider sel))) \<and>
     reserved_in log (pr_bound (sl_Provider sel))"

lemma placement_grounds_mono: "placement_grounds l c \<Longrightarrow> prefix l l' \<Longrightarrow> placement_grounds l' c"
  unfolding placement_grounds_def by (meson set_mono_prefix subsetD)

lemma selected_found:
  assumes "RoutingDecision_Validate d r = None" "rd_SelectedCandidateID d \<noteq> []"
    "find (\<lambda>c. rc_ID c = rd_SelectedCandidateID d) (rr_Candidates r) = Some c"
  shows "c \<in> set (rr_Candidates r) \<and> rc_ID c = rd_SelectedCandidateID d \<and> admissible r c"
proof -
  have c: "c \<in> set (rr_Candidates r)" "rc_ID c = rd_SelectedCandidateID d"
    using assms(3) by (auto simp: find_Some_iff in_set_conv_nth)
  obtain c' where "c' \<in> set (rr_Candidates r)" "rc_ID c' = rd_SelectedCandidateID d" "admissible r c'"
    using valid_decision_selected [OF assms(1)] assms(2) by (auto simp: ID_IsZero_def)
  moreover have "inj_on rc_ID (set (rr_Candidates r))"
    using request_candidates(2) [OF valid_decision_request [OF assms(1)]] by (simp add: distinct_map)
  ultimately show ?thesis using c by (metis inj_onD)
qed

lemma take_placement_grounded:
  assumes "take_placement g turn manifest mreq c s = (Answers sel, s')" "placement_grounds (s_log s) c"
  shows "grounded g (s_log s') sel"
proof -
  obtain provider bound u s1 s2 where p: "e_Providers (g_engine g) (mr_Provider (md_Ref (rc_Model c))) = Some provider"
    and a: "approve_step g turn manifest (vd_Scope (rc_ExecutionVerdict c)) s = (Answers u, s1)"
    and r: "reserve g turn (mreq\<lparr>mq_Model := md_Ref (rc_Model c)\<rparr>) (rc_Model c) s1 = (Answers bound, s')"
    and sel: "sel = \<lparr>sl_Messages = None,
      sl_Provider = \<lparr>pr_provider = provider, pr_zone = rc_Zone c, pr_turn = turn, pr_bound = bound\<rparr>, sl_Model = md_Ref (rc_Model c)\<rparr>"
    using assms(1) unfolding take_placement_def
    by (auto elim!: seq_AnswersE simp: simple_Answers split: option.splits)
  have "prefix (s_log s) (s_log s')"
    using growing.keepsD [OF growing.keeps_reserve _ r] growing.keepsD [OF growing.keeps_approve_step _ a] by blast
  then show ?thesis
    using placement_grounds_mono [OF assms(2)] reserve_logged [OF r] p
    by (auto simp: grounded_def reserved_in_def sel)
qed

lemma route_placement_grounded:
  assumes "route_placement g turn manifest mreq routing s = (Answers sel, s')"
  shows "grounded g (s_log s') sel"
proof -
  obtain ctx s1 where rest: "(case EvaluateRouter ctx (e_Router (g_engine g)) routing of
       None \<Rightarrow> lift_answer Panics
     | Some (decision, routeErr) \<Rightarrow>
         if routeErr \<noteq> None \<and> \<not> is_no_route routeErr then failing (the routeErr)
         else
           seq (record_execution g (routing_record turn routing decision)) (\<lambda>_.
           seq (observing g RecordRouting ''decided'') (\<lambda>_.
           case routeErr of
             Some err \<Rightarrow> failing (the (errors_Join (Some execution_denied) (Some err)))
           | None \<Rightarrow>
               (case find (\<lambda>c. rc_ID c = rd_SelectedCandidateID decision) (rr_Candidates routing) of
                  None \<Rightarrow> failing (errorf ''selected candidate unavailable'')
                | Some candidate \<Rightarrow> take_placement g turn manifest mreq candidate)))) s1 = (Answers sel, s')"
    using assms unfolding route_placement_def by (elim seq_AnswersE)
  obtain d c u u' s2 s3 where d: "EvaluateRouter ctx (e_Router (g_engine g)) routing = Some (d, None)"
    and r: "record_execution g (routing_record turn routing d) s1 = (Answers u, s2)"
    and o: "observing g RecordRouting ''decided'' s2 = (Answers u', s3)"
    and f: "find (\<lambda>c. rc_ID c = rd_SelectedCandidateID d) (rr_Candidates routing) = Some c"
    and t: "take_placement g turn manifest mreq c s3 = (Answers sel, s')"
    using rest
    by (auto elim!: seq_AnswersE simp: simple_Answers split: option.splits prod.splits if_splits)
  note decided = EvaluateRouter_decides [OF d]
  have "ExecutionDraft (committed_form g (routing_record turn routing d)) \<in> set (s_log s3)"
    using record_execution_logged [OF r] log_same(3) [OF o] by simp
  then have "placement_grounds (s_log s3) c"
    unfolding placement_grounds_def using selected_found [OF decided f] decided(1)
    by (intro exI [of _ "committed_form g (routing_record turn routing d)"]) simp
  then show ?thesis by (rule take_placement_grounded [OF t])
qed

lemma selectPlacement_grounded:
  assumes "selectPlacement g turn usage messages initial tools s = (Answers sel, s')"
  shows "grounded g (s_log s') sel"
  using assms unfolding selectPlacement_def Let_def
  by (elim seq_AnswersE) (rule route_placement_grounded)

text \<open>
  [C25] Every turn runs where it was authorised to: when the engine selects a placement for a turn, the
  durable log holds a valid routing decision whose selected candidate is admissible for the recorded
  request, the selection is that candidate's zone and model with the registered provider, and the bound on its
  spending is a recorded reservation.
\<close>

theorem SelectTurn_grounded:
  assumes "SelectTurn g turn s = (Answers sel, s')"
  shows "grounded g (s_log s') sel"
proof -
  have fail: "spendFailure g t dimension s1 \<noteq> (Answers x, s2)" for t dimension s1 s2 and x :: engine_selection
    by (auto simp: spendFailure_def Let_def split: prod.splits answer.splits)
  obtain messages sel1 s1 where "selectPlacement g (tx_Turn turn) (tx_Usage turn)
      (case messages of None \<Rightarrow> tx_Messages turn | Some ms \<Rightarrow> ms) (q_Initial (g_request g)) (q_Tools (g_request g)) s1 = (Answers sel1, s')"
    and "sel = sel1\<lparr>sl_Messages := messages\<rparr>"
    using assms by (auto simp: SelectTurn_def fail simple_Answers elim!: seq_AnswersE split: if_splits)
  with selectPlacement_grounded show ?thesis by (fastforce simp: grounded_def)
qed

section \<open>Streams\<close>

lemma account_same: "account g m e s = (Answers m', s') \<Longrightarrow> s' = s \<and> ms_zone m' = ms_zone m \<and> ms_bound m' = ms_bound m"
proof -
  have fail: "spendFailure g t dimension s1 \<noteq> (Answers x, s2)" for t dimension s1 s2 and x :: engineModelStream
    by (auto simp: spendFailure_def Let_def split: prod.splits answer.splits)
  show "account g m e s = (Answers m', s') \<Longrightarrow> s' = s \<and> ms_zone m' = ms_zone m \<and> ms_bound m' = ms_bound m"
    by (auto simp: account_def simple_Answers Let_def fail elim!: seq_AnswersE split: option.splits if_splits)
qed

text \<open>An allowing egress verdict for exactly the content of an event on its way back.\<close>

definition releases :: "'st config \<Rightarrow> Zone \<Rightarrow> ModelEvent \<Rightarrow> ExecutionRecord \<Rightarrow> bool" where
  "releases g zone e r \<longleftrightarrow>
     (\<exists>manifest v. er_Manifest r = Some manifest \<and> er_Verdict r = Some v \<and> Allows v \<and>
        vd_Scope v = PolicyScopeForDataEgress (result_egress g zone manifest) \<and>
        valueManifest (v_marshal_event (g_env g) e) (q_ModelOutputClassification (g_request g)) = Inr manifest)"

lemma admit_result_released:
  assumes "admit_result g m e s = (Answers u, s')"
  shows "\<exists>r. ExecutionDraft r \<in> set (s_log s') \<and> releases g (ms_zone m) e r"
proof -
  define v where "v ctx manifest = fst (EvaluateDataEgressPolicy ctx (e_DataEgressPolicy (g_engine g))
    (result_egress g (ms_zone m) manifest))" for ctx manifest
  obtain manifest ctx s1 where m: "valueManifest (v_marshal_event (g_env g) e) (q_ModelOutputClassification (g_request g)) = Inr manifest"
    and rest: "seq (recordPolicy g (ms_turn m) manifest (v ctx manifest)) (\<lambda>_.
      seq (if \<not> Allows (v ctx manifest) \<and> RequiresApproval (v ctx manifest)
           then resolveApproval g (ms_turn m) manifest (v ctx manifest) else ret (v ctx manifest)) (\<lambda>w.
      if Allows w then ret () else failing execution_denied)) s1 = (Answers u, s')"
    using assms unfolding admit_result_def Let_def v_def [symmetric]
    by - (erule seq_AnswersE, erule seq_AnswersE, erule seq_AnswersE, rule that, auto simp: simple_Answers)
  from recorded_and_allowed [OF rest] show ?thesis
    using egress_guard_scope [of ctx "e_DataEgressPolicy (g_engine g)" "result_egress g (ms_zone m) manifest" "v ctx manifest"] m
    unfolding releases_def v_def by (metis prod.collapse)
qed

text \<open>
  [C26] Results from another zone are quarantined: when the stream wrapper hands the loop an event that
  carries content and was produced outside the workload's zone, the durable log already holds an allowing
  egress verdict, bound to that event's bytes, for the way from the provider's zone to the workload's.
\<close>

theorem Recv_quarantines_results:
  assumes "engineModelStream_Recv g m s = (Answers (e, m'), s')" "carries_content e" "ms_zone m \<noteq> q_SourceZone (g_request g)"
  shows "\<exists>r. ExecutionDraft r \<in> set (s_log s') \<and> releases g (ms_zone m) e r"
proof -
  obtain s1 where a: "account g (m\<lparr>ms_next := Suc (ms_next m)\<rparr>) e s = (Answers m', s1)"
    and rest: "ms_zone m' \<noteq> q_SourceZone (g_request g) \<Longrightarrow> \<exists>u. admit_result g m' e s1 = (Answers u, s')"
    using assms(1,2) unfolding engineModelStream_Recv_def
    by (elim seq_AnswersE) (auto simp: simple_Answers elim!: seq_AnswersE split: if_splits)
  from account_same [OF a] have zone: "ms_zone m' = ms_zone m" by simp
  with rest assms(3) obtain u where "admit_result g m' e s1 = (Answers u, s')" by auto
  from admit_result_released [OF this] zone show ?thesis by simp
qed

text \<open>Reading a stream: events handed over one after another, other operations in between.\<close>

inductive reading :: "'st config \<Rightarrow> engineModelStream \<Rightarrow> ModelEvent list \<Rightarrow> engineModelStream \<Rightarrow> bool" for g where
  fresh: "reading g m [] m"
| recv: "reading g m es m1 \<Longrightarrow> engineModelStream_Recv g m1 s = (Answers (e, m2), s') \<Longrightarrow> reading g m (es @ [e]) m2"

definition reported :: "ModelEvent list \<Rightarrow> Usage list" where
  "reported es = List.map_filter mv_Usage es"

lemma reported_snoc: "reported (es @ [e]) = reported es @ reported [e]"
  by (induction es) (simp_all add: reported_def split: option.split)

lemma total_spend_append: "total_spend base (bs @ cs) = total_spend (total_spend base bs) cs"
  by (simp add: total_spend_def)

definition go_bound :: "SpendBound \<Rightarrow> bool" where
  "go_bound b \<longleftrightarrow>
     0 \<le> sb_InputTokens b \<and> in64 (sb_InputTokens b) \<and> 0 \<le> sb_OutputTokens b \<and> in64 (sb_OutputTokens b) \<and>
     0 \<le> sb_Cost b \<and> in64 (sb_Cost b)"

definition spend_under :: "SpendBound \<Rightarrow> SpendBound \<Rightarrow> bool" where
  "spend_under u b \<longleftrightarrow>
     0 \<le> sb_InputTokens u \<and> sb_InputTokens u \<le> sb_InputTokens b \<and>
     0 \<le> sb_OutputTokens u \<and> sb_OutputTokens u \<le> sb_OutputTokens b \<and> 0 \<le> sb_Cost u \<and> sb_Cost u \<le> sb_Cost b"

lemma account_bounded:
  assumes "account g m e s = (Answers m', s')" "go_bound (ms_bound m)" "spend_under (ms_used m) (ms_bound m)"
  shows "spend_under (ms_used m') (ms_bound m) \<and>
    ms_used m' = total_spend (ms_used m) (map usage_spend (reported [e]))"
proof (cases "mv_Usage e")
  case None
  then show ?thesis
    using assms by (simp add: account_def simple_Answers reported_def map_filter_simps total_spend_def)
next
  case (Some u)
  let ?b = "ms_bound m"
  have fail: "spendFailure g t dimension s1 \<noteq> (Answers x, s2)" for t dimension s1 s2 and x :: engineModelStream
    by (auto simp: spendFailure_def Let_def split: prod.splits answer.splits)
  have m': "m' = m\<lparr>ms_used := add_spend (ms_used m) (usage_spend u)\<rparr>" and v: "Usage_Validate u = None"
    and d: "exceeded_dimension (usage_spend u) (sb_InputTokens ?b) (sb_OutputTokens ?b) (sb_Cost ?b) (ms_used m) = []"
    using assms(1) by (auto simp: account_def Some simple_Answers Let_def fail elim!: seq_AnswersE split: if_splits)
  have "us_InputTokens u \<ge> 0" "us_OutputTokens u \<ge> 0" "us_Cost u \<ge> 0"
    using v by (auto simp: Usage_Validate_def split: if_splits)
  moreover have "us_InputTokens u \<le> wrap64 (sb_InputTokens ?b - sb_InputTokens (ms_used m))"
    "us_OutputTokens u \<le> wrap64 (sb_OutputTokens ?b - sb_OutputTokens (ms_used m))"
    "us_Cost u \<le> wrap64 (sb_Cost ?b - sb_Cost (ms_used m))"
    using d by (auto simp: exceeded_dimension_def usage_spend_def split: if_splits)
  moreover note fit_one [of "sb_InputTokens ?b" "sb_InputTokens (ms_used m)" "us_InputTokens u"]
    fit_one [of "sb_OutputTokens ?b" "sb_OutputTokens (ms_used m)" "us_OutputTokens u"]
    fit_one [of "sb_Cost ?b" "sb_Cost (ms_used m)" "us_Cost u"]
  ultimately show ?thesis
    using assms(2,3)
    by (simp add: m' spend_under_def go_bound_def add_spend_def usage_spend_def total_spend_def reported_def Some map_filter_simps)
qed

text \<open>
  [C29] A stream cannot spend past its reservation: however a provider reports usage and whatever happens
  between two reads, the usage in the events the wrapper has handed over adds up, without wrapping, to at
  most the bound reserved for the call.
\<close>

theorem stream_usage_bounded:
  assumes "reading g m es m'" "ms_used m = no_spend" "go_bound (ms_bound m)"
  shows "spend_under (ms_used m') (ms_bound m) \<and> ms_used m' = total_spend no_spend (map usage_spend (reported es))"
proof -
  have "ms_bound m' = ms_bound m \<and> spend_under (ms_used m') (ms_bound m) \<and>
      ms_used m' = total_spend no_spend (map usage_spend (reported es))"
    using assms
  proof (induction rule: reading.induct)
    case (fresh m)
    then show ?case by (simp add: spend_under_def go_bound_def no_spend_def total_spend_def reported_def map_filter_simps)
  next
    case (recv m es m1 s e m2 s')
    obtain s1 where a: "account g (m1\<lparr>ms_next := Suc (ms_next m1)\<rparr>) e s = (Answers m2, s1)"
      using recv.hyps(2) unfolding engineModelStream_Recv_def
      by (elim seq_AnswersE) (auto simp: simple_Answers elim!: seq_AnswersE split: if_splits)
    note ih = recv.IH [OF recv.prems]
    then have bound: "go_bound (ms_bound m1)" "spend_under (ms_used m1) (ms_bound m1)" "ms_bound m1 = ms_bound m"
      using recv.prems(2) by auto
    have "spend_under (ms_used m2) (ms_bound m)" "ms_used m2 = total_spend (ms_used m1) (map usage_spend (reported [e]))"
      using account_bounded [OF a, simplified, OF bound(1,2)] unfolding bound(3) by blast+
    then show ?case using account_same [OF a] ih by (simp add: reported_snoc [of es e] total_spend_append)
  qed
  then show ?thesis by blast
qed

section \<open>The end of a run\<close>

lemma close_run_success:
  assumes "close_run g result runErr cancelled s = ((po, None), s')"
  shows "runErr = None \<and> (\<exists>p ctx. po = Some p \<and>
      LoadWorkloadProjection (v_codec (g_env g)) ctx (Some (e_Load (g_engine g) (s_store s'))) (aggregate g) = Inr p) \<and>
    s_log s' = s_log s @ closing_entries (g_request g) result (closing_failure runErr cancelled result) (closing_states runErr cancelled)"
proof -
  let ?entries = "closing_entries (g_request g) result (closing_failure runErr cancelled result) (closing_states runErr cancelled)"
  obtain a s1 where a: "append_entries g ?entries s = (a, s1)" by fastforce
  have ne: "?entries \<noteq> []" by (simp add: closing_entries_def)
  have log: "s_log (observe g kind outcome x) = s_log x" for kind outcome x
    using observe_ecore [of g kind outcome x] by (simp add: ecore_def)
  from append_entries_log(1,4) [OF a ne] assms show ?thesis
    by (cases a) (auto simp: close_run_def Let_def a log split: sum.splits)
qed

text \<open>
  [C31] Success is reported only once it is durable: when a run returns no error, its last entries are the
  finished record and the two closing transitions, committed together with the state the run ended in (succeeded, or
  cancelled when the caller's context ended), and the projection returned is the one the store replays to.
\<close>

theorem run_success_recorded:
  assumes "prepare_request (g_request g) = Inr request" "engine_run g loop resume s0 = (Answers (po, None), s)"
  shows "\<exists>p ctx result cancelled log. po = Some p \<and>
    LoadWorkloadProjection (v_codec (g_env g)) ctx (Some (e_Load (g_engine g) (s_store s))) (aggregate (g\<lparr>g_request := request\<rparr>)) = Inr p \<and>
    s_log s = log @ closing_entries request result (closing_failure None cancelled result) (closing_states None cancelled) \<and>
    fst (closing_states None cancelled) \<noteq> WorkloadFailed"
proof -
  let ?g = "g\<lparr>g_request := request\<rparr>"
  obtain lr s1 where "started_run ?g loop resume lr s1 = (Answers (po, None), s)"
    using assms by (auto simp: engine_run_def prepared_run_def simple_Answers elim!: seq_AnswersE)
  then obtain result runErr s2 where "(case finish_run ?g result runErr s2 of (answer, s) \<Rightarrow> (Answers answer, s)) = (Answers (po, None), s)"
    by (auto simp: started_run_def elim!: seq_AnswersE)
  then have "finish_run ?g result runErr s2 = ((po, None), s)" by (cases "finish_run ?g result runErr s2") simp
  then obtain result' err cancelled s3 where "close_run ?g result' err cancelled s3 = ((po, None), s)"
    by (auto simp: finish_run_def split: prod.splits)
  from close_run_success [OF this] show ?thesis by (auto simp: closing_states_def)
qed

end
