(* ===== verification/EngineStore.thy ===== *)
theory EngineStore
  imports EngineProps MemoryStore
begin

text \<open>
  The engine on an event store. The locale \<open>engine_store\<close> joins the contract of the stores to a
  configuration that uses one, and shows that the entries of the log are exactly what the run has added to its
  aggregate's stream. It is interpreted on the in-memory store.
\<close>

text \<open>A stored event that carries an entry of the log.\<close>

definition carries :: "'st config \<Rightarrow> engineDraft \<Rightarrow> Event \<Rightarrow> bool" where
  "carries g entry e \<longleftrightarrow>
     v_marshal (g_env g) entry = Inr (ev_Payload e) \<and> ev_Type e = draft_kind entry \<and>
     ev_CorrelationID e = q_WorkloadID (g_request g) \<and> ev_AttemptID e = q_AttemptID (g_request g)"

lemma engine_drafts_carried:
  assumes "engine_drafts g cause entries = Inr ds" "map event_draft es = ds"
  shows "list_all2 (carries g) entries es"
  using assms
proof (induction entries arbitrary: ds es)
  case (Cons entry entries)
  then show ?case
    by (auto simp: NewCoreEventDraft_def Let_def carries_def event_draft_def Cons_eq_map_conv
        split: sum.splits option.splits if_splits)
qed simp

locale engine_store = event_store append load stream version invar
  for append load and stream :: "'st \<Rightarrow> AggregateRef \<Rightarrow> Event list" and version invar +
  fixes g :: "'st config" and initial :: 'st
  assumes backed: "e_Append (g_engine g) = append"
    and initial: "invar initial"
begin

definition in_step :: "'st engineRun \<Rightarrow> bool" where
  "in_step s \<longleftrightarrow>
     (length (stream initial (aggregate g)) + length (s_log s) < 2 ^ 64 \<longrightarrow>
       invar (s_store s) \<and>
       (\<exists>es. stream (s_store s) (aggregate g) = stream initial (aggregate g) @ es \<and> list_all2 (carries g) (s_log s) es) \<and>
       (\<forall>b. AggregateRef_Validate b = None \<and> b \<noteq> aggregate g \<longrightarrow> stream (s_store s) b = stream initial b))"

lemma in_step_new: "in_step (new_run initial)"
  using initial by (simp add: in_step_def new_run_def)

lemma append_entries_in_step:
  assumes "in_step s" "entries \<noteq> []" "append_entries g entries s = (a, s')"
  shows "in_step s'"
proof (cases "a = Answers ()")
  case False
  then have "s_log s' = s_log s" using append_entries_log(1) [OF assms(3,2)] by simp
  moreover have "s_store s' = s_store s"
    using assms(3) False append_error
    by (auto simp: append_entries_def Let_def backed split: option.splits sum.splits prod.splits if_splits
        dest: append_length)
  ultimately show ?thesis using assms(1) by (simp add: in_step_def)
next
  case True
  obtain ds es ctx ticks where d: "engine_drafts g (s_cause s) entries = Inr ds"
    and app: "append (s_store s) ctx (aggregate g) (s_sequence s) ds ticks = (Inr es, s_store s')"
    and log: "s_log s' = s_log s @ entries"
    using assms(2,3) True append_entries_log(1) [OF assms(3,2)]
    by (auto simp: append_entries_def Let_def backed split: option.splits sum.splits prod.splits if_splits)
  note carried = engine_drafts_carried [OF d append_events [OF app]]
  have len: "length ds = length entries"
    using list_all2_lengthD [OF carried] append_length [OF app] by simp
  show ?thesis
    unfolding in_step_def
  proof
    assume room: "length (stream initial (aggregate g)) + length (s_log s') < 2 ^ 64"
    with assms(1) log obtain old where inv: "invar (s_store s)"
      and old: "stream (s_store s) (aggregate g) = stream initial (aggregate g) @ old" "list_all2 (carries g) (s_log s) old"
      and rest: "\<And>b. AggregateRef_Validate b = None \<Longrightarrow> b \<noteq> aggregate g \<Longrightarrow> stream (s_store s) b = stream initial b"
      by (auto simp: in_step_def)
    have "invar (s_store s')"
      using append_invar [OF inv app] room log len list_all2_lengthD [OF old(2)] by (simp add: old(1))
    moreover have "stream (s_store s') (aggregate g) = stream initial (aggregate g) @ (old @ es)"
      using append_stream [OF inv app] by (simp add: old(1))
    moreover have "list_all2 (carries g) (s_log s') (old @ es)"
      by (simp add: log list_all2_appendI old(2) carried)
    ultimately show "invar (s_store s') \<and>
       (\<exists>es. stream (s_store s') (aggregate g) = stream initial (aggregate g) @ es \<and> list_all2 (carries g) (s_log s') es) \<and>
       (\<forall>b. AggregateRef_Validate b = None \<and> b \<noteq> aggregate g \<longrightarrow> stream (s_store s') b = stream initial b)"
      using append_frame [OF inv app] rest by auto
  qed
qed

end

sublocale engine_store \<subseteq> storing: engine_invariant g in_step
proof unfold_locales
  show "in_step s'" if "in_step s" "ecore s' = ecore s" for s s'
    using that by (simp add: in_step_def ecore_def)
  show "in_step s'"
    if "in_step s" "entries \<noteq> []" "append_entries g entries s = (a, s')" for s s' entries a
    using that by (rule append_entries_in_step)
  show "in_step (if a = Answers () then s'\<lparr>s_reserved := add_spend (s_reserved s') bound\<rparr> else s')"
    if "in_step s" "append_entries g [ExecutionDraft r] s = (a, s')" for s s' r a bound
    using append_entries_in_step [OF that(1) _ that(2)] by (simp add: in_step_def)
qed (simp add: in_step_def)

section \<open>The engine on the in-memory store\<close>

definition on_memory :: "Store config \<Rightarrow> Store config" where
  "on_memory g = g\<lparr>g_engine := (g_engine g)\<lparr>e_Append := Append, e_Load := Load\<rparr>\<rparr>"

lemma on_memory_same: "aggregate (on_memory g) = aggregate g" "carries (on_memory g) = carries g"
  by (simp_all add: on_memory_def aggregate_def carries_def fun_eq_iff)

text \<open>Stores that satisfy the invariant, for the initial one to range over.\<close>

definition sound_store :: "Store \<Rightarrow> Store" where
  "sound_store st = (if store_inv st then st else New)"

interpretation memory_engine: engine_store Append Load stream_of version_of store_inv "on_memory g" "sound_store st" for g st
  by unfold_locales (simp_all add: on_memory_def sound_store_def store_inv_New)

lemma memory_run_in_step:
  assumes "store_inv store" "prepare_request (g_request g) = Inr request"
    "well_behaved (on_memory (g\<lparr>g_request := request\<rparr>)) loop"
    "engine_run (on_memory g) loop False (new_run store) = (answer, s)"
  shows "memory_engine.in_step (g\<lparr>g_request := request\<rparr>) store s"
proof -
  let ?g = "g\<lparr>g_request := request\<rparr>"
  have new: "memory_engine.in_step ?g store (new_run store)"
    using memory_engine.in_step_new [of ?g store] assms(1) by (simp add: sound_store_def)
  show ?thesis
    by (rule memory_engine.storing.engine_run_keeps [OF _ _ assms(3) new assms(4)]) (simp_all add: on_memory_def assms(2))
qed

lemma memory_in_step:
  assumes "memory_engine.in_step g store s" "store_inv store"
    "length (stream_of store (aggregate g)) + length (s_log s) < 2 ^ 64"
  shows "store_inv (s_store s)"
    "\<exists>es. stream_of (s_store s) (aggregate g) = stream_of store (aggregate g) @ es \<and> list_all2 (carries g) (s_log s) es"
    "AggregateRef_Validate b = None \<Longrightarrow> b \<noteq> aggregate g \<Longrightarrow> stream_of (s_store s) b = stream_of store b"
proof -
  have store: "sound_store store = store" using assms(2) by (simp add: sound_store_def)
  from assms(1,3) show "store_inv (s_store s)"
    "\<exists>es. stream_of (s_store s) (aggregate g) = stream_of store (aggregate g) @ es \<and> list_all2 (carries g) (s_log s) es"
    "AggregateRef_Validate b = None \<Longrightarrow> b \<noteq> aggregate g \<Longrightarrow> stream_of (s_store s) b = stream_of store b"
    unfolding memory_engine.in_step_def unfolding on_memory_same store by blast+
qed

text \<open>
  [C28] What the engine believes it has recorded is what the store holds: after a run on the in-memory
  store, the workload's stream is the stream before the run followed by one event for each entry of the engine's
  log, in order, with that entry's type and payload and the run's workload and attempt; no other
  aggregate has changed.
\<close>

theorem run_log_is_stored:
  assumes "store_inv store" "prepare_request (g_request g) = Inr request"
    "well_behaved (on_memory (g\<lparr>g_request := request\<rparr>)) loop"
    "engine_run (on_memory g) loop False (new_run store) = (answer, s)"
    "length (stream_of store (aggregate (g\<lparr>g_request := request\<rparr>))) + length (s_log s) < 2 ^ 64"
  shows "(\<exists>es. stream_of (s_store s) (aggregate (g\<lparr>g_request := request\<rparr>)) =
        stream_of store (aggregate (g\<lparr>g_request := request\<rparr>)) @ es \<and> list_all2 (carries (g\<lparr>g_request := request\<rparr>)) (s_log s) es) \<and>
    (\<forall>b. AggregateRef_Validate b = None \<and> b \<noteq> aggregate (g\<lparr>g_request := request\<rparr>) \<longrightarrow>
       stream_of (s_store s) b = stream_of store b)"
  using memory_in_step(2,3) [OF memory_run_in_step [OF assms(1-4)] assms(1,5)] by blast

end
