(* ===== verification/EngineRecovery.thy ===== *)
theory EngineRecovery
  imports EngineProps
begin

text \<open>
  Resumption from the durable log (src/recovery.go): which checkpoint a run resumes from, and that its
  spending continues where the interrupted run stopped.
\<close>

section \<open>The checkpoint\<close>

text \<open>Records that make an earlier checkpoint unsafe: an intent or an effect the checkpoint does not cover.\<close>

definition overtakes :: "ExecutionRecord \<Rightarrow> bool" where
  "overtakes r \<longleftrightarrow>
     er_Loop r \<noteq> None \<or> er_Compaction r \<noteq> None \<or> (\<exists>b. er_Budget r = Some b \<and> br_Dimension b = [])"

definition marks :: "ExecutionRecord \<Rightarrow> LoopEvent \<Rightarrow> bool" where
  "marks r l \<longleftrightarrow> er_Loop r = Some l \<and> le_Type l = LoopEventCheckpoint \<and> er_Compaction r = None"

definition safe_checkpoint :: "ExecutionRecord list \<Rightarrow> LoopEvent \<Rightarrow> bool" where
  "safe_checkpoint rs l \<longleftrightarrow>
     (\<exists>before r after. rs = before @ r # after \<and> marks r l \<and> (\<forall>r'\<in>set after. \<not> overtakes r'))"

lemma recover_record_checkpoint:
  "rv_checkpoint (recover_record digest v r) =
     (if \<exists>l. marks r l then Some (LoopEvent_Clone (the (er_Loop r))) else if overtakes r then None else rv_checkpoint v)"
  by (auto simp: recover_record_def marks_def overtakes_def Let_def split: option.splits)

lemma safe_checkpoint_snoc:
  "safe_checkpoint (rs @ [r]) l \<longleftrightarrow> marks r l \<or> (\<not> overtakes r \<and> safe_checkpoint rs l)"
proof
  assume "safe_checkpoint (rs @ [r]) l"
  then obtain before r' after where split: "rs @ [r] = before @ r' # after" "marks r' l" "\<forall>x\<in>set after. \<not> overtakes x"
    by (auto simp: safe_checkpoint_def)
  show "marks r l \<or> (\<not> overtakes r \<and> safe_checkpoint rs l)"
  proof (cases after rule: rev_cases)
    case (snoc ys y)
    with split show ?thesis by (auto simp: safe_checkpoint_def)
  qed (use split in simp)
next
  assume "marks r l \<or> (\<not> overtakes r \<and> safe_checkpoint rs l)"
  then show "safe_checkpoint (rs @ [r]) l"
  proof
    assume "marks r l"
    then show ?thesis unfolding safe_checkpoint_def by (intro exI [of _ rs] exI [of _ r] exI [of _ "[]"]) simp
  next
    assume r: "\<not> overtakes r \<and> safe_checkpoint rs l"
    then obtain before r' after where "rs = before @ r' # after" "marks r' l" "\<forall>x\<in>set after. \<not> overtakes x"
      by (auto simp: safe_checkpoint_def)
    with r show ?thesis
      unfolding safe_checkpoint_def by (intro exI [of _ before] exI [of _ r'] exI [of _ "after @ [r]"]) auto
  qed
qed

lemma recover_log_checkpoint:
  assumes "rv_checkpoint v = None"
  shows "rv_checkpoint (recover_log digest v rs) = Some c \<longleftrightarrow> (\<exists>l. safe_checkpoint rs l \<and> c = LoopEvent_Clone l)"
proof (induction rs arbitrary: c rule: rev_induct)
  case Nil
  then show ?case using assms by (simp add: recover_log_def safe_checkpoint_def)
next
  case (snoc r rs)
  have "marks r l \<Longrightarrow> overtakes r" "marks r l \<Longrightarrow> er_Loop r = Some l"
    "marks r l \<Longrightarrow> marks r l' \<Longrightarrow> l = l'" for l l' by (auto simp: marks_def overtakes_def)
  then show ?case
    using snoc by (auto simp: recover_log_def recover_record_checkpoint safe_checkpoint_snoc)
qed

section \<open>Recovered spending\<close>

definition recorded_spend :: "ExecutionRecord list \<Rightarrow> SpendBound list" where
  "recorded_spend rs = concat (map (\<lambda>r. case er_Budget r of None \<Rightarrow> [] | Some b \<Rightarrow> [br_Reserved b]) rs)"

lemma recover_log_reserved:
  "rv_reserved (recover_log digest v rs) = foldl add_spend (rv_reserved v) (recorded_spend rs)"
proof (induction rs rule: rev_induct)
  case (snoc r rs)
  have "rv_reserved (recover_record digest w r) =
      (case er_Budget r of None \<Rightarrow> rv_reserved w | Some b \<Rightarrow> add_spend (rv_reserved w) (br_Reserved b))" for w
    by (simp add: recover_record_def Let_def split: option.split)
  with snoc show ?case by (simp add: recover_log_def recorded_spend_def split: option.split)
qed (simp add: recover_log_def recorded_spend_def)

text \<open>A sum of amounts that stays within a Go budget is computed without wrapping.\<close>

lemma fold_spend_total:
  assumes "go_budget b" "spend_within (total_spend base bs) b" "spend_within base b"
    "\<forall>x\<in>set bs. spend_under no_spend x"
  shows "foldl add_spend base bs = total_spend base bs"
  using assms(2,4)
proof (induction bs rule: rev_induct)
  case (snoc x xs)
  let ?t = "total_spend base xs"
  have nonneg: "0 \<le> sum_list (map sb_InputTokens xs)" "0 \<le> sum_list (map sb_OutputTokens xs)" "0 \<le> sum_list (map sb_Cost xs)"
    using snoc.prems(2) by (auto simp: spend_under_def no_spend_def intro!: sum_list_nonneg)
  have x: "0 \<le> sb_InputTokens x" "0 \<le> sb_OutputTokens x" "0 \<le> sb_Cost x"
    using snoc.prems(2) by (auto simp: spend_under_def no_spend_def)
  have "spend_within ?t b"
    using snoc.prems(1) assms(3) nonneg x unfolding total_spend_snoc by (auto simp: spend_within_def total_spend_def)
  with snoc have "foldl add_spend base xs = ?t" by simp
  moreover have "add_spend ?t x = total_spend base (xs @ [x])"
    using snoc.prems(1) assms(1) \<open>spend_within ?t b\<close> unfolding total_spend_snoc
    by (auto simp: add_spend_def spend_within_def go_budget_def in64_def max64_def min64_def intro!: wrap64_id)
  ultimately show ?case by simp
qed (simp add: total_spend_def)

section \<open>Resumption\<close>

text \<open>What the store holds of the run: the projection its events replay to.\<close>

definition replays :: "'st config \<Rightarrow> Event list \<Rightarrow> WorkloadProjection \<Rightarrow> bool" where
  "replays g events p \<longleftrightarrow>
     (\<exists>p0. NewWorkloadProjection (aggregate g) = Inr p0 \<and> apply_events (v_codec (g_env g)) events p0 = Inr p)"

text \<open>The state after the durable records have been counted, the rest as before.\<close>

lemma restore_cases:
  assumes "restore g digest s = (a, s')"
  obtains (refused) "s_reserved s' = s_reserved s" "s_log s' = s_log s" "\<nexists>r. a = Answers r"
  | (counted) ctx events p v where "e_Load (g_engine g) (s_store s) ctx (aggregate g) 0 = Inr events" "replays g events p"
      "v = recover_log digest \<lparr>rv_match = False, rv_checkpoint = None, rv_reserved = s_reserved s,
         rv_extraCalls = s_extraCalls s, rv_usage = s_compactionUsage s\<rparr> (pj_Execution p)"
      "events \<noteq> []" "wl_State (pj_Workload p) = WorkloadRunning"
      "s_reserved s' = rv_reserved v" "\<exists>rs. s_log s' = s_log s @ map ExecutionDraft rs \<and> recorded_spend rs = []"
      "\<And>cp deadline. a = Answers (cp, deadline) \<Longrightarrow> rv_match v \<and>
         (\<exists>c result. rv_checkpoint v = Some c \<and> le_Checkpoint c = Some result \<and>
            cp = \<lparr>lc_Sequence = le_Sequence c, lc_Result = LoopResult_Clone result\<rparr>) \<and>
         ev_AttemptID (last events) = q_AttemptID (g_request g)"
proof -
  let ?ctx = "v_ctx (g_env g) (s_uses s)"
  let ?s = "s\<lparr>s_uses := Suc (s_uses s)\<rparr>"
  show ?thesis
  proof (cases "\<exists>events p. e_Load (g_engine g) (s_store s) ?ctx (aggregate g) 0 = Inr events \<and> replays g events p \<and>
      events \<noteq> [] \<and> wl_State (pj_Workload p) = WorkloadRunning")
    case False
    with assms show ?thesis
      by (intro refused)
        (auto simp: restore_def seq_def use_ctx_def lift_sum_def check_def replays_def fail_if_def split: sum.splits if_splits)
  next
    case True
    then obtain events p p0 where load: "e_Load (g_engine g) (s_store s) ?ctx (aggregate g) 0 = Inr events"
      and p: "NewWorkloadProjection (aggregate g) = Inr p0" "apply_events (v_codec (g_env g)) events p0 = Inr p"
      and run: "events \<noteq> []" "wl_State (pj_Workload p) = WorkloadRunning" by (auto simp: replays_def)
    define v where "v = recover_log digest \<lparr>rv_match = False, rv_checkpoint = None, rv_reserved = s_reserved s,
         rv_extraCalls = s_extraCalls s, rv_usage = s_compactionUsage s\<rparr> (pj_Execution p)"
    define s1 where "s1 = ?s\<lparr>s_reserved := rv_reserved v, s_extraCalls := rv_extraCalls v, s_compactionUsage := rv_usage v\<rparr>"
    define s2 where "s2 = s1\<lparr>s_sequence := ev_Sequence (last events), s_stepApproved := True, s_cause := ev_ID (last events)\<rparr>"
    define r where "r = blank_record\<lparr>er_Stage := ExecutionResumed, er_RequestSHA256 := digest\<rparr>"
    obtain b s3 where rec: "record_execution g r s2 = (b, s3)" by fastforce
    have s3: "s_reserved s3 = rv_reserved v"
      "\<exists>rs. s_log s3 = s_log s @ map ExecutionDraft rs \<and> recorded_spend rs = []"
      using append_entries_log(1,2) [OF rec [unfolded record_execution_eq]]
      by (auto simp: s2_def s1_def r_def recorded_spend_def blank_record_def committed_form_def
          intro: exI [of _ "[]"] exI [of _ "[committed_form g r]"])
    have replay: "replays g events p" using p by (auto simp: replays_def)
    have s1: "s_reserved s1 = rv_reserved v" "\<exists>rs. s_log s1 = s_log s @ map ExecutionDraft rs \<and> recorded_spend rs = []"
      by (auto simp: s1_def recorded_spend_def intro: exI [of _ "[]"])
    have "restore g digest s =
      (if \<not> rv_match v then (Fails (errorf ''resume request differs from committed request''), s1)
       else case rv_checkpoint v of
         None \<Rightarrow> (Fails uncertain_outcome, s1)
       | Some c \<Rightarrow>
           if ev_AttemptID (last events) \<noteq> q_AttemptID (g_request g) then (Fails (errorf ''resume attempt mismatch''), s1)
           else case b of
             Panics \<Rightarrow> (Panics, s3) | Fails err \<Rightarrow> (Fails err, s3)
           | Answers _ \<Rightarrow>
               (case le_Checkpoint c of
                  None \<Rightarrow> (Panics, s3)
                | Some result \<Rightarrow>
                    (Answers (\<lparr>lc_Sequence = le_Sequence c, lc_Result = LoopResult_Clone result\<rparr>,
                      Time_Add (wl_CreatedAt (pj_Workload p)) (bg_MaxWallTime (q_Budget (g_request g)))), s3)))"
      using load p run rec
      by (simp add: restore_def seq_def use_ctx_def lift_sum_def lift_answer_def check_def failing_def ret_def fail_if_def Let_def
          v_def [symmetric] s1_def [symmetric] s2_def [symmetric] r_def [symmetric] split: option.split answer.split)
    with assms s1 s3 show ?thesis
      by (intro counted [OF load replay v_def run]) (auto split: if_splits option.splits answer.splits)
  qed
qed

text \<open>
  [C27] A run resumes only from a safe point: when restoring answers, the events in the store replay to a
  running workload committed for the same request and attempt, and the checkpoint it returns is the last effect in the
  log: no loop event, compaction or spend reservation follows it.
\<close>

theorem restore_safe:
  assumes "restore g digest s = (Answers (cp, deadline), s')"
  shows "\<exists>ctx events p l result. e_Load (g_engine g) (s_store s) ctx (aggregate g) 0 = Inr events \<and> replays g events p \<and>
    wl_State (pj_Workload p) = WorkloadRunning \<and> ev_AttemptID (last events) = q_AttemptID (g_request g) \<and>
    safe_checkpoint (pj_Execution p) l \<and> le_Checkpoint l = Some result \<and>
    lc_Sequence cp = le_Sequence l \<and> lc_Result cp = LoopResult_Clone result"
  using assms
proof (cases rule: restore_cases)
  case (counted ctx events p v)
  from counted(8) [of cp deadline] obtain c result where c: "rv_checkpoint v = Some c" "le_Checkpoint c = Some result"
    "cp = \<lparr>lc_Sequence = le_Sequence c, lc_Result = LoopResult_Clone result\<rparr>"
    "ev_AttemptID (last events) = q_AttemptID (g_request g)" by auto
  then obtain l where "safe_checkpoint (pj_Execution p) l" "c = LoopEvent_Clone l"
    using recover_log_checkpoint counted(3) by fastforce
  with c counted show ?thesis by auto
qed simp

section \<open>Spending across a resumption\<close>

text \<open>The reservations in the store: amounts, within the budget together, as every run leaves them.\<close>

definition history_within :: "Budget \<Rightarrow> WorkloadProjection \<Rightarrow> bool" where
  "history_within b p \<longleftrightarrow>
     (\<forall>x\<in>set (recorded_spend (pj_Execution p)). spend_under no_spend x) \<and>
     spend_within (total_spend no_spend (recorded_spend (pj_Execution p))) b"

definition resumed_from :: "'st config \<Rightarrow> 'st \<Rightarrow> SpendBound list \<Rightarrow> bool" where
  "resumed_from g store past \<longleftrightarrow>
     (\<exists>ctx events p. e_Load (g_engine g) store ctx (aggregate g) 0 = Inr events \<and> replays g events p \<and>
       past = recorded_spend (pj_Execution p))"

text \<open>Either the past was counted, or the run was refused before anything was.\<close>

definition counts :: "'st config \<Rightarrow> 'st \<Rightarrow> SpendBound list \<Rightarrow> 'a answer \<Rightarrow> bool" where
  "counts g store past a \<longleftrightarrow> resumed_from g store past \<or> past = [] \<and> (\<nexists>r. a = Answers r)"

lemma reservations_records: "reservations (log @ map ExecutionDraft rs) = reservations log @ recorded_spend rs"
  by (simp add: reservations_def recorded_spend_def comp_def)

lemma total_spend_Nil [simp]: "total_spend base [] = base"
  by (simp add: total_spend_def)

lemma restore_spending:
  assumes "spending_inv g no_spend s" "reservations (s_log s) = []" "restore g digest s = (a, s')"
    "\<And>ctx events p. e_Load (g_engine g) (s_store s) ctx (aggregate g) 0 = Inr events \<Longrightarrow> replays g events p \<Longrightarrow>
      history_within (q_Budget (g_request g)) p"
  shows "\<exists>past. counts g (s_store s) past a \<and> spending_inv g (total_spend no_spend past) s'"
  using assms(3)
proof (cases rule: restore_cases)
  case refused
  have "spending_inv g no_spend s'" using assms(1) unfolding spending_inv_def refused(1,2) .
  with refused(3) show ?thesis by (intro exI [of _ "[]"]) (simp add: counts_def)
next
  case (counted ctx events p v)
  let ?past = "recorded_spend (pj_Execution p)"
  have zero: "s_reserved s = no_spend" using assms(1,2) by (simp add: spending_inv_def total_spend_def no_spend_def)
  have b: "go_budget (q_Budget (g_request g))" "spend_within no_spend (q_Budget (g_request g))"
    using assms(1) zero by (simp_all add: spending_inv_def)
  have h: "history_within (q_Budget (g_request g)) p" by (rule assms(4) [OF counted(1,2)])
  then have "s_reserved s' = total_spend no_spend ?past"
    using fold_spend_total [OF b(1) _ b(2)] counted(3,6) by (simp add: recover_log_reserved zero history_within_def)
  moreover have "reservations (s_log s') = []"
    using counted(7) assms(2) by (auto simp: reservations_records)
  ultimately have "spending_inv g (total_spend no_spend ?past) s'"
    using b h by (simp add: spending_inv_def history_within_def total_spend_def)
  moreover have "counts g (s_store s) ?past a" using counted(1,2) by (auto simp: counts_def resumed_from_def)
  ultimately show ?thesis by blast
qed

lemma prepared_resume_spending:
  assumes "well_behaved g loop" "spending_inv g no_spend s" "reservations (s_log s) = []"
    "\<And>ctx events p. e_Load (g_engine g) (s_store s) ctx (aggregate g) 0 = Inr events \<Longrightarrow> replays g events p \<Longrightarrow>
      history_within (q_Budget (g_request g)) p"
    "prepared_run g loop True s = (answer, s')"
  shows "\<exists>past. counts g (s_store s) past answer \<and> spending_inv g (total_spend no_spend past) s'"
proof (cases "LoopRequest_Validate (loop_request (g_request g)) = None \<and> (\<exists>digest. requestDigest g = Inr digest)")
  case False
  with assms(5) have "s' = s" "\<nexists>r. answer = Answers r"
    by (auto simp: prepared_run_def seq_def check_def lift_sum_def split: option.splits sum.splits)
  with assms(2) show ?thesis by (intro exI [of _ "[]"]) (simp add: counts_def)
next
  case True
  then obtain digest a s1 where run: "seq (start_run g True digest) (started_run g loop True) s = (answer, s')"
    and r: "restore g digest s = (a, s1)"
    using assms(5) by (cases "restore g (projr (requestDigest g)) s")
      (auto simp: prepared_run_def seq_def [of "check None"] seq_def [of "lift_sum (Inr _)"] check_def lift_sum_def)
  obtain past where past: "counts g (s_store s) past a" "spending_inv g (total_spend no_spend past) s1"
    using restore_spending [OF assms(2,3) r] assms(4) by blast
  have "spending_inv g (total_spend no_spend past) s'"
    using run past(2) spending.keepsD [OF spending.keeps_started_run [OF assms(1)] past(2)]
    by (auto simp: seq_def start_run_def r ret_def split: answer.splits prod.splits)
  moreover have "counts g (s_store s) past answer"
    using past(1) run by (cases a) (auto simp: counts_def seq_def start_run_def r ret_def)
  ultimately show ?thesis by blast
qed

text \<open>
  A resumed run counts every reservation the store holds before it makes new ones, so that, if the
  interrupted run stayed within the budget, the reservations of both together do.
\<close>

lemma resumed_spending:
  assumes "prepare_request (g_request g) = Inr request" "well_behaved (g\<lparr>g_request := request\<rparr>) loop"
    "go_budget (q_Budget request)" "Budget_Validate (q_Budget request) = None"
    "\<And>ctx events p. e_Load (g_engine g) store ctx (aggregate (g\<lparr>g_request := request\<rparr>)) 0 = Inr events \<Longrightarrow>
      replays (g\<lparr>g_request := request\<rparr>) events p \<Longrightarrow> history_within (q_Budget request) p"
    "engine_run g loop True (new_run store) = (answer, s)"
  shows "spend_within (s_reserved s) (q_Budget request) \<and>
    (\<exists>past. counts (g\<lparr>g_request := request\<rparr>) store past answer \<and>
       s_reserved s = total_spend no_spend (past @ reservations (s_log s)))"
proof -
  let ?g = "g\<lparr>g_request := request\<rparr>"
  define s0 where "s0 = (new_run store)\<lparr>s_uses := Suc 0\<rparr>"
  have start: "spending_inv ?g no_spend s0" "reservations (s_log s0) = []" "s_store s0 = store"
    using assms(3,4)
    by (simp_all add: s0_def spending_inv_def new_run_def spend_within_def no_spend_def total_spend_def reservations_def
        Budget_Validate_None)
  have "\<exists>past. counts ?g store past answer \<and> spending_inv ?g (total_spend no_spend past) s"
  proof (cases "s = s0 \<and> (\<nexists>r. answer = Answers r)")
    case True
    with start show ?thesis by (intro exI [of _ "[]"]) (simp add: counts_def)
  next
    case False
    with assms(1,6) have "prepared_run ?g loop True s0 = (answer, s)"
      by (auto simp: engine_run_def seq_def check_ctx_def ask_ctx_def check_def lift_sum_def s0_def new_run_def
          split: option.splits)
    from prepared_resume_spending [OF assms(2) start(1,2) _ this] assms(5) start(3) show ?thesis by auto
  qed
  then show ?thesis unfolding spending_inv_def total_spend_append by auto
qed

lemma reservations_append: "reservations (l1 @ l2) = reservations l1 @ reservations l2"
  by (simp add: reservations_def)

interpretation amounts: engine_invariant g "\<lambda>s. \<forall>b\<in>set (reservations (s_log s)). spend_under no_spend b" for g
proof unfold_locales
  have plain: "\<forall>b\<in>set (reservations entries). spend_under no_spend b"
    if "\<forall>r. ExecutionDraft r \<in> set entries \<longrightarrow> plain r" for entries
    using that by (auto simp: reservations_def plain_def spend_under_def no_spend_def split: engineDraft.splits option.splits)
  show "\<forall>b\<in>set (reservations (s_log s')). spend_under no_spend b"
    if "\<forall>b\<in>set (reservations (s_log s)). spend_under no_spend b" "entries \<noteq> []"
      "\<forall>r. ExecutionDraft r \<in> set entries \<longrightarrow> plain r" "append_entries g entries s = (a, s')" for s s' entries a
    using that(1) plain [OF that(3)] append_entries_log(1) [OF that(4,2)] by (auto simp: reservations_append)
  show "\<forall>b\<in>set (reservations (s_log (if a = Answers () then s'\<lparr>s_reserved := add_spend (s_reserved s') bound\<rparr> else s'))).
      spend_under no_spend b"
    if "\<forall>b\<in>set (reservations (s_log s)). spend_under no_spend b" "fits g (s_reserved s) bound"
      "er_Budget r = Some \<lparr>br_Reserved = bound, br_Dimension = []\<rparr>"
      "append_entries g [ExecutionDraft r] s = (a, s')" for s s' r a bound
  proof -
    have "spend_under no_spend bound"
      using that(2) by (simp add: fits_def SpendBound_Validate_def spend_under_def no_spend_def)
    with that append_entries_log(1) [OF that(4)] show ?thesis by (auto simp: reservations_snoc)
  qed
qed (auto simp: ecore_def)

end
