(* ===== verification/ProjectionInv.thy ===== *)
theory ProjectionInv
  imports Projection
begin

text \<open>
  What a replayed workload satisfies. \<open>projection_step\<close> is the abstract machine: the five ways a
  projection may change. The code refines it, an error changes nothing, and the invariants of the
  reachable projections are proved by rule induction on the machine.
\<close>

section \<open>The abstract machine\<close>

definition steps_of :: "ID \<Rightarrow> ExecutionRecord list \<Rightarrow> ExecutionRecord list" where
  "steps_of i es = filter (\<lambda>r. er_StepID r = i) es"

definition loops_of :: "ID \<Rightarrow> ExecutionRecord list \<Rightarrow> LoopEvent list" where
  "loops_of i es = List.map_filter er_Loop (steps_of i es)"

definition routings_of :: "ID \<Rightarrow> int \<Rightarrow> ExecutionRecord list \<Rightarrow> RoutingRecord list" where
  "routings_of i t es = List.map_filter er_Routing (filter (\<lambda>r. er_Turn r = t) (steps_of i es))"

definition last_option :: "'a list \<Rightarrow> 'a option" where
  "last_option xs = (if xs = [] then None else Some (last xs))"

inductive projection_step :: "WorkloadProjection \<Rightarrow> WorkloadProjection \<Rightarrow> bool" where
  workload_created:
    "pj_Version p = 0 \<Longrightarrow> wl_ID (pj_Workload p) = [] \<Longrightarrow> ID_Validate (ag_ID (pj_Aggregate p)) = None \<Longrightarrow>
     wl_ID w = ag_ID (pj_Aggregate p) \<Longrightarrow> wl_State w = WorkloadCreated \<Longrightarrow> Budget_Validate (wl_Budget w) = None \<Longrightarrow>
     projection_step p (p\<lparr>pj_Workload := w, pj_Version := pj_Version p + 1\<rparr>)"
| workload_moved:
    "wl_ID (pj_Workload p) \<noteq> [] \<Longrightarrow> CanTransitionWorkload (wl_State (pj_Workload p)) to \<Longrightarrow>
     WorkloadState_Validate to = None \<Longrightarrow>
     projection_step p (p\<lparr>pj_Workload := (pj_Workload p)\<lparr>wl_State := to, wl_UpdatedAt := at\<rparr>,
       pj_Version := pj_Version p + 1\<rparr>)"
| step_added:
    "wl_ID (pj_Workload p) \<noteq> [] \<Longrightarrow> ID_Validate (st_ID s) = None \<Longrightarrow> pj_Steps p (st_ID s) = None \<Longrightarrow>
     st_WorkloadID s = wl_ID (pj_Workload p) \<Longrightarrow> st_State s = StepPending \<Longrightarrow> 1 \<le> st_Attempt s \<Longrightarrow>
     st_ParentStepID s = [] \<or> st_ParentStepID s \<in> dom (pj_Steps p) \<Longrightarrow>
     projection_step p (p\<lparr>pj_Steps := (pj_Steps p)(st_ID s \<mapsto> s), pj_Version := pj_Version p + 1\<rparr>)"
| step_moved:
    "wl_ID (pj_Workload p) \<noteq> [] \<Longrightarrow> pj_Steps p i = Some s \<Longrightarrow> CanTransitionStep (st_State s) to \<Longrightarrow>
     StepState_Validate to = None \<Longrightarrow>
     projection_step p (p\<lparr>pj_Steps := (pj_Steps p)(st_ID s \<mapsto> s\<lparr>st_State := to, st_UpdatedAt := at\<rparr>),
       pj_Version := pj_Version p + 1\<rparr>)"
| recorded:
    "wl_State (pj_Workload p) = WorkloadRunning \<Longrightarrow> pj_Steps p (er_StepID r) = Some s \<Longrightarrow> st_State s = StepRunning \<Longrightarrow>
     \<forall>q\<in>set (steps_of (er_StepID r) (pj_Execution p)). er_Stage q \<noteq> ExecutionFinished \<Longrightarrow>
     payload_count r = 1 \<Longrightarrow>
     stage_error p event r (last_option (loops_of (er_StepID r) (pj_Execution p)))
       (last_option (routings_of (er_StepID r) (er_Turn r) (pj_Execution p))) = None \<Longrightarrow>
     projection_step p (p\<lparr>pj_Execution := pj_Execution p @ [r], pj_Version := pj_Version p + 1\<rparr>)"

lemma last_option_snoc [simp]: "last_option (xs @ [x]) = Some x"
  by (simp add: last_option_def)

lemma last_option_append_cases: "last_option (xs @ ys) = (if ys = [] then last_option xs else last_option ys)"
  by (simp add: last_option_def)

lemma scan_previous_Inr:
  "scan_previous r es pl lr = Inr (pl', lr') \<Longrightarrow>
     (\<forall>q\<in>set (steps_of (er_StepID r) es). er_Stage q \<noteq> ExecutionFinished) \<and>
     pl' = (if loops_of (er_StepID r) es = [] then pl else last_option (loops_of (er_StepID r) es)) \<and>
     lr' = (if routings_of (er_StepID r) (er_Turn r) es = [] then lr
            else last_option (routings_of (er_StepID r) (er_Turn r) es))"
proof (induction es arbitrary: pl lr)
  case (Cons q es)
  then show ?case
    by (cases "er_StepID q = er_StepID r"; cases "er_Loop q"; cases "er_Routing q"; cases "er_Turn q = er_Turn r")
       (auto simp: steps_of_def loops_of_def routings_of_def last_option_def List.map_filter_def split: if_splits)
qed (simp add: steps_of_def loops_of_def routings_of_def List.map_filter_def)

section \<open>Refinement\<close>

lemmas apply_defs = applyWorkloadCreated_def applyWorkloadTransitioned_def applyStepCreated_def
  applyStepTransitioned_def applyExecutionRecorded_def Workload_Transition_def Step_Transition_def

lemma apply_by_type_error: "apply_by_type dc e p = (Some err, p') \<Longrightarrow> p' = p"
  by (auto simp: apply_by_type_def apply_defs Let_def split: if_splits sum.splits option.splits prod.splits)

lemma scan_previous_start:
  "scan_previous r es None None = Inr (pl, lr) \<Longrightarrow>
     (\<forall>q\<in>set (steps_of (er_StepID r) es). er_Stage q \<noteq> ExecutionFinished) \<and>
     pl = last_option (loops_of (er_StepID r) es) \<and> lr = last_option (routings_of (er_StepID r) (er_Turn r) es)"
  by (drule scan_previous_Inr) (auto simp: last_option_def)

lemma applyWorkloadCreated_None:
  assumes "applyWorkloadCreated dc e p = (None, p')"
  shows "\<exists>w. p' = p\<lparr>pj_Workload := w\<rparr> \<and> pj_Version p = 0 \<and> wl_ID (pj_Workload p) = [] \<and>
    wl_ID w = ag_ID (pj_Aggregate p) \<and> wl_State w = WorkloadCreated \<and> Budget_Validate (wl_Budget w) = None"
  using assms by (auto simp: applyWorkloadCreated_def ID_IsZero_def split: if_splits sum.splits option.splits)

lemma applyWorkloadTransitioned_None:
  assumes "applyWorkloadTransitioned dc e p = (None, p')"
  shows "\<exists>to at. p' = p\<lparr>pj_Workload := (pj_Workload p)\<lparr>wl_State := to, wl_UpdatedAt := at\<rparr>\<rparr> \<and>
    wl_ID (pj_Workload p) \<noteq> [] \<and> CanTransitionWorkload (wl_State (pj_Workload p)) to \<and>
    WorkloadState_Validate to = None"
  using assms
  by (auto simp: applyWorkloadTransitioned_def Workload_Transition_def ID_IsZero_def
      split: if_splits sum.splits option.splits prod.splits)

lemma applyStepCreated_None:
  assumes "applyStepCreated dc e p = (None, p')"
  shows "\<exists>s. p' = p\<lparr>pj_Steps := (pj_Steps p)(st_ID s \<mapsto> s)\<rparr> \<and> wl_ID (pj_Workload p) \<noteq> [] \<and>
    ID_Validate (st_ID s) = None \<and> pj_Steps p (st_ID s) = None \<and> st_WorkloadID s = wl_ID (pj_Workload p) \<and>
    st_State s = StepPending \<and> 1 \<le> st_Attempt s \<and>
    (st_ParentStepID s = [] \<or> st_ParentStepID s \<in> dom (pj_Steps p))"
proof -
  obtain payload where payload: "decodeProjectionPayload (dc_StepCreated dc) (ev_Payload e) = Inr payload"
    and created: "wl_ID (pj_Workload p) \<noteq> []"
    using assms by (auto simp: applyStepCreated_def ID_IsZero_def split: if_splits sum.splits)
  let ?s = "\<lparr>st_ID = sp_ID payload, st_WorkloadID = wl_ID (pj_Workload p),
     st_ParentStepID = sp_ParentStepID payload, st_Kind = sp_Kind payload, st_State = StepPending,
     st_Requirements = cloneRequirements (sp_Requirements payload), st_Budget = sp_Budget payload,
     st_Attempt = sp_Attempt payload, st_IdempotencyKey = sp_IdempotencyKey payload,
     st_CreatedAt = ev_OccurredAt e, st_UpdatedAt = ev_OccurredAt e\<rparr>"
  show ?thesis
    using assms payload created
    by (intro exI [of _ ?s])
       (auto simp: applyStepCreated_def ID_IsZero_def Let_def split: if_splits option.splits)
qed

lemma applyStepTransitioned_None:
  assumes "applyStepTransitioned dc e p = (None, p')"
  shows "\<exists>i s to at. p' = p\<lparr>pj_Steps := (pj_Steps p)(st_ID s \<mapsto> s\<lparr>st_State := to, st_UpdatedAt := at\<rparr>)\<rparr> \<and>
    wl_ID (pj_Workload p) \<noteq> [] \<and> pj_Steps p i = Some s \<and> CanTransitionStep (st_State s) to \<and>
    StepState_Validate to = None"
proof -
  obtain payload s where "decodeProjectionPayload (dc_StepTransitioned dc) (ev_Payload e) = Inr payload"
    "pj_Steps p (su_StepID payload) = Some s"
    using assms by (auto simp: applyStepTransitioned_def split: if_splits sum.splits option.splits)
  then show ?thesis
    using assms
    by (intro exI [of _ "su_StepID payload"] exI [of _ s] exI [of _ "su_To payload"] exI [of _ "ev_OccurredAt e"])
       (auto simp: applyStepTransitioned_def Step_Transition_def ID_IsZero_def split: if_splits option.splits prod.splits)
qed

lemma applyExecutionRecorded_None:
  assumes "applyExecutionRecorded dc e p = (None, p')"
  shows "\<exists>r s. p' = p\<lparr>pj_Execution := pj_Execution p @ [r]\<rparr> \<and>
    wl_State (pj_Workload p) = WorkloadRunning \<and> pj_Steps p (er_StepID r) = Some s \<and> st_State s = StepRunning \<and>
    (\<forall>q\<in>set (steps_of (er_StepID r) (pj_Execution p)). er_Stage q \<noteq> ExecutionFinished) \<and> payload_count r = 1 \<and>
    stage_error p e r (last_option (loops_of (er_StepID r) (pj_Execution p)))
      (last_option (routings_of (er_StepID r) (er_Turn r) (pj_Execution p))) = None"
proof -
  obtain r where r: "decodeProjectionPayload (dc_ExecutionRecorded dc) (ev_Payload e) = Inr r"
    using assms by (auto simp: applyExecutionRecorded_def split: sum.splits)
  then have running: "wl_State (pj_Workload p) = WorkloadRunning"
    "\<not> (case pj_Steps p (er_StepID r) of None \<Rightarrow> True | Some step \<Rightarrow> st_State step \<noteq> StepRunning)"
    using assms by (auto simp: applyExecutionRecorded_def split: option.splits)
  obtain pl lr where scan: "scan_previous r (pj_Execution p) None None = Inr (pl, lr)"
    using assms r by (auto simp: applyExecutionRecorded_def split: option.splits sum.splits)
  have rest: "payload_count r = 1 \<and> stage_error p e r pl lr = None \<and> p' = p\<lparr>pj_Execution := pj_Execution p @ [r]\<rparr>"
    using assms r scan by (auto simp: applyExecutionRecorded_def split: option.splits)
  obtain s where "pj_Steps p (er_StepID r) = Some s" "st_State s = StepRunning"
    using running(2) by (auto split: option.splits)
  with running(1) rest scan_previous_start [OF scan] show ?thesis by blast
qed

lemma Apply_refines:
  assumes "WorkloadProjection_Apply dc e p = (None, p')"
  shows "projection_step p p' \<and> ev_Sequence e = pj_Version p + 1 \<and> ev_Aggregate e = pj_Aggregate p \<and>
    Event_Validate e = None \<and> pj_Version p' = ev_Sequence e"
proof -
  obtain q where q: "apply_by_type dc e p = (None, q)" "p' = q\<lparr>pj_Version := pj_Version p + 1\<rparr>"
    and e: "ev_Sequence e = pj_Version p + 1" "ev_Aggregate e = pj_Aggregate p" "Event_Validate e = None"
      "AggregateRef_Validate (pj_Aggregate p) = None"
    using assms by (auto simp: WorkloadProjection_Apply_def projection_error_def split: option.splits prod.splits)
  have id: "ID_Validate (ag_ID (pj_Aggregate p)) = None" using e(4) by (simp add: AggregateRef_Validate_def)
  consider "applyWorkloadCreated dc e p = (None, q)" | "applyWorkloadTransitioned dc e p = (None, q)"
    | "applyStepCreated dc e p = (None, q)" | "applyStepTransitioned dc e p = (None, q)"
    | "applyExecutionRecorded dc e p = (None, q)"
    using q(1) by (auto simp: apply_by_type_def split: if_splits)
  then have "projection_step p p'"
  proof cases
    case 1
    with applyWorkloadCreated_None [OF 1] q(2) id show ?thesis by (auto intro: workload_created)
  next
    case 2
    with applyWorkloadTransitioned_None [OF 2] q(2) show ?thesis by (auto intro: workload_moved)
  next
    case 3
    with applyStepCreated_None [OF 3] q(2) show ?thesis by (auto intro: step_added)
  next
    case 4
    with applyStepTransitioned_None [OF 4] q(2) show ?thesis by (auto intro: step_moved)
  next
    case 5
    with applyExecutionRecorded_None [OF 5] q(2) show ?thesis by (auto intro: recorded)
  qed
  then show ?thesis using e q(2) by simp
qed

lemma Apply_error_unchanged: "WorkloadProjection_Apply dc e p = (Some err, p') \<Longrightarrow> p' = p"
  by (auto simp: WorkloadProjection_Apply_def split: option.splits prod.splits dest: apply_by_type_error)

section \<open>Structure\<close>

definition parent_edges :: "(ID \<rightharpoonup> Step) \<Rightarrow> (ID \<times> ID) set" where
  "parent_edges steps = {(i, j). \<exists>s. steps i = Some s \<and> st_ParentStepID s = j \<and> j \<noteq> []}"

definition step_ok :: "WorkloadProjection \<Rightarrow> ID \<Rightarrow> Step \<Rightarrow> bool" where
  "step_ok p i s \<longleftrightarrow>
     st_ID s = i \<and> ID_Validate i = None \<and> st_WorkloadID s = wl_ID (pj_Workload p) \<and>
     StepState_Validate (st_State s) = None \<and> 1 \<le> st_Attempt s \<and>
     (st_ParentStepID s = [] \<or> st_ParentStepID s \<in> dom (pj_Steps p))"

definition structure_inv :: "WorkloadProjection \<Rightarrow> bool" where
  "structure_inv p \<longleftrightarrow>
     (wl_ID (pj_Workload p) = [] \<longrightarrow>
        pj_Version p = 0 \<and> pj_Workload p = zero_workload \<and> pj_Steps p = Map.empty \<and> pj_Execution p = []) \<and>
     (wl_ID (pj_Workload p) \<noteq> [] \<longrightarrow>
        wl_ID (pj_Workload p) = ag_ID (pj_Aggregate p) \<and> WorkloadState_Validate (wl_State (pj_Workload p)) = None \<and>
        Budget_Validate (wl_Budget (pj_Workload p)) = None) \<and>
     (\<forall>i s. pj_Steps p i = Some s \<longrightarrow> step_ok p i s) \<and>
     acyclic (parent_edges (pj_Steps p))"

lemma ID_Validate_nonempty: "ID_Validate i = None \<Longrightarrow> i \<noteq> []"
  by (auto simp: ID_Validate_def ID_IsZero_def)

lemma parent_edges_add:
  assumes acyclic: "acyclic (parent_edges steps)" and fresh: "steps i = None" "i \<noteq> []"
    and closed: "\<And>j s. steps j = Some s \<Longrightarrow> st_ParentStepID s = [] \<or> st_ParentStepID s \<in> dom steps"
    and parent: "st_ParentStepID s = [] \<or> st_ParentStepID s \<in> dom steps"
  shows "acyclic (parent_edges (steps(i \<mapsto> s)))"
proof (cases "st_ParentStepID s = []")
  case True
  then have "parent_edges (steps(i \<mapsto> s)) = parent_edges steps"
    using fresh by (auto simp: parent_edges_def split: if_splits)
  then show ?thesis using acyclic by simp
next
  case False
  let ?j = "st_ParentStepID s"
  have edges: "parent_edges (steps(i \<mapsto> s)) = insert (i, ?j) (parent_edges steps)"
    using fresh False by (auto simp: parent_edges_def split: if_splits)
  have no_in: "(x, i) \<notin> parent_edges steps" for x
    using closed fresh by (fastforce simp: parent_edges_def)
  have "?j \<noteq> i" using parent False fresh by auto
  then have "(?j, i) \<notin> (parent_edges steps)\<^sup>*"
    using no_in by (auto elim: rtranclE)
  then show ?thesis using acyclic by (simp add: edges acyclic_insert)
qed

lemma parent_edges_move:
  assumes "steps i = Some s" "st_ParentStepID s' = st_ParentStepID s"
  shows "parent_edges (steps(i \<mapsto> s')) = parent_edges steps"
  using assms by (auto simp: parent_edges_def split: if_splits)

lemma structure_inv_step: "projection_step p p' \<Longrightarrow> structure_inv p \<Longrightarrow> structure_inv p'"
proof (induction rule: projection_step.induct)
  case (workload_created p w)
  then have "w \<noteq> zero_workload" "wl_ID w \<noteq> []" by (auto simp: zero_workload_def dest: ID_Validate_nonempty)
  moreover have "WorkloadState_Validate WorkloadCreated = None" by (simp add: WorkloadState_Validate_def)
  ultimately show ?case using workload_created by (auto simp: structure_inv_def step_ok_def)
next
  case (workload_moved p to at)
  then show ?case by (auto simp: structure_inv_def step_ok_def)
next
  case (step_added p s)
  then have "st_ID s \<noteq> []" by (auto dest: ID_Validate_nonempty)
  moreover have "acyclic (parent_edges ((pj_Steps p)(st_ID s \<mapsto> s)))"
    using step_added \<open>st_ID s \<noteq> []\<close> by (intro parent_edges_add) (auto simp: structure_inv_def step_ok_def)
  moreover have "StepState_Validate StepPending = None" by (simp add: StepState_Validate_def)
  ultimately show ?case using step_added by (auto simp: structure_inv_def step_ok_def)
next
  case (step_moved p i s to at)
  then have ok: "step_ok p i s" by (auto simp: structure_inv_def)
  then have "parent_edges ((pj_Steps p)(st_ID s \<mapsto> s\<lparr>st_State := to, st_UpdatedAt := at\<rparr>)) = parent_edges (pj_Steps p)"
    using step_moved by (intro parent_edges_move) (auto simp: step_ok_def)
  then show ?case using step_moved ok by (auto simp: structure_inv_def step_ok_def)
next
  case (recorded p r s event)
  then show ?case by (auto simp: structure_inv_def step_ok_def)
qed

section \<open>The execution log\<close>

definition loops_ok :: "LoopEvent list \<Rightarrow> bool" where
  "loops_ok ls \<longleftrightarrow>
     map le_Sequence ls = map of_nat [1..<Suc (length ls)] \<and>
     (\<forall>l\<in>set (butlast ls). le_Type l \<noteq> LoopEventStopped)"

definition placed :: "ExecutionRecord list \<Rightarrow> nat \<Rightarrow> bool" where
  "placed es k \<longleftrightarrow>
     (\<forall>l. er_Loop (es ! k) = Some l \<longrightarrow> le_Type l \<noteq> LoopEventStopped \<longrightarrow>
        (\<exists>rt. last_option (routings_of (er_StepID (es ! k)) (er_Turn (es ! k)) (take k es)) = Some rt \<and>
           placement_matches rt (le_Model l)))"

definition log_inv :: "ExecutionRecord list \<Rightarrow> bool" where
  "log_inv es \<longleftrightarrow>
     (\<forall>i. loops_ok (loops_of i es)) \<and>
     (\<forall>i. \<forall>q\<in>set (butlast (steps_of i es)). er_Stage q \<noteq> ExecutionFinished) \<and>
     (\<forall>k<length es. placed es k) \<and>
     (\<forall>r\<in>set es. \<forall>rt. er_Routing r = Some rt \<longrightarrow> RoutingDecision_Validate (rt_Decision rt) (rt_Request rt) = None)"

lemma log_append [simp]:
  "steps_of i (es @ [r]) = (if er_StepID r = i then steps_of i es @ [r] else steps_of i es)"
  "loops_of i (es @ [r]) =
     (if er_StepID r = i then loops_of i es @ (case er_Loop r of None \<Rightarrow> [] | Some l \<Rightarrow> [l]) else loops_of i es)"
  by (auto simp: steps_of_def loops_of_def List.map_filter_def split: option.splits)

lemma sole_payload:
  assumes "payload_count r = 1"
  shows "er_Loop r \<noteq> None \<Longrightarrow> er_Verdict r = None \<and> er_Routing r = None \<and> er_Result r = None \<and> er_Sandbox r = None \<and>
      er_Approval r = None \<and> er_Budget r = None \<and> er_Cleanup r = None \<and> er_Compaction r = None \<and> er_RequestSHA256 r = []"
    "er_Routing r \<noteq> None \<Longrightarrow> er_Verdict r = None \<and> er_Loop r = None \<and> er_Result r = None \<and> er_Sandbox r = None \<and>
      er_Approval r = None \<and> er_Budget r = None \<and> er_Cleanup r = None \<and> er_Compaction r = None \<and> er_RequestSHA256 r = []"
  using assms by (auto simp: payload_count_def split: if_splits)

lemmas stage_errors = compaction_error_def approval_error_def budget_error_def cleanup_error_def
  sandbox_error_def policy_error_def routing_error_def loop_error_def finished_error_def

lemma payload_stage:
  assumes "payload_count r = 1" "stage_error p e r pl lr = None"
  shows "er_Loop r \<noteq> None \<Longrightarrow> er_Stage r = ExecutionLoopEvent"
    "er_Routing r \<noteq> None \<Longrightarrow> er_Stage r = ExecutionRoutingDecided"
proof -
  show "er_Stage r = ExecutionLoopEvent" if "er_Loop r \<noteq> None"
    using assms(2) sole_payload(1) [OF assms(1) that] that
    by (cases "er_Stage r") (auto simp: stage_error_def stage_errors validateSHA256_def)
  show "er_Stage r = ExecutionRoutingDecided" if "er_Routing r \<noteq> None"
    using assms(2) sole_payload(2) [OF assms(1) that] that
    by (cases "er_Stage r") (auto simp: stage_error_def stage_errors validateSHA256_def)
qed

lemma loops_ok_snoc:
  assumes "loops_ok ls"
    "le_Sequence l = (case last_option ls of Some prev \<Rightarrow> le_Sequence prev + 1 | None \<Rightarrow> 1)"
    "\<And>prev. last_option ls = Some prev \<Longrightarrow> le_Type prev \<noteq> LoopEventStopped"
  shows "loops_ok (ls @ [l])"
proof (cases ls rule: rev_cases)
  case Nil
  then show ?thesis using assms(2) by (simp add: loops_ok_def last_option_def)
next
  case (snoc ms m)
  have "le_Sequence m = of_nat (length ls)"
    using assms(1) snoc by (simp add: loops_ok_def)
  moreover have "le_Type m \<noteq> LoopEventStopped" using assms(3) snoc by simp
  ultimately show ?thesis using assms(1,2) snoc by (auto simp: loops_ok_def add.commute butlast_append)
qed

lemma log_inv_snoc:
  assumes inv: "log_inv es" and count: "payload_count r = 1"
    and open_log: "\<forall>q\<in>set (steps_of (er_StepID r) es). er_Stage q \<noteq> ExecutionFinished"
    and stage: "stage_error p e r (last_option (loops_of (er_StepID r) es))
      (last_option (routings_of (er_StepID r) (er_Turn r) es)) = None"
  shows "log_inv (es @ [r])"
proof -
  have loop: "loop_error r (last_option (loops_of (er_StepID r) es))
      (last_option (routings_of (er_StepID r) (er_Turn r) es)) = None" if "er_Loop r = Some l" for l
    using stage payload_stage(1) [OF count stage] that by (simp add: stage_error_def)
  have "loops_ok (loops_of i (es @ [r]))" for i
  proof (cases "er_StepID r = i \<and> er_Loop r \<noteq> None")
    case True
    then obtain l where l: "er_Loop r = Some l" "er_StepID r = i" by auto
    have "loops_ok (loops_of i es @ [l])"
      using loop [OF l(1)] inv l by (intro loops_ok_snoc) (auto simp: loop_error_def log_inv_def split: option.splits)
    then show ?thesis using l by simp
  qed (use inv in \<open>auto simp: log_inv_def\<close>)
  moreover have "placed (es @ [r]) (length es)"
    using loop by (force simp: placed_def loop_error_def split: option.splits if_splits)
  moreover have "placed (es @ [r]) k" if "k < length es" for k
    using inv that by (auto simp: log_inv_def placed_def nth_append)
  moreover have "RoutingDecision_Validate (rt_Decision rt) (rt_Request rt) = None" if "er_Routing r = Some rt" for rt
    using stage payload_stage(2) [OF count stage] that by (simp add: stage_error_def routing_error_def)
  ultimately show ?thesis
    using inv open_log by (auto simp: log_inv_def less_Suc_eq dest: in_set_butlastD)
qed

lemma log_inv_step: "projection_step p p' \<Longrightarrow> log_inv (pj_Execution p) \<Longrightarrow> log_inv (pj_Execution p')"
  by (induction rule: projection_step.induct) (auto intro: log_inv_snoc)

section \<open>Replayed workloads\<close>

definition workload_inv :: "WorkloadProjection \<Rightarrow> bool" where
  "workload_inv p \<longleftrightarrow> structure_inv p \<and> log_inv (pj_Execution p)"

lemma log_inv_Nil [simp]: "log_inv []"
  by (simp add: log_inv_def loops_ok_def loops_of_def steps_of_def List.map_filter_def)

lemma structure_inv_init: "NewWorkloadProjection a = Inr p \<Longrightarrow> workload_inv p \<and> pj_Version p = 0 \<and> pj_Aggregate p = a"
  by (auto simp: NewWorkloadProjection_def workload_inv_def structure_inv_def zero_workload_def parent_edges_def
      acyclic_def split: option.splits)

lemma Apply_preserves: "workload_inv p \<Longrightarrow> WorkloadProjection_Apply dc e p = (None, p') \<Longrightarrow> workload_inv p'"
  unfolding workload_inv_def by (blast dest: Apply_refines structure_inv_step log_inv_step)

lemma Replay_preserves:
  assumes "Replay ctx loaded (WorkloadProjection_Apply dc) p = (None, p')" "workload_inv p"
  shows "workload_inv p'"
proof (cases loaded)
  case (Inr events)
  with assms(1) have "replay_events ctx (WorkloadProjection_Apply dc) events p = (None, p')" by (simp add: Replay_def)
  then show ?thesis by (rule replay_events_invariant [where P = workload_inv, rotated]) (use assms(2) Apply_preserves in blast)+
qed (use assms(1) in \<open>simp add: Replay_def\<close>)

lemma Load_inv:
  assumes "LoadWorkloadProjection dc ctx store a = Inr p"
  shows "workload_inv p"
  using assms structure_inv_init [of a]
  by (auto simp: LoadWorkloadProjection_def split: option.splits sum.splits prod.splits if_splits
      dest: Replay_preserves)

lemma replay_aggregate:
  "replay_events ctx (WorkloadProjection_Apply dc) es p = (None, p') \<Longrightarrow>
     pj_Aggregate p' = pj_Aggregate p \<and> pj_Version p' = pj_Version p + of_nat (length es) \<and>
     (\<forall>e\<in>set es. Event_Validate e = None \<and> ev_Aggregate e = pj_Aggregate p)"
proof (induction es arbitrary: ctx p)
  case (Cons e es)
  then obtain q where q: "WorkloadProjection_Apply dc e p = (None, q)"
    and rest: "replay_events (ctx_from 1 ctx) (WorkloadProjection_Apply dc) es q = (None, p')"
    by (auto split: option.splits prod.splits)
  have "pj_Aggregate q = pj_Aggregate p"
    using Apply_refines [OF q] by (auto elim: projection_step.cases)
  with Cons.IH [OF rest] Apply_refines [OF q] show ?case by simp
qed simp

section \<open>Properties\<close>


text \<open>
  In every projection that can be loaded, whatever the stream and the decoder, the workload
  carries the aggregate's identifier and a known state, every step is filed under its own valid
  identifier, belongs to the workload, has a known state, a positive attempt and a parent that
  exists, and no step is its own ancestor.
\<close>

theorem loaded_projection_structure:
  assumes "LoadWorkloadProjection dc ctx store a = Inr p"
  shows "wl_ID (pj_Workload p) = ag_ID a \<and> WorkloadState_Validate (wl_State (pj_Workload p)) = None \<and>
    (\<forall>i s. pj_Steps p i = Some s \<longrightarrow>
       st_ID s = i \<and> ID_Validate i = None \<and> st_WorkloadID s = ag_ID a \<and> StepState_Validate (st_State s) = None \<and>
       1 \<le> st_Attempt s \<and> (st_ParentStepID s = [] \<or> st_ParentStepID s \<in> dom (pj_Steps p))) \<and>
    acyclic {(i, j). \<exists>s. pj_Steps p i = Some s \<and> st_ParentStepID s = j \<and> j \<noteq> []}"
proof -
  obtain load p0 where p0: "NewWorkloadProjection a = Inr p0" "pj_Version p \<noteq> 0"
    "Replay (ctx_from 1 ctx) (load ctx a 0) (WorkloadProjection_Apply dc) p0 = (None, p)"
    using assms by (auto simp: LoadWorkloadProjection_def split: option.splits sum.splits prod.splits if_splits)
  have "pj_Aggregate p = a"
    using p0(3) replay_aggregate structure_inv_init [OF p0(1)] by (auto simp: Replay_def split: sum.splits)
  moreover have "structure_inv p" using Load_inv [OF assms] by (simp add: workload_inv_def)
  ultimately show ?thesis using p0(2) by (auto simp: structure_inv_def step_ok_def parent_edges_def)
qed

text \<open>
  [C35] The execution log of every loaded projection is well formed: for each step the recorded loop
  events are numbered 1, 2, 3, ... without gaps, nothing follows the event that stops the loop, and
  no record follows the one that finishes the step.
\<close>

theorem loaded_log_wellformed:
  assumes "LoadWorkloadProjection dc ctx store a = Inr p"
  shows "map le_Sequence (loops_of i (pj_Execution p)) = map of_nat [1..<Suc (length (loops_of i (pj_Execution p)))] \<and>
    (\<forall>l\<in>set (butlast (loops_of i (pj_Execution p))). le_Type l \<noteq> LoopEventStopped) \<and>
    (\<forall>q\<in>set (butlast (steps_of i (pj_Execution p))). er_Stage q \<noteq> ExecutionFinished)"
  using Load_inv [OF assms] by (auto simp: workload_inv_def log_inv_def loops_ok_def)


end
