(* ===== verification/Router.thy ===== *)
theory Router
  imports Routing Streams
begin

text \<open>
  The deterministic router (src/router/deterministic/router.go). Scores are computed with 128-bit
  intermediate products (\<open>bits.Mul64\<close> and \<open>bits.Div64\<close>, which panics when the quotient does not
  fit); the router's own loop keeps the best total and breaks ties by the smaller identifier.
  \<open>None\<close> stands for a panic. The router interprets the contract \<open>routing_engine\<close>.
\<close>

definition bits_Mul64 :: "64 word \<Rightarrow> 64 word \<Rightarrow> 64 word \<times> 64 word" where
  "bits_Mul64 x y =
     (let p = uint x * uint y in (word_of_int (p div 2 ^ 64), word_of_int (p mod 2 ^ 64)))"

definition bits_Div64 :: "64 word \<Rightarrow> 64 word \<Rightarrow> 64 word \<Rightarrow> (64 word \<times> 64 word) option" where
  "bits_Div64 hi lo y =
     (if y = 0 \<or> y \<le> hi then None
      else let n = uint hi * 2 ^ 64 + uint lo
           in Some (word_of_int (n div uint y), word_of_int (n mod uint y)))"

definition scalePermille :: "int \<Rightarrow> int \<Rightarrow> int option" where
  "scalePermille numerator denominator =
     (let (hi, lo) = bits_Mul64 (word_of_int numerator) (word_of_int ScorePermilleMax)
      in case bits_Div64 hi lo (word_of_int denominator) of
           None \<Rightarrow> None
         | Some (q, _) \<Rightarrow> Some (sint q))"

definition boolPermille :: "bool \<Rightarrow> int" where
  "boolPermille value = (if value then ScorePermilleMax else 0)"

definition maxTime :: "time \<Rightarrow> time \<Rightarrow> time" where
  "maxTime left right = (if Time_After right left then right else left)"

definition total_score :: "RoutingWeights \<Rightarrow> RoutingScore \<Rightarrow> int" where
  "total_score w s =
     wrap64 (sr_Quality s * rw_Quality w + sr_Locality s * rw_Locality w +
             sr_Availability s * rw_Availability w + sr_CacheAffinity s * rw_CacheAffinity w +
             sr_Cost s * rw_Cost w + sr_Latency s * rw_Latency w + sr_InverseLoad s * rw_InverseLoad w)
     sdiv ScorePermilleMax"

definition scoreCandidate :: "RoutingRequest \<Rightarrow> RoutingCandidate \<Rightarrow> RoutingScore option" where
  "scoreCandidate r c =
     (let availability = (if rc_AvailableSlots c < 10 then wrap64 (rc_AvailableSlots c * 100) else ScorePermilleMax);
          start = maxTime (rr_ObservedAt r) (rc_AvailableAt c);
          totalLatency = wrap64 (Time_Sub start (rr_ObservedAt r) + rc_ExpectedLatency c) in
      case (if bg_MaxCost (rr_Budget r) > 0
            then map_option (\<lambda>q. wrap64 (ScorePermilleMax - q)) (scalePermille (rc_ExpectedCost c) (bg_MaxCost (rr_Budget r)))
            else Some ScorePermilleMax) of
        None \<Rightarrow> None
      | Some cost \<Rightarrow>
     (case scalePermille totalLatency (Time_Sub (rr_Deadline r) (rr_ObservedAt r)) of
        None \<Rightarrow> None
      | Some scaled \<Rightarrow>
          let score =
                \<lparr>sr_Quality = rc_QualityPermille c, sr_Locality = boolPermille (rc_Zone c = rr_SourceZone r),
                 sr_Availability = availability, sr_CacheAffinity = rc_CacheAffinityPermille c,
                 sr_Cost = cost, sr_Latency = wrap64 (ScorePermilleMax - scaled),
                 sr_InverseLoad = wrap64 (ScorePermilleMax - rc_LoadPermille c), sr_Total = 0\<rparr>
          in Some (score\<lparr>sr_Total := total_score (rr_Weights r) score\<rparr>)))"

definition new_assessment :: "RoutingCandidate \<Rightarrow> CandidateAssessment" where
  "new_assessment c =
     \<lparr>as_CandidateID = rc_ID c, as_Zone = rc_Zone c, as_Model = md_Ref (rc_Model c), as_Eligible = False,
      as_Exclusion = None, as_Score = None\<rparr>"

fun route_loop :: "RoutingRequest \<Rightarrow> ctx \<Rightarrow> (RoutingCandidate \<times> CandidateEligibility) list \<Rightarrow>
    CandidateAssessment list \<Rightarrow> int \<Rightarrow> ID \<Rightarrow> (error + CandidateAssessment list \<times> ID) option" where
  "route_loop r ctx [] assessments bestScore selected = Some (Inr (assessments, selected))"
| "route_loop r ctx ((c, e) # rest) assessments bestScore selected =
     (case ctx 0 of
        Some err \<Rightarrow> Some (Inl err)
      | None \<Rightarrow>
          if \<not> CandidateEligibility_Eligible e
          then route_loop r (ctx_from 1 ctx) rest
                 (assessments @ [(new_assessment c)\<lparr>as_Exclusion := el_Exclusion e\<rparr>]) bestScore selected
          else case scoreCandidate r c of
             None \<Rightarrow> None
           | Some score \<Rightarrow>
               (let assessments = assessments @ [(new_assessment c)\<lparr>as_Eligible := True, as_Score := Some score\<rparr>] in
                if sr_Total score > bestScore \<or> (sr_Total score = bestScore \<and> rc_ID c < selected)
                then route_loop r (ctx_from 1 ctx) rest assessments (sr_Total score) (rc_ID c)
                else route_loop r (ctx_from 1 ctx) rest assessments bestScore selected))"

definition Route :: router where
  "Route ctx r =
     (case ctx 0 of
        Some err \<Rightarrow> Some (zero_decision, Some err)
      | None \<Rightarrow>
     (case EvaluateRoutingEligibility (ctx_from 1 ctx) r of
        Inl err \<Rightarrow> Some (zero_decision, Some err)
      | Inr eligibilities \<Rightarrow>
     (case route_loop r (ctx_from (length (rr_Candidates r) + 2) ctx) (zip (rr_Candidates r) eligibilities) [] (-1) [] of
        None \<Rightarrow> None
      | Some (Inl err) \<Rightarrow> Some (zero_decision, Some err)
      | Some (Inr (assessments, selected)) \<Rightarrow>
          let decision =
                \<lparr>rd_Router = ''fabricrunner.deterministic'', rd_RouterVersion = ''1'',
                 rd_WorkloadID = rr_WorkloadID r, rd_StepID = rr_StepID r, rd_AttemptID = rr_AttemptID r,
                 rd_ManifestSHA256 = rr_ManifestSHA256 r, rd_SourceZone = rr_SourceZone r,
                 rd_Autonomous = rr_Autonomous r, rd_EgressPurpose = rr_EgressPurpose r,
                 rd_DerivedFromSHA = rr_DerivedFromSHA r, rd_ObservedAt = rr_ObservedAt r,
                 rd_Deadline = rr_Deadline r, rd_Weights = rr_Weights r, rd_Assessments = assessments,
                 rd_SelectedCandidateID = selected\<rparr>
          in if ID_IsZero selected then Some (decision, Some no_route) else Some (decision, None))))"

section \<open>Scores\<close>

lemma bits_Div64_exact:
  assumes "0 \<le> p" "p div 2 ^ 64 < uint y"
  shows "bits_Div64 (word_of_int (p div 2 ^ 64)) (word_of_int (p mod 2 ^ 64)) y =
    Some (word_of_int (p div uint y), word_of_int (p mod uint y))"
proof -
  have hi: "uint (word_of_int (p div 2 ^ 64) :: 64 word) = p div 2 ^ 64"
    using assms uint_lt2p [of y] by (simp add: uint_word_of_int)
  have lo: "uint (word_of_int (p mod 2 ^ 64) :: 64 word) = p mod 2 ^ 64" by (simp add: uint_word_of_int)
  have "0 \<le> p div 2 ^ 64" using assms(1) by simp
  then have "y \<noteq> 0" "\<not> y \<le> word_of_int (p div 2 ^ 64)" using assms(2) hi by (auto simp: word_le_def)
  moreover have "p div 2 ^ 64 * 2 ^ 64 + p mod 2 ^ 64 = p" by (rule div_mult_mod_eq)
  ultimately show ?thesis using hi lo by (simp add: bits_Div64_def Let_def)
qed

lemma scalePermille_exact:
  assumes "0 \<le> n" "n \<le> d" "0 < d" "d \<le> max64"
  shows "scalePermille n d = Some (n * 1000 div d)"
proof -
  define p where "p = n * 1000"
  have "d < 2 ^ 64" "n < 2 ^ 64" using assms by (simp_all add: max64_def)
  then have un: "uint (word_of_int n :: 64 word) = n" "uint (word_of_int d :: 64 word) = d"
    using assms by (simp_all add: uint_word_of_int)
  have p: "0 \<le> p" using assms(1) by (simp add: p_def)
  have "2 ^ 64 * (p div 2 ^ 64) \<le> p"
    using mult_div_mod_eq [of "2 ^ 64" p] pos_mod_sign [of "2 ^ 64" p] by simp
  then have "p div 2 ^ 64 < d" using assms by (simp add: p_def)
  with p un have "bits_Div64 (word_of_int (p div 2 ^ 64)) (word_of_int (p mod 2 ^ 64)) (word_of_int d) =
      Some (word_of_int (p div d), word_of_int (p mod d))"
    using bits_Div64_exact [of p "word_of_int d"] by simp
  moreover have "bits_Mul64 (word_of_int n) (word_of_int ScorePermilleMax) =
      (word_of_int (p div 2 ^ 64), word_of_int (p mod 2 ^ 64))"
    using un by (simp add: bits_Mul64_def Let_def ScorePermilleMax_def p_def)
  moreover have "sint (word_of_int (p div d) :: 64 word) = p div d"
  proof -
    have "p \<le> 1000 * d" using assms(2) by (simp add: p_def)
    then have "p div d \<le> 1000 * d div d" using assms(3) by (rule zdiv_mono1)
    then have "p div d \<le> 1000" "0 \<le> p div d" using assms p by (simp_all add: pos_imp_zdiv_nonneg_iff)
    then show ?thesis by (simp add: signed_of_int signed_take_bit_int_eq_self)
  qed
  ultimately show ?thesis by (simp add: scalePermille_def p_def)
qed

lemma weighted_mean:
  fixes w1 :: int
  assumes "\<forall>x\<in>{w1, w2, w3, w4, w5, w6, w7}. 0 \<le> x" "w1 + w2 + w3 + w4 + w5 + w6 + w7 = 1000"
    "\<forall>x\<in>{s1, s2, s3, s4, s5, s6, s7}. 0 \<le> x \<and> x \<le> 1000"
  shows "0 \<le> s1 * w1 + s2 * w2 + s3 * w3 + s4 * w4 + s5 * w5 + s6 * w6 + s7 * w7"
    "s1 * w1 + s2 * w2 + s3 * w3 + s4 * w4 + s5 * w5 + s6 * w6 + s7 * w7 \<le> 1000 * 1000"
proof -
  have "0 \<le> s * w \<and> s * w \<le> 1000 * w" if "0 \<le> s" "s \<le> 1000" "0 \<le> w" for s w :: int
    using that by (simp add: mult_right_mono)
  then have b: "0 \<le> s1 * w1 \<and> s1 * w1 \<le> 1000 * w1" "0 \<le> s2 * w2 \<and> s2 * w2 \<le> 1000 * w2"
    "0 \<le> s3 * w3 \<and> s3 * w3 \<le> 1000 * w3" "0 \<le> s4 * w4 \<and> s4 * w4 \<le> 1000 * w4"
    "0 \<le> s5 * w5 \<and> s5 * w5 \<le> 1000 * w5" "0 \<le> s6 * w6 \<and> s6 * w6 \<le> 1000 * w6"
    "0 \<le> s7 * w7 \<and> s7 * w7 \<le> 1000 * w7"
    using assms by auto
  then show "0 \<le> s1 * w1 + s2 * w2 + s3 * w3 + s4 * w4 + s5 * w5 + s6 * w6 + s7 * w7" by linarith
  show "s1 * w1 + s2 * w2 + s3 * w3 + s4 * w4 + s5 * w5 + s6 * w6 + s7 * w7 \<le> 1000 * 1000"
    using b assms(2) by linarith
qed

lemma in64_small: "- 1000000 \<le> x \<Longrightarrow> x \<le> 1000000 \<Longrightarrow> in64 x"
  by (simp add: in64_def min64_def max64_def)

lemma permille_iff: "permille v \<longleftrightarrow> 0 \<le> v \<and> v \<le> 1000"
  by (auto simp: permille_def ScorePermilleMax_def)

lemma total_score_permille:
  assumes "RoutingWeights_Validate w = None"
    "\<forall>v\<in>{sr_Quality s, sr_Locality s, sr_Availability s, sr_CacheAffinity s, sr_Cost s, sr_Latency s,
      sr_InverseLoad s}. permille v"
  shows "permille (total_score w s)"
proof -
  have w: "\<forall>x\<in>{rw_Quality w, rw_Locality w, rw_Availability w, rw_CacheAffinity w, rw_Cost w, rw_Latency w,
      rw_InverseLoad w}. 0 \<le> x \<and> x \<le> 1000"
    and total: "wrap64 (rw_Quality w + (rw_Locality w + (rw_Availability w + (rw_CacheAffinity w + (rw_Cost w +
        (rw_Latency w + rw_InverseLoad w)))))) = 1000"
    using assms(1) by (auto simp: RoutingWeights_Validate_def Let_def permille_iff ScorePermilleMax_def)
  have "rw_Quality w + rw_Locality w + rw_Availability w + rw_CacheAffinity w + rw_Cost w + rw_Latency w +
      rw_InverseLoad w = 1000"
    using total w by (simp add: in64_small)
  note mean = weighted_mean [OF _ this, of "sr_Quality s" "sr_Locality s" "sr_Availability s"
      "sr_CacheAffinity s" "sr_Cost s" "sr_Latency s" "sr_InverseLoad s"]
  let ?sum = "sr_Quality s * rw_Quality w + sr_Locality s * rw_Locality w +
     sr_Availability s * rw_Availability w + sr_CacheAffinity s * rw_CacheAffinity w +
     sr_Cost s * rw_Cost w + sr_Latency s * rw_Latency w + sr_InverseLoad s * rw_InverseLoad w"
  have b: "0 \<le> ?sum" "?sum \<le> 1000 * 1000" using mean w assms(2) by (simp_all add: permille_iff)
  then have "total_score w s = ?sum div 1000"
    by (simp add: total_score_def in64_small ScorePermilleMax_def signed_divide_int_def sgn_if)
  then show ?thesis using b by (auto simp: permille_iff pos_imp_zdiv_nonneg_iff)
qed

lemma permille_div: "0 \<le> n \<Longrightarrow> n \<le> d \<Longrightarrow> 0 < d \<Longrightarrow> permille (n * 1000 div d)"
  for n d :: int
proof -
  assume "0 \<le> n" "n \<le> d" "0 < d"
  then have "n * 1000 div d \<le> d * 1000 div d" by (intro zdiv_mono1) auto
  then show "permille (n * 1000 div d)"
    using \<open>0 \<le> n\<close> \<open>0 < d\<close> by (simp add: permille_iff pos_imp_zdiv_nonneg_iff)
qed

lemma permille_flip: "permille v \<Longrightarrow> permille (wrap64 (ScorePermilleMax - v))"
  by (simp add: permille_iff ScorePermilleMax_def in64_small)

lemma candidate_bounds:
  assumes "RoutingRequest_Validate r = None" "c \<in> set (rr_Candidates r)"
  shows "0 \<le> rc_AvailableSlots c" "0 \<le> rc_ExpectedCost c" "0 \<le> rc_ExpectedLatency c"
    "permille (rc_QualityPermille c)" "permille (rc_CacheAffinityPermille c)" "permille (rc_LoadPermille c)"
    "ID_Validate (rc_ID c) = None" "Zone_Validate (rc_Zone c) = None" "ModelRef_Validate (md_Ref (rc_Model c)) = None"
  using request_candidates(1) [OF assms]
  by (simp_all add: RoutingCandidate_Validate_def ModelDescriptor_Validate_def)

lemma latency_total:
  assumes "RoutingRequest_Validate r = None" "c \<in> set (rr_Candidates r)" "admissible r c"
  defines "start \<equiv> maxTime (rr_ObservedAt r) (rc_AvailableAt c)"
  defines "window \<equiv> Time_Sub (rr_Deadline r) (rr_ObservedAt r)"
  defines "spent \<equiv> wrap64 (Time_Sub start (rr_ObservedAt r) + rc_ExpectedLatency c)"
  shows "0 \<le> spent" "spent \<le> window" "0 < window" "window \<le> max64"
    "spent = max (rr_ObservedAt r) (rc_AvailableAt c) + rc_ExpectedLatency c - rr_ObservedAt r"
proof -
  note w = request_window [OF assms(1)]
  have start: "start = max (rr_ObservedAt r) (rc_AvailableAt c)" by (simp add: start_def maxTime_def Time_After_def)
  have lat: "0 \<le> rc_ExpectedLatency c" by (rule candidate_bounds [OF assms(1,2)])
  have ends: "start + rc_ExpectedLatency c \<le> rr_Deadline r" using assms(3) by (simp add: admissible_def start)
  have window: "window = rr_Deadline r - rr_ObservedAt r" unfolding window_def by (rule Time_Sub_exact [OF w(2)])
  then show "0 < window" "window \<le> max64" using w by (simp_all add: in64_def)
  have ge: "rr_ObservedAt r \<le> start" by (simp add: start)
  have "in64 (start - rr_ObservedAt r)" using ge ends lat w(2) by (auto simp: in64_def min64_def)
  then have sub: "Time_Sub start (rr_ObservedAt r) = start - rr_ObservedAt r" by (rule Time_Sub_exact)
  have "in64 (start - rr_ObservedAt r + rc_ExpectedLatency c)"
    using ge ends lat w(2) by (auto simp: in64_def min64_def)
  then have spent: "spent = start - rr_ObservedAt r + rc_ExpectedLatency c" by (simp add: spent_def sub)
  then show "0 \<le> spent" "spent \<le> window"
    "spent = max (rr_ObservedAt r) (rc_AvailableAt c) + rc_ExpectedLatency c - rr_ObservedAt r"
    using ge lat ends window start by auto
qed

lemma scoreCandidate_valid:
  assumes "RoutingRequest_Validate r = None" "c \<in> set (rr_Candidates r)" "admissible r c" "go_request r"
  shows "\<exists>s. scoreCandidate r c = Some s \<and> RoutingScore_Validate s = None"
proof -
  note b = candidate_bounds [OF assms(1,2)]
  let ?max = "bg_MaxCost (rr_Budget r)"
  let ?window = "Time_Sub (rr_Deadline r) (rr_ObservedAt r)"
  let ?lat = "wrap64 (Time_Sub (maxTime (rr_ObservedAt r) (rc_AvailableAt c)) (rr_ObservedAt r) + rc_ExpectedLatency c)"
  note l = latency_total [OF assms(1,2,3)]
  have lat: "scalePermille ?lat ?window = Some (?lat * 1000 div ?window)" "permille (?lat * 1000 div ?window)"
    using l(1-4) by (auto intro: scalePermille_exact permille_div)
  have cost: "\<exists>q. (if 0 < ?max then map_option (\<lambda>q. wrap64 (ScorePermilleMax - q)) (scalePermille (rc_ExpectedCost c) ?max)
      else Some ScorePermilleMax) = Some q \<and> permille q"
  proof (cases "0 < ?max")
    case True
    moreover have "rc_ExpectedCost c \<le> ?max" "?max \<le> max64"
      using assms(3,4) by (simp_all add: admissible_def go_request_def in64_def)
    ultimately show ?thesis
      using b(2) scalePermille_exact [of "rc_ExpectedCost c" ?max] permille_div [of "rc_ExpectedCost c" ?max]
      by (simp add: permille_flip)
  qed (simp add: permille_def ScorePermilleMax_def)
  have avail: "permille (if rc_AvailableSlots c < 10 then wrap64 (rc_AvailableSlots c * 100) else ScorePermilleMax)"
    using b(1) by (auto simp: permille_iff ScorePermilleMax_def in64_small)
  have local: "permille (boolPermille p)" for p by (simp add: boolPermille_def permille_iff ScorePermilleMax_def)
  have weights: "RoutingWeights_Validate (rr_Weights r) = None"
    using assms(1) by (simp add: RoutingRequest_Validate_def Let_def)
  show ?thesis
    using cost lat avail local b permille_flip [OF lat(2)] permille_flip [OF b(6)]
      total_score_permille [OF weights]
    by (auto simp: scoreCandidate_def Let_def RoutingScore_Validate_def)
qed

section \<open>Selection\<close>

definition assess :: "RoutingRequest \<Rightarrow> RoutingCandidate \<Rightarrow> CandidateAssessment" where
  "assess r c =
     (if candidateExclusion r c = None
      then (new_assessment c)\<lparr>as_Eligible := True, as_Score := scoreCandidate r c\<rparr>
      else (new_assessment c)\<lparr>as_Exclusion := candidateExclusion r c\<rparr>)"

definition candidate_total :: "RoutingRequest \<Rightarrow> RoutingCandidate \<Rightarrow> int" where
  "candidate_total r c = (case scoreCandidate r c of None \<Rightarrow> 0 | Some s \<Rightarrow> sr_Total s)"

fun pick :: "RoutingRequest \<Rightarrow> int \<times> ID \<Rightarrow> RoutingCandidate \<Rightarrow> int \<times> ID" where
  "pick r (best, selected) c =
     (if candidateExclusion r c = None \<and>
         (candidate_total r c > best \<or> (candidate_total r c = best \<and> rc_ID c < selected))
      then (candidate_total r c, rc_ID c) else (best, selected))"

lemma route_loop_live:
  assumes "ctx_live ctx" "\<forall>c\<in>set cs. candidateExclusion r c = None \<longrightarrow> scoreCandidate r c \<noteq> None"
  shows "route_loop r ctx (zip cs (map (eligibility_of r) cs)) acc best sel =
    Some (Inr (acc @ map (assess r) cs, snd (foldl (pick r) (best, sel) cs)))"
  using assms
  by (induction cs arbitrary: ctx acc best sel)
     (auto simp: assess_def candidate_total_def eligibility_of_def CandidateEligibility_Eligible_def Let_def)

text \<open>\<open>beats r c d\<close>: the router prefers \<open>c\<close> to \<open>d\<close> or they are the same candidate.\<close>

definition beats :: "RoutingRequest \<Rightarrow> RoutingCandidate \<Rightarrow> RoutingCandidate \<Rightarrow> bool" where
  "beats r c d \<longleftrightarrow> candidate_total r d < candidate_total r c \<or> (candidate_total r d = candidate_total r c \<and> rc_ID c \<le> rc_ID d)"

lemma pick_best:
  assumes "\<forall>c\<in>set cs. candidateExclusion r c = None \<longrightarrow> 0 \<le> candidate_total r c"
  defines "result \<equiv> foldl (pick r) (-1, []) cs"
  shows "if \<exists>c\<in>set cs. candidateExclusion r c = None
    then \<exists>c\<in>set cs. candidateExclusion r c = None \<and> result = (candidate_total r c, rc_ID c) \<and>
      (\<forall>d\<in>set cs. candidateExclusion r d = None \<longrightarrow> beats r c d)
    else result = (-1, [])"
  using assms(1) unfolding result_def
proof (induction cs rule: rev_induct)
  case (snoc x xs)
  let ?res = "foldl (pick r) (-1, []) xs"
  have IH: "if \<exists>c\<in>set xs. candidateExclusion r c = None
    then \<exists>c\<in>set xs. candidateExclusion r c = None \<and> ?res = (candidate_total r c, rc_ID c) \<and>
      (\<forall>d\<in>set xs. candidateExclusion r d = None \<longrightarrow> beats r c d)
    else ?res = (-1, [])"
    using snoc by simp
  show ?case
  proof (cases "candidateExclusion r x = None")
    case False
    then show ?thesis using IH by (auto split: if_splits)
  next
    case True
    show ?thesis
    proof (cases "\<exists>c\<in>set xs. candidateExclusion r c = None")
      case False
      moreover have "0 \<le> candidate_total r x" using snoc.prems True by simp
      ultimately show ?thesis using IH True by (auto simp: beats_def)
    next
      case some: True
      then obtain c where c: "c \<in> set xs" "candidateExclusion r c = None" "?res = (candidate_total r c, rc_ID c)"
        "\<forall>d\<in>set xs. candidateExclusion r d = None \<longrightarrow> beats r c d" using IH by auto
      have trans: "beats r x c \<Longrightarrow> beats r c d \<Longrightarrow> beats r x d" for d by (auto simp: beats_def)
      show ?thesis
      proof (cases "candidate_total r x > candidate_total r c \<or> (candidate_total r x = candidate_total r c \<and> rc_ID x < rc_ID c)")
        case True
        then have "beats r x c" by (auto simp: beats_def)
        then show ?thesis
          using True \<open>candidateExclusion r x = None\<close> c trans by (auto simp: beats_def [of r x x])
      next
        case False
        then have "beats r c x" by (auto simp: beats_def)
        then show ?thesis using False c \<open>candidateExclusion r x = None\<close> by auto
      qed
    qed
  qed
qed simp

section \<open>Exclusions are well formed\<close>

definition wf_gate :: "RoutingExclusion option \<Rightarrow> bool" where
  "wf_gate g \<longleftrightarrow> (\<forall>x. g = Some x \<longrightarrow> RoutingExclusion_Validate x = None)"

lemma wf_gates [simp]:
  "edge_safe a \<Longrightarrow> edge_safe b \<Longrightarrow> wf_gate (exclude_if bad (a # code) (b # reason))"
  "edge_safe a \<Longrightarrow> edge_safe b \<Longrightarrow> wf_gate (routingExcluded (a # code) (b # reason))"
  "wf_gate None"
  by (auto simp: wf_gate_def exclude_if_def routingExcluded_def RoutingExclusion_Validate_def not_blank_starts)

lemma wf_policy_gate [simp]: "wf_gate (routingPolicyExclusion kind v d s)"
  by (auto simp: routingPolicyExclusion_def edge_safe_def space_runes_def)

lemma wf_first_exclusion: "(\<forall>g\<in>set gates. wf_gate g) \<Longrightarrow> wf_gate (first_exclusion gates)"
  using first_exclusion_mem by (fastforce simp: wf_gate_def)

lemma candidateExclusion_valid: "candidateExclusion r c = Some x \<Longrightarrow> RoutingExclusion_Validate x = None"
proof -
  have "wf_gate (candidateExclusion r c)"
    unfolding candidateExclusion_def Let_def
    by (rule wf_first_exclusion) (auto simp: edge_safe_def space_runes_def split: option.splits)
  then show "candidateExclusion r c = Some x \<Longrightarrow> RoutingExclusion_Validate x = None"
    by (simp add: wf_gate_def)
qed

lemma assess_checked:
  assumes "RoutingRequest_Validate r = None" "go_request r" "c \<in> set (rr_Candidates r)"
  shows "check_assessment r (assess r c) c = None"
proof -
  note b = candidate_bounds(7-9) [OF assms(1,3)]
  show ?thesis
  proof (cases "candidateExclusion r c")
    case None
    then obtain s where "scoreCandidate r c = Some s" "RoutingScore_Validate s = None"
      using scoreCandidate_valid [OF assms(1,3)] candidateExclusion_iff [OF assms(1,3)] assms(2) by auto
    then show ?thesis using b None
      by (simp add: check_assessment_None assess_def new_assessment_def CandidateAssessment_Validate_def)
  next
    case (Some x)
    then show ?thesis using b candidateExclusion_valid [OF Some]
      by (simp add: check_assessment_None assess_def new_assessment_def CandidateAssessment_Validate_def)
  qed
qed

lemma eligible_total:
  assumes "RoutingRequest_Validate r = None" "go_request r" "c \<in> set (rr_Candidates r)" "candidateExclusion r c = None"
  shows "scoreCandidate r c \<noteq> None" "0 \<le> candidate_total r c" "candidate_total r c \<le> 1000"
proof -
  obtain s where "scoreCandidate r c = Some s" "RoutingScore_Validate s = None"
    using scoreCandidate_valid [OF assms(1,3)] candidateExclusion_iff [OF assms(1,3)] assms(2,4) by auto
  then show "scoreCandidate r c \<noteq> None" "0 \<le> candidate_total r c" "candidate_total r c \<le> 1000"
    by (simp_all add: candidate_total_def RoutingScore_Validate_def permille_iff)
qed

lemma eligibility_live:
  assumes "ctx_live ctx" "RoutingRequest_Validate r = None"
  shows "EvaluateRoutingEligibility ctx r = Inr (map (eligibility_of r) (rr_Candidates r))"
proof -
  have "eligibility_loop r ctx' cs = Inr (map (eligibility_of r) cs)" if "ctx_live ctx'" for ctx' cs
    using that by (induction cs arbitrary: ctx') auto
  then show ?thesis using assms by (simp add: EvaluateRoutingEligibility_def)
qed

lemma Route_live:
  assumes "ctx_live ctx" "RoutingRequest_Validate r = None" "go_request r"
  defines "selected \<equiv> snd (foldl (pick r) (-1, []) (rr_Candidates r))"
  shows "\<exists>d. Route ctx r = Some (d, if ID_IsZero selected then Some no_route else None) \<and>
    rd_SelectedCandidateID d = selected \<and> rd_Assessments d = map (assess r) (rr_Candidates r) \<and>
    RoutingDecision_Validate d r = None"
proof -
  have "\<forall>c\<in>set (rr_Candidates r). candidateExclusion r c = None \<longrightarrow> scoreCandidate r c \<noteq> None"
    using eligible_total(1) [OF assms(2,3)] by blast
  note loop = route_loop_live [OF _ this, of "ctx_from (length (rr_Candidates r) + 2) ctx" "[]" "-1" "[]"]
  have checks: "\<forall>x\<in>set (rr_Candidates r). check_assessment r (assess r x) x = None"
    using assess_checked [OF assms(2,3)] by blast
  then have zipped: "first_error (map2 (check_assessment r) (map (assess r) (rr_Candidates r)) (rr_Candidates r)) = None"
    by (auto simp: first_error_None_iff in_set_zip)
  have ids: "\<not> ID_IsZero (rc_ID c)" "ID_Validate (rc_ID c) = None" if "c \<in> set (rr_Candidates r)" for c
    using candidate_bounds(7) [OF assms(2) that] by (auto simp: ID_Validate_def split: if_splits)
  have eligible: "as_Eligible (assess r c) \<longleftrightarrow> candidateExclusion r c = None" "as_CandidateID (assess r c) = rc_ID c" for c
    by (simp_all add: assess_def new_assessment_def)
  have best: "if \<exists>c\<in>set (rr_Candidates r). candidateExclusion r c = None
    then \<exists>c\<in>set (rr_Candidates r). candidateExclusion r c = None \<and> selected = rc_ID c else selected = []"
    using pick_best [of "rr_Candidates r" r] eligible_total(2) [OF assms(2,3)]
    by (force simp: selected_def split: if_splits)
  show ?thesis
    using assms(1,2) loop zipped best ids
    by (auto simp: Route_def eligibility_live Let_def RoutingDecision_Validate_def text_simps eligible
        filter_empty_conv selected_def [symmetric] split: if_splits)
qed

interpretation deterministic: routing_engine Route
  by unfold_locales (metis Route_live)

section \<open>Properties\<close>

text \<open>
  The deterministic router never panics and never fails on a valid request: behind the guard it
  returns a route if and only if some candidate is admissible, and otherwise the no-route error with
  a complete decision.
\<close>

theorem deterministic_routes_iff:
  assumes "ctx_live ctx" "RoutingRequest_Validate r = None" "go_request r"
  shows "\<exists>d. EvaluateRouter ctx (Some Route) r =
      Some (d, if \<exists>c\<in>set (rr_Candidates r). admissible r c then None else Some no_route) \<and>
    RoutingDecision_Validate d r = None"
proof -
  obtain d where d: "RoutingDecision_Validate d r = None"
    "Route (ctx_from 2 ctx) r = Some (d, if ID_IsZero (rd_SelectedCandidateID d) then Some no_route else None)"
    using deterministic.answers [of "ctx_from 2 ctx" r] assms by auto
  with valid_decision_selected [OF d(1)] deterministic.guard_transparent [OF assms] show ?thesis
    by (auto split: if_splits)
qed

text \<open>
  [C6] The deterministic router selects an optimal candidate: among the admissible candidates the
  selected one has the highest total score, and among those with that score the smallest
  identifier. Every total lies between 0 and 1000.
\<close>

theorem Route_optimal:
  assumes "ctx_live ctx" "RoutingRequest_Validate r = None" "go_request r" "Route ctx r = Some (d, None)"
  shows "\<exists>c\<in>set (rr_Candidates r). rc_ID c = rd_SelectedCandidateID d \<and> admissible r c \<and>
    (\<forall>c'\<in>set (rr_Candidates r). admissible r c' \<longrightarrow>
      0 \<le> candidate_total r c' \<and> candidate_total r c' \<le> 1000 \<and>
      (candidate_total r c' < candidate_total r c \<or>
       candidate_total r c' = candidate_total r c \<and> rc_ID c \<le> rc_ID c'))"
proof -
  let ?sel = "snd (foldl (pick r) (-1, []) (rr_Candidates r))"
  have sel: "rd_SelectedCandidateID d = ?sel" "\<not> ID_IsZero ?sel"
    using Route_live [OF assms(1-3)] assms(4) by (auto split: if_splits)
  note totals = eligible_total(2,3) [OF assms(2,3)]
  note iff = candidateExclusion_iff [OF assms(2)]
  from sel(2) obtain c where "c \<in> set (rr_Candidates r)" "candidateExclusion r c = None" "?sel = rc_ID c"
    "\<forall>d\<in>set (rr_Candidates r). candidateExclusion r d = None \<longrightarrow> beats r c d"
    using pick_best [of "rr_Candidates r" r] totals(1) by (force simp: ID_IsZero_def split: if_splits)
  then show ?thesis using sel(1) totals iff by (intro bexI [of _ c]) (auto simp: beats_def)
qed

section \<open>A concrete request\<close>

definition sample_candidate :: RoutingCandidate where
  "sample_candidate =
     \<lparr>rc_ID = sample_id, rc_Zone = ZonePersonal, rc_Model = sample_descriptor, rc_Authenticated = True,
      rc_Compatible = True, rc_Healthy = True, rc_Draining = False,
      rc_ExecutionVerdict = sample_verdict (sample_manifest ClassPublic)
        (PolicyScopeForExecution (sample_execution ClassPublic)),
      rc_EgressVerdict = None, rc_AvailableTools = [], rc_AvailableSlots = 3, rc_AvailableAt = 100,
      rc_ExpectedCost = 20, rc_ExpectedLatency = 50, rc_QualityPermille = 700,
      rc_CacheAffinityPermille = 0, rc_LoadPermille = 250\<rparr>"

definition sample_routing :: RoutingRequest where
  "sample_routing =
     \<lparr>rr_WorkloadID = sample_id, rr_StepID = sample_id, rr_AttemptID = sample_id,
      rr_ManifestSHA256 = digestUnchecked (sample_manifest ClassPublic), rr_SourceZone = ZonePersonal,
      rr_Autonomous = False, rr_EgressPurpose = [], rr_DerivedFromSHA = [],
      rr_Requirements = \<lparr>rq_Modalities = [''text''], rq_RequiredTools = [], rq_MinContextTokens = 100,
        rq_MinQualityClass = [], rq_AllowedZones = [ZonePersonal], rq_NativeToolUse = False,
        rq_StructuredOutput = False\<rparr>,
      rr_Budget = \<lparr>bg_MaxSteps = 1, bg_MaxInputTokens = 100, bg_MaxOutputTokens = 50, bg_MaxModelCalls = 2,
        bg_MaxToolCalls = 2, bg_MaxChildSteps = 0, bg_MaxCost = 1000, bg_MaxWallTime = 1000\<rparr>,
      rr_ObservedAt = 10, rr_Deadline = 1000, rr_Weights = DefaultRoutingWeights,
      rr_Candidates = [sample_candidate]\<rparr>"

lemma DefaultRoutingWeights_valid [eval_simps]: "RoutingWeights_Validate DefaultRoutingWeights = None"
  by (simp add: RoutingWeights_Validate_def DefaultRoutingWeights_def Let_def permille_iff in64_small
      ScorePermilleMax_def)

lemma sample_routing_valid [eval_simps]: "RoutingRequest_Validate sample_routing = None" "go_request sample_routing"
proof -
  have "RoutingCandidate_Validate sample_candidate = None"
    by (simp add: RoutingCandidate_Validate_def sample_candidate_def sample_descriptor_valid Zone_Validate_def
        validateStringSet_def Time_IsZero_def permille_iff)
  then show "RoutingRequest_Validate sample_routing = None"
    by (simp add: RoutingRequest_Validate_def sample_routing_def Let_def Zone_Validate_def Requirements_Validate_def
        validateStringSet_def validateZoneSet_def Budget_Validate_def Time_IsZero_def Time_After_def Time_Add_def
        Time_Sub_def min64_def max64_def DefaultRoutingWeights_valid text_simps)
       (simp add: sample_candidate_def)
  show "go_request sample_routing" by (simp add: go_request_def sample_routing_def in64_def min64_def max64_def)
qed

lemma sample_admissible [eval_simps]: "admissible sample_routing sample_candidate"
proof -
  have "PolicyVerdict_Validate (rc_ExecutionVerdict sample_candidate) = None"
    using scope_of_valid_request(1) [OF sample_execution_valid [OF class_valid(1)]]
    by (simp add: sample_candidate_def sample_verdict_valid)
  then have "authorizes (rc_ExecutionVerdict sample_candidate) (rr_ManifestSHA256 sample_routing)
      (routingExecutionScope sample_routing sample_candidate)"
    by (simp add: authorizes_def)
       (simp add: sample_candidate_def sample_routing_def sample_verdict_def Allows_def routingExecutionScope_def
         PolicyScopeForExecution_def sample_execution_def sample_target_def sample_descriptor_def no_sandbox_def)
  then show ?thesis
    by (simp add: admissible_def)
       (simp add: sample_candidate_def sample_routing_def sample_descriptor_def sample_capabilities_def)
qed

theorem deterministic_routes_iff_witness:
  "\<exists>d. EvaluateRouter background (Some Route) sample_routing = Some (d, None)"
proof -
  have "sample_candidate \<in> set (rr_Candidates sample_routing)" by (simp add: sample_routing_def)
  then show ?thesis
    using deterministic_routes_iff [of background sample_routing] sample_routing_valid sample_admissible by auto
qed

theorem Route_optimal_witness:
  "\<exists>d. Route background sample_routing = Some (d, None) \<and> rd_SelectedCandidateID d = sample_id"
proof -
  have mem: "sample_candidate \<in> set (rr_Candidates sample_routing)" by (simp add: sample_routing_def)
  obtain d where d: "Route background sample_routing = Some (d, None)"
    using Route_live [of background sample_routing] deterministic.routes_iff_admissible [of background sample_routing]
      deterministic.guard_transparent [of background sample_routing] sample_routing_valid sample_admissible mem
    by auto
  have "rd_SelectedCandidateID d = sample_id"
    using Route_optimal [OF _ sample_routing_valid d] by (simp add: sample_routing_def sample_candidate_def)
  with d show ?thesis by blast
qed

theorem eligibility_exact_witness:
  "\<exists>es. EvaluateRoutingEligibility background sample_routing = Inr es \<and> map CandidateEligibility_Eligible es = [True]"
proof -
  have "rr_Candidates sample_routing = [sample_candidate]" by (simp add: sample_routing_def)
  then show ?thesis
    using eligibility_exact [of background sample_routing] sample_routing_valid(1) sample_admissible by auto
qed

theorem EvaluateRouter_selects_admissible_witness:
  "\<exists>d. EvaluateRouter background (Some Route) sample_routing = Some (d, None) \<and>
    (\<exists>c\<in>set (rr_Candidates sample_routing). rc_ID c = rd_SelectedCandidateID d \<and> admissible sample_routing c)"
proof -
  have "sample_candidate \<in> set (rr_Candidates sample_routing)" by (simp add: sample_routing_def)
  then obtain d where d: "EvaluateRouter background (Some Route) sample_routing = Some (d, None)"
    using deterministic.routes_iff_admissible [of background sample_routing] sample_routing_valid sample_admissible by auto
  with EvaluateRouter_selects_admissible [OF d] show ?thesis by blast
qed

end
