(* ===== verification/ProjectionExample.thy ===== *)
theory ProjectionExample
  imports ProjectionInv Router
begin

text \<open>
  A concrete workload stream: creation, start, one step brought to running, a routing record of the
  deterministic router and the turn-started event it authorises. The decoder is a concrete function
  on the payloads of the stream.
\<close>

definition sample_event :: "64 word \<Rightarrow> string \<Rightarrow> bytes \<Rightarrow> Event" where
  "sample_event n ty payload =
     \<lparr>ev_ID = sample_id, ev_Aggregate = sample_aggregate, ev_Sequence = n, ev_Type = ty, ev_SchemaVersion = 1,
      ev_CausationID = [], ev_CorrelationID = sample_id, ev_AttemptID = sample_id, ev_OccurredAt = sample_now,
      ev_Payload = payload, ev_PayloadSHA256 = sha256Hex payload\<rparr>"

definition sample_decision :: RoutingDecision where
  "sample_decision = fst (the (Route background sample_routing))"

definition routing_entry :: ExecutionRecord where
  "routing_entry =
     blank_record\<lparr>er_StepID := sample_id, er_Turn := 1, er_Stage := ExecutionRoutingDecided,
       er_Classification := ClassPublic,
       er_Routing := Some \<lparr>rt_Request = sample_routing, rt_Decision = sample_decision\<rparr>\<rparr>"

definition loop_entry :: ExecutionRecord where
  "loop_entry =
     blank_record\<lparr>er_StepID := sample_id, er_Turn := 1, er_Stage := ExecutionLoopEvent,
       er_Classification := ClassPublic,
       er_Loop := Some \<lparr>le_Checkpoint = None, le_Sequence = 1, le_Type = LoopEventTurnStarted, le_Turn = 1,
         le_Model = md_Ref sample_descriptor, le_ModelEvent = None, le_Message = None, le_ToolCall = None,
         le_ToolOutput = None, le_FailureCode = [], le_Stop = no_stop\<rparr>\<rparr>"

definition sample_codec :: codec where
  "sample_codec =
     \<lparr>dc_WorkloadCreated = (\<lambda>_. Inr (\<lparr>wc_SessionID = sample_id2, wc_Goal = ''goal'', wc_Budget = sample_budget\<rparr>, [])),
      dc_WorkloadTransitioned = (\<lambda>_. Inr (\<lparr>wt_From = WorkloadCreated, wt_To = WorkloadRunning\<rparr>, [])),
      dc_StepCreated = (\<lambda>_. Inr (\<lparr>sp_ID = sample_id, sp_ParentStepID = [], sp_Kind = StepModelTurn,
        sp_Requirements = sample_requirements, sp_Budget = sample_budget, sp_Attempt = 1, sp_IdempotencyKey = []\<rparr>, [])),
      dc_StepTransitioned = (\<lambda>b. Inr (
        if b = ''4'' then \<lparr>su_StepID = sample_id, su_From = StepPending, su_To = StepReady\<rparr>
        else if b = ''5'' then \<lparr>su_StepID = sample_id, su_From = StepReady, su_To = StepLeased\<rparr>
        else \<lparr>su_StepID = sample_id, su_From = StepLeased, su_To = StepRunning\<rparr>, [])),
      dc_ExecutionRecorded = (\<lambda>b. Inr (if b = ''7'' then routing_entry else loop_entry, []))\<rparr>"

definition sample_stream :: "Event list" where
  "sample_stream =
     [sample_event 1 EventTypeWorkloadCreated ''1'', sample_event 2 EventTypeWorkloadTransitioned ''2'',
      sample_event 3 EventTypeStepCreated ''3'', sample_event 4 EventTypeStepTransitioned ''4'',
      sample_event 5 EventTypeStepTransitioned ''5'', sample_event 6 EventTypeStepTransitioned ''6'',
      sample_event 7 EventTypeExecutionRecorded ''7'', sample_event 8 EventTypeExecutionRecorded ''8'']"

lemma sample_decision_facts:
  "RoutingDecision_Validate sample_decision sample_routing = None" "rd_SelectedCandidateID sample_decision = sample_id"
proof -
  obtain d e where d: "Route background sample_routing = Some (d, e)" "RoutingDecision_Validate d sample_routing = None"
    using Route_live [of background sample_routing] sample_routing_valid by auto
  then have sd: "sample_decision = d" by (simp add: sample_decision_def)
  show "RoutingDecision_Validate sample_decision sample_routing = None" using d sd by simp
  have cands: "rr_Candidates sample_routing = [sample_candidate]" by (simp add: sample_routing_def)
  have "rc_ID sample_candidate = sample_id" by (simp add: sample_candidate_def)
  then show "rd_SelectedCandidateID sample_decision = sample_id"
    using valid_decision_selected [OF d(2)] sample_admissible sd cands by (auto split: if_splits)
qed

lemma sample_event_valid:
  "n \<noteq> 0 \<Longrightarrow> ty \<noteq> [] \<Longrightarrow> payload \<noteq> [] \<Longrightarrow> json_Valid payload \<Longrightarrow> Event_Validate (sample_event n ty payload) = None"
  by (simp add: Event_Validate_def sample_event_def event_draft_def EventDraft_Validate_def)

lemma sample_event_fields [simp]:
  "ev_Payload (sample_event n ty pl) = pl" "ev_Type (sample_event n ty pl) = ty"
  "ev_Sequence (sample_event n ty pl) = n" "ev_OccurredAt (sample_event n ty pl) = sample_now"
  "ev_CorrelationID (sample_event n ty pl) = sample_id" "ev_AttemptID (sample_event n ty pl) = sample_id"
  "ev_Aggregate (sample_event n ty pl) = sample_aggregate" "ev_SchemaVersion (sample_event n ty pl) = 1"
  by (simp_all add: sample_event_def)

lemma sample_aggregate_workload: "ag_Type sample_aggregate = ''workload''" "ag_ID sample_aggregate = sample_id"
  by (simp_all add: sample_aggregate_def)

lemma Apply_sample:
  assumes "pj_Aggregate p = sample_aggregate" "n = pj_Version p + 1" "n \<noteq> 0" "ty \<noteq> []" "payload \<noteq> []" "json_Valid payload"
  shows "WorkloadProjection_Apply dc (sample_event n ty payload) p =
    (case apply_by_type dc (sample_event n ty payload) p of
       (Some err, p') \<Rightarrow> (projection_error err, p')
     | (None, p') \<Rightarrow> (None, p'\<lparr>pj_Version := n\<rparr>))"
  using assms sample_event_valid [OF assms(3-6)]
  by (simp add: WorkloadProjection_Apply_def CoreEventSchemaV1_def WorkloadAggregateType_def
      sample_aggregate_workload split: prod.split option.split)

lemma digits_valid:
  "json_Valid ''1''" "json_Valid ''2''" "json_Valid ''3''" "json_Valid ''4''" "json_Valid ''5''" "json_Valid ''6''"
  "json_Valid ''7''" "json_Valid ''8''"
  by (simp_all add: json_simps)

definition p0 :: WorkloadProjection where
  "p0 = \<lparr>pj_Aggregate = sample_aggregate, pj_Version = 0, pj_Workload = zero_workload, pj_Steps = Map.empty,
         pj_Execution = []\<rparr>"

definition w1 :: "WorkloadState \<Rightarrow> Workload" where
  "w1 s = \<lparr>wl_ID = sample_id, wl_SessionID = sample_id2, wl_Goal = ''goal'', wl_State = s, wl_Budget = sample_budget,
           wl_CreatedAt = sample_now, wl_UpdatedAt = sample_now\<rparr>"

definition s1 :: "StepState \<Rightarrow> Step" where
  "s1 s = \<lparr>st_ID = sample_id, st_WorkloadID = sample_id, st_ParentStepID = [], st_Kind = StepModelTurn, st_State = s,
           st_Requirements = sample_requirements, st_Budget = sample_budget, st_Attempt = 1, st_IdempotencyKey = [],
           st_CreatedAt = sample_now, st_UpdatedAt = sample_now\<rparr>"

definition pk :: "64 word \<Rightarrow> WorkloadState \<Rightarrow> StepState option \<Rightarrow> ExecutionRecord list \<Rightarrow> WorkloadProjection" where
  "pk n ws ss es =
     \<lparr>pj_Aggregate = sample_aggregate, pj_Version = n, pj_Workload = w1 ws,
      pj_Steps = (case ss of None \<Rightarrow> Map.empty | Some s \<Rightarrow> [sample_id \<mapsto> s1 s]), pj_Execution = es\<rparr>"

lemma sample_id_ne [simp]: "sample_id \<noteq> []" "\<not> ID_IsZero sample_id"
  by (simp_all add: sample_id_def ID_IsZero_def)

lemmas example_defs = apply_by_type_def event_types decodeProjectionPayload_def sample_codec_def

lemma created_step:
  "WorkloadProjection_Apply sample_codec (sample_event 1 EventTypeWorkloadCreated ''1'') p0 =
     (None, pk 1 WorkloadCreated None [])"
proof -
  have "Budget_Validate sample_budget = None" "ID_IsZero []"
    by (simp_all add: Budget_Validate_None sample_budget_def ID_IsZero_def)
  then show ?thesis
    by (simp add: Apply_sample digits_valid p0_def pk_def example_defs applyWorkloadCreated_def zero_workload_def
        text_simps w1_def sample_aggregate_workload)
qed

lemma started_step:
  "WorkloadProjection_Apply sample_codec (sample_event 2 EventTypeWorkloadTransitioned ''2'') (pk 1 WorkloadCreated None []) =
     (None, pk 2 WorkloadRunning None [])"
  by (simp add: Apply_sample digits_valid pk_def example_defs w1_def applyWorkloadTransitioned_def
      Workload_Transition_def WorkloadState_Validate_def)

lemma step_created_step:
  "WorkloadProjection_Apply sample_codec (sample_event 3 EventTypeStepCreated ''3'') (pk 2 WorkloadRunning None []) =
     (None, pk 3 WorkloadRunning (Some StepPending) [])"
proof -
  have "Requirements_Validate sample_requirements = None" "Budget_Validate sample_budget = None"
    "cloneRequirements sample_requirements = sample_requirements" "ID_IsZero []"
    by (simp_all add: Requirements_Validate_None Budget_Validate_None sample_requirements_def sample_budget_def
        Zone_Validate_def cloneRequirements_def ID_IsZero_def)
  then show ?thesis
    by (simp add: Apply_sample digits_valid pk_def example_defs w1_def applyStepCreated_def StepKind_Validate_def s1_def)
qed

lemmas core_steps = created_step started_step step_created_step

lemma step_moves:
  "WorkloadProjection_Apply sample_codec (sample_event 4 EventTypeStepTransitioned ''4'') (pk 3 WorkloadRunning (Some StepPending) []) =
     (None, pk 4 WorkloadRunning (Some StepReady) [])"
  "WorkloadProjection_Apply sample_codec (sample_event 5 EventTypeStepTransitioned ''5'') (pk 4 WorkloadRunning (Some StepReady) []) =
     (None, pk 5 WorkloadRunning (Some StepLeased) [])"
  "WorkloadProjection_Apply sample_codec (sample_event 6 EventTypeStepTransitioned ''6'') (pk 5 WorkloadRunning (Some StepLeased) []) =
     (None, pk 6 WorkloadRunning (Some StepRunning) [])"
  by (simp_all add: Apply_sample digits_valid pk_def example_defs w1_def applyStepTransitioned_def Step_Transition_def
      StepState_Validate_def s1_def)

lemma routing_step:
  "WorkloadProjection_Apply sample_codec (sample_event 7 EventTypeExecutionRecorded ''7'') (pk 6 WorkloadRunning (Some StepRunning) []) =
     (None, pk 7 WorkloadRunning (Some StepRunning) [routing_entry])"
  by (simp add: Apply_sample digits_valid pk_def example_defs w1_def s1_def applyExecutionRecorded_def routing_entry_def
      blank_record_def payload_count_def stage_error_def routing_error_def sample_decision_facts)
     (simp add: sample_routing_def)

lemma loop_step:
  "WorkloadProjection_Apply sample_codec (sample_event 8 EventTypeExecutionRecorded ''8'')
     (pk 7 WorkloadRunning (Some StepRunning) [routing_entry]) =
     (None, pk 8 WorkloadRunning (Some StepRunning) [routing_entry, loop_entry])"
proof -
  have match: "placement_matches \<lparr>rt_Request = sample_routing, rt_Decision = sample_decision\<rparr> (md_Ref sample_descriptor)"
    by (simp add: placement_matches_def sample_decision_facts)
       (simp add: sample_routing_def sample_candidate_def)
  show ?thesis
    by (simp add: Apply_sample digits_valid pk_def example_defs w1_def s1_def applyExecutionRecorded_def routing_entry_def
        loop_entry_def blank_record_def payload_count_def stage_error_def loop_error_def sample_decision_facts match)
qed

lemma sample_load:
  "LoadWorkloadProjection sample_codec background (Some (\<lambda>_ _ _. Inr sample_stream)) sample_aggregate =
     Inr (pk 8 WorkloadRunning (Some StepRunning) [routing_entry, loop_entry])"
proof -
  have "NewWorkloadProjection sample_aggregate = Inr p0"
    by (simp add: NewWorkloadProjection_def WorkloadAggregateType_def sample_aggregate_workload p0_def)
  moreover have "pj_Version (pk 8 WorkloadRunning (Some StepRunning) [routing_entry, loop_entry]) \<noteq> 0"
    by (simp add: pk_def)
  ultimately show ?thesis
    by (simp add: LoadWorkloadProjection_def Replay_def sample_stream_def core_steps step_moves routing_step loop_step)
qed

section \<open>Witnesses\<close>


theorem loaded_projection_structure_witness:
  "LoadWorkloadProjection sample_codec background (Some (\<lambda>_ _ _. Inr sample_stream)) sample_aggregate =
     Inr (pk 8 WorkloadRunning (Some StepRunning) [routing_entry, loop_entry]) \<and>
   wl_ID (pj_Workload (pk 8 WorkloadRunning (Some StepRunning) [routing_entry, loop_entry])) = ag_ID sample_aggregate"
  using loaded_projection_structure [OF sample_load] sample_load by simp

theorem loaded_log_wellformed_witness:
  "map le_Sequence (loops_of sample_id [routing_entry, loop_entry]) = [1]"
  using loaded_log_wellformed [OF sample_load, of sample_id]
  by (simp add: pk_def loops_of_def steps_of_def List.map_filter_def routing_entry_def loop_entry_def blank_record_def)


end
