(* ===== verification/LoopEngine.thy ===== *)
theory LoopEngine
  imports LoopTypes
begin

text \<open>
  The turn and tool loop (src/loop/engine.go): everything up to one turn of \<open>Engine.Run\<close>; the loop over
  turns and the deferred cleanup are in \<open>LoopRun\<close>.

  A step of the loop is a function on \<open>loop_state\<close>; \<open>Exit\<close> is a return of \<open>Run\<close> with the current
  result and an error, \<open>Crash\<close> a panic on its way to the deferred recovery. The environment gives
  the contexts' answers, sampled each time \<open>contextResult\<close> looks, the schema library and the
  serialisation of a tool failure. \<open>ls_trace\<close> records the events emitted. No fuel is needed: a
  turn consumes one of the budgeted model calls, and reading a stream ends as in \<open>DrainStream\<close>.

  Parallel tool calls touch nothing but their own slot of the result, so they are computed slot by
  slot; what the source does after \<open>group.Wait\<close> is modelled in its order.
\<close>

section \<open>State, outcomes, environment\<close>

record ctx_sample =
  cs_loop :: "error option"
  cs_cause :: "error option"
  cs_parent :: "error option"

type_synonym schema = "bytes \<Rightarrow> error option"

record loop_env =
  en_entry :: "error option"
  en_ctx :: "nat \<Rightarrow> ctx_sample"
  en_compile :: "string \<Rightarrow> bytes \<Rightarrow> error + schema"
  en_marshal_failure :: "string \<Rightarrow> string \<Rightarrow> bytes"

record loop_state =
  ls_result :: LoopResult
  ls_sequence :: "64 word"
  ls_failed :: bool
  ls_turn :: int
  ls_model :: ModelRef
  ls_ids :: "string list"
  ls_probes :: nat
  ls_trace :: "LoopEvent list"

datatype 'a outcome = Next 'a | Exit "error option" | Crash

type_synonym 'a loop = "loop_state \<Rightarrow> 'a outcome \<times> loop_state"

definition andthen :: "'a loop \<Rightarrow> ('a \<Rightarrow> 'b loop) \<Rightarrow> 'b loop" where
  "andthen m f st =
     (case m st of
        (Next a, st') \<Rightarrow> f a st'
      | (Exit err, st') \<Rightarrow> (Exit err, st')
      | (Crash, st') \<Rightarrow> (Crash, st'))"

definition proceed :: "'a \<Rightarrow> 'a loop" where
  "proceed a st = (Next a, st)"

definition fail_with :: "error option \<Rightarrow> unit loop" where
  "fail_with err st = (if err = None then (Next (), st) else (Exit err, st))"

definition update_result :: "(LoopResult \<Rightarrow> LoopResult) \<Rightarrow> unit loop" where
  "update_result f st = (Next (), st\<lparr>ls_result := f (ls_result st)\<rparr>)"

definition blank_loop_event :: LoopEvent where
  "blank_loop_event =
     \<lparr>le_Checkpoint = None, le_Sequence = 0, le_Type = LoopEventOther [], le_Turn = 0,
      le_Model = \<lparr>mr_Provider = [], mr_Model = []\<rparr>, le_ModelEvent = None, le_Message = None, le_ToolCall = None,
      le_ToolOutput = None, le_FailureCode = [], le_Stop = no_stop\<rparr>"

definition loop_event :: "LoopEventType \<Rightarrow> int \<Rightarrow> ModelRef \<Rightarrow> LoopEvent" where
  "loop_event ty turn model = blank_loop_event\<lparr>le_Type := ty, le_Turn := turn, le_Model := model\<rparr>"

section \<open>Emission and contexts\<close>

definition loopEmitter_emit :: "LoopSink option \<Rightarrow> LoopEvent \<Rightarrow> unit loop" where
  "loopEmitter_emit sink event st =
     (let n = ls_sequence st + 1;
          event = event\<lparr>le_Sequence := n\<rparr>;
          st = st\<lparr>ls_sequence := n, ls_trace := ls_trace st @ [event]\<rparr> in
      case sink of
        None \<Rightarrow> (Next (), st)
      | Some record_event \<Rightarrow>
          (case record_event (LoopEvent_Clone event) of
             Answers _ \<Rightarrow> (Next (), st)
           | Fails err \<Rightarrow> (Exit (Some (wrapf ''loop sink'' err)), st\<lparr>ls_failed := True\<rparr>)
           | Panics \<Rightarrow> (Crash, st)))"

definition budget_exceeded_error :: "string \<Rightarrow> error" where
  "budget_exceeded_error kind = Error [ErrLoopBudgetExceeded] kind"

definition contextResult :: "loop_env \<Rightarrow> loop_state \<Rightarrow> error option \<times> loop_state" where
  "contextResult env st =
     (let s = en_ctx env (ls_probes st); st = st\<lparr>ls_probes := Suc (ls_probes st)\<rparr> in
      case cs_loop s of
        None \<Rightarrow> (None, st)
      | Some err \<Rightarrow>
          if (case cs_cause s of None \<Rightarrow> False | Some c \<Rightarrow> errors_Is c ErrLoopBudgetExceeded) \<and> cs_parent s = None
          then (Some (budget_exceeded_error ''wall_time''),
                st\<lparr>ls_result := (ls_result st)\<lparr>lr_BudgetExceeded := ''wall_time''\<rparr>\<rparr>)
          else (Some err, st))"

definition check_context :: "loop_env \<Rightarrow> unit loop" where
  "check_context env st = (case contextResult env st of (None, st') \<Rightarrow> (Next (), st') | (err, st') \<Rightarrow> (Exit err, st'))"

text \<open>A collaborator's error: an ended context takes precedence.\<close>

definition fail_after :: "loop_env \<Rightarrow> error \<Rightarrow> 'a loop" where
  "fail_after env err st =
     (case contextResult env st of
        (None, st') \<Rightarrow> (Exit (Some err), st')
      | (Some contextErr, st') \<Rightarrow> (Exit (Some contextErr), st'))"

definition budgetFailure :: "string \<Rightarrow> unit loop" where
  "budgetFailure kind st =
     (Exit (Some (budget_exceeded_error kind)), st\<lparr>ls_result := (ls_result st)\<lparr>lr_BudgetExceeded := kind\<rparr>\<rparr>)"

section \<open>Usage\<close>

definition addUsage :: "Usage \<Rightarrow> Usage option \<Rightarrow> Usage \<times> error option" where
  "addUsage acc usage =
     (case usage of
        None \<Rightarrow> (acc, Some (errorf ''usage event has no usage''))
      | Some u \<Rightarrow>
          if us_InputTokens u < 0 \<or> us_OutputTokens u < 0 \<or> us_CacheReadTokens u < 0 \<or>
             us_CacheWriteTokens u < 0 \<or> us_Cost u < 0
          then (acc, Some (errorf ''usage values cannot be negative''))
          else
            let t = \<lparr>us_InputTokens = wrap64 (us_InputTokens acc + us_InputTokens u),
                     us_OutputTokens = wrap64 (us_OutputTokens acc + us_OutputTokens u),
                     us_CacheReadTokens = wrap64 (us_CacheReadTokens acc + us_CacheReadTokens u),
                     us_CacheWriteTokens = wrap64 (us_CacheWriteTokens acc + us_CacheWriteTokens u),
                     us_Cost = wrap64 (us_Cost acc + us_Cost u)\<rparr>
            in (t, fail_if (us_InputTokens t < 0 \<or> us_OutputTokens t < 0 \<or> us_CacheReadTokens t < 0 \<or>
                            us_CacheWriteTokens t < 0 \<or> us_Cost t < 0) ''usage values overflowed''))"

definition exceededUsage :: "Usage \<Rightarrow> Budget \<Rightarrow> string" where
  "exceededUsage u b =
     (if us_InputTokens u > bg_MaxInputTokens b then ''input_tokens''
      else if us_OutputTokens u > bg_MaxOutputTokens b then ''output_tokens''
      else if us_Cost u > bg_MaxCost b then ''cost'' else [])"

section \<open>One model turn\<close>

record turnData =
  da_text :: string
  da_calls :: "ToolCall list"
  da_stop :: StopReason
  da_modelErr :: "ModelError option"

definition no_data :: turnData where
  "no_data = \<lparr>da_text = [], da_calls = [], da_stop = no_stop, da_modelErr = None\<rparr>"

definition cloneCall :: "ToolCall \<Rightarrow> ToolCall" where
  "cloneCall c = c\<lparr>tk_Input := [] @ tk_Input c\<rparr>"

text \<open>The switch on an accepted event; a nil call or error there would be a nil dereference.\<close>

definition take_event :: "Budget \<Rightarrow> ModelEvent \<Rightarrow> turnData \<Rightarrow> turnData loop" where
  "take_event budget e data st =
     (case mv_Type e of
        ModelEventTextDelta \<Rightarrow> (Next (data\<lparr>da_text := da_text data @ mv_Text e\<rparr>), st)
      | ModelEventToolCall \<Rightarrow>
          (case mv_ToolCall e of
             None \<Rightarrow> (Crash, st)
           | Some c \<Rightarrow> (Next (data\<lparr>da_calls := da_calls data @ [cloneCall c]\<rparr>), st))
      | ModelEventUsage \<Rightarrow>
          (let (usage, err) = addUsage (lr_Usage (ls_result st)) (mv_Usage e);
               st = st\<lparr>ls_result := (ls_result st)\<lparr>lr_Usage := usage\<rparr>\<rparr>;
               kind = exceededUsage usage budget in
           if err \<noteq> None then (Exit err, st)
           else if kind \<noteq> []
           then (Exit (Some (budget_exceeded_error kind)), st\<lparr>ls_result := (ls_result st)\<lparr>lr_BudgetExceeded := kind\<rparr>\<rparr>)
           else (Next data, st))
      | ModelEventStop \<Rightarrow> (Next (data\<lparr>da_stop := mv_Stop e\<rparr>), st)
      | ModelEventError \<Rightarrow>
          (case mv_Error e of None \<Rightarrow> (Crash, st) | Some m \<Rightarrow> (Next (data\<lparr>da_modelErr := Some m\<rparr>), st))
      | _ \<Rightarrow> (Next data, st))"

function consume :: "loop_env \<Rightarrow> LoopRequest \<Rightarrow> int \<Rightarrow> ModelRef \<Rightarrow> (nat \<Rightarrow> ModelEvent answer) \<Rightarrow> nat
    \<Rightarrow> ModelStreamValidator \<Rightarrow> turnData \<Rightarrow> turnData loop" where
  "consume env req turn model recv i v data st =
     (case check_context env st of
        (Exit err, st) \<Rightarrow> (Exit err, st)
      | (Crash, st) \<Rightarrow> (Crash, st)
      | (Next _, st) \<Rightarrow>
     (case recv i of
        Panics \<Rightarrow> (Crash, st)
      | Fails err \<Rightarrow>
          if errors_Is err ErrEOF
          then (case Complete v of
                  Some e \<Rightarrow> (Exit (Some (wrap_sentinel ErrLoopStream e)), st) | None \<Rightarrow> (Next data, st))
          else fail_after env err st
      | Answers e \<Rightarrow>
          (case Accept v e of
             (_, Some err) \<Rightarrow> (Exit (Some (wrap_sentinel ErrLoopStream err)), st)
           | (v', None) \<Rightarrow>
               (case loopEmitter_emit (lq_Sink req)
                       ((loop_event LoopEventModel turn model)\<lparr>le_ModelEvent := Some e\<rparr>) st of
                  (Exit err, st) \<Rightarrow> (Exit err, st)
                | (Crash, st) \<Rightarrow> (Crash, st)
                | (Next _, st) \<Rightarrow>
                    (case take_event (lq_Budget req) e data st of
                       (Exit err, st) \<Rightarrow> (Exit err, st)
                     | (Crash, st) \<Rightarrow> (Crash, st)
                     | (Next data, st) \<Rightarrow> consume env req turn model recv (Suc i) v' data st)))))"
  by pat_completeness auto
termination
  by (relation "measure (\<lambda>(_, _, _, _, _, _, v, _). 2 ^ 64 - unat (sv_lastSequence v))") (auto dest: Accept_measure [OF sym])

declare consume.simps [simp del]

definition consumeTurn ::
  "loop_env \<Rightarrow> LoopRequest \<Rightarrow> ModelStream option \<Rightarrow> int \<Rightarrow> ModelRef \<Rightarrow> turnData loop" where
  "consumeTurn env req stream turn model st =
     (case stream of
        None \<Rightarrow> (Exit (Some (errorf ''provider returned a nil model stream'')), st)
      | Some s \<Rightarrow>
          (case consume env req turn model (sm_Recv s) 0 zero_validator no_data st of
             (Crash, st) \<Rightarrow> (Crash, st)
           | (Exit err, st) \<Rightarrow> (Exit (errors_Join err (sm_Close s)), st)
           | (Next data, st) \<Rightarrow>
               (case sm_Close s of None \<Rightarrow> (Next data, st) | Some err \<Rightarrow> (Exit (Some err), st))))"

definition call_part :: "Classification \<Rightarrow> ToolCall \<Rightarrow> ContentPart" where
  "call_part class c =
     \<lparr>cp_Type = ContentToolCall, cp_Classification = class, cp_Text = [], cp_MediaType = [], cp_ArtifactID = [],
      cp_ToolCallID = tk_ID c, cp_ToolName = tk_Name c, cp_JSON = [] @ tk_Input c, cp_IsError = False,
      cp_Extension = None\<rparr>"

definition text_part :: "Classification \<Rightarrow> string \<Rightarrow> ContentPart" where
  "text_part class text =
     \<lparr>cp_Type = ContentText, cp_Classification = class, cp_Text = text, cp_MediaType = [], cp_ArtifactID = [],
      cp_ToolCallID = [], cp_ToolName = [], cp_JSON = [], cp_IsError = False, cp_Extension = None\<rparr>"

fun take_ids :: "string list \<Rightarrow> ToolCall list \<Rightarrow> error option \<times> string list" where
  "take_ids seen [] = (None, seen)"
| "take_ids seen (c # cs) =
     (if tk_ID c \<in> set seen then (Some (Error [ErrLoopStream] ''duplicate tool-call ID''), seen)
      else take_ids (tk_ID c # seen) cs)"

definition assistantMessage :: "turnData \<Rightarrow> Classification \<Rightarrow> Message option loop" where
  "assistantMessage data class st =
     (let (err, seen) = take_ids (ls_ids st) (da_calls data);
          st = st\<lparr>ls_ids := seen\<rparr>;
          message = \<lparr>mg_Role = RoleAssistant,
            mg_Content = (if da_text data \<noteq> [] then [text_part class (da_text data)] else []) @
              map (call_part class) (da_calls data)\<rparr> in
      if err \<noteq> None then (Exit err, st)
      else if mg_Content message = [] then (Next None, st)
      else case Message_Validate message of
        Some err \<Rightarrow> (Exit (Some err), st)
      | None \<Rightarrow> (Next (Some message), st))"

section \<open>Tools\<close>

record compiledTool =
  ct_binding :: ToolBinding
  ct_input :: schema
  ct_output :: "schema option"

record toolExecution =
  tn_output :: ToolOutput
  tn_failure :: "ToolFailure option"

text \<open>
  \<open>json.Unmarshal\<close> refuses text that is not JSON; what the schema library does with the value
  (and with a number it cannot represent) is the environment's.
\<close>

definition compileSchema :: "loop_env \<Rightarrow> string \<Rightarrow> bytes \<Rightarrow> error + schema" where
  "compileSchema env location raw =
     (if \<not> json_Valid raw then Inl (errorf ''invalid JSON'') else en_compile env location raw)"

definition validateJSON :: "schema \<Rightarrow> bytes \<Rightarrow> error option" where
  "validateJSON schema raw = (if \<not> json_Valid raw then Some (errorf ''invalid JSON'') else schema raw)"

fun decimal :: "nat \<Rightarrow> string" where
  "decimal n = (if n < 10 then [char_of (48 + n)] else decimal (n div 10) @ [char_of (48 + n mod 10)])"

definition compile_tool :: "loop_env \<Rightarrow> nat \<Rightarrow> ToolBinding \<Rightarrow> error + compiledTool" where
  "compile_tool env index b =
     (case compileSchema env (''urn:fabricrunner:tool:'' @ decimal index @ '':input'') (td_InputSchema (tb_Definition b)) of
        Inl err \<Rightarrow> Inl (wrapf ''tool input schema'' err)
      | Inr input \<Rightarrow>
          if td_OutputSchema (tb_Definition b) = [] then Inr \<lparr>ct_binding = b, ct_input = input, ct_output = None\<rparr>
          else (case compileSchema env (''urn:fabricrunner:tool:'' @ decimal index @ '':output'')
                       (td_OutputSchema (tb_Definition b)) of
                  Inl err \<Rightarrow> Inl (wrapf ''tool output schema'' err)
                | Inr out \<Rightarrow> Inr \<lparr>ct_binding = b, ct_input = input, ct_output = Some out\<rparr>))"

fun compileTools :: "loop_env \<Rightarrow> nat \<Rightarrow> ToolBinding list \<Rightarrow> error + (string \<times> compiledTool) list" where
  "compileTools env index [] = Inr []"
| "compileTools env index (b # bs) =
     (case compile_tool env index b of
        Inl err \<Rightarrow> Inl err
      | Inr t \<Rightarrow>
          (case compileTools env (Suc index) bs of
             Inl err \<Rightarrow> Inl err
           | Inr rest \<Rightarrow> Inr ((td_Name (tb_Definition b), t) # rest)))"

definition toolDefinitions :: "ToolBinding list \<Rightarrow> ToolDefinition list" where
  "toolDefinitions bs =
     map (\<lambda>b. (tb_Definition b)\<lparr>td_InputSchema := [] @ td_InputSchema (tb_Definition b),
                               td_OutputSchema := [] @ td_OutputSchema (tb_Definition b)\<rparr>) bs"

definition invocation_of :: "LoopRequest \<Rightarrow> int \<Rightarrow> ToolCall \<Rightarrow> ToolInvocation" where
  "invocation_of req turn call =
     \<lparr>ti_WorkloadID = lq_WorkloadID req, ti_StepID = lq_StepID req, ti_AttemptID = lq_AttemptID req, ti_Turn = turn,
      ti_Call = cloneCall call\<rparr>"

definition failedExecution ::
  "loop_env \<Rightarrow> LoopRequest \<Rightarrow> ToolInvocation \<Rightarrow> string \<Rightarrow> string \<Rightarrow> error \<Rightarrow> toolExecution" where
  "failedExecution env req iv code message cause =
     \<lparr>tn_output = \<lparr>to_JSON = en_marshal_failure env code message, to_Content = [],
                   to_Classification = lq_ToolErrorClassification req, to_IsError = True\<rparr>,
      tn_failure = Some \<lparr>tf_CallID = tk_ID (ti_Call iv), tf_ToolName = tk_Name (ti_Call iv), tf_Code = code,
                         tf_Message = message, tf_Cause = cause\<rparr>\<rparr>"

definition loop_panic :: error where
  "loop_panic = Error [ErrLoopPanic] ''loop collaborator panicked''"

definition executeTool ::
  "loop_env \<Rightarrow> LoopRequest \<Rightarrow> int \<Rightarrow> (string \<times> compiledTool) list \<Rightarrow> ToolCall \<Rightarrow> toolExecution" where
  "executeTool env req turn tools call =
     (let iv = invocation_of req turn call in
      case map_of tools (tk_Name call) of
        None \<Rightarrow> failedExecution env req iv ''tool_not_found'' ''requested tool is not declared''
                  (Error [ErrLoopToolInput] ''undeclared tool'')
      | Some tool \<Rightarrow>
          (case validateJSON (ct_input tool) (tk_Input call) of
             Some err \<Rightarrow> failedExecution env req iv ''tool_input_invalid'' ''tool input failed schema validation''
                          (wrap_sentinel ErrLoopToolInput err)
           | None \<Rightarrow>
               (case tb_Handler (ct_binding tool) of
                  None \<Rightarrow> failedExecution env req iv ''tool_panicked'' ''tool execution panicked'' loop_panic
                | Some h \<Rightarrow>
                    (case th_Execute h iv of
                       ToolPanics \<Rightarrow> failedExecution env req iv ''tool_panicked'' ''tool execution panicked'' loop_panic
                     | ToolFails err \<Rightarrow>
                         (let (code, message) = NormalizeToolError (Some err)
                          in failedExecution env req iv code message (te_error err))
                     | ToolReturns out \<Rightarrow> \<lparr>tn_output = ToolOutput_Clone out, tn_failure = None\<rparr>))))"

text \<open>The middleware chain: \<open>Inl None\<close> is a panic, \<open>Inl (Some err)\<close> an error.\<close>

fun run_middleware :: "ToolResultMiddleware option list \<Rightarrow> ToolInvocation \<Rightarrow> ToolOutput \<Rightarrow> error option + ToolOutput" where
  "run_middleware [] iv out = Inr out"
| "run_middleware (None # ms) iv out = Inl None"
| "run_middleware (Some m # ms) iv out =
     (case m iv (ToolOutput_Clone out) of
        Panics \<Rightarrow> Inl None | Fails err \<Rightarrow> Inl (Some err) | Answers out' \<Rightarrow> run_middleware ms iv out')"

definition finalizeToolResult ::
  "loop_env \<Rightarrow> LoopRequest \<Rightarrow> int \<Rightarrow> (string \<times> compiledTool) list \<Rightarrow> ToolCall \<Rightarrow> ToolOutput \<Rightarrow> toolExecution" where
  "finalizeToolResult env req turn tools call out =
     (let iv = invocation_of req turn call in
      case run_middleware (lq_Middleware req) iv out of
        Inl None \<Rightarrow> failedExecution env req iv ''tool_result_middleware_panicked''
                      ''tool result processing panicked'' loop_panic
      | Inl (Some err) \<Rightarrow> failedExecution env req iv ''tool_result_middleware_failed'' ''tool result processing failed'' err
      | Inr out \<Rightarrow>
          (case ToolOutput_Validate out of
             Some err \<Rightarrow> failedExecution env req iv ''tool_output_invalid'' ''tool output is invalid''
                          (wrap_sentinel ErrLoopToolOutput err)
           | None \<Rightarrow>
               (case Option.bind (map_of tools (tk_Name call)) ct_output of
                  None \<Rightarrow> \<lparr>tn_output = ToolOutput_Clone out, tn_failure = None\<rparr>
                | Some schema \<Rightarrow>
                    if to_JSON out = []
                    then failedExecution env req iv ''tool_output_invalid'' ''tool output JSON is required''
                           (Error [ErrLoopToolOutput] ''output schema requires JSON'')
                    else case validateJSON schema (to_JSON out) of
                      Some err \<Rightarrow> failedExecution env req iv ''tool_output_invalid'' ''tool output failed schema validation''
                                   (wrap_sentinel ErrLoopToolOutput err)
                    | None \<Rightarrow> \<lparr>tn_output = ToolOutput_Clone out, tn_failure = None\<rparr>)))"

definition finalize_execution ::
  "loop_env \<Rightarrow> LoopRequest \<Rightarrow> int \<Rightarrow> (string \<times> compiledTool) list \<Rightarrow> ToolCall \<Rightarrow> toolExecution \<Rightarrow> toolExecution" where
  "finalize_execution env req turn tools call execution =
     (if tn_failure execution = None then finalizeToolResult env req turn tools call (tn_output execution) else execution)"

text \<open>A loop over the calls that stops at an ended context and returns what it has so far.\<close>

fun batch_loop :: "loop_env \<Rightarrow> ('c \<Rightarrow> toolExecution) \<Rightarrow> 'c list \<Rightarrow> loop_state
    \<Rightarrow> toolExecution list \<times> error option \<times> loop_state" where
  "batch_loop env f [] st = ([], None, st)"
| "batch_loop env f (c # cs) st =
     (case contextResult env st of
        (Some err, st) \<Rightarrow> ([], Some err, st)
      | (None, st) \<Rightarrow> (case batch_loop env f cs st of (rest, err, st) \<Rightarrow> (f c # rest, err, st)))"

definition executeBatch ::
  "loop_env \<Rightarrow> LoopRequest \<Rightarrow> int \<Rightarrow> (string \<times> compiledTool) list \<Rightarrow> ToolCall list \<Rightarrow> loop_state
    \<Rightarrow> toolExecution list \<times> error option \<times> loop_state" where
  "executeBatch env req turn tools calls st =
     (let parallel = lq_ParallelTools req \<and>
            (\<forall>call\<in>set calls. case map_of tools (tk_Name call) of
               None \<Rightarrow> False | Some t \<Rightarrow> tb_ParallelSafe (ct_binding t)) in
      if \<not> parallel
      then batch_loop env
             (\<lambda>call. finalize_execution env req turn tools call (executeTool env req turn tools call)) calls st
      else
        let results = map (executeTool env req turn tools) calls in
        case contextResult env st of
          (Some err, st) \<Rightarrow> (results, Some err, st)
        | (None, st) \<Rightarrow>
            batch_loop env (\<lambda>(call, execution). finalize_execution env req turn tools call execution)
              (zip calls results) st)"

definition outputParts :: "ToolCall \<Rightarrow> ToolOutput \<Rightarrow> ContentPart list" where
  "outputParts call out =
     (if to_JSON out \<noteq> []
      then [\<lparr>cp_Type = ContentToolResult, cp_Classification = to_Classification out, cp_Text = [], cp_MediaType = [],
             cp_ArtifactID = [], cp_ToolCallID = tk_ID call, cp_ToolName = tk_Name call, cp_JSON = [] @ to_JSON out,
             cp_IsError = to_IsError out, cp_Extension = None\<rparr>]
      else []) @
     map (\<lambda>p. p\<lparr>cp_ToolCallID := tk_ID call, cp_ToolName := tk_Name call\<rparr>) (CloneContentParts (to_Content out))"

section \<open>A turn\<close>

fun emit_started :: "LoopSink option \<Rightarrow> int \<Rightarrow> ModelRef \<Rightarrow> ToolCall list \<Rightarrow> unit loop" where
  "emit_started sink turn model [] = proceed ()"
| "emit_started sink turn model (c # cs) =
     andthen (loopEmitter_emit sink ((loop_event LoopEventToolStarted turn model)\<lparr>le_ToolCall := Some c\<rparr>))
       (\<lambda>_. emit_started sink turn model cs)"

fun record_executions :: "LoopSink option \<Rightarrow> int \<Rightarrow> ModelRef \<Rightarrow> (ToolCall \<times> toolExecution) list \<Rightarrow> ContentPart list
    \<Rightarrow> ContentPart list loop" where
  "record_executions sink turn model [] parts = proceed parts"
| "record_executions sink turn model ((call, ex) # rest) parts =
     andthen (update_result (\<lambda>r. case tn_failure ex of None \<Rightarrow> r | Some f \<Rightarrow> r\<lparr>lr_Failures := lr_Failures r @ [f]\<rparr>))
       (\<lambda>_. andthen
          (loopEmitter_emit sink ((loop_event LoopEventToolCompleted turn model)
             \<lparr>le_ToolCall := Some call, le_ToolOutput := Some (tn_output ex),
              le_FailureCode := (case tn_failure ex of None \<Rightarrow> [] | Some f \<Rightarrow> tf_Code f)\<rparr>))
          (\<lambda>_. record_executions sink turn model rest (parts @ outputParts call (tn_output ex))))"

definition select_turn :: "loop_env \<Rightarrow> LoopRequest \<Rightarrow> int \<Rightarrow> TurnSelection loop" where
  "select_turn env req turn st =
     (let context = \<lparr>tx_WorkloadID = lq_WorkloadID req, tx_StepID = lq_StepID req, tx_AttemptID = lq_AttemptID req,
            tx_Turn = turn, tx_Messages = CloneMessages (lr_Messages (ls_result st)), tx_Usage = lr_Usage (ls_result st)\<rparr> in
      case lq_Selector req of
        None \<Rightarrow> (Crash, st)
      | Some select \<Rightarrow>
          (case select context of
             Panics \<Rightarrow> (Crash, st)
           | Fails err \<Rightarrow> fail_after env err st
           | Answers selection \<Rightarrow> (Next selection, st)))"

text \<open>The body of the \<open>for\<close> loop in four stretches, in the source's order.\<close>

definition begin_turn :: "loop_env \<Rightarrow> LoopRequest \<Rightarrow> int \<Rightarrow> (Provider \<times> ModelRef) loop" where
  "begin_turn env req turn =
     andthen (\<lambda>st. (Next (), st\<lparr>ls_turn := turn\<rparr>)) (\<lambda>_.
     andthen (check_context env) (\<lambda>_.
     andthen (\<lambda>st. if lr_ModelCalls (ls_result st) \<ge> bg_MaxModelCalls (lq_Budget req)
                   then budgetFailure ''model_calls'' st else (Next (), st)) (\<lambda>_.
     andthen (select_turn env req turn) (\<lambda>selection.
     (case ts_Provider selection of
        None \<Rightarrow> (\<lambda>st. (Exit (Some (errorf ''turn selector returned a nil provider'')), st))
      | Some provider \<Rightarrow>
          andthen (fail_with (map_option (wrapf ''selected model'') (ModelRef_Validate (ts_Model selection)))) (\<lambda>_.
          andthen (fail_with (fail_if (blank (pv_Name provider)) ''selected provider name is empty'')) (\<lambda>_.
          andthen (\<lambda>st. (Next (), st\<lparr>ls_model := ts_Model selection\<rparr>)) (\<lambda>_.
          andthen (update_result (\<lambda>r. case ts_Messages selection of
              None \<Rightarrow> r | Some ms \<Rightarrow> r\<lparr>lr_Messages := CloneMessages ms\<rparr>)) (\<lambda>_.
          andthen (loopEmitter_emit (lq_Sink req) (loop_event LoopEventTurnStarted turn (ts_Model selection))) (\<lambda>_.
          proceed (provider, ts_Model selection)))))))))))"

definition call_model :: "loop_env \<Rightarrow> LoopRequest \<Rightarrow> int \<Rightarrow> Provider \<Rightarrow> ModelRef \<Rightarrow> turnData loop" where
  "call_model env req turn provider model =
     andthen (update_result (\<lambda>r. r\<lparr>lr_ModelCalls := lr_ModelCalls r + 1\<rparr>)) (\<lambda>_.
     andthen (\<lambda>st. case pv_Stream provider
                   ((CloneModelRequest (lq_Initial req))
                      \<lparr>mq_Model := model, mq_Messages := CloneMessages (lr_Messages (ls_result st)),
                       mq_Tools := toolDefinitions (lq_Tools req)\<rparr>) of
                   Panics \<Rightarrow> (Crash, st)
                 | Fails err \<Rightarrow> fail_after env err st
                 | Answers stream \<Rightarrow> (Next stream, st)) (\<lambda>stream.
     consumeTurn env req stream turn model))"

definition record_answer :: "LoopRequest \<Rightarrow> int \<Rightarrow> ModelRef \<Rightarrow> turnData \<Rightarrow> unit loop" where
  "record_answer req turn model data =
     andthen (assistantMessage data (lq_ModelOutputClassification req)) (\<lambda>assistant.
     andthen (case assistant of
                None \<Rightarrow> proceed ()
              | Some m \<Rightarrow>
                  andthen (update_result (\<lambda>r. r\<lparr>lr_Messages := lr_Messages r @ [m]\<rparr>)) (\<lambda>_.
                    loopEmitter_emit (lq_Sink req)
                      ((loop_event LoopEventMessageAppended turn model)\<lparr>le_Message := Some m\<rparr>))) (\<lambda>_.
     andthen (case da_modelErr data of
                None \<Rightarrow> proceed ()
              | Some e \<Rightarrow> (\<lambda>st. (Exit (Some (errorf (''model '' @ me_Code e @ '': '' @ me_Message e))), st))) (\<lambda>_.
     andthen (update_result (\<lambda>r. r\<lparr>lr_Stop := da_stop data\<rparr>)) (\<lambda>_.
     (\<lambda>st. if da_stop data \<noteq> StopToolUse then (Exit None, st) else (Next (), st))))))"

definition run_tools ::
  "loop_env \<Rightarrow> LoopRequest \<Rightarrow> (string \<times> compiledTool) list \<Rightarrow> int \<Rightarrow> ModelRef \<Rightarrow> ToolCall list \<Rightarrow> unit loop" where
  "run_tools env req tools turn model calls =
     andthen (fail_with (if calls = []
        then Some (Error [ErrLoopStream] ''tool-use stop contained no completed tool call'') else None)) (\<lambda>_.
     andthen (\<lambda>st. if wrap64 (lr_ToolCalls (ls_result st) + int (length calls)) > bg_MaxToolCalls (lq_Budget req)
                   then budgetFailure ''tool_calls'' st else (Next (), st)) (\<lambda>_.
     andthen (update_result (\<lambda>r. r\<lparr>lr_ToolCalls := wrap64 (lr_ToolCalls r + int (length calls))\<rparr>)) (\<lambda>_.
     andthen (emit_started (lq_Sink req) turn model calls) (\<lambda>_.
     andthen (\<lambda>st. case executeBatch env req turn tools calls st of
                     (executions, batchErr, st) \<Rightarrow> (Next (executions, batchErr), st)) (\<lambda>(executions, batchErr).
     andthen (record_executions (lq_Sink req) turn model (zip calls executions) []) (\<lambda>parts.
     andthen (fail_with batchErr) (\<lambda>_.
     let toolMessage = \<lparr>mg_Role = RoleTool, mg_Content = parts\<rparr> in
     andthen (fail_with (map_option (wrapf ''assembled tool message'') (Message_Validate toolMessage))) (\<lambda>_.
     andthen (update_result (\<lambda>r. r\<lparr>lr_Messages := lr_Messages r @ [toolMessage]\<rparr>)) (\<lambda>_.
     andthen (loopEmitter_emit (lq_Sink req)
                ((loop_event LoopEventMessageAppended turn model)\<lparr>le_Message := Some toolMessage\<rparr>)) (\<lambda>_.
     (\<lambda>st. loopEmitter_emit (lq_Sink req)
                ((loop_event LoopEventCheckpoint turn model)\<lparr>le_Checkpoint := Some (LoopResult_Clone (ls_result st))\<rparr>)
                st)))))))))))"

definition run_turn :: "loop_env \<Rightarrow> LoopRequest \<Rightarrow> (string \<times> compiledTool) list \<Rightarrow> int \<Rightarrow> unit loop" where
  "run_turn env req tools turn =
     andthen (begin_turn env req turn) (\<lambda>(provider, model).
     andthen (call_model env req turn provider model) (\<lambda>data.
     andthen (record_answer req turn model data) (\<lambda>_.
     run_tools env req tools turn model (da_calls data))))"

end
