(* ===== verification/LoopLogic.thy ===== *)
theory LoopLogic
  imports LoopEngine
begin

text \<open>
  Reasoning about the turn loop of src/loop/engine.go: triples over its steps with separate
  postconditions for going on and for leaving the loop, and the locale \<open>loop_invariant\<close>, in which the
  preservation of an invariant by a whole turn is proved once from laws about the elementary updates.
  The first interpretation counts model calls and gives the loop its termination measure.
\<close>

section \<open>Triples\<close>

text \<open>
  \<open>triple P m Q E\<close>: from a state with \<open>P\<close>, the step goes on in \<open>Q\<close> with its value, or leaves the
  loop in a state with \<open>E\<close>, which is told the error of the return (\<open>None\<close> for a panic).
\<close>

fun ends :: "('a \<Rightarrow> loop_state \<Rightarrow> bool) \<Rightarrow> (error option option \<Rightarrow> loop_state \<Rightarrow> bool) \<Rightarrow> 'a outcome \<times> loop_state \<Rightarrow> bool" where
  "ends Q E (Next a, st) = Q a st"
| "ends Q E (Exit err, st) = E (Some err) st"
| "ends Q E (Crash, st) = E None st"

definition triple :: "(loop_state \<Rightarrow> bool) \<Rightarrow> 'a loop \<Rightarrow> ('a \<Rightarrow> loop_state \<Rightarrow> bool) \<Rightarrow>
    (error option option \<Rightarrow> loop_state \<Rightarrow> bool) \<Rightarrow> bool" where
  "triple P m Q E \<longleftrightarrow> (\<forall>st. P st \<longrightarrow> ends Q E (m st))"

lemma tripleI: "(\<And>st. P st \<Longrightarrow> ends Q E (m st)) \<Longrightarrow> triple P m Q E"
  by (simp add: triple_def)

lemma tripleD: "triple P m Q E \<Longrightarrow> P st \<Longrightarrow> ends Q E (m st)"
  by (simp add: triple_def)

lemma triple_andthen:
  assumes "triple P m Q E" "\<And>a. triple (Q a) (f a) R E"
  shows "triple P (andthen m f) R E"
proof (rule tripleI)
  fix st assume "P st"
  then have "ends Q E (m st)" by (rule tripleD [OF assms(1)])
  then show "ends R E (andthen m f st)"
    by (cases "m st"; cases "fst (m st)") (auto simp: andthen_def dest: tripleD [OF assms(2)])
qed

lemma triple_weaken:
  assumes "triple P m Q E" "\<And>st. P' st \<Longrightarrow> P st" "\<And>a st. Q a st \<Longrightarrow> Q' a st"
  shows "triple P' m Q' E"
proof (rule tripleI)
  fix st assume "P' st"
  then have "ends Q E (m st)" using assms by (blast intro: tripleD)
  then show "ends Q' E (m st)" by (cases "m st"; cases "fst (m st)") (auto intro: assms(3))
qed

lemma triple_leave:
  "(\<And>st. P st \<Longrightarrow> E (Some err) st) \<Longrightarrow> triple P (\<lambda>st. (Exit err, st)) Q E"
  "(\<And>st. P st \<Longrightarrow> E None st) \<Longrightarrow> triple P (\<lambda>st. (Crash, st)) Q E"
  by (simp_all add: triple_def)

lemma triple_proceed: "(\<And>st. P st \<Longrightarrow> Q a st) \<Longrightarrow> triple P (proceed a) Q E"
  by (simp add: triple_def proceed_def)

lemma triple_pre: "(\<And>st. P st \<Longrightarrow> triple (\<lambda>x. x = st) m Q E) \<Longrightarrow> triple P m Q E"
  by (simp add: triple_def)

text \<open>\<open>consume\<close> as a composition of steps.\<close>

lemma consume_unfold:
  "consume env req turn model recv i v data =
     andthen (check_context env) (\<lambda>_.
       case recv i of
         Panics \<Rightarrow> (\<lambda>st. (Crash, st))
       | Fails err \<Rightarrow>
           if errors_Is err ErrEOF
           then (case Complete v of
                   Some e \<Rightarrow> (\<lambda>st. (Exit (Some (wrap_sentinel ErrLoopStream e)), st)) | None \<Rightarrow> proceed data)
           else fail_after env err
       | Answers e \<Rightarrow>
           (case Accept v e of
              (_, Some err) \<Rightarrow> (\<lambda>st. (Exit (Some (wrap_sentinel ErrLoopStream err)), st))
            | (v', None) \<Rightarrow>
                andthen (loopEmitter_emit (lq_Sink req)
                  ((loop_event LoopEventModel turn model)\<lparr>le_ModelEvent := Some e\<rparr>)) (\<lambda>_.
                andthen (take_event (lq_Budget req) e data) (\<lambda>data.
                consume env req turn model recv (Suc i) v' data))))"
  by (rule ext, subst consume.simps)
     (auto simp: andthen_def proceed_def split: prod.splits outcome.splits answer.splits option.splits)

section \<open>Invariants of the loop\<close>

text \<open>
  What an invariant of the loop may depend on: the counters, the usage, the emitted events and the
  tool-call identifiers taken. \<open>Inv n\<close> is the invariant with \<open>n\<close> model calls made, \<open>Ready calls\<close>
  what holds of calls that may be started, \<open>Out ok\<close> what is left when the loop returns, \<open>ok\<close> telling
  whether it returns without an error. The laws speak of the elementary updates.
\<close>

definition core :: "loop_state \<Rightarrow> int \<times> int \<times> Usage \<times> 64 word \<times> LoopEvent list \<times> string list \<times> bool" where
  "core st =
     (lr_ModelCalls (ls_result st), lr_ToolCalls (ls_result st), lr_Usage (ls_result st), ls_sequence st,
      ls_trace st, ls_ids st, ls_failed st)"

definition emitted :: "LoopEvent \<Rightarrow> loop_state \<Rightarrow> loop_state" where
  "emitted e st =
     st\<lparr>ls_sequence := ls_sequence st + 1, ls_trace := ls_trace st @ [e\<lparr>le_Sequence := ls_sequence st + 1\<rparr>]\<rparr>"

definition with_result :: "(LoopResult \<Rightarrow> LoopResult) \<Rightarrow> loop_state \<Rightarrow> loop_state" where
  "with_result f st = st\<lparr>ls_result := f (ls_result st)\<rparr>"

definition started_event :: "int \<Rightarrow> ModelRef \<Rightarrow> ToolCall \<Rightarrow> LoopEvent" where
  "started_event turn model c = (loop_event LoopEventToolStarted turn model)\<lparr>le_ToolCall := Some c\<rparr>"

definition one_more_call :: "LoopResult \<Rightarrow> LoopResult" where
  "one_more_call r = r\<lparr>lr_ModelCalls := lr_ModelCalls r + 1\<rparr>"

definition more_tools :: "ToolCall list \<Rightarrow> LoopResult \<Rightarrow> LoopResult" where
  "more_tools cs r = r\<lparr>lr_ToolCalls := wrap64 (lr_ToolCalls r + int (length cs))\<rparr>"

text \<open>Steps that leave the core of the state alone.\<close>

definition framed :: "'a loop \<Rightarrow> bool" where
  "framed m \<longleftrightarrow> (\<forall>st. core (snd (m st)) = core st)"

lemma contextResult_core: "contextResult env st = (r, st') \<Longrightarrow> core st' = core st"
  by (auto simp: contextResult_def Let_def core_def split: option.splits if_splits)

lemma check_context_framed: "framed (check_context env)"
  by (auto simp: framed_def check_context_def split: prod.splits option.splits dest: contextResult_core)

lemma fail_after_framed: "framed (fail_after env err)"
  by (auto simp: framed_def fail_after_def split: prod.splits option.splits dest: contextResult_core)

lemma select_turn_framed: "framed (select_turn env req turn)"
  using fail_after_framed [unfolded framed_def]
  by (auto simp: framed_def select_turn_def Let_def split: option.splits answer.splits)

lemma simple_framed:
  "framed (Pair r)" "framed (proceed a)" "framed (fail_with err)" "framed (budgetFailure kind)"
  "framed (\<lambda>st. (Next (), st\<lparr>ls_turn := turn\<rparr>))" "framed (\<lambda>st. (Next (), st\<lparr>ls_model := model\<rparr>))"
  by (auto simp: framed_def proceed_def fail_with_def budgetFailure_def core_def)

lemma update_framed:
  assumes "\<And>r. lr_ModelCalls (f r) = lr_ModelCalls r \<and> lr_ToolCalls (f r) = lr_ToolCalls r \<and> lr_Usage (f r) = lr_Usage r"
  shows "framed (update_result f)"
  using assms by (auto simp: framed_def update_result_def core_def)

lemmas framed_steps = check_context_framed fail_after_framed select_turn_framed simple_framed

text \<open>An emission is recorded; a sink that refuses it marks the emitter as failed and ends the run.\<close>

lemma emit_cases:
  obtains (kept) r st' where "loopEmitter_emit sink e st = (r, st')" "core st' = core (emitted e st)"
  | (refused) record_event err st' where "sink = Some record_event"
      "record_event (last (ls_trace (emitted e st))) = Fails err"
      "loopEmitter_emit sink e st = (Exit (Some (wrapf ''loop sink'' err)), st')"
      "core st' = core ((emitted e st)\<lparr>ls_failed := True\<rparr>)"
  by (cases "loopEmitter_emit sink e st")
     (auto simp: loopEmitter_emit_def emitted_def core_def Let_def split: option.splits answer.splits)

lemma batch_loop_core: "batch_loop env f cs st = (rs, err, st') \<Longrightarrow> core st' = core st"
  by (induction cs arbitrary: st rs)
     (auto split: prod.splits option.splits dest!: contextResult_core)

lemma executeBatch_core: "executeBatch env req turn tools calls st = (rs, err, st') \<Longrightarrow> core st' = core st"
  by (auto simp: executeBatch_def Let_def split: if_splits prod.splits option.splits dest!: contextResult_core batch_loop_core)

locale loop_invariant =
  fixes req :: LoopRequest
    and Inv :: "int \<Rightarrow> loop_state \<Rightarrow> bool"
    and Ready :: "ToolCall list \<Rightarrow> loop_state \<Rightarrow> bool"
    and Out :: "bool \<Rightarrow> loop_state \<Rightarrow> bool"
  assumes calls: "Inv n st \<Longrightarrow> lr_ModelCalls (ls_result st) = n"
    and frame: "Inv n st \<Longrightarrow> core st' = core st \<Longrightarrow> Inv n st'"
    and ready_frame: "Ready cs st \<Longrightarrow> core st' = core st \<Longrightarrow> Ready cs st'"
    and out: "Inv n st \<Longrightarrow> Out ok st"
    and out_mono: "Out True st \<Longrightarrow> Out False st"
    and out_frame: "Out ok st \<Longrightarrow> core st' = core st \<Longrightarrow> Out ok st'"
    and refuse: "Inv n st \<Longrightarrow> ls_trace st \<noteq> [] \<Longrightarrow> lq_Sink req = Some record_event \<Longrightarrow>
      record_event (last (ls_trace st)) = Fails cause \<Longrightarrow> Out False (st\<lparr>ls_failed := True\<rparr>)"
    and emit: "Inv n st \<Longrightarrow> le_Type e \<noteq> LoopEventStopped \<Longrightarrow> le_Type e \<noteq> LoopEventToolStarted \<Longrightarrow> Inv n (emitted e st)"
    and ready_emit: "Ready cs st \<Longrightarrow> le_Type e \<noteq> LoopEventToolStarted \<Longrightarrow> Ready cs (emitted e st)"
    and start: "Inv n st \<Longrightarrow> Ready (c # cs) st \<Longrightarrow>
      Inv n (emitted (started_event turn model c) st) \<and> Ready cs (emitted (started_event turn model c) st)"
    and take: "Inv n st \<Longrightarrow> take_ids (ls_ids st) cs = (err, seen) \<Longrightarrow> Inv n (st\<lparr>ls_ids := seen\<rparr>)"
    and take_ready: "Inv n st \<Longrightarrow> take_ids (ls_ids st) cs = (None, seen) \<Longrightarrow> Ready cs (st\<lparr>ls_ids := seen\<rparr>)"
    and call: "Inv n st \<Longrightarrow> n < bg_MaxModelCalls (lq_Budget req) \<Longrightarrow> Inv (n + 1) (with_result one_more_call st)"
    and tool_calls: "Inv n st \<Longrightarrow> Ready cs st \<Longrightarrow>
      wrap64 (lr_ToolCalls (ls_result st) + int (length cs)) \<le> bg_MaxToolCalls (lq_Budget req) \<Longrightarrow>
      Inv n (with_result (more_tools cs) st) \<and> Ready cs (with_result (more_tools cs) st)"
    and usage: "Inv n st \<Longrightarrow> addUsage (lr_Usage (ls_result st)) u = (t, err) \<Longrightarrow>
      if err = None \<and> exceededUsage t (lq_Budget req) = [] then Inv n (with_result (\<lambda>r. r\<lparr>lr_Usage := t\<rparr>) st)
      else Out False (with_result (\<lambda>r. r\<lparr>lr_Usage := t\<rparr>) st)"
begin

definition leaves :: "error option option \<Rightarrow> loop_state \<Rightarrow> bool" where
  "leaves r st \<longleftrightarrow> Out (r = Some None) st"

lemma out_any: "Out a st \<Longrightarrow> (b \<Longrightarrow> a) \<Longrightarrow> Out b st"
  by (cases a; cases b) (auto intro: out_mono)

lemma leaves_Inv: "Inv n st \<Longrightarrow> leaves r st"
  by (simp add: leaves_def out)

lemma endsI_core: "Inv n x \<Longrightarrow> core (snd p) = core x \<Longrightarrow> ends (\<lambda>_. Inv n) leaves p"
  by (cases p; cases "fst p") (auto intro: frame leaves_Inv)

lemma endsI_core_ready:
  "Inv n x \<Longrightarrow> Ready cs x \<Longrightarrow> core (snd p) = core x \<Longrightarrow> ends (\<lambda>_ st. Inv n st \<and> Ready cs st) leaves p"
  by (cases p; cases "fst p") (auto intro: frame ready_frame leaves_Inv)

lemma keep_andthen:
  "triple (Inv n) m (\<lambda>_. Inv n) leaves \<Longrightarrow> (\<And>a. triple (Inv n) (f a) R leaves) \<Longrightarrow> triple (Inv n) (andthen m f) R leaves"
  by (rule triple_andthen)

lemma keep_andthen_ready:
  "triple (\<lambda>st. Inv n st \<and> Ready cs st) m (\<lambda>_ st. Inv n st \<and> Ready cs st) leaves \<Longrightarrow>
   (\<And>a. triple (\<lambda>st. Inv n st \<and> Ready cs st) (f a) R leaves) \<Longrightarrow>
   triple (\<lambda>st. Inv n st \<and> Ready cs st) (andthen m f) R leaves"
  by (rule triple_andthen)

lemma triple_frame: "framed m \<Longrightarrow> triple (Inv n) m (\<lambda>_. Inv n) leaves"
  by (auto simp: framed_def intro!: tripleI intro: endsI_core)

lemma triple_frame_ready:
  "framed m \<Longrightarrow> triple (\<lambda>st. Inv n st \<and> Ready cs st) m (\<lambda>_ st. Inv n st \<and> Ready cs st) leaves"
  by (auto simp: framed_def intro!: tripleI intro: endsI_core_ready)

lemma update_triple:
  assumes "\<And>r. lr_ModelCalls (f r) = lr_ModelCalls r \<and> lr_ToolCalls (f r) = lr_ToolCalls r \<and> lr_Usage (f r) = lr_Usage r"
  shows "triple (Inv n) (update_result f) (\<lambda>_. Inv n) leaves"
    "triple (\<lambda>st. Inv n st \<and> Ready cs st) (update_result f) (\<lambda>_ st. Inv n st \<and> Ready cs st) leaves"
  by (rule triple_frame triple_frame_ready, rule update_framed, rule assms)+

lemmas frame_triples = framed_steps [THEN triple_frame]

lemmas frame_triples_ready = framed_steps [THEN triple_frame_ready]

lemma emit_ends:
  assumes "Inv n (emitted e st)"
  shows "ends (\<lambda>_. Inv n) leaves (loopEmitter_emit (lq_Sink req) e st)"
proof (rule emit_cases [of "lq_Sink req" e st])
  show ?thesis if "lq_Sink req = Some record_event" "record_event (last (ls_trace (emitted e st))) = Fails err"
      "loopEmitter_emit (lq_Sink req) e st = (Exit (Some (wrapf ''loop sink'' err)), st')"
      "core st' = core ((emitted e st)\<lparr>ls_failed := True\<rparr>)" for record_event err st'
    using refuse [OF assms _ that(1,2)] that by (auto simp: leaves_def emitted_def intro: out_frame)
qed (use assms in \<open>auto intro!: endsI_core\<close>)

lemma emit_ready_ends:
  assumes "Inv n (emitted e st)" "Ready cs (emitted e st)"
  shows "ends (\<lambda>_ st. Inv n st \<and> Ready cs st) leaves (loopEmitter_emit (lq_Sink req) e st)"
proof (rule emit_cases [of "lq_Sink req" e st])
  show ?thesis if "loopEmitter_emit (lq_Sink req) e st = (Exit (Some (wrapf ''loop sink'' err)), st')" for err st'
    using emit_ends [OF assms(1)] that by simp
qed (use assms in \<open>auto intro!: endsI_core_ready\<close>)

lemma emit_triple:
  assumes "le_Type e \<noteq> LoopEventStopped" "le_Type e \<noteq> LoopEventToolStarted"
  shows "triple (Inv n) (loopEmitter_emit (lq_Sink req) e) (\<lambda>_. Inv n) leaves"
    "triple (\<lambda>st. Inv n st \<and> Ready cs st) (loopEmitter_emit (lq_Sink req) e) (\<lambda>_ st. Inv n st \<and> Ready cs st) leaves"
  using assms by (auto intro!: tripleI emit_ends emit_ready_ends intro: emit ready_emit)

lemma start_triple:
  "triple (\<lambda>st. Inv n st \<and> Ready (c # cs) st) (loopEmitter_emit (lq_Sink req) (started_event turn model c))
     (\<lambda>_ st. Inv n st \<and> Ready cs st) leaves"
  by (auto intro!: tripleI emit_ready_ends dest: start)

lemma emit_started_triple:
  "triple (\<lambda>st. Inv n st \<and> Ready cs st) (emit_started (lq_Sink req) turn model cs) (\<lambda>_. Inv n) leaves"
proof (induction cs)
  case Nil
  show ?case by (auto intro: triple_proceed)
next
  case (Cons c cs)
  then show ?case
    using triple_andthen [OF start_triple [of n c cs turn model], of "\<lambda>_. emit_started (lq_Sink req) turn model cs"]
    by (simp add: started_event_def)
qed

lemma usage_ends:
  assumes "Inv n st"
  shows "ends (\<lambda>_. Inv n) leaves (take_event (lq_Budget req) e d st)"
proof (cases "mv_Type e = ModelEventUsage")
  case True
  obtain t err where add: "addUsage (lr_Usage (ls_result st)) (mv_Usage e) = (t, err)" by fastforce
  show ?thesis
    using usage [OF assms add] True add
    by (auto simp: take_event_def Let_def with_result_def leaves_def core_def split: if_splits intro: out_frame)
next
  case False
  then show ?thesis
    using assms by (auto simp: take_event_def split: ModelEventType.splits option.splits intro: leaves_Inv)
qed

lemma take_event_triple: "triple (Inv n) (take_event (lq_Budget req) e d) (\<lambda>_. Inv n) leaves"
  by (rule tripleI) (rule usage_ends)

lemma consume_triple:
  "triple (Inv n) (consume env req turn model recv i v d) (\<lambda>_. Inv n) leaves"
proof (induction "2 ^ 64 - unat (sv_lastSequence v)" arbitrary: i v d rule: less_induct)
  case less
  have rec: "triple (Inv n) (consume env req turn model recv j v' d') (\<lambda>_. Inv n) leaves"
    if "Accept v e = (v', None)" for j v' d' e
    using less Accept_measure [OF that] by blast
  have "triple (Inv n)
      (andthen (loopEmitter_emit (lq_Sink req) ((loop_event LoopEventModel turn model)\<lparr>le_ModelEvent := Some e\<rparr>)) (\<lambda>_.
       andthen (take_event (lq_Budget req) e d) (\<lambda>d. consume env req turn model recv (Suc i) v' d))) (\<lambda>_. Inv n) leaves"
    if "Accept v e = (v', None)" for e v'
    by (intro keep_andthen emit_triple take_event_triple rec [OF that]) (simp_all add: loop_event_def)
  then show ?case
    by (subst consume_unfold, intro keep_andthen [OF triple_frame [OF check_context_framed]])
       (auto intro: triple_frame framed_steps split: answer.splits option.splits prod.splits)
qed

lemma consumeTurn_triple: "triple (Inv n) (consumeTurn env req stream turn model) (\<lambda>_. Inv n) leaves"
proof (rule tripleI)
  fix st assume "Inv n st"
  moreover from this have "ends (\<lambda>_. Inv n) leaves (consume env req turn model recv i v d st)" for recv i v d
    by (rule tripleD [OF consume_triple])
  ultimately show "ends (\<lambda>_. Inv n) leaves (consumeTurn env req stream turn model st)"
  proof (cases stream)
    case (Some s)
    define r where "r = consume env req turn model (sm_Recv s) 0 zero_validator no_data st"
    have "ends (\<lambda>_. Inv n) leaves r" unfolding r_def using \<open>Inv n st\<close> by (rule tripleD [OF consume_triple])
    then show ?thesis
      unfolding consumeTurn_def Some option.case r_def [symmetric]
      by (cases r; cases "fst r") (auto simp: leaves_def intro: out elim: out_any split: option.splits)
  qed (auto simp: consumeTurn_def intro: leaves_Inv)
qed

lemma assistantMessage_triple:
  "triple (Inv n) (assistantMessage d class) (\<lambda>_ st. Inv n st \<and> Ready (da_calls d) st) leaves"
proof (rule tripleI)
  fix st assume inv: "Inv n st"
  obtain err seen where ids: "take_ids (ls_ids st) (da_calls d) = (err, seen)" by fastforce
  show "ends (\<lambda>_ st. Inv n st \<and> Ready (da_calls d) st) leaves (assistantMessage d class st)"
    using take [OF inv ids] take_ready [OF inv] ids
    by (auto simp: assistantMessage_def Let_def intro: leaves_Inv split: option.splits)
qed

lemma record_executions_triple:
  "triple (Inv n) (record_executions (lq_Sink req) turn model rest parts) (\<lambda>_. Inv n) leaves"
proof (induction rest arbitrary: parts)
  case (Cons a rest)
  then show ?case
    by (cases a)
       (auto intro!: keep_andthen update_triple emit_triple simp: loop_event_def split: option.splits)
qed (auto intro: frame_triples)

lemma executeBatch_triple:
  "triple (Inv n) (\<lambda>st. case executeBatch env req turn tools cs st of (ex, err, st) \<Rightarrow> (Next (ex, err), st))
     (\<lambda>_. Inv n) leaves"
  by (auto simp: triple_def dest!: executeBatch_core intro: frame split: prod.splits)

lemma within_triple:
  "triple (Inv n)
     (\<lambda>st. if lr_ModelCalls (ls_result st) \<ge> bg_MaxModelCalls (lq_Budget req)
           then budgetFailure ''model_calls'' st else (Next (), st))
     (\<lambda>_ st. Inv n st \<and> n < bg_MaxModelCalls (lq_Budget req)) leaves"
  using triple_frame [OF simple_framed(4), THEN tripleD]
  by (auto simp: triple_def budgetFailure_def core_def leaves_def dest: calls intro: out frame out_frame)

lemma keep_bounded:
  "triple (Inv n) m (\<lambda>_. Inv n) leaves \<Longrightarrow> triple (\<lambda>st. Inv n st \<and> P) m (\<lambda>_ st. Inv n st \<and> P) leaves"
  by (cases P) (auto simp: triple_def)

lemma bounded_andthen:
  "triple (Inv n) m (\<lambda>_. Inv n) leaves \<Longrightarrow> (\<And>a. triple (\<lambda>st. Inv n st \<and> P) (f a) R leaves) \<Longrightarrow>
   triple (\<lambda>st. Inv n st \<and> P) (andthen m f) R leaves"
  by (rule triple_andthen [OF keep_bounded])

lemma begin_turn_triple:
  "triple (Inv n) (begin_turn env req turn) (\<lambda>_ st. Inv n st \<and> n < bg_MaxModelCalls (lq_Budget req)) leaves"
  unfolding begin_turn_def
  by (rule keep_andthen, rule frame_triples, rule keep_andthen, rule frame_triples, rule triple_andthen, rule within_triple,
      rule bounded_andthen, rule frame_triples)
     (auto intro!: bounded_andthen keep_bounded keep_andthen frame_triples update_triple emit_triple
           simp: loop_event_def split: option.splits)

lemma call_model_triple:
  "triple (\<lambda>st. Inv n st \<and> n < bg_MaxModelCalls (lq_Budget req)) (call_model env req turn provider model)
     (\<lambda>_. Inv (n + 1)) leaves"
proof -
  have count: "triple (\<lambda>st. Inv n st \<and> n < bg_MaxModelCalls (lq_Budget req))
      (update_result (\<lambda>r. r\<lparr>lr_ModelCalls := lr_ModelCalls r + 1\<rparr>)) (\<lambda>_. Inv (n + 1)) leaves"
    using call by (auto simp: triple_def update_result_def with_result_def one_more_call_def)
  have stream: "triple (Inv m)
      (\<lambda>st. case pv_Stream provider (q st) of
              Panics \<Rightarrow> (Crash, st) | Fails err \<Rightarrow> fail_after env err st | Answers stream \<Rightarrow> (Next stream, st))
      (\<lambda>_. Inv m) leaves" for m and q :: "loop_state \<Rightarrow> ModelRequest"
    by (intro triple_frame)
       (simp add: framed_def fail_after_framed [unfolded framed_def, rule_format] split: answer.split)
  show ?thesis
    unfolding call_model_def by (intro triple_andthen [OF count] keep_andthen [OF stream] consumeTurn_triple)
qed

lemma record_answer_triple:
  "triple (Inv n) (record_answer req turn model d) (\<lambda>_ st. Inv n st \<and> Ready (da_calls d) st) leaves"
proof -
  have stop: "triple (\<lambda>st. Inv n st \<and> Ready cs st) (\<lambda>st. if b then (Exit None, st) else (Next (), st))
      (\<lambda>_ st. Inv n st \<and> Ready cs st) leaves" for b cs
    by (auto simp: triple_def intro: leaves_Inv)
  show ?thesis
    unfolding record_answer_def
    by (rule triple_andthen, rule assistantMessage_triple)
       (auto intro!: keep_andthen_ready frame_triples_ready update_triple emit_triple stop
             simp: loop_event_def split: option.splits)
qed

lemma run_tools_triple:
  "triple (\<lambda>st. Inv n st \<and> Ready cs st) (run_tools env req tools turn model cs) (\<lambda>_. Inv n) leaves"
proof -
  let ?room = "\<lambda>st. wrap64 (lr_ToolCalls (ls_result st) + int (length cs)) \<le> bg_MaxToolCalls (lq_Budget req)"
  have guard: "triple (\<lambda>st. Inv n st \<and> Ready cs st)
      (\<lambda>st. if wrap64 (lr_ToolCalls (ls_result st) + int (length cs)) > bg_MaxToolCalls (lq_Budget req)
            then budgetFailure ''tool_calls'' st else (Next (), st))
      (\<lambda>_ st. (Inv n st \<and> Ready cs st) \<and> ?room st) leaves"
    by (auto simp: triple_def budgetFailure_def leaves_def core_def intro: out out_frame)
  have count: "triple (\<lambda>st. (Inv n st \<and> Ready cs st) \<and> ?room st)
      (update_result (\<lambda>r. r\<lparr>lr_ToolCalls := wrap64 (lr_ToolCalls r + int (length cs))\<rparr>))
      (\<lambda>_ st. Inv n st \<and> Ready cs st) leaves"
    using tool_calls by (auto simp: triple_def update_result_def with_result_def more_tools_def)
  have checkpoint: "triple (Inv n)
      (\<lambda>st. loopEmitter_emit (lq_Sink req)
        ((loop_event LoopEventCheckpoint turn model)\<lparr>le_Checkpoint := Some (LoopResult_Clone (ls_result st))\<rparr>) st)
      (\<lambda>_. Inv n) leaves"
    by (rule tripleI, rule tripleD [OF emit_triple(1)]) (simp_all add: loop_event_def)
  note checkpoint = this [unfolded loop_event_def]
  show ?thesis
    unfolding run_tools_def Let_def
    by (rule keep_andthen_ready, rule frame_triples_ready, rule triple_andthen, rule guard, rule triple_andthen, rule count,
        rule triple_andthen, rule emit_started_triple, rule keep_andthen, rule executeBatch_triple)
       (auto intro!: keep_andthen record_executions_triple frame_triples update_triple emit_triple
             checkpoint [simplified] simp: loop_event_def)
qed

theorem run_turn_triple:
  "triple (Inv n) (run_turn env req tools turn)
     (\<lambda>_ st. Inv (n + 1) st \<and> n < bg_MaxModelCalls (lq_Budget req)) leaves"
proof -
  have "triple (\<lambda>st. Inv n st \<and> n < bg_MaxModelCalls (lq_Budget req))
      (andthen (call_model env req turn provider model) (\<lambda>d.
       andthen (record_answer req turn model d) (\<lambda>_. run_tools env req tools turn model (da_calls d))))
      (\<lambda>_ st. Inv (n + 1) st \<and> n < bg_MaxModelCalls (lq_Budget req)) leaves" for provider model
  proof (rule triple_pre)
    fix st assume st: "Inv n st \<and> n < bg_MaxModelCalls (lq_Budget req)"
    have "triple (\<lambda>st. Inv n st \<and> n < bg_MaxModelCalls (lq_Budget req))
      (andthen (call_model env req turn provider model) (\<lambda>d.
       andthen (record_answer req turn model d) (\<lambda>_. run_tools env req tools turn model (da_calls d))))
      (\<lambda>_. Inv (n + 1)) leaves"
      by (rule triple_andthen [OF call_model_triple triple_andthen [OF record_answer_triple run_tools_triple]])
    then show "triple (\<lambda>x. x = st)
      (andthen (call_model env req turn provider model) (\<lambda>d.
       andthen (record_answer req turn model d) (\<lambda>_. run_tools env req tools turn model (da_calls d))))
      (\<lambda>_ st. Inv (n + 1) st \<and> n < bg_MaxModelCalls (lq_Budget req)) leaves"
      by (rule triple_weaken) (use st in auto)
  qed
  then show ?thesis
    unfolding run_turn_def by (intro triple_andthen [OF begin_turn_triple]) (simp split: prod.splits)
qed

end

section \<open>Counting model calls\<close>

interpretation counting: loop_invariant req "\<lambda>n st. lr_ModelCalls (ls_result st) = n" "\<lambda>_ _. True" "\<lambda>_ _. True" for req
  by unfold_locales (auto simp: core_def emitted_def with_result_def one_more_call_def more_tools_def)

lemma run_turn_counts:
  assumes "run_turn env req tools turn st = (Next u, st')"
  shows "lr_ModelCalls (ls_result st') = lr_ModelCalls (ls_result st) + 1"
    "lr_ModelCalls (ls_result st) < bg_MaxModelCalls (lq_Budget req)"
  using tripleD [OF counting.run_turn_triple [of "lr_ModelCalls (ls_result st)" env req tools turn], of st] assms by simp_all

end
