(* ===== verification/LoopRun.thy ===== *)
theory LoopRun
  imports LoopLogic
begin

text \<open>
  \<open>Engine.Run\<close> of src/loop/engine.go: the loop over turns, the deferred recovery, tool cleanup and
  terminal event, and what holds of every run. No fuel bounds the loop: it is a total function, since
  every further turn uses up one of the budgeted model calls (\<open>run_turn_counts\<close>).
\<close>

section \<open>The loop over turns\<close>

text \<open>How the loop was left: \<open>Some err\<close> by a return, \<open>None\<close> by a panic.\<close>

function run_turns :: "loop_env \<Rightarrow> LoopRequest \<Rightarrow> (string \<times> compiledTool) list \<Rightarrow> int \<Rightarrow> loop_state
    \<Rightarrow> error option option \<times> loop_state" where
  "run_turns env req tools turn st =
     (case run_turn env req tools turn st of
        (Exit err, st') \<Rightarrow> (Some err, st')
      | (Crash, st') \<Rightarrow> (None, st')
      | (Next _, st') \<Rightarrow> run_turns env req tools (wrap64 (turn + 1)) st')"
  by pat_completeness auto
termination
  by (relation "measure (\<lambda>(_, req, _, _, st). nat (bg_MaxModelCalls (lq_Budget req) - lr_ModelCalls (ls_result st)))")
     (auto dest: run_turn_counts [OF sym])

declare run_turns.simps [simp del]

section \<open>Cleanup and failure codes\<close>

definition closeTool :: "ToolBinding \<Rightarrow> error option" where
  "closeTool b =
     (case tb_Handler b of
        None \<Rightarrow> Some (Error [ErrLoopCleanup] ''close tool panicked'')
      | Some h \<Rightarrow>
          (case th_Close h of
             Panics \<Rightarrow> Some (Error [ErrLoopCleanup] ''close tool panicked'')
           | Fails err \<Rightarrow> Some (wrap_sentinel ErrLoopCleanup (wrapf ''close tool'' err))
           | Answers _ \<Rightarrow> None))"

definition closeTools :: "ToolBinding list \<Rightarrow> error option" where
  "closeTools bs = fold (\<lambda>b result. errors_Join result (closeTool b)) (rev bs) None"

definition loopFailureCode :: "error option \<Rightarrow> LoopResult \<Rightarrow> string" where
  "loopFailureCode err result =
     (case err of
        None \<Rightarrow> []
      | Some e \<Rightarrow>
          if lr_BudgetExceeded result \<noteq> [] then ''budget_'' @ lr_BudgetExceeded result
          else if errors_Is e ErrCanceled then ''cancelled''
          else if errors_Is e ErrDeadlineExceeded then ''deadline_exceeded''
          else if errors_Is e ErrLoopPanic then ''panic''
          else ''failed'')"

section \<open>Run\<close>

definition no_usage :: Usage where
  "no_usage = \<lparr>us_InputTokens = 0, us_OutputTokens = 0, us_CacheReadTokens = 0, us_CacheWriteTokens = 0, us_Cost = 0\<rparr>"

definition no_result :: LoopResult where
  "no_result = \<lparr>lr_Messages = [], lr_Usage = no_usage, lr_Stop = no_stop, lr_ModelCalls = 0, lr_ToolCalls = 0,
                lr_Failures = [], lr_BudgetExceeded = []\<rparr>"

definition message_call_ids :: "Message list \<Rightarrow> string list" where
  "message_call_ids ms = map cp_ToolCallID (filter (\<lambda>p. cp_Type p = ContentToolCall) (concat (map mg_Content ms)))"

definition initial_state :: "LoopRequest \<Rightarrow> loop_state" where
  "initial_state req =
     (let result = (case lq_Continuation req of
            None \<Rightarrow> no_result\<lparr>lr_Messages := CloneMessages (mq_Messages (lq_Initial req))\<rparr>
          | Some c \<Rightarrow> LoopResult_Clone (lc_Result c)) in
      \<lparr>ls_result = result, ls_sequence = (case lq_Continuation req of None \<Rightarrow> 0 | Some c \<Rightarrow> lc_Sequence c),
       ls_failed = False, ls_turn = 0, ls_model = \<lparr>mr_Provider = [], mr_Model = []\<rparr>,
       ls_ids = message_call_ids (lr_Messages result), ls_probes = 0, ls_trace = []\<rparr>)"

text \<open>The function body after the deferred call is installed.\<close>

definition run_body :: "loop_env \<Rightarrow> LoopRequest \<Rightarrow> error option option \<times> loop_state" where
  "run_body env req =
     (let st = initial_state req in
      case compileTools env 0 (lq_Tools req) of
        Inl err \<Rightarrow> (Some (Some err), st)
      | Inr tools \<Rightarrow> run_turns env req tools (wrap64 (lr_ModelCalls (ls_result st) + 1)) st)"

definition terminal_stop :: "error option \<Rightarrow> StopReason \<Rightarrow> StopReason" where
  "terminal_stop err stop =
     (if (case err of None \<Rightarrow> False | Some e \<Rightarrow> errors_Is e ErrCanceled) then StopCancelled
      else if err \<noteq> None \<or> stop = no_stop then StopUnknown else stop)"

definition stopped_event :: "error option \<Rightarrow> loop_state \<Rightarrow> LoopEvent" where
  "stopped_event err st =
     (loop_event LoopEventStopped (ls_turn st) (ls_model st))
       \<lparr>le_Stop := terminal_stop err (lr_Stop (ls_result st)), le_FailureCode := loopFailureCode err (ls_result st)\<rparr>"

text \<open>
  The deferred function. A panic of the sink in the terminal \<open>emit\<close> is not recovered: \<open>Run\<close> itself
  panics, which is the outcome \<open>None\<close>.
\<close>

definition run_deferred ::
  "LoopRequest \<Rightarrow> error option option \<Rightarrow> loop_state \<Rightarrow> (LoopResult \<times> error option) option \<times> loop_state" where
  "run_deferred req left st =
     (let err = errors_Join (case left of None \<Rightarrow> Some loop_panic | Some err \<Rightarrow> err) (closeTools (lq_Tools req)) in
      if ls_failed st then (Some (ls_result st, err), st)
      else
        case loopEmitter_emit (lq_Sink req) (stopped_event err st) st of
          (Next _, st') \<Rightarrow> (Some (ls_result st', err), st')
        | (Exit terminalErr, st') \<Rightarrow> (Some (ls_result st', errors_Join err terminalErr), st')
        | (Crash, st') \<Rightarrow> (None, st'))"

text \<open>\<open>Run\<close>, with the events it emitted: \<open>None\<close> for a panic.\<close>

definition Run :: "loop_env \<Rightarrow> LoopRequest \<Rightarrow> (LoopResult \<times> error option) option \<times> LoopEvent list" where
  "Run env request =
     (case en_entry env of
        Some err \<Rightarrow> (Some (no_result, Some err), [])
      | None \<Rightarrow>
          (case LoopRequest_Validate request of
             Some err \<Rightarrow> (Some (no_result, Some err), [])
           | None \<Rightarrow>
               (let req = LoopRequest_Clone request;
                    (left, st) = run_body env req;
                    (answer, st') = run_deferred req left st
                in (answer, ls_trace st'))))"

section \<open>What every run keeps\<close>

definition usage_within :: "Usage \<Rightarrow> Budget \<Rightarrow> bool" where
  "usage_within u b \<longleftrightarrow>
     us_InputTokens u \<le> bg_MaxInputTokens b \<and> us_OutputTokens u \<le> bg_MaxOutputTokens b \<and> us_Cost u \<le> bg_MaxCost b"

definition started_ids :: "LoopEvent list \<Rightarrow> string list" where
  "started_ids es = concat (map (\<lambda>e. if le_Type e = LoopEventToolStarted then (case le_ToolCall e of None \<Rightarrow> [] | Some c \<Rightarrow> [tk_ID c]) else []) es)"

definition numbered :: "64 word \<Rightarrow> LoopEvent list \<Rightarrow> bool" where
  "numbered s es \<longleftrightarrow> map le_Sequence es = map (\<lambda>i. s + of_nat (Suc i)) [0..<length es]"

definition refused :: "LoopRequest \<Rightarrow> LoopEvent list \<Rightarrow> bool" where
  "refused req es \<longleftrightarrow>
     (\<exists>record_event err. lq_Sink req = Some record_event \<and> es \<noteq> [] \<and> record_event (last es) = Fails err)"

definition run_inv :: "LoopRequest \<Rightarrow> 64 word \<Rightarrow> string list \<Rightarrow> Usage \<Rightarrow> bool \<Rightarrow> loop_state \<Rightarrow> bool" where
  "run_inv req s ids u ok st \<longleftrightarrow>
     lr_ModelCalls (ls_result st) \<le> bg_MaxModelCalls (lq_Budget req) \<and>
     lr_ToolCalls (ls_result st) \<le> bg_MaxToolCalls (lq_Budget req) \<and>
     (ok \<longrightarrow> usage_within (lr_Usage (ls_result st)) (lq_Budget req) \<or> lr_Usage (ls_result st) = u) \<and>
     (ls_failed st \<longrightarrow> \<not> ok \<and> refused req (ls_trace st)) \<and>
     ls_sequence st = s + of_nat (length (ls_trace st)) \<and> numbered s (ls_trace st) \<and>
     (\<forall>e\<in>set (ls_trace st). le_Type e \<noteq> LoopEventStopped) \<and>
     distinct (started_ids (ls_trace st)) \<and> set (started_ids (ls_trace st)) \<inter> set ids = {} \<and>
     set (started_ids (ls_trace st)) \<union> set ids \<subseteq> set (ls_ids st)"

definition run_ready :: "string list \<Rightarrow> ToolCall list \<Rightarrow> loop_state \<Rightarrow> bool" where
  "run_ready ids cs st \<longleftrightarrow>
     distinct (map tk_ID cs) \<and> tk_ID ` set cs \<subseteq> set (ls_ids st) \<and>
     tk_ID ` set cs \<inter> (set (started_ids (ls_trace st)) \<union> set ids) = {}"

lemma take_ids_extends: "take_ids seen cs = (err, seen') \<Longrightarrow> set seen \<subseteq> set seen'"
  by (induction seen cs rule: take_ids.induct) (auto split: if_splits)

lemma take_ids_fresh:
  "take_ids seen cs = (None, seen') \<Longrightarrow>
   distinct (map tk_ID cs) \<and> tk_ID ` set cs \<inter> set seen = {} \<and> set seen' = set seen \<union> tk_ID ` set cs"
  by (induction seen cs rule: take_ids.induct) (auto split: if_splits)

lemma started_ids_snoc [simp]:
  "started_ids (es @ [e]) = started_ids es @
     (if le_Type e = LoopEventToolStarted then (case le_ToolCall e of None \<Rightarrow> [] | Some c \<Rightarrow> [tk_ID c]) else [])"
  by (simp add: started_ids_def)

lemma numbered_snoc [simp]:
  "numbered s (es @ [e]) \<longleftrightarrow> numbered s es \<and> le_Sequence e = s + of_nat (Suc (length es))"
  by (simp add: numbered_def)

lemma exceededUsage_None: "exceededUsage u b = [] \<longleftrightarrow> usage_within u b"
  by (auto simp: exceededUsage_def usage_within_def)

interpretation keeping: loop_invariant req
    "\<lambda>n st. lr_ModelCalls (ls_result st) = n \<and> run_inv req s ids u True st" "run_ready ids" "run_inv req s ids u"
    for req s ids u
proof unfold_locales
  show "lr_ModelCalls (ls_result st') = n \<and> run_inv req s ids u True st'"
    if "lr_ModelCalls (ls_result st) = n \<and> run_inv req s ids u True st" "core st' = core st" for n st st'
    using that by (auto simp: core_def run_inv_def)
  show "run_inv req s ids u ok st'" if "run_inv req s ids u ok st" "core st' = core st" for ok st st'
    using that by (auto simp: core_def run_inv_def)
  show "run_ready ids cs st'" if "run_ready ids cs st" "core st' = core st" for cs st st'
    using that by (auto simp: core_def run_ready_def)
next
  show "(lr_ModelCalls (ls_result (st\<lparr>ls_ids := seen\<rparr>)) = n) \<and> run_inv req s ids u True (st\<lparr>ls_ids := seen\<rparr>)"
    if "lr_ModelCalls (ls_result st) = n \<and> run_inv req s ids u True st" "take_ids (ls_ids st) cs = (err, seen)"
    for n st cs err seen
    using that take_ids_extends [OF that(2)] by (auto simp: run_inv_def)
  show "run_ready ids cs (st\<lparr>ls_ids := seen\<rparr>)"
    if "lr_ModelCalls (ls_result st) = n \<and> run_inv req s ids u True st" "take_ids (ls_ids st) cs = (None, seen)"
    for n st cs seen
    using that take_ids_fresh [OF that(2)] by (auto simp: run_inv_def run_ready_def)
next
  show "if err = None \<and> exceededUsage t (lq_Budget req) = []
        then lr_ModelCalls (ls_result (with_result (\<lambda>r. r\<lparr>lr_Usage := t\<rparr>) st)) = n \<and>
          run_inv req s ids u True (with_result (\<lambda>r. r\<lparr>lr_Usage := t\<rparr>) st)
        else run_inv req s ids u False (with_result (\<lambda>r. r\<lparr>lr_Usage := t\<rparr>) st)"
    if "lr_ModelCalls (ls_result st) = n \<and> run_inv req s ids u True st" for n st t and err :: "error option"
    using that by (auto simp: run_inv_def with_result_def exceededUsage_None)
next
  show "run_inv req s ids u False (st\<lparr>ls_failed := True\<rparr>)"
    if "lr_ModelCalls (ls_result st) = n \<and> run_inv req s ids u True st" "ls_trace st \<noteq> []"
      "lq_Sink req = Some record_event" "record_event (last (ls_trace st)) = Fails err" for n st record_event err
    using that by (auto simp: run_inv_def refused_def)
qed (auto simp: run_inv_def run_ready_def emitted_def with_result_def one_more_call_def more_tools_def started_event_def
       loop_event_def add.assoc)

lemma run_turns_inv:
  assumes "run_inv req s ids u True st" "run_turns env req tools turn st = (left, st')"
  shows "run_inv req s ids u (left = Some None) st'"
  using assms
proof (induction env req tools turn st arbitrary: left st' rule: run_turns.induct)
  case (1 env req tools turn st)
  have "ends (\<lambda>_ st'. (lr_ModelCalls (ls_result st') = lr_ModelCalls (ls_result st) + 1 \<and> run_inv req s ids u True st') \<and>
      lr_ModelCalls (ls_result st) < bg_MaxModelCalls (lq_Budget req))
    (keeping.leaves req s ids u) (run_turn env req tools turn st)"
    by (rule tripleD [OF keeping.run_turn_triple]) (use 1 in simp)
  with 1 show ?case
    by (auto simp: run_turns.simps [of env req tools turn st] keeping.leaves_def split: prod.splits outcome.splits)
qed

section \<open>The start of a run\<close>

definition start_result :: "LoopRequest \<Rightarrow> LoopResult" where
  "start_result request =
     (case lq_Continuation request of
        None \<Rightarrow> no_result\<lparr>lr_Messages := mq_Messages (lq_Initial request)\<rparr> | Some c \<Rightarrow> lc_Result c)"

definition start_sequence :: "LoopRequest \<Rightarrow> 64 word" where
  "start_sequence request = (case lq_Continuation request of None \<Rightarrow> 0 | Some c \<Rightarrow> lc_Sequence c)"

definition start_ids :: "LoopRequest \<Rightarrow> string list" where
  "start_ids request = message_call_ids (lr_Messages (start_result request))"

lemma LoopRequest_Clone_fields [simp]:
  "lq_Budget (LoopRequest_Clone r) = lq_Budget r" "lq_Sink (LoopRequest_Clone r) = lq_Sink r"
  "lq_Tools (LoopRequest_Clone r) = lq_Tools r" "refused (LoopRequest_Clone r) = refused r"
  by (simp_all add: LoopRequest_Clone_eq refused_def fun_eq_iff)

lemma initial_state_Clone:
  "initial_state (LoopRequest_Clone request) =
     \<lparr>ls_result = start_result request, ls_sequence = start_sequence request, ls_failed = False, ls_turn = 0,
      ls_model = \<lparr>mr_Provider = [], mr_Model = []\<rparr>, ls_ids = start_ids request, ls_probes = 0, ls_trace = []\<rparr>"
  by (simp add: initial_state_def LoopRequest_Clone_eq start_result_def start_sequence_def start_ids_def Let_def
      CloneModelRequest_def split: option.splits)

lemma start_within:
  assumes "LoopRequest_Validate request = None"
  shows "lr_ModelCalls (start_result request) \<le> bg_MaxModelCalls (lq_Budget request)"
    "lr_ToolCalls (start_result request) \<le> bg_MaxToolCalls (lq_Budget request)"
    "lq_Continuation request = None \<Longrightarrow> usage_within (lr_Usage (start_result request)) (lq_Budget request)"
  using assms
  by (auto simp: LoopRequest_Validate_def continuation_error_def start_result_def no_result_def no_usage_def usage_within_def
      Budget_Validate_def Let_def split: option.splits)

abbreviation run_kept :: "LoopRequest \<Rightarrow> bool \<Rightarrow> loop_state \<Rightarrow> bool" where
  "run_kept request \<equiv>
     run_inv (LoopRequest_Clone request) (start_sequence request) (start_ids request) (lr_Usage (start_result request))"

lemma run_body_inv:
  assumes "LoopRequest_Validate request = None" "run_body env (LoopRequest_Clone request) = (left, st)"
  shows "run_kept request (left = Some None) st"
proof -
  have start: "run_kept request True (initial_state (LoopRequest_Clone request))"
    using start_within [OF assms(1)]
    by (simp add: run_inv_def initial_state_Clone numbered_def started_ids_def)
  then have "run_kept request False (initial_state (LoopRequest_Clone request))" by (simp add: run_inv_def)
  with start assms(2) show ?thesis
    by (auto simp: run_body_def Let_def split: sum.splits intro: run_turns_inv)
qed

text \<open>The end of a run: either the sink had refused an event, or the terminal event closes the trace.\<close>

lemma run_deferred_cases:
  assumes "run_deferred req left st = (answer, st')"
  obtains (failed) err where "ls_failed st" "st' = st" "answer = Some (ls_result st, err)" "err = None \<longrightarrow> left = Some None"
  | (stopped) err where "\<not> ls_failed st" "ls_trace st' = ls_trace st @ [(stopped_event err st)\<lparr>le_Sequence := ls_sequence st + 1\<rparr>]"
      "ls_result st' = ls_result st" "err = None \<longrightarrow> left = Some None"
      "(answer = Some (ls_result st, err) \<and> \<not> refused req (ls_trace st')) \<or>
       (\<exists>e. answer = Some (ls_result st, Some e) \<and> refused req (ls_trace st')) \<or>
       (answer = None \<and> (\<exists>record_event. lq_Sink req = Some record_event \<and> record_event (last (ls_trace st')) = Panics))"
proof -
  define err where "err = errors_Join (case left of None \<Rightarrow> Some loop_panic | Some err \<Rightarrow> err) (closeTools (lq_Tools req))"
  have clean: "err = None \<longrightarrow> left = Some None" by (simp add: err_def split: option.splits)
  show thesis
  proof (cases "ls_failed st")
    case True
    with assms have "st' = st" "answer = Some (ls_result st, err)" by (auto simp: run_deferred_def Let_def err_def)
    with True clean show ?thesis by (intro failed)
  next
    case False
    define out where "out = ls_trace st @ [(stopped_event err st)\<lparr>le_Sequence := ls_sequence st + 1\<rparr>]"
    have unfold: "run_deferred req left st =
        (case loopEmitter_emit (lq_Sink req) (stopped_event err st) st of
           (Next _, st') \<Rightarrow> (Some (ls_result st', err), st')
         | (Exit terminalErr, st') \<Rightarrow> (Some (ls_result st', errors_Join err terminalErr), st')
         | (Crash, st') \<Rightarrow> (None, st'))"
      using False by (simp add: run_deferred_def Let_def flip: err_def)
    have trace: "ls_trace st' = out" "ls_result st' = ls_result st"
      using assms unfolding unfold
      by (auto simp: loopEmitter_emit_def Let_def out_def split: option.splits answer.splits)
    have join: "\<exists>e. errors_Join err (Some x) = Some e" for x by (cases err) auto
    have "(answer = Some (ls_result st, err) \<and> \<not> refused req out) \<or>
       (\<exists>e. answer = Some (ls_result st, Some e) \<and> refused req out) \<or>
       (answer = None \<and> (\<exists>record_event. lq_Sink req = Some record_event \<and> record_event (last out) = Panics))"
      using assms join unfolding unfold
      by (cases "lq_Sink req"; cases "the (lq_Sink req) (last out)")
         (auto simp: loopEmitter_emit_def Let_def refused_def out_def)
    with False trace clean show ?thesis unfolding out_def by (intro stopped [of err]) simp_all
  qed
qed

lemma Run_accepted:
  assumes "en_entry env = None" "LoopRequest_Validate request = None" "Run env request = (answer, es)"
  obtains left st st' where "run_kept request (left = Some None) st"
    "run_deferred (LoopRequest_Clone request) left st = (answer, st')" "es = ls_trace st'"
proof -
  obtain left st where body: "run_body env (LoopRequest_Clone request) = (left, st)" by fastforce
  with assms have "\<exists>st'. run_deferred (LoopRequest_Clone request) left st = (answer, st') \<and> es = ls_trace st'"
    by (auto simp: Run_def Let_def split: prod.splits)
  then show thesis using that run_body_inv [OF assms(2) body] by blast
qed

section \<open>Properties of runs\<close>


text \<open>
  [C8] The events of a run form one well-ordered stream: their sequence numbers continue the
  checkpoint's without a gap, no event follows a stop event, and the run ends with the stop event that
  reports its result and error, unless the sink refused the last event it was given.
\<close>

theorem Run_event_stream:
  assumes "en_entry env = None" "LoopRequest_Validate request = None" "Run env request = (answer, es)"
  shows "numbered (start_sequence request) es \<and> es \<noteq> [] \<and>
    (\<forall>e\<in>set (butlast es). le_Type e \<noteq> LoopEventStopped) \<and>
    (refused request es \<or> le_Type (last es) = LoopEventStopped \<and>
       (\<forall>result err. answer = Some (result, err) \<longrightarrow>
          le_Stop (last es) = terminal_stop err (lr_Stop result) \<and>
          le_FailureCode (last es) = loopFailureCode err result))"
proof -
  obtain left st st' where kept: "run_kept request (left = Some None) st"
    and deferred: "run_deferred (LoopRequest_Clone request) left st = (answer, st')" and es: "es = ls_trace st'"
    by (rule Run_accepted [OF assms])
  from deferred show ?thesis
  proof (cases rule: run_deferred_cases)
    case (failed err)
    with kept es show ?thesis by (auto simp: run_inv_def dest: in_set_butlastD) (auto simp: refused_def)
  next
    case (stopped err)
    with kept es show ?thesis by (auto simp: run_inv_def stopped_event_def loop_event_def add.assoc)
  qed
qed

text \<open>
  [C24] No tool call is started twice: the identifiers of the started calls are pairwise different
  and differ from those of every call already in the conversation the run began with.
\<close>

theorem Run_starts_calls_once:
  assumes "en_entry env = None" "LoopRequest_Validate request = None" "Run env request = (answer, es)"
  shows "distinct (started_ids es) \<and> set (started_ids es) \<inter> set (start_ids request) = {}"
proof -
  obtain left st st' where kept: "run_kept request (left = Some None) st"
    and deferred: "run_deferred (LoopRequest_Clone request) left st = (answer, st')" and es: "es = ls_trace st'"
    by (rule Run_accepted [OF assms])
  have "started_ids es = started_ids (ls_trace st)"
    by (rule run_deferred_cases [OF deferred]) (use es in \<open>auto simp: stopped_event_def loop_event_def\<close>)
  with kept show ?thesis by (simp add: run_inv_def)
qed

text \<open>
  [C33] Every run comes back to its caller with a result: the loop over turns and the reading of model
  streams end by themselves, panics of selectors, providers, tools and middleware are recovered, and only
  a sink that panics on the final event makes \<open>Run\<close> itself panic.
\<close>

theorem Run_returns:
  "(\<exists>result err. fst (Run env request) = Some (result, err)) \<or>
   (\<exists>record_event. lq_Sink request = Some record_event \<and> record_event (last (snd (Run env request))) = Panics)"
proof (cases "en_entry env = None \<and> LoopRequest_Validate request = None")
  case True
  obtain answer es where run: "Run env request = (answer, es)" by fastforce
  obtain left st st' where "run_deferred (LoopRequest_Clone request) left st = (answer, st')" "es = ls_trace st'"
    by (rule Run_accepted [OF _ _ run]) (use True in auto)
  then show ?thesis by (elim run_deferred_cases) (auto simp: run)
next
  case False
  then show ?thesis by (cases "en_entry env"; cases "LoopRequest_Validate request") (simp_all add: Run_def)
qed

end
