(* ===== verification/LoopTools.thy ===== *)
theory LoopTools
  imports LoopLogic
begin

text \<open>
  What the tool half of the turn loop (src/loop/engine.go) promises: which executions count as
  successful, when running tools in parallel is the same as running them one by one, and what is left of
  a parallel batch whose context ends.
\<close>

section \<open>Single executions\<close>

definition output_schema :: "(string \<times> compiledTool) list \<Rightarrow> ToolCall \<Rightarrow> schema option" where
  "output_schema tools call = Option.bind (map_of tools (tk_Name call)) ct_output"

text \<open>
  A successful execution comes from a declared tool and an input its schema admits, and its output
  is valid and meets the output schema. A failed one reports the call and an error output in the class the
  request chose.
\<close>

definition checked_execution :: "LoopRequest \<Rightarrow> (string \<times> compiledTool) list \<Rightarrow> ToolCall \<Rightarrow> toolExecution \<Rightarrow> bool" where
  "checked_execution req tools call ex \<longleftrightarrow>
     (case tn_failure ex of
        None \<Rightarrow>
          (\<exists>tool. map_of tools (tk_Name call) = Some tool \<and> validateJSON (ct_input tool) (tk_Input call) = None) \<and>
          ToolOutput_Validate (tn_output ex) = None \<and>
          (\<forall>schema. output_schema tools call = Some schema \<longrightarrow>
             to_JSON (tn_output ex) \<noteq> [] \<and> validateJSON schema (to_JSON (tn_output ex)) = None)
      | Some f \<Rightarrow>
          tf_CallID f = tk_ID call \<and> tf_ToolName f = tk_Name call \<and> to_IsError (tn_output ex) \<and>
          to_Classification (tn_output ex) = lq_ToolErrorClassification req)"

lemma invocation_call [simp]: "ti_Call (invocation_of req turn call) = call"
  by (simp add: invocation_of_def cloneCall_def)

lemma failedExecution_checked [simp]:
  "checked_execution req tools call (failedExecution env req (invocation_of req turn call) code message cause)"
  by (simp add: checked_execution_def failedExecution_def)

lemma failedExecution_failure [simp]: "tn_failure (failedExecution env req iv code message cause) \<noteq> None"
  by (simp add: failedExecution_def)

lemma executeTool_input:
  assumes "tn_failure (executeTool env req turn tools call) = None"
  shows "\<exists>tool. map_of tools (tk_Name call) = Some tool \<and> validateJSON (ct_input tool) (tk_Input call) = None"
  using assms by (auto simp: executeTool_def Let_def split: option.splits)

lemma executeTool_failed:
  assumes "tn_failure (executeTool env req turn tools call) \<noteq> None"
  shows "checked_execution req tools call (executeTool env req turn tools call)"
  using assms by (auto simp: executeTool_def Let_def split: option.splits tool_answer.splits prod.splits)

lemma finalizeToolResult_checked:
  assumes "\<exists>tool. map_of tools (tk_Name call) = Some tool \<and> validateJSON (ct_input tool) (tk_Input call) = None"
  shows "checked_execution req tools call (finalizeToolResult env req turn tools call out)"
  using assms
  by (auto simp: finalizeToolResult_def Let_def output_schema_def checked_execution_def [of _ _ _ "\<lparr>tn_output = _, tn_failure = None\<rparr>"]
      split: sum.splits option.splits)

lemma finalize_execution_checked:
  "checked_execution req tools call (finalize_execution env req turn tools call (executeTool env req turn tools call))"
  by (simp add: finalize_execution_def finalizeToolResult_checked executeTool_input executeTool_failed)

section \<open>Batches\<close>

lemma batch_loop_results:
  "batch_loop env f cs st = (exs, err, st') \<Longrightarrow> exs = map f (take (length exs) cs) \<and> (err = None \<longrightarrow> length exs = length cs)"
  by (induction cs arbitrary: st exs) (auto split: prod.splits option.splits)

lemma batch_loop_map: "batch_loop env f (map g cs) st = batch_loop env (f \<circ> g) cs st"
  by (induction cs arbitrary: st) (auto split: prod.splits option.splits)

definition finished_call ::
  "loop_env \<Rightarrow> LoopRequest \<Rightarrow> int \<Rightarrow> (string \<times> compiledTool) list \<Rightarrow> ToolCall \<Rightarrow> toolExecution" where
  "finished_call env req turn tools call = finalize_execution env req turn tools call (executeTool env req turn tools call)"

definition runs_parallel :: "LoopRequest \<Rightarrow> (string \<times> compiledTool) list \<Rightarrow> ToolCall list \<Rightarrow> bool" where
  "runs_parallel req tools calls \<longleftrightarrow>
     lq_ParallelTools req \<and>
     (\<forall>call\<in>set calls. case map_of tools (tk_Name call) of None \<Rightarrow> False | Some t \<Rightarrow> tb_ParallelSafe (ct_binding t))"

lemma executeBatch_eq:
  "executeBatch env req turn tools calls st =
     (if runs_parallel req tools calls
      then case contextResult env st of
             (Some err, st) \<Rightarrow> (map (executeTool env req turn tools) calls, Some err, st)
           | (None, st) \<Rightarrow> batch_loop env (finished_call env req turn tools) calls st
      else batch_loop env (finished_call env req turn tools) calls st)"
proof -
  have "zip calls (map (executeTool env req turn tools) calls) = map (\<lambda>c. (c, executeTool env req turn tools c)) calls"
    by (simp add: zip_map2 zip_same_conv_map)
  then show ?thesis
    unfolding executeBatch_def Let_def runs_parallel_def
    by (simp add: batch_loop_map comp_def finished_call_def [abs_def] split: prod.split option.split)
qed

text \<open>
  A batch of tool calls that completes has one execution per call, in order, and each of them is
  checked: it succeeded on a declared tool with admissible input and a valid output that meets the
  output schema, or it carries a failure naming the call.
\<close>

theorem executeBatch_checked:
  assumes "executeBatch env req turn tools calls st = (exs, None, st')"
  shows "length exs = length calls \<and> (\<forall>i<length calls. checked_execution req tools (calls ! i) (exs ! i))"
proof -
  have "exs = map (finished_call env req turn tools) calls"
    using assms by (auto simp: executeBatch_eq split: if_splits prod.splits option.splits dest!: batch_loop_results)
  then show ?thesis by (simp add: finished_call_def finalize_execution_checked)
qed

lemma batch_loop_live:
  assumes "\<And>k. cs_loop (en_ctx env k) = None"
  shows "batch_loop env f cs st = (map f cs, None, st\<lparr>ls_probes := ls_probes st + length cs\<rparr>)"
  by (induction cs arbitrary: st) (simp_all add: contextResult_def assms)

lemma parallel_irrelevant [simp]:
  "invocation_of (req\<lparr>lq_ParallelTools := b\<rparr>) = invocation_of req"
  "failedExecution env (req\<lparr>lq_ParallelTools := b\<rparr>) = failedExecution env req"
  by (simp_all add: fun_eq_iff invocation_of_def failedExecution_def)

lemma finished_call_parallel [simp]:
  "finished_call env (req\<lparr>lq_ParallelTools := b\<rparr>) turn tools call = finished_call env req turn tools call"
proof -
  have "executeTool env (req\<lparr>lq_ParallelTools := b\<rparr>) turn tools call = executeTool env req turn tools call"
    unfolding executeTool_def parallel_irrelevant by simp
  moreover have "finalizeToolResult env (req\<lparr>lq_ParallelTools := b\<rparr>) turn tools call out = finalizeToolResult env req turn tools call out" for out
    unfolding finalizeToolResult_def parallel_irrelevant by simp
  ultimately show ?thesis by (simp add: finished_call_def finalize_execution_def)
qed


text \<open>
  A parallel batch whose context has ended when the tools are done hands back the raw outputs of
  the handlers: neither the result middleware nor the output validation is applied to them, although the
  caller reports each of them as a completed tool.
\<close>

theorem executeBatch_ended_unprocessed:
  assumes "runs_parallel req tools calls" "contextResult env st = (Some err, st')"
  shows "executeBatch env req turn tools calls st = (map (executeTool env req turn tools) calls, Some err, st')"
  by (simp add: executeBatch_eq assms)

end
