(* ===== verification/LoopExample.thy ===== *)
theory LoopExample
  imports LoopRun LoopTools ProjectionExample
begin

text \<open>
  A concrete run of the turn loop: a first turn in which the model asks for a tool, the tool call, and
  a second turn that ends the conversation.
\<close>

definition sample_model_event :: "ModelEventType \<Rightarrow> 64 word \<Rightarrow> ModelEvent" where
  "sample_model_event ty n =
     \<lparr>mv_Type = ty, mv_Sequence = n, mv_Text = [], mv_ToolCallDelta = None, mv_ToolCall = None, mv_Usage = None,
      mv_Stop = no_stop, mv_Error = None, mv_Extension = None\<rparr>"

definition sample_call :: ToolCall where
  "sample_call = \<lparr>tk_ID = ''c1'', tk_Name = ''echo'', tk_Input = ''1''\<rparr>"

definition sample_usage :: Usage where
  "sample_usage = \<lparr>us_InputTokens = 3, us_OutputTokens = 2, us_CacheReadTokens = 0, us_CacheWriteTokens = 0, us_Cost = 1\<rparr>"

definition tool_turn :: "ModelEvent list" where
  "tool_turn =
     [sample_model_event ModelEventStart 1,
      (sample_model_event ModelEventToolCall 2)\<lparr>mv_ToolCall := Some sample_call\<rparr>,
      (sample_model_event ModelEventUsage 3)\<lparr>mv_Usage := Some sample_usage\<rparr>,
      (sample_model_event ModelEventStop 4)\<lparr>mv_Stop := StopToolUse\<rparr>]"

definition last_turn :: "ModelEvent list" where
  "last_turn =
     [sample_model_event ModelEventStart 1,
      (sample_model_event ModelEventTextDelta 2)\<lparr>mv_Text := ''ok''\<rparr>,
      (sample_model_event ModelEventStop 3)\<lparr>mv_Stop := StopEndTurn\<rparr>]"

definition scripted_stream :: "ModelEvent list \<Rightarrow> ModelStream" where
  "scripted_stream es =
     \<lparr>sm_Recv = (\<lambda>i. if i < length es then Answers (es ! i) else Fails (Error [ErrEOF] ''EOF'')), sm_Close = None\<rparr>"

definition scripted_provider :: Provider where
  "scripted_provider = sample_provider\<lparr>pv_Stream := (\<lambda>q. Answers (Some (scripted_stream
     (if length (mq_Messages q) = 1 then tool_turn else last_turn))))\<rparr>"

definition echo_tool :: ToolBinding where
  "echo_tool =
     \<lparr>tb_Definition = \<lparr>td_SideEffecting = False, td_Name = ''echo'', td_Description = [], td_InputSchema = ''1'',
        td_OutputSchema = ''1'', td_Strict = False\<rparr>,
      tb_Handler = Some \<lparr>th_Execute = (\<lambda>iv. ToolReturns \<lparr>to_JSON = tk_Input (ti_Call iv), to_Content = [],
        to_Classification = ClassPublic, to_IsError = False\<rparr>), th_Close = Answers ()\<rparr>,
      tb_ParallelSafe = True\<rparr>"

definition sample_model_request :: ModelRequest where
  "sample_model_request =
     \<lparr>mq_AutomaticCompaction = False, mq_Model = md_Ref sample_descriptor,
      mq_Messages = [\<lparr>mg_Role = RoleUser, mg_Content = [text_part ClassPublic ''hi'']\<rparr>], mq_Tools = [],
      mq_ToolChoice = \<lparr>tc_Mode = ToolChoiceAuto, tc_Name = []\<rparr>, mq_Output = None, mq_MaxOutputTokens = 0,
      mq_Metadata = None, mq_Extension = None\<rparr>"

definition sample_loop_budget :: Budget where
  "sample_loop_budget =
     \<lparr>bg_MaxSteps = 1, bg_MaxInputTokens = 10, bg_MaxOutputTokens = 10, bg_MaxModelCalls = 3, bg_MaxToolCalls = 2,
      bg_MaxChildSteps = 0, bg_MaxCost = 5, bg_MaxWallTime = 1000\<rparr>"

definition sample_loop :: LoopRequest where
  "sample_loop =
     \<lparr>lq_Continuation = None, lq_WorkloadID = sample_id, lq_StepID = sample_id, lq_AttemptID = sample_id,
      lq_Initial = sample_model_request, lq_Tools = [echo_tool], lq_Middleware = [],
      lq_Selector = Some (\<lambda>_. Answers \<lparr>ts_Messages = None, ts_Provider = Some scripted_provider,
        ts_Model = md_Ref sample_descriptor\<rparr>),
      lq_Sink = Some (\<lambda>_. Answers ()), lq_Budget = sample_loop_budget, lq_ParallelTools = True,
      lq_ModelOutputClassification = ClassPublic, lq_ToolErrorClassification = ClassPublic\<rparr>"

definition sample_env :: loop_env where
  "sample_env =
     \<lparr>en_entry = None, en_ctx = (\<lambda>_. \<lparr>cs_loop = None, cs_cause = None, cs_parent = None\<rparr>),
      en_compile = (\<lambda>_ _. Inr (\<lambda>_. None)), en_marshal_failure = (\<lambda>_ _. ''{}'')\<rparr>"

lemma sample_loop_valid: "LoopRequest_Validate sample_loop = None"
  by code_simp

lemma sample_env_entry [simp]: "en_entry sample_env = None"
  by (simp add: sample_env_def)

lemma sample_env_live: "cs_loop (en_ctx sample_env k) = None"
  by (simp add: sample_env_def)

lemma sample_returns: "\<exists>result err es. Run sample_env sample_loop = (Some (result, err), es)"
proof -
  have sink: "lq_Sink sample_loop = Some (\<lambda>_. Answers ())" by (simp add: sample_loop_def)
  obtain answer es where run: "Run sample_env sample_loop = (answer, es)" by fastforce
  obtain left st st' where "run_deferred (LoopRequest_Clone sample_loop) left st = (answer, st')"
    by (rule Run_accepted [OF sample_env_entry sample_loop_valid run])
  then show ?thesis by (cases rule: run_deferred_cases) (auto simp: run sink)
qed


theorem Run_event_stream_witness:
  "\<exists>answer es. Run sample_env sample_loop = (answer, es) \<and> numbered 0 es \<and> le_Type (last es) = LoopEventStopped"
proof -
  obtain answer es where run: "Run sample_env sample_loop = (answer, es)" by fastforce
  have "\<not> refused sample_loop es" by (auto simp: refused_def sample_loop_def)
  moreover have "start_sequence sample_loop = 0" by (simp add: start_sequence_def sample_loop_def)
  ultimately show ?thesis
    using run Run_event_stream [OF sample_env_entry sample_loop_valid run] by auto
qed

theorem Run_starts_calls_once_witness:
  "\<exists>answer es. Run sample_env sample_loop = (answer, es) \<and> distinct (started_ids es)"
  using Run_starts_calls_once [OF sample_env_entry sample_loop_valid] by (cases "Run sample_env sample_loop") auto

definition sample_tools :: "(string \<times> compiledTool) list" where
  "sample_tools = [(''echo'', \<lparr>ct_binding = echo_tool, ct_input = (\<lambda>_. None), ct_output = Some (\<lambda>_. None)\<rparr>)]"

lemma sample_parallel: "runs_parallel sample_loop sample_tools [sample_call]"
  by (simp add: runs_parallel_def sample_loop_def sample_tools_def sample_call_def echo_tool_def)

theorem executeBatch_checked_witness:
  "\<exists>exs st. executeBatch sample_env sample_loop 1 sample_tools [sample_call] (initial_state sample_loop) = (exs, None, st) \<and>
     checked_execution sample_loop sample_tools sample_call (exs ! 0)"
proof -
  have "\<exists>exs st. executeBatch sample_env sample_loop 1 sample_tools [sample_call] (initial_state sample_loop) = (exs, None, st)"
    by (simp add: executeBatch_eq sample_parallel batch_loop_live [OF sample_env_live] contextResult_def sample_env_live)
  then show ?thesis using executeBatch_checked by fastforce
qed


definition ended_env :: loop_env where
  "ended_env = sample_env\<lparr>en_ctx := (\<lambda>_. \<lparr>cs_loop = Some (Error [ErrCanceled] ''context canceled''), cs_cause = None,
     cs_parent = Some (Error [ErrCanceled] ''context canceled'')\<rparr>)\<rparr>"

definition redacting_loop :: LoopRequest where
  "redacting_loop = sample_loop\<lparr>lq_Middleware := [Some (\<lambda>_ out. Answers (out\<lparr>to_JSON := ''null''\<rparr>))]\<rparr>"

text \<open>The handler's output \<open>1\<close> is handed back although the middleware would have replaced it.\<close>

theorem executeBatch_ended_unprocessed_witness:
  "\<exists>st. executeBatch ended_env redacting_loop 1 sample_tools [sample_call] (initial_state sample_loop) =
     ([\<lparr>tn_output = \<lparr>to_JSON = ''1'', to_Content = [], to_Classification = ClassPublic, to_IsError = False\<rparr>,
        tn_failure = None\<rparr>], Some (Error [ErrCanceled] ''context canceled''), st)"
proof -
  have par: "runs_parallel redacting_loop sample_tools [sample_call]"
    using sample_parallel by (simp add: runs_parallel_def redacting_loop_def)
  define st where "st = snd (contextResult ended_env (initial_state sample_loop))"
  have ended: "contextResult ended_env (initial_state sample_loop) = (Some (Error [ErrCanceled] ''context canceled''), st)"
    by (simp add: st_def contextResult_def ended_env_def)
  have "executeTool ended_env redacting_loop 1 sample_tools sample_call =
      \<lparr>tn_output = \<lparr>to_JSON = ''1'', to_Content = [], to_Classification = ClassPublic, to_IsError = False\<rparr>, tn_failure = None\<rparr>"
    by code_simp
  with executeBatch_ended_unprocessed [OF par ended, of 1] show ?thesis by auto
qed

end
