(* ===== verification/ResumeExample.thy ===== *)
theory ResumeExample
  imports EngineRecovery ProjectionExample LoopExample
begin

text \<open>
  A stream that can be resumed: the request that was committed, a routing decision, a tool's message
  and the checkpoint that follows it.
\<close>

definition request_record :: ExecutionRecord where
  "request_record = blank_record\<lparr>er_StepID := sample_id, er_Stage := ExecutionRequest, er_Classification := ClassPublic,
     er_RequestSHA256 := sha256Hex ''{}''\<rparr>"

definition tool_message :: Message where
  "tool_message = \<lparr>mg_Role = RoleTool, mg_Content = [text_part ClassPublic ''ok'']\<rparr>"

definition message_event :: LoopEvent where
  "message_event =
     \<lparr>le_Checkpoint = None, le_Sequence = 1, le_Type = LoopEventMessageAppended, le_Turn = 1,
      le_Model = md_Ref sample_descriptor, le_ModelEvent = None, le_Message = Some tool_message, le_ToolCall = None,
      le_ToolOutput = None, le_FailureCode = [], le_Stop = no_stop\<rparr>"

definition turn_result :: LoopResult where
  "turn_result = zero_result\<lparr>lr_Messages := [tool_message], lr_Stop := StopToolUse, lr_ModelCalls := 1, lr_ToolCalls := 1\<rparr>"

definition checkpoint_event :: LoopEvent where
  "checkpoint_event = message_event\<lparr>le_Checkpoint := Some turn_result, le_Sequence := 2, le_Type := LoopEventCheckpoint,
     le_Message := None\<rparr>"

definition loop_record :: "LoopEvent \<Rightarrow> ExecutionRecord" where
  "loop_record l = blank_record\<lparr>er_StepID := sample_id, er_Turn := 1, er_Stage := ExecutionLoopEvent,
     er_Classification := ClassPublic, er_Loop := Some l\<rparr>"

definition resume_codec :: codec where
  "resume_codec = sample_codec\<lparr>dc_ExecutionRecorded := (\<lambda>b. Inr (
     if b = ''7'' then request_record else if b = ''8'' then routing_entry
     else if b = ''9'' then loop_record message_event else loop_record checkpoint_event, []))\<rparr>"

definition resume_stream :: "Event list" where
  "resume_stream =
     [sample_event 1 EventTypeWorkloadCreated ''1'', sample_event 2 EventTypeWorkloadTransitioned ''2'',
      sample_event 3 EventTypeStepCreated ''3'', sample_event 4 EventTypeStepTransitioned ''4'',
      sample_event 5 EventTypeStepTransitioned ''5'', sample_event 6 EventTypeStepTransitioned ''6'',
      sample_event 7 EventTypeExecutionRecorded ''7'', sample_event 8 EventTypeExecutionRecorded ''8'',
      sample_event 9 EventTypeExecutionRecorded ''9'', sample_event 10 EventTypeExecutionRecorded ''0'']"

lemma Apply_other_codec:
  "ev_Type e \<noteq> EventTypeExecutionRecorded \<Longrightarrow>
   WorkloadProjection_Apply (dc\<lparr>dc_ExecutionRecorded := f\<rparr>) e p = WorkloadProjection_Apply dc e p"
proof -
  assume "ev_Type e \<noteq> EventTypeExecutionRecorded"
  then have "apply_by_type (dc\<lparr>dc_ExecutionRecorded := f\<rparr>) e p = apply_by_type dc e p"
    by (simp add: apply_by_type_def applyWorkloadCreated_def applyWorkloadTransitioned_def applyStepCreated_def
        applyStepTransitioned_def)
  then show ?thesis unfolding WorkloadProjection_Apply_def by (simp only: split: option.split)
qed

lemma more_digits: "json_Valid ''9''" "json_Valid ''0''"
  by (simp_all add: json_simps)

lemmas resume_defs = Apply_sample digits_valid more_digits pk_def apply_by_type_def event_types decodeProjectionPayload_def resume_codec_def
  w1_def s1_def applyExecutionRecorded_def blank_record_def payload_count_def stage_error_def

lemma request_applied:
  "WorkloadProjection_Apply resume_codec (sample_event 7 EventTypeExecutionRecorded ''7'') (pk 6 WorkloadRunning (Some StepRunning) []) =
     (None, pk 7 WorkloadRunning (Some StepRunning) [request_record])"
proof -
  have "validateSHA256 name (sha256Hex ''{}'') = None" "sha256Hex ''{}'' \<noteq> []" for name
    using length_hex_encode [of "sha256_Sum256 ''{}''"] by (auto simp: sha256Hex_def simp del: length_hex_encode)
  then show ?thesis by (simp add: resume_defs request_record_def)
qed

lemma routing_applied:
  "WorkloadProjection_Apply resume_codec (sample_event 8 EventTypeExecutionRecorded ''8'')
     (pk 7 WorkloadRunning (Some StepRunning) [request_record]) =
     (None, pk 8 WorkloadRunning (Some StepRunning) [request_record, routing_entry])"
  by (simp add: resume_defs request_record_def routing_entry_def routing_error_def sample_decision_facts)
     (simp add: sample_routing_def)

lemma sample_match:
  "placement_matches \<lparr>rt_Request = sample_routing, rt_Decision = sample_decision\<rparr> (md_Ref sample_descriptor)"
  by (simp add: placement_matches_def sample_decision_facts) (simp add: sample_routing_def sample_candidate_def)

lemma tool_message_valid: "Message_Validate tool_message = None"
  by code_simp

lemma message_applied:
  "WorkloadProjection_Apply resume_codec (sample_event 9 EventTypeExecutionRecorded ''9'')
     (pk 8 WorkloadRunning (Some StepRunning) [request_record, routing_entry]) =
     (None, pk 9 WorkloadRunning (Some StepRunning) [request_record, routing_entry, loop_record message_event])"
  by (simp add: resume_defs request_record_def routing_entry_def loop_record_def message_event_def loop_error_def
      sample_decision_facts sample_match tool_message_valid)

lemma checkpoint_applied:
  "WorkloadProjection_Apply resume_codec (sample_event 10 EventTypeExecutionRecorded ''0'')
     (pk 9 WorkloadRunning (Some StepRunning) [request_record, routing_entry, loop_record message_event]) =
     (None, pk 10 WorkloadRunning (Some StepRunning)
       [request_record, routing_entry, loop_record message_event, loop_record checkpoint_event])"
proof -
  have role: "mg_Role tool_message = RoleTool" by (simp add: tool_message_def)
  show ?thesis
    by (simp add: resume_defs request_record_def routing_entry_def loop_record_def message_event_def checkpoint_event_def loop_error_def
        checkpoint_error_def turn_result_def zero_result_def zero_usage_def Usage_Validate_def
        sample_decision_facts sample_match tool_message_valid role)
qed

lemma resume_applied:
  "apply_events resume_codec resume_stream p0 =
     Inr (pk 10 WorkloadRunning (Some StepRunning)
       [request_record, routing_entry, loop_record message_event, loop_record checkpoint_event])"
proof -
  have other: "WorkloadProjection_Apply resume_codec e p = WorkloadProjection_Apply sample_codec e p"
    if "ev_Type e \<noteq> EventTypeExecutionRecorded" for e p
    using that by (simp add: resume_codec_def Apply_other_codec)
  have types: "EventTypeWorkloadCreated \<noteq> EventTypeExecutionRecorded" "EventTypeWorkloadTransitioned \<noteq> EventTypeExecutionRecorded"
    "EventTypeStepCreated \<noteq> EventTypeExecutionRecorded" "EventTypeStepTransitioned \<noteq> EventTypeExecutionRecorded"
    by (simp_all add: event_types)
  show ?thesis
    by (simp add: resume_stream_def other types core_steps step_moves request_applied routing_applied message_applied checkpoint_applied)
qed

lemma replay_apply_events:
  "apply_events dc es p = Inr q \<Longrightarrow> replay_events background (WorkloadProjection_Apply dc) es p = (None, q)"
proof (induction es arbitrary: p)
  case (Cons e es)
  then show ?case by (auto simp: ctx_from_def split: prod.splits option.splits)
qed simp

lemma resume_load:
  "LoadWorkloadProjection resume_codec background (Some (\<lambda>_ _ _. Inr resume_stream)) sample_aggregate =
     Inr (pk 10 WorkloadRunning (Some StepRunning)
       [request_record, routing_entry, loop_record message_event, loop_record checkpoint_event])"
proof -
  have "NewWorkloadProjection sample_aggregate = Inr p0"
    by (simp add: NewWorkloadProjection_def WorkloadAggregateType_def sample_aggregate_workload p0_def)
  then show ?thesis
    using replay_apply_events [OF resume_applied]
    by (simp add: LoadWorkloadProjection_def Replay_def ctx_from_def background_def) (simp add: pk_def)
qed

end
