(* ===== verification/EngineExample.thy ===== *)
theory EngineExample
  imports EngineStore ResumeExample
begin

text \<open>
  A concrete engine: a store that echoes drafts as events, policies that allow what they are asked
  about, the deterministic router, one local candidate and one tool.
\<close>

definition echo_append :: "unit store_append" where
  "echo_append st ctx a n ds ticks =
     (Inr (map (\<lambda>d. \<lparr>ev_ID = sample_id, ev_Aggregate = a, ev_Sequence = n + of_nat (length ds), ev_Type = dr_Type d,
        ev_SchemaVersion = 1, ev_CausationID = dr_CausationID d, ev_CorrelationID = dr_CorrelationID d,
        ev_AttemptID = dr_AttemptID d, ev_OccurredAt = sample_now, ev_Payload = dr_Payload d,
        ev_PayloadSHA256 = sha256Hex (dr_Payload d)\<rparr>) ds), st)"

definition engine_on :: "'st store_append \<Rightarrow> 'st Engine" where
  "engine_on appender =
     \<lparr>e_ContextCounter = Some (\<lambda>_ _ _. Answers 1), e_Approver = None,
      e_SpendEstimator = Some (\<lambda>_ _ _. Answers \<lparr>sb_InputTokens = 5, sb_OutputTokens = 5, sb_Cost = 1\<rparr>),
      e_Append = appender, e_Load = (\<lambda>_ _ _ _. Inr resume_stream),
      e_ExecutionPolicy = Some (\<lambda>_ r. (sample_verdict (ep_Manifest r) (PolicyScopeForExecution r), None)),
      e_DataEgressPolicy = Some (\<lambda>_ r. (sample_verdict (eg_Manifest r) (PolicyScopeForDataEgress r), None)),
      e_Router = Some Route, e_Providers = (\<lambda>_. Some scripted_provider), e_Observer = None, e_ObserverTimeout = 0\<rparr>"

definition engine_candidate :: RoutingCandidate where
  "engine_candidate = sample_candidate\<lparr>rc_ExpectedCost := 1\<rparr>"

definition sample_request :: EngineRequest where
  "sample_request =
     \<lparr>q_WorkloadID = sample_id, q_SessionID = sample_id2, q_StepID = sample_id, q_AttemptID = sample_id, q_Goal = ''goal'',
      q_SourceZone = ZonePersonal, q_Classification = ClassPublic, q_ModelOutputClassification = ClassPublic,
      q_Initial = sample_model_request, q_Tools = [echo_tool],
      q_Requirements = \<lparr>rq_Modalities = [''text''], rq_RequiredTools = [], rq_MinContextTokens = 100, rq_MinQualityClass = [],
        rq_AllowedZones = [ZonePersonal], rq_NativeToolUse = False, rq_StructuredOutput = False\<rparr>,
      q_Candidates = [engine_candidate], q_Budget = sample_loop_budget, q_Autonomous = False, q_ParallelTools = True,
      q_Sandboxed = (\<lambda>_. None)\<rparr>"

definition sample_environment :: environment where
  "sample_environment =
     \<lparr>v_ctx = (\<lambda>_. background), v_now = (\<lambda>_. 10), v_deadline = 1000, v_tick = (\<lambda>_. sample_ticks), v_slot = (\<lambda>_. 0),
      v_marshal = (\<lambda>_. Inr ''{}''), v_marshal_event = (\<lambda>_. Inr ''{}''), v_marshal_call = (\<lambda>_. Inr ''{}''),
      v_marshal_request = (\<lambda>_. Inr ''{}''), v_marshal_messages = (\<lambda>_. ''[]''),
      v_marshal_submission = (\<lambda>_ _. Inr ''{}''), v_codec = resume_codec, v_cause = (\<lambda>_ stopped. stopped)\<rparr>"

definition sample_config :: "unit config" where
  "sample_config = \<lparr>g_engine = engine_on echo_append, g_request = sample_request, g_env = sample_environment\<rparr>"

lemma sample_config_fields [simp]:
  "e_Append (g_engine sample_config) = echo_append" "e_Router (g_engine sample_config) = Some Route"
  "e_Observer (g_engine sample_config) = None" "e_Approver (g_engine sample_config) = None"
  "e_Load (g_engine sample_config) = (\<lambda>_ _ _ _. Inr resume_stream)" "e_ContextCounter (g_engine sample_config) = Some (\<lambda>_ _ _. Answers 1)"
  "e_ExecutionPolicy (g_engine sample_config) =
     Some (\<lambda>_ r. (sample_verdict (ep_Manifest r) (PolicyScopeForExecution r), None))"
  "e_DataEgressPolicy (g_engine sample_config) =
     Some (\<lambda>_ r. (sample_verdict (eg_Manifest r) (PolicyScopeForDataEgress r), None))"
  "e_SpendEstimator (g_engine sample_config) = Some (\<lambda>_ _ _. Answers \<lparr>sb_InputTokens = 5, sb_OutputTokens = 5, sb_Cost = 1\<rparr>)"
  "e_Providers (g_engine sample_config) name = Some scripted_provider"
  "v_ctx (g_env sample_config) n = background" "v_now (g_env sample_config) n = 10" "v_deadline (g_env sample_config) = 1000"
  "v_marshal (g_env sample_config) entry = Inr ''{}''" "v_marshal_call (g_env sample_config) call = Inr ''{}''"
  "v_marshal_event (g_env sample_config) event = Inr ''{}''" "v_marshal_request (g_env sample_config) mreq = Inr ''{}''"
  "v_marshal_submission (g_env sample_config) req defs = Inr ''{}''" "v_codec (g_env sample_config) = resume_codec"
  "v_cause (g_env sample_config) n err = err" "g_request sample_config = sample_request"
  by (simp_all add: sample_config_def engine_on_def sample_environment_def)

lemma sample_request_fields [simp]:
  "q_WorkloadID sample_request = sample_id" "q_StepID sample_request = sample_id" "q_AttemptID sample_request = sample_id"
  "q_SourceZone sample_request = ZonePersonal" "q_Classification sample_request = ClassPublic"
  "q_ModelOutputClassification sample_request = ClassPublic" "q_Tools sample_request = [echo_tool]"
  "q_Candidates sample_request = [engine_candidate]" "q_Budget sample_request = sample_loop_budget"
  "q_Autonomous sample_request = False" "q_Sandboxed sample_request name = None" "q_Initial sample_request = sample_model_request"
  by (simp_all add: sample_request_def)

lemma engine_candidate_valid: "RoutingCandidate_Validate engine_candidate = None"
  by (simp add: RoutingCandidate_Validate_def engine_candidate_def sample_candidate_def sample_descriptor_valid Zone_Validate_def
      validateStringSet_def Time_IsZero_def permille_iff)

lemma prepare_sample: "prepare_request sample_request = Inr sample_request"
proof -
  have valid: "ID_Validate (q_SessionID sample_request) = None" "\<not> blank (q_Goal sample_request)"
    "Zone_Validate (q_SourceZone sample_request) = None" "Requirements_Validate (q_Requirements sample_request) = None"
    by (simp_all add: sample_request_def Zone_Validate_def Requirements_Validate_def validateStringSet_def validateZoneSet_def
        text_simps)
  let ?initial = "CloneModelRequest (q_Initial sample_request)"
  have "?initial\<lparr>mq_Messages := label_messages (mq_Messages ?initial)\<rparr> = q_Initial sample_request"
    by (simp add: CloneModelRequest_def label_messages_def sample_model_request_def text_part_def default_class_def)
  then have "sample_request\<lparr>q_Requirements := cloneRequirements (q_Requirements sample_request),
      q_Classification := default_class (q_Classification sample_request),
      q_ModelOutputClassification := default_class (q_ModelOutputClassification sample_request),
      q_Initial := ?initial\<lparr>mq_Messages := label_messages (mq_Messages ?initial)\<rparr>,
      q_Candidates := map RoutingCandidate_Clone (q_Candidates sample_request)\<rparr> = sample_request"
    by (simp add: sample_request_def default_class_def cloneRequirements_def)
  then show ?thesis
    unfolding prepare_request_def Let_def by (simp only: valid fail_if_False) (simp add: engine_candidate_valid)
qed

lemma draft_kind_ne: "draft_kind entry \<noteq> []"
  by (cases entry; simp add: event_types)

lemma drafts_sample:
  "engine_drafts sample_config cause entries =
     Inr (map (\<lambda>entry. \<lparr>dr_Type = draft_kind entry, dr_SchemaVersion = 1, dr_CausationID = cause, dr_CorrelationID = sample_id,
       dr_AttemptID = sample_id, dr_Payload = ''{}''\<rparr>) entries)"
proof (induction entries)
  case (Cons entry entries)
  have "EventDraft_Validate \<lparr>dr_Type = draft_kind entry, dr_SchemaVersion = CoreEventSchemaV1, dr_CausationID = [],
      dr_CorrelationID = [], dr_AttemptID = [], dr_Payload = ''{}''\<rparr> = None"
    using draft_kind_ne [of entry] by (simp add: EventDraft_Validate_def CoreEventSchemaV1_def json_Valid_examples(1))
  with Cons show ?case
    by (simp add: NewCoreEventDraft_def CoreEventSchemaV1_def)
qed simp

lemma append_sample:
  assumes "s_storeErr s = None" "entries \<noteq> []"
  shows "append_entries sample_config entries s =
    (Answers (), s\<lparr>s_uses := Suc (s_uses s), s_sequence := s_sequence s + of_nat (length entries), s_cause := sample_id,
       s_log := s_log s @ entries\<rparr>)"
  using assms
  by (simp add: append_entries_def drafts_sample echo_append_def last_map Let_def)

section \<open>Runs\<close>

text \<open>A turn loop that selects a placement for one turn and executes one tool call.\<close>

definition sample_turn :: TurnContext where
  "sample_turn = \<lparr>tx_WorkloadID = sample_id, tx_StepID = sample_id, tx_AttemptID = sample_id, tx_Turn = 1, tx_Messages = mq_Messages sample_model_request, tx_Usage = zero_usage\<rparr>"

definition sample_invocation :: ToolInvocation where
  "sample_invocation = \<lparr>ti_WorkloadID = sample_id, ti_StepID = sample_id, ti_AttemptID = sample_id, ti_Turn = 1,
     ti_Call = sample_call\<rparr>"

definition one_turn :: "'st config \<Rightarrow> 'st turn_loop" where
  "one_turn g request s =
     (Answers (zero_result, None), snd (engineToolHandler_Execute g echo_tool sample_invocation (snd (SelectTurn g sample_turn s))))"

lemma one_turn_behaves: "well_behaved g (one_turn g)"
  unfolding well_behaved_def one_turn_def snd_conv
  by (intro allI) (meson engine_step.select engine_step.execute rtranclp.rtrancl_into_rtrancl rtranclp.rtrancl_refl)

lemma sample_limits: "go_budget sample_loop_budget" "Budget_Validate sample_loop_budget = None"
  by (simp_all add: go_budget_def sample_loop_budget_def in64_def max64_def min64_def Budget_Validate_def)

lemma sample_runs:
  "prepare_request (g_request sample_config) = Inr sample_request"
  "well_behaved (sample_config\<lparr>g_request := sample_request\<rparr>) (one_turn sample_config)"
  "go_budget (q_Budget sample_request)" "Budget_Validate (q_Budget sample_request) = None"
  using one_turn_behaves [of sample_config] by (simp_all add: prepare_sample sample_limits) (simp add: sample_config_def)

theorem run_spending_bounded_witness:
  "\<exists>answer s. engine_run sample_config (one_turn sample_config) False (new_run ()) = (answer, s) \<and>
     sb_Cost (s_reserved s) \<le> 5"
proof -
  obtain answer s where run: "engine_run sample_config (one_turn sample_config) False (new_run ()) = (answer, s)" by fastforce
  have "spend_within (s_reserved s) sample_loop_budget"
    using run_spending_bounded [OF sample_runs(1-4) run] unfolding sample_request_fields by blast
  with run show ?thesis by (auto simp: spend_within_def sample_loop_budget_def)
qed

lemma observe_sample [simp]: "observe sample_config kind outcome s = s" "observing sample_config kind outcome s = (Answers (), s)"
proof -
  show "observe sample_config kind outcome s = s" by (simp add: observe_def NewObservation_def)
  then show "observing sample_config kind outcome s = (Answers (), s)" by (simp add: observing_def)
qed

lemma record_sample:
  assumes "s_storeErr s = None"
  shows "record_execution sample_config r s =
    (Answers (), s\<lparr>s_uses := Suc (s_uses s), s_sequence := s_sequence s + 1, s_cause := sample_id,
       s_log := s_log s @ [ExecutionDraft (committed_form sample_config r)]\<rparr>)"
  using append_sample [OF assms, of "[ExecutionDraft (committed_form sample_config r)]"] by (simp add: record_execution_eq)

text \<open>The manifest of the encoded values of the example, and what the policies say about it.\<close>

definition value_manifest :: ContentManifest where
  "value_manifest = \<lparr>cm_Items = [\<lparr>ci_SHA256 = sha256Hex ''{}'', ci_MediaType = ''application/json'', ci_SizeBytes = 2,
     ci_Classification = ClassPublic\<rparr>]\<rparr>"

lemma valueManifest_sample: "valueManifest (Inr ''{}'') ClassPublic = Inr value_manifest"
  by (simp add: valueManifest_def value_manifest_def)

lemma value_manifest_valid: "ContentManifest_Validate value_manifest = None"
  by (simp add: ContentManifest_Validate_None value_manifest_def ContentItem_Validate_def sha256Hex_def text_simps)

lemma value_manifest_class: "EffectiveClassification value_manifest = Inr ClassPublic"
  by (simp add: EffectiveClassification_def value_manifest_valid)
     (simp add: value_manifest_def raise_class_def ContentItem_EffectiveClassification_def classificationRank_def)

lemma execution_allowed:
  assumes "ExecutionPolicyRequest_Validate r = None" "ep_Manifest r = value_manifest"
  shows "EvaluateExecutionPolicy background
      (Some (\<lambda>_ r. (sample_verdict (ep_Manifest r) (PolicyScopeForExecution r), None))) r =
    (sample_verdict value_manifest (PolicyScopeForExecution r), None)"
  using assms
  by (simp add: EvaluateExecutionPolicy_def Let_def sample_verdict_valid scope_of_valid_request value_manifest_class)
     (simp add: sample_verdict_def)

lemma sample_verdict_allows [simp]: "Allows (sample_verdict m sc)" "\<not> RequiresApproval (sample_verdict m sc)"
  by (simp_all add: sample_verdict_def Allows_def RequiresApproval_def)

lemma tool_call_valid:
  "ExecutionPolicyRequest_Validate (tool_execution sample_config \<lparr>sc_Established = False, sc_Backend = []\<rparr> sample_invocation value_manifest) = None"
  by (simp add: ExecutionPolicyRequest_Validate_def tool_execution_def sample_invocation_def sample_call_def
      StepKind_Validate_def ExecutionTarget_Validate_def Zone_Validate_def value_manifest_valid text_simps)

lemma recordPolicy_sample:
  assumes "s_storeErr s = None"
  shows "recordPolicy sample_config turn value_manifest v s =
    record_execution sample_config (policy_record turn ClassPublic value_manifest v) s"
  using assms by (simp add: recordPolicy_def seq_def lift_sum_def value_manifest_class record_sample)

lemma authorize_sample:
  assumes "s_storeErr s = None"
  shows "\<exists>s'. authorize_tool sample_config \<lparr>sc_Established = False, sc_Backend = []\<rparr> sample_invocation value_manifest s = (Answers (), s')"
proof -
  have manifest: "ep_Manifest (tool_execution sample_config \<lparr>sc_Established = False, sc_Backend = []\<rparr> sample_invocation value_manifest) =
      value_manifest" by (simp add: tool_execution_def)
  from assms show ?thesis
    by (simp add: authorize_tool_def seq_def ret_def use_ctx_def check_ctx_def ask_ctx_def check_def stop_on_failure_def Let_def
        execution_allowed [OF tool_call_valid manifest] recordPolicy_sample record_sample)
qed

lemma execute_sample:
  assumes "s_storeErr s = None"
  shows "(False, \<lparr>sc_Established = False, sc_Backend = []\<rparr>, sample_invocation)
    \<in> set (s_executed (snd (engineToolHandler_Execute sample_config echo_tool sample_invocation s)))"
proof -
  obtain s' where "authorize_tool sample_config \<lparr>sc_Established = False, sc_Backend = []\<rparr> sample_invocation value_manifest s = (Answers (), s')"
    using authorize_sample [OF assms] by blast
  then show ?thesis
    by (simp add: engineToolHandler_Execute_def prepare_sandbox_def seq_def ret_def lift_sum_def valueManifest_sample Let_def
        echo_tool_def split del: if_split)
qed

interpretation healthy: engine_invariant sample_config "\<lambda>s. s_storeErr s = None"
proof unfold_locales
  show "s_storeErr s' = None" if "s_storeErr s = None" "entries \<noteq> []" "append_entries sample_config entries s = (a, s')"
    for s s' entries a
    using that append_sample by auto
  show "s_storeErr (if a = Answers () then s'\<lparr>s_reserved := add_spend (s_reserved s') bound\<rparr> else s') = None"
    if "s_storeErr s = None" "append_entries sample_config [ExecutionDraft r] s = (a, s')" for s s' r a bound
    using that append_sample by auto
qed (auto simp: ecore_def)

lemma loop_request_sample: "LoopRequest_Validate (loop_request sample_request) = None"
proof -
  have "loop_request sample_request = sample_loop\<lparr>lq_Selector := Some (\<lambda>_. Panics), lq_Sink := None\<rparr>"
    by (simp add: loop_request_def sample_request_def sample_loop_def)
  moreover have "lq_Continuation sample_loop = None" by (simp add: sample_loop_def)
  ultimately show ?thesis
    using sample_loop_valid by (simp add: LoopRequest_Validate_def continuation_error_def)
qed

lemma seq_observing_sample [simp]: "seq (observing sample_config kind outcome) f s = f () s"
  by (simp add: seq_def)

lemma started_sample:
  "started_run sample_config loop False lr s =
     seq (loop lr) (\<lambda>(result, runErr) s.
       case finish_run sample_config result runErr s of (answer, s) \<Rightarrow> (Answers answer, s)) s"
proof -
  have "run_loop sample_config loop False lr = loop lr" for loop
    by (rule ext) (simp add: run_loop_def admit_def ret_def sample_loop_budget_def)
  then show ?thesis by (simp add: started_run_def)
qed

lemma run_reaches_loop:
  "\<exists>s. s_storeErr s = None \<and> s_stopped s = None \<and> s_closed s = (\<lambda>_. None) \<and> s_budgetDimension s = [] \<and> engine_run sample_config loop False (new_run ()) =
     seq (loop (loop_request sample_request)) (\<lambda>(result, runErr) s.
       case finish_run sample_config result runErr s of (answer, s) \<Rightarrow> (Answers answer, s)) s"
proof -
  have same: "sample_config\<lparr>g_request := sample_request\<rparr> = sample_config" by (simp add: sample_config_def)
  have uses: "s_uses (new_run ()) = 0" by (simp add: new_run_def)
  let ?entries = "initial_entries sample_request @ [request_entry sample_request (sha256Hex ''{}'')]"
  obtain s where s: "append_entries sample_config ?entries ((new_run ())\<lparr>s_uses := Suc 0\<rparr>) = (Answers (), s)"
    "s_storeErr s = None \<and> s_stopped s = None \<and> s_closed s = (\<lambda>_. None) \<and> s_budgetDimension s = []"
    using append_sample [of "(new_run ())\<lparr>s_uses := Suc 0\<rparr>" ?entries] by (simp add: new_run_def)
  have "engine_run sample_config loop False (new_run ()) =
     seq (loop (loop_request sample_request)) (\<lambda>(result, runErr) s.
       case finish_run sample_config result runErr s of (answer, s) \<Rightarrow> (Answers answer, s)) s"
    using s(1)
    by (simp add: uses engine_run_def check_ctx_def ask_ctx_def check_def seq_def [of "check _"] seq_def [of "ask_ctx _"]
        seq_def [of "lift_sum _"] seq_def [of "seq _ _"] lift_sum_def prepare_sample same prepared_run_def loop_request_sample requestDigest_def
        start_run_def seq_def [of "append_entries _ _"] ret_def started_sample)
  with s(2) show ?thesis by blast
qed

interpretation executing: engine_invariant g "\<lambda>s. set l \<subseteq> set (s_executed s)" for g l
proof unfold_locales
  show "set l \<subseteq> set (s_executed s')"
    if "set l \<subseteq> set (s_executed s)" "entries \<noteq> []" "append_entries g entries s = (a, s')" for s s' entries a
    using that append_entries_log(3) [OF that(3,2)] by simp
  show "set l \<subseteq> set (s_executed (if a = Answers () then s'\<lparr>s_reserved := add_spend (s_reserved s') bound\<rparr> else s'))"
    if "set l \<subseteq> set (s_executed s)" "append_entries g [ExecutionDraft r] s = (a, s')" for s s' r a bound
    using that append_entries_log(3) [OF that(2)] by simp
qed (auto simp: ecore_def)

theorem run_tools_authorised_witness:
  "\<exists>answer s r. engine_run sample_config (one_turn sample_config) False (new_run ()) = (answer, s) \<and>
     ExecutionDraft r \<in> set (s_log s) \<and>
     authorises sample_config \<lparr>sc_Established = False, sc_Backend = []\<rparr> sample_invocation r"
proof -
  let ?call = "(False, \<lparr>sc_Established = False, sc_Backend = []\<rparr>, sample_invocation)"
  obtain s0 where s0: "s_storeErr s0 = None" and run0: "engine_run sample_config (one_turn sample_config) False (new_run ()) =
     seq (one_turn sample_config (loop_request sample_request)) (\<lambda>(result, runErr) s.
       case finish_run sample_config result runErr s of (answer, s) \<Rightarrow> (Answers answer, s)) s0"
    using run_reaches_loop by blast
  define s1 where "s1 = snd (one_turn sample_config (loop_request sample_request) s0)"
  have "s_storeErr (snd (SelectTurn sample_config sample_turn s0)) = None"
    using healthy.keeps_apply [OF healthy.keeps_SelectTurn s0] .
  from execute_sample [OF this] have "?call \<in> set (s_executed s1)" by (simp add: s1_def one_turn_def)
  then have "?call \<in> set (s_executed (snd (finish_run sample_config zero_result None s1)))"
    using executing.finish_keeps [of "[?call]" s1 sample_config zero_result None] by simp
  moreover have "engine_run sample_config (one_turn sample_config) False (new_run ()) =
      (case finish_run sample_config zero_result None s1 of (answer, s) \<Rightarrow> (Answers answer, s))"
    by (simp add: run0 seq_def s1_def one_turn_def)
  ultimately obtain answer s where run: "engine_run sample_config (one_turn sample_config) False (new_run ()) = (answer, s)"
    and call: "?call \<in> set (s_executed s)" by (cases "finish_run sample_config zero_result None s1") auto
  have same: "sample_config\<lparr>g_request := sample_request\<rparr> = sample_config" by (simp add: sample_config_def)
  from run_tools_authorised [OF sample_runs(1,2) run call] run show ?thesis unfolding same by blast
qed

section \<open>A placement\<close>

lemma context_sample: "\<exists>s'. contextSize sample_config r s = (Answers (1, False, False), s') \<and> s_storeErr s' = s_storeErr s \<and> s_reserved s' = s_reserved s"
  if "mq_MaxOutputTokens r = 0"
  using that
  by (simp add: contextSize_def engine_candidate_def sample_candidate_def sample_descriptor_def sample_capabilities_def Let_def
      seq_def use_ctx_def lift_answer_def ret_def in64_small signed_divide_int_def)

definition placed_candidate :: RoutingCandidate where
  "placed_candidate = engine_candidate\<lparr>rc_ExecutionVerdict :=
     sample_verdict value_manifest (PolicyScopeForExecution (placement_execution sample_config value_manifest engine_candidate)),
     rc_EgressVerdict := None\<rparr>"

lemma placement_valid:
  "ExecutionPolicyRequest_Validate (placement_execution sample_config value_manifest engine_candidate) = None"
  by (simp add: ExecutionPolicyRequest_Validate_def placement_execution_def engine_candidate_def sample_candidate_def
      sample_descriptor_def StepKind_Validate_def ExecutionTarget_Validate_def Zone_Validate_def ModelRef_Validate_None
      value_manifest_valid text_simps)

lemma place_sample:
  assumes "s_storeErr s = None"
  shows "\<exists>s'. place_candidates sample_config turn value_manifest [engine_candidate] s = (Answers [placed_candidate], s') \<and>
    s_storeErr s' = None \<and> s_reserved s' = s_reserved s"
proof -
  have m: "ep_Manifest (placement_execution sample_config value_manifest engine_candidate) = value_manifest"
    by (simp add: placement_execution_def)
  have zone: "rc_Zone engine_candidate = ZonePersonal" by (simp add: engine_candidate_def sample_candidate_def)
  from assms show ?thesis
    by (simp add: place_candidate_def Let_def resolved_def seq_def ret_def use_ctx_def check_ctx_def ask_ctx_def check_def
        execution_allowed [OF placement_valid m] recordPolicy_sample record_sample zone placed_candidate_def)
qed

definition placed_routing :: RoutingRequest where
  "placed_routing = placement_routing sample_config zero_usage value_manifest 10 [placed_candidate]"

lemma placed_routing_valid: "RoutingRequest_Validate placed_routing = None" "go_request placed_routing"
proof -
  have c: "RoutingCandidate_Validate placed_candidate = None"
    by (simp add: RoutingCandidate_Validate_def placed_candidate_def engine_candidate_def sample_candidate_def
        sample_descriptor_valid Zone_Validate_def validateStringSet_def Time_IsZero_def permille_iff)
  show "RoutingRequest_Validate placed_routing = None"
    by (simp add: RoutingRequest_Validate_def placed_routing_def placement_routing_def c Let_def Zone_Validate_def
        Requirements_Validate_def validateStringSet_def validateZoneSet_def Budget_Validate_def Time_IsZero_def Time_After_def
        Time_Add_def Time_Sub_def min64_def max64_def DefaultRoutingWeights_valid text_simps remaining_budget_def zero_usage_def
        sample_loop_budget_def in64_small sample_request_def ContentManifest_Digest_def value_manifest_valid)
  show "go_request placed_routing"
    by (simp add: go_request_def placed_routing_def placement_routing_def remaining_budget_def zero_usage_def
        sample_loop_budget_def in64_small in64_def min64_def max64_def)
qed

lemma placed_admissible: "admissible placed_routing placed_candidate"
proof -
  have "PolicyVerdict_Validate (rc_ExecutionVerdict placed_candidate) = None"
    using scope_of_valid_request(1) [OF placement_valid] by (simp add: placed_candidate_def sample_verdict_valid)
  moreover have "rr_ManifestSHA256 placed_routing = digestUnchecked value_manifest"
    by (simp add: placed_routing_def placement_routing_def ContentManifest_Digest_def value_manifest_valid)
  ultimately have "authorizes (rc_ExecutionVerdict placed_candidate) (rr_ManifestSHA256 placed_routing)
      (routingExecutionScope placed_routing placed_candidate)"
    by (simp add: authorizes_def)
       (simp add: placed_candidate_def placed_routing_def placement_routing_def sample_verdict_def Allows_def routingExecutionScope_def
         PolicyScopeForExecution_def placement_execution_def no_sandbox_def)
  then show ?thesis
    by (simp add: admissible_def)
       (simp add: placed_candidate_def placed_routing_def placement_routing_def engine_candidate_def sample_candidate_def
         sample_descriptor_def sample_capabilities_def remaining_budget_def zero_usage_def sample_loop_budget_def in64_small
         sample_request_def)
qed

lemma reserve_sample:
  assumes "s_storeErr s = None" "s_reserved s = no_spend" "mq_MaxOutputTokens r = 0"
  shows "\<exists>s'. reserve sample_config turn r descriptor s = (Answers \<lparr>sb_InputTokens = 5, sb_OutputTokens = 5, sb_Cost = 1\<rparr>, s')"
  using assms
  by (simp add: reserve_def seq_def use_ctx_def lift_answer_def check_def SpendBound_Validate_def Let_def exceeded_dimension_def
      no_spend_def sample_loop_budget_def in64_small record_sample)

lemma place_selected:
  assumes "s_storeErr s = None" "s_reserved s = no_spend" "mq_MaxOutputTokens r = 0"
  shows "\<exists>sel s'. route_placement sample_config turn value_manifest r placed_routing s = (Answers sel, s')"
proof -
  have cands: "rr_Candidates placed_routing = [placed_candidate]" by (simp add: placed_routing_def placement_routing_def)
  obtain d where d: "EvaluateRouter background (Some Route) placed_routing = Some (d, None)"
    using deterministic.routes_iff_admissible [of background placed_routing] placed_routing_valid placed_admissible cands by auto
  have find: "rc_ID placed_candidate = rd_SelectedCandidateID d"
    using valid_decision_selected [OF EvaluateRouter_decides(1) [OF d]] EvaluateRouter_decides(2) [OF d]
    by (auto simp: cands ID_IsZero_def)
  define s1 where "s1 = snd (record_execution sample_config (routing_record turn placed_routing d) (s\<lparr>s_uses := Suc (s_uses s)\<rparr>))"
  obtain s' where "reserve sample_config turn (r\<lparr>mq_Model := md_Ref (rc_Model placed_candidate)\<rparr>) (rc_Model placed_candidate) s1 =
      (Answers \<lparr>sb_InputTokens = 5, sb_OutputTokens = 5, sb_Cost = 1\<rparr>, s')"
    using reserve_sample [of s1 "r\<lparr>mq_Model := md_Ref (rc_Model placed_candidate)\<rparr>" turn "rc_Model placed_candidate"] assms
    by (auto simp: s1_def record_sample)
  then show ?thesis
    using assms
    by (simp add: route_placement_def seq_def use_ctx_def d cands find take_placement_def approve_step_def ret_def
        s1_def record_sample)
qed

lemma SelectTurn_sample: "\<exists>sel s'. SelectTurn sample_config sample_turn (new_run ()) = (Answers sel, s')"
proof -
  let ?r = "(CloneModelRequest sample_model_request)\<lparr>mq_Messages := CloneMessages (mq_Messages sample_model_request),
    mq_Tools := [tb_Definition echo_tool]\<rparr>"
  have out: "mq_MaxOutputTokens ?r = 0" by (simp add: CloneModelRequest_def sample_model_request_def)
  obtain s1 where s1: "contextSize sample_config ?r (new_run ()) = (Answers (1, False, False), s1)" "s_storeErr s1 = None"
    "s_reserved s1 = no_spend"
    using context_sample [OF out, of "new_run ()"] by (auto simp: new_run_def)
  have prep: "prepareContext sample_config 1 zero_usage (mq_Messages sample_model_request) (new_run ()) = (Answers None, s1)"
    using s1(1) by (simp add: prepareContext_def Let_def seq_def ret_def)
  have man: "modelManifest sample_config ?r ClassPublic = Inr value_manifest"
    by (simp add: modelManifest_def valueManifest_sample)
       (simp add: sample_model_request_def text_part_def CloneMessages_def valueManifest_sample)
  obtain s2 where s2: "place_candidates sample_config 1 value_manifest [engine_candidate] s1 = (Answers [placed_candidate], s2)"
    "s_storeErr s2 = None" "s_reserved s2 = no_spend"
    using place_sample [OF s1(2)] s1(3) by auto
  obtain sel s' where "route_placement sample_config 1 value_manifest ?r placed_routing s2 = (Answers sel, s')"
    using place_selected [OF s2(2,3) out] by blast
  then have "selectPlacement sample_config 1 zero_usage (mq_Messages sample_model_request) sample_model_request [echo_tool] s1 =
      (Answers sel, s')"
    using s2(1) man by (simp add: selectPlacement_def seq_def lift_sum_def placed_routing_def Let_def)
  then show ?thesis
    using prep
    by (simp add: SelectTurn_def sample_turn_def seq_def ret_def sample_loop_budget_def new_run_def [of "()"] in64_small)
qed

theorem SelectTurn_grounded_witness:
  "\<exists>sel s'. SelectTurn sample_config sample_turn (new_run ()) = (Answers sel, s') \<and> grounded sample_config (s_log s') sel"
  using SelectTurn_sample SelectTurn_grounded [of sample_config sample_turn "new_run ()"] by blast

section \<open>Streams\<close>

definition sample_reader :: "ModelEvent list \<Rightarrow> nat \<Rightarrow> Zone \<Rightarrow> engineModelStream" where
  "sample_reader es n zone =
     \<lparr>ms_stream = scripted_stream es, ms_next = n, ms_bound = \<lparr>sb_InputTokens = 5, sb_OutputTokens = 5, sb_Cost = 1\<rparr>,
      ms_used = no_spend, ms_zone = zone, ms_turn = 1\<rparr>"

lemma egress_allowed:
  assumes "DataEgressPolicyRequest_Validate r = None" "eg_Manifest r = value_manifest"
  shows "EvaluateDataEgressPolicy background
      (Some (\<lambda>_ r. (sample_verdict (eg_Manifest r) (PolicyScopeForDataEgress r), None))) r =
    (sample_verdict value_manifest (PolicyScopeForDataEgress r), None)"
  using assms
  by (simp add: EvaluateDataEgressPolicy_def Let_def sample_verdict_valid scope_of_valid_request) (simp add: sample_verdict_def)

lemma result_valid: "DataEgressPolicyRequest_Validate (result_egress sample_config ZoneSelfCloud value_manifest) = None"
  by (simp add: DataEgressPolicyRequest_Validate_def result_egress_def Zone_Validate_def value_manifest_valid text_simps)

lemma admit_sample:
  assumes "s_storeErr s = None" "ms_zone m = ZoneSelfCloud"
  shows "\<exists>s'. admit_result sample_config m e s = (Answers (), s')"
proof -
  have m: "eg_Manifest (result_egress sample_config ZoneSelfCloud value_manifest) = value_manifest" by (simp add: result_egress_def)
  from assms show ?thesis
    by (simp add: admit_result_def seq_def lift_sum_def valueManifest_sample use_ctx_def check_ctx_def ask_ctx_def check_def ret_def
        Let_def egress_allowed [OF result_valid m] recordPolicy_sample record_sample)
qed

theorem Recv_quarantines_results_witness:
  "\<exists>s' m' r. engineModelStream_Recv sample_config (sample_reader last_turn 1 ZoneSelfCloud) (new_run ()) =
       (Answers (last_turn ! 1, m'), s') \<and>
     ExecutionDraft r \<in> set (s_log s') \<and> releases sample_config ZoneSelfCloud (last_turn ! 1) r"
proof -
  let ?m = "(sample_reader last_turn 1 ZoneSelfCloud)\<lparr>ms_next := 2\<rparr>"
  have e: "carries_content (last_turn ! 1)" "mv_Usage (last_turn ! 1) = None"
    by (simp_all add: last_turn_def sample_model_event_def carries_content_def)
  have event: "sm_Recv (ms_stream (sample_reader last_turn 1 ZoneSelfCloud)) 1 = Answers (last_turn ! 1)"
    by (simp add: sample_reader_def scripted_stream_def last_turn_def)
  have fields: "ms_zone (sample_reader es n z) = z" "ms_next (sample_reader es n z) = n" for es n z by (simp_all add: sample_reader_def)
  obtain s' where "admit_result sample_config ?m (last_turn ! 1) (new_run ()) = (Answers (), s')"
    using admit_sample [of "new_run ()" ?m] by (auto simp: new_run_def fields)
  then have recv: "engineModelStream_Recv sample_config (sample_reader last_turn 1 ZoneSelfCloud) (new_run ()) =
      (Answers (last_turn ! 1, ?m), s')"
    using event e by (simp add: engineModelStream_Recv_def seq_def lift_answer_def account_def ret_def fields numeral_2_eq_2)
  from Recv_quarantines_results [OF recv e(1)] recv show ?thesis by (auto simp: fields)
qed

theorem stream_usage_bounded_witness:
  "\<exists>m'. reading sample_config (sample_reader tool_turn 2 ZonePersonal) [tool_turn ! 2] m' \<and>
     ms_used m' = \<lparr>sb_InputTokens = 3, sb_OutputTokens = 2, sb_Cost = 1\<rparr>"
proof -
  let ?m = "sample_reader tool_turn 2 ZonePersonal"
  have u: "mv_Usage (tool_turn ! 2) = Some sample_usage" "Usage_Validate sample_usage = None"
    by (simp_all add: tool_turn_def sample_usage_def Usage_Validate_def)
  have event: "sm_Recv (ms_stream ?m) 2 = Answers (tool_turn ! 2)"
    by (simp add: sample_reader_def scripted_stream_def tool_turn_def)
  have "\<exists>m'. engineModelStream_Recv sample_config ?m (new_run ()) = (Answers (tool_turn ! 2, m'), new_run ())"
    using event u
    by (simp add: engineModelStream_Recv_def seq_def lift_answer_def account_def ret_def check_def Let_def exceeded_dimension_def
        usage_spend_def sample_reader_def no_spend_def in64_small) (simp add: sample_usage_def)
  then obtain m' where m': "reading sample_config ?m [tool_turn ! 2] m'"
    using reading.recv [OF reading.fresh, of sample_config ?m] by fastforce
  have "ms_used ?m = no_spend" "go_bound (ms_bound ?m)" by (simp_all add: sample_reader_def go_bound_def in64_small)
  from stream_usage_bounded [OF m' this] m' u show ?thesis
    by (auto simp: reported_def total_spend_def no_spend_def usage_spend_def sample_usage_def)
qed

section \<open>Resumption\<close>

lemma resume_replays: "replays sample_config resume_stream p \<longleftrightarrow>
    p = pk 10 WorkloadRunning (Some StepRunning) [request_record, routing_entry, loop_record message_event, loop_record checkpoint_event]"
proof -
  have "aggregate sample_config = sample_aggregate"
    by (simp add: aggregate_def sample_aggregate_def WorkloadAggregateType_def)
  then have "NewWorkloadProjection (aggregate sample_config) = Inr p0"
    by (simp add: NewWorkloadProjection_def WorkloadAggregateType_def sample_aggregate_workload p0_def)
  then show ?thesis by (auto simp: replays_def resume_applied)
qed

lemma recovered_sample:
  "recover_log (sha256Hex ''{}'') v [request_record, routing_entry, loop_record message_event, loop_record checkpoint_event] =
     v\<lparr>rv_match := True, rv_checkpoint := Some checkpoint_event\<rparr>"
  by (simp add: recover_log_def recover_record_def request_record_def routing_entry_def loop_record_def blank_record_def
      message_event_def checkpoint_event_def Let_def)

lemma restore_sample:
  "\<exists>cp deadline s'. restore sample_config (sha256Hex ''{}'') (new_run ()) = (Answers (cp, deadline), s')"
proof -
  obtain q0 where q0: "NewWorkloadProjection (aggregate sample_config) = Inr q0"
    "apply_events resume_codec resume_stream q0 = Inr (pk 10 WorkloadRunning (Some StepRunning)
       [request_record, routing_entry, loop_record message_event, loop_record checkpoint_event])"
    using resume_replays by (auto simp: replays_def)
  have facts: "wl_State (pj_Workload (pk n WorkloadRunning x es)) = WorkloadRunning" "pj_Execution (pk n w x es) = es" for n w x es
    by (simp_all add: pk_def w1_def)
  have stream: "resume_stream \<noteq> []" "ev_AttemptID (last resume_stream) = sample_id" by (simp_all add: resume_stream_def)
  have cp: "le_Checkpoint checkpoint_event = Some turn_result" by (simp add: checkpoint_event_def)
  have new: "s_storeErr (new_run ()) = None" by (simp add: new_run_def)
  show ?thesis
    using q0 stream
    by (simp add: restore_def seq_def use_ctx_def lift_sum_def check_def ret_def Let_def facts recovered_sample record_sample cp new)
qed

theorem restore_safe_witness:
  "\<exists>cp deadline s' l. restore sample_config (sha256Hex ''{}'') (new_run ()) = (Answers (cp, deadline), s') \<and>
     safe_checkpoint [request_record, routing_entry, loop_record message_event, loop_record checkpoint_event] l \<and>
     lc_Sequence cp = le_Sequence l"
proof -
  obtain cp deadline s' where r: "restore sample_config (sha256Hex ''{}'') (new_run ()) = (Answers (cp, deadline), s')"
    using restore_sample by blast
  from restore_safe [OF r] obtain p l where "replays sample_config resume_stream p" "safe_checkpoint (pj_Execution p) l"
    "lc_Sequence cp = le_Sequence l" by auto
  with r show ?thesis by (auto simp: resume_replays pk_def)
qed

section \<open>A run on the in-memory store\<close>

definition memory_config :: "Store config" where
  "memory_config = \<lparr>g_engine = engine_on Append, g_request = sample_request, g_env = sample_environment\<rparr>"

definition no_turn :: "'st turn_loop" where
  "no_turn request s = (Answers (zero_result, None), s)"

lemma append_length_bound:
  "entries \<noteq> [] \<Longrightarrow> append_entries g entries s = (a, s') \<Longrightarrow> length (s_log s') \<le> length (s_log s) + length entries"
  using append_entries_log(1) by fastforce

lemma observe_log [simp]: "s_log (observe g kind outcome s) = s_log s"
  using observe_ecore [of g kind outcome s] by (simp add: ecore_def)

lemma close_tool_bound: "length (s_log (snd (engineToolHandler_Close g i b s))) \<le> length (s_log s) + 1"
proof -
  obtain a s' where r: "record_execution g (blank_record\<lparr>er_Stage := ExecutionCleanup,
      er_Cleanup := Some \<lparr>cr_Failed = (closeEngineTool b \<noteq> None), cr_Resource = ''tool''\<rparr>\<rparr>) s = (a, s')" by fastforce
  have "length (s_log s') \<le> length (s_log s) + 1"
    using append_length_bound [OF _ r [unfolded record_execution_eq]] by simp
  with r show ?thesis by (auto simp: engineToolHandler_Close_def Let_def split: option.split)
qed

lemma close_run_bound: "length (s_log (snd (close_run g result runErr cancelled s))) \<le> length (s_log s) + 3"
proof -
  let ?entries = "closing_entries (g_request g) result (closing_failure runErr cancelled result) (closing_states runErr cancelled)"
  obtain a s2 where a: "append_entries g ?entries s = (a, s2)" by fastforce
  have "length (s_log s2) \<le> length (s_log s) + 3"
    using append_length_bound [OF _ a] by (simp add: closing_entries_def)
  then show ?thesis by (auto simp: close_run_def Let_def a)
qed

text \<open>An operation that commits at most \<open>n\<close> entries.\<close>

definition adds :: "nat \<Rightarrow> ('st, 'a) engine_op \<Rightarrow> bool" where
  "adds n m \<longleftrightarrow> (\<forall>s. length (s_log (snd (m s))) \<le> length (s_log s) + n)"

lemma adds_seq: "adds n m \<Longrightarrow> (\<And>a. adds k (f a)) \<Longrightarrow> adds (n + k) (seq m f)"
  unfolding adds_def
proof
  fix s assume m: "\<forall>s. length (s_log (snd (m s))) \<le> length (s_log s) + n"
    and f: "\<And>a. \<forall>s. length (s_log (snd (f a s))) \<le> length (s_log s) + k"
  obtain a s1 where ms: "m s = (a, s1)" by fastforce
  with m have s1: "length (s_log s1) \<le> length (s_log s) + n" by (metis snd_conv)
  show "length (s_log (snd (seq m f s))) \<le> length (s_log s) + (n + k)"
  proof (cases a)
    case (Answers b)
    have "length (s_log (snd (f b s1))) \<le> length (s_log s1) + k" using f by blast
    with s1 Answers show ?thesis by (simp add: seq_def ms)
  qed (use s1 in \<open>simp_all add: seq_def ms\<close>)
qed

lemma adds_simple:
  "adds 0 (check_ctx g)" "adds 0 (check err)" "adds 0 (lift_sum r)" "adds 0 (observing g' kind outcome)" "adds 0 (ret x)"
  "adds 0 (no_turn request)"
  by (auto simp: adds_def check_ctx_def ask_ctx_def seq_def check_def lift_sum_def observing_def ret_def no_turn_def
      split: option.split sum.split)

lemma adds_append: "entries \<noteq> [] \<Longrightarrow> adds (length entries) (append_entries g entries)"
  unfolding adds_def
proof
  fix s assume "entries \<noteq> []"
  obtain a s' where "append_entries g entries s = (a, s')" by fastforce
  with append_length_bound [OF \<open>entries \<noteq> []\<close> this]
  show "length (s_log (snd (append_entries g entries s))) \<le> length (s_log s) + length entries" by simp
qed

lemma finish_adds:
  assumes "q_Tools (g_request g) = [b]"
  shows "adds 4 (\<lambda>s. case finish_run g result runErr s of (answer, s) \<Rightarrow> (Answers answer, s))"
  unfolding adds_def
proof
  fix s
  obtain e s1 where c: "engineToolHandler_Close g 0 b s = (e, s1)" by fastforce
  have s1: "length (s_log s1) \<le> length (s_log s) + 1" using close_tool_bound [of g 0 b s] by (simp add: c)
  have "length (s_log (snd (finish_run g result runErr s))) \<le> length (s_log s) + 4"
    using s1 by (auto simp: finish_run_def cleanup_def assms c split: prod.split intro: le_trans [OF close_run_bound])
  then show "length (s_log (snd (case finish_run g result runErr s of (answer, s) \<Rightarrow> (Answers answer, s)))) \<le> length (s_log s) + 4"
    by (cases "finish_run g result runErr s") simp
qed

lemma prepared_run_adds:
  assumes request: "g_request g = sample_request"
  shows "adds 11 (prepared_run g no_turn False)"
proof -
  have loop: "adds 0 (run_loop g no_turn False lr)" for lr
    by (simp add: adds_def run_loop_def request admit_def sample_loop_budget_def ret_def no_turn_def)
  have "adds (0 + (0 + (0 + (0 + 4)))) (started_run g no_turn False lr)" for lr
    unfolding started_run_def using finish_adds [of g echo_tool]
    by (intro adds_seq adds_simple loop) (auto simp: request)
  then have started: "adds 4 (started_run g no_turn False lr)" for lr by simp
  have len: "length (initial_entries sample_request @ [request_entry sample_request digest]) = 7" for digest
    by (simp add: initial_entries_def)
  have "adds 7 (append_entries g (initial_entries sample_request @ [request_entry sample_request digest]))" for digest
    using adds_append [of "initial_entries sample_request @ [request_entry sample_request digest]" g] unfolding len by blast
  then have "adds (7 + 0) (start_run g False digest)" for digest
    unfolding start_run_def if_False request by (intro adds_seq adds_simple)
  then have start: "adds 7 (start_run g False digest)" for digest by simp
  have "adds (0 + (0 + (7 + 4))) (prepared_run g no_turn False)"
    unfolding prepared_run_def by (intro adds_seq adds_simple start started)
  then show ?thesis by simp
qed

lemma engine_run_adds:
  assumes request: "g_request g = sample_request"
  shows "adds 11 (engine_run g no_turn False)"
proof -
  have same: "g\<lparr>g_request := sample_request\<rparr> = g" using request by simp
  have "adds (0 + (0 + (0 + 11))) (engine_run g no_turn False)"
    unfolding engine_run_def request prepare_sample
    by (intro adds_seq [OF adds_simple(1)] adds_seq [OF adds_simple(2)])
       (simp add: adds_def seq_def lift_sum_def same prepared_run_adds [OF request, unfolded adds_def])
  then show ?thesis by simp
qed

lemma sample_run_short:
  assumes "g_request g = sample_request" "engine_run g no_turn False (new_run st) = (answer, s)"
  shows "length (s_log s) \<le> 11"
proof -
  have "length (s_log (snd (engine_run g no_turn False (new_run st)))) \<le> length (s_log (new_run st)) + 11"
    using engine_run_adds [OF assms(1)] unfolding adds_def by blast
  then show ?thesis using assms(2) by (simp add: new_run_def)
qed

theorem run_log_is_stored_witness:
  "\<exists>answer s es. engine_run (on_memory memory_config) no_turn False (new_run New) = (answer, s) \<and>
     stream_of (s_store s) sample_aggregate = es \<and> list_all2 (carries memory_config) (s_log s) es"
proof -
  let ?g = "on_memory memory_config"
  have same: "?g\<lparr>g_request := sample_request\<rparr> = ?g" "memory_config\<lparr>g_request := sample_request\<rparr> = memory_config"
    by (simp_all add: on_memory_def memory_config_def)
  have request: "g_request ?g = sample_request" "g_request memory_config = sample_request"
    by (simp_all add: on_memory_def memory_config_def)
  obtain answer s where run: "engine_run ?g no_turn False (new_run New) = (answer, s)" by fastforce
  have "length (s_log s) \<le> 11" by (rule sample_run_short [OF request(1) run])
  moreover have agg: "aggregate memory_config = sample_aggregate"
    by (simp add: aggregate_def request sample_aggregate_def WorkloadAggregateType_def)
  moreover have new: "stream_of New a = []" for a by (simp add: New_def stream_of_def streams_at_def)
  ultimately have small: "length (stream_of New (aggregate (memory_config\<lparr>g_request := sample_request\<rparr>))) + length (s_log s) < 2 ^ 64"
    by simp
  have behaved: "well_behaved (on_memory (memory_config\<lparr>g_request := sample_request\<rparr>)) no_turn"
    by (simp add: well_behaved_def no_turn_def)
  have "prepare_request (g_request memory_config) = Inr sample_request" by (simp add: request prepare_sample)
  from run_log_is_stored [OF store_inv_New this behaved run small] run show ?thesis
    unfolding same agg new by auto
qed

section \<open>A run that succeeds\<close>

lemma finish_sample:
  assumes "s_storeErr s = None" "s_stopped s = None" "s_closed s = (\<lambda>_. None)" "s_budgetDimension s = []"
  shows "\<exists>p s'. finish_run sample_config zero_result None s = ((Some p, None), s')"
proof -
  have tool: "closeEngineTool echo_tool = None" by (simp add: closeEngineTool_def echo_tool_def)
  define s1 where "s1 = snd (engineToolHandler_Close sample_config 0 echo_tool s)"
  have close: "engineToolHandler_Close sample_config 0 echo_tool s = (None, s1)" "s_storeErr s1 = None" "s_stopped s1 = None"
    "s_budgetDimension s1 = []"
    using assms by (simp_all add: s1_def engineToolHandler_Close_def tool record_sample Let_def)
  have settle: "settle sample_config zero_result None s1 = (total_result s1 zero_result, None, False)"
    using close by (simp add: settle_def Let_def total_result_def zero_result_def)
  obtain a s2 where a: "append_entries sample_config (closing_entries sample_request (total_result s1 zero_result)
      (closing_failure None False (total_result s1 zero_result)) (closing_states None False)) (s1\<lparr>s_uses := Suc (s_uses s1)\<rparr>) = (Answers (), s2)"
    using append_sample [of "s1\<lparr>s_uses := Suc (s_uses s1)\<rparr>"] close(2) by (simp add: closing_entries_def)
  have agg: "aggregate sample_config = sample_aggregate"
    by (simp add: aggregate_def sample_aggregate_def WorkloadAggregateType_def)
  show ?thesis
    using a close(1) settle
    by (simp add: finish_run_def cleanup_def close_run_def Let_def agg resume_load)
qed

theorem run_success_recorded_witness:
  "\<exists>p s result cancelled log. engine_run sample_config no_turn False (new_run ()) = (Answers (Some p, None), s) \<and>
     s_log s = log @ closing_entries sample_request result (closing_failure None cancelled result) (closing_states None cancelled)"
proof -
  obtain s1 where s1: "s_storeErr s1 = None" "s_stopped s1 = None" "s_closed s1 = (\<lambda>_. None)" "s_budgetDimension s1 = []"
    and run1: "engine_run sample_config no_turn False (new_run ()) = seq (no_turn (loop_request sample_request)) (\<lambda>(result, runErr) s.
       case finish_run sample_config result runErr s of (answer, s) \<Rightarrow> (Answers answer, s)) s1"
    using run_reaches_loop [of no_turn] by blast
  obtain p s where "finish_run sample_config zero_result None s1 = ((Some p, None), s)" using finish_sample [OF s1] by blast
  then have run: "engine_run sample_config no_turn False (new_run ()) = (Answers (Some p, None), s)"
    by (simp add: run1 seq_def no_turn_def)
  from run_success_recorded [OF sample_runs(1) run] run show ?thesis by blast
qed

end
