(* ===== verification/Sse.thy ===== *)
theory Sse
  imports Streams
begin

text \<open>
  What the two provider packages share. From Go's standard library: \<open>bufio.Scanner\<close> over the
  lines of a response body, \<open>strings.Cut\<close>, \<open>strings.HasPrefix\<close> and \<open>strings.TrimPrefix\<close>.
  From the stream contract: what a provider may put into its queue, and the locale of a
  provider stream, which shows that a stream built this way is never refused by
  \<open>ModelStreamValidator\<close>.
\<close>

section \<open>bufio.Scanner\<close>

text \<open>
  A response body is the bytes it delivers and the error the reader ends with (none at end of
  file); \<open>sc_endsWithData\<close> tells whether the reader reports the end in the same call as its last
  bytes. The scanner's buffer holds \<open>sc_limit\<close> bytes, so a line that fills it before its line
  feed has been seen is too long.
\<close>

record scanner =
  sc_rest :: bytes
  sc_limit :: int
  sc_failure :: "error option"
  sc_endsWithData :: bool

datatype scan = Line string scanner | Done "error option"

abbreviation newline :: char where "newline \<equiv> CHR 0x0A"
abbreviation carriage_return :: char where "carriage_return \<equiv> CHR 0x0D"

definition dropCR :: "string \<Rightarrow> string" where
  "dropCR line = (if line \<noteq> [] \<and> last line = carriage_return then butlast line else line)"

definition Scan :: "scanner \<Rightarrow> scan" where
  "Scan sc =
     (let line = takeWhile (\<lambda>c. c \<noteq> newline) (sc_rest sc);
          tail = dropWhile (\<lambda>c. c \<noteq> newline) (sc_rest sc)
      in if sc_rest sc = [] then Done (sc_failure sc)
         else if sc_limit sc \<le> int (length line) \<and>
                 \<not> (tail = [] \<and> sc_endsWithData sc \<and> int (length line) = sc_limit sc)
         then Done (Some (Error [ErrTooLong] ''token too long''))
         else Line (dropCR line) (sc\<lparr>sc_rest := drop 1 tail\<rparr>))"

lemma Scan_shorter: "Scan sc = Line line sc' \<Longrightarrow> length (sc_rest sc') < length (sc_rest sc)"
proof -
  assume scan: "Scan sc = Line line sc'"
  then have "sc_rest sc \<noteq> []" and rest: "sc_rest sc' = drop 1 (dropWhile (\<lambda>c. c \<noteq> newline) (sc_rest sc))"
    by (auto simp: Scan_def Let_def split: if_splits)
  have "length (dropWhile (\<lambda>c. c \<noteq> newline) (sc_rest sc)) \<le> length (sc_rest sc)"
    by (rule length_dropWhile_le)
  with \<open>sc_rest sc \<noteq> []\<close> show ?thesis unfolding rest by (cases "sc_rest sc") auto
qed

lemma takeWhile_break:
  assumes "c \<notin> set xs"
  shows "takeWhile (\<lambda>x. x \<noteq> c) (xs @ c # ys) = xs" "dropWhile (\<lambda>x. x \<noteq> c) (xs @ c # ys) = c # ys"
  using assms by (induction xs) auto

lemma Scan_line:
  assumes "sc_rest sc = line @ newline # rest" "newline \<notin> set line" "int (length line) < sc_limit sc"
  shows "Scan sc = Line (dropCR line) (sc\<lparr>sc_rest := rest\<rparr>)"
  using assms by (simp add: Scan_def Let_def takeWhile_break)

lemma dropCR_id [simp]: "carriage_return \<notin> set line \<Longrightarrow> dropCR line = line"
  by (metis dropCR_def last_in_set)

section \<open>Package strings\<close>

definition HasPrefix :: "string \<Rightarrow> string \<Rightarrow> bool" where
  "HasPrefix s p \<longleftrightarrow> take (length p) s = p"

definition TrimPrefix :: "string \<Rightarrow> string \<Rightarrow> string" where
  "TrimPrefix s p = (if HasPrefix s p then drop (length p) s else s)"

definition TrimSuffix :: "string \<Rightarrow> string \<Rightarrow> string" where
  "TrimSuffix s p = (if HasPrefix (rev s) (rev p) then take (length s - length p) s else s)"

text \<open>\<open>strings.Cut\<close> at a single byte.\<close>

definition Cut :: "string \<Rightarrow> char \<Rightarrow> (string \<times> string) option" where
  "Cut s c =
     (if c \<in> set s
      then Some (takeWhile (\<lambda>x. x \<noteq> c) s, drop 1 (dropWhile (\<lambda>x. x \<noteq> c) s)) else None)"

definition ContainsAny :: "string \<Rightarrow> string \<Rightarrow> bool" where
  "ContainsAny s chars \<longleftrightarrow> set s \<inter> set chars \<noteq> {}"

lemma ContainsAny_code [code]: "ContainsAny s chars \<longleftrightarrow> (\<exists>c\<in>set s. c \<in> set chars)"
  by (auto simp: ContainsAny_def)

lemma Cut_append [simp]: "c \<notin> set field \<Longrightarrow> Cut (field @ c # value) c = Some (field, value)"
  by (simp add: Cut_def takeWhile_break)

section \<open>The decoder's state\<close>

text \<open>
  Both packages declare the same decoder: a scanner whose buffer is one byte longer than the
  largest event, that limit, and a flag for a body read to its end. A limit whose successor
  overflows leaves the scanner with its first buffer.
\<close>

record sseDecoder =
  sd_scanner :: scanner
  sd_maxEventBytes :: int
  sd_exhausted :: bool

definition newSSEDecoder :: "bytes \<Rightarrow> error option \<Rightarrow> bool \<Rightarrow> int \<Rightarrow> sseDecoder" where
  "newSSEDecoder body failure together bound =
     (let initial = (if bound < 65536 then bound else 65536);
          limit = wrap64 (bound + 1)
      in \<lparr>sd_scanner = \<lparr>sc_rest = body, sc_limit = (if limit \<le> initial then initial else limit),
            sc_failure = failure, sc_endsWithData = together\<rparr>,
          sd_maxEventBytes = bound, sd_exhausted = False\<rparr>)"

definition io_EOF :: error where "io_EOF = Error [ErrEOF] ''EOF''"

definition decoder_left :: "sseDecoder \<Rightarrow> nat" where
  "decoder_left d = (if sd_exhausted d then 0 else Suc (length (sc_rest (sd_scanner d))))"

text \<open>The data of an event grows by one line, joined with a line feed.\<close>

definition add_data :: "string \<Rightarrow> string \<Rightarrow> string" where
  "add_data data value = (if data = [] then value else data @ [newline] @ value)"

definition data_too_long :: "int \<Rightarrow> string \<Rightarrow> string \<Rightarrow> bool" where
  "data_too_long bound data value \<longleftrightarrow>
     bound < int (length data) + (int (length value) + (if data = [] then 0 else 1))"

definition fits_event :: "int \<Rightarrow> string \<Rightarrow> bool" where
  "fits_event bound data \<longleftrightarrow> data \<noteq> [] \<and> int (length data) \<le> bound"

lemma add_data_length: "\<not> data_too_long bound data value \<Longrightarrow> int (length (add_data data value)) \<le> bound"
  by (auto simp: data_too_long_def add_data_def split: if_splits)

text \<open>
  A server's encoding of an event: its name and its data, one field line per line of data, closed
  by an empty line. A line of data carries no line break of its own.
\<close>

definition data_field :: "string \<Rightarrow> string" where
  "data_field l = ''data: '' @ l @ [newline]"

definition event_field :: "string \<Rightarrow> string" where
  "event_field name = ''event: '' @ name @ [newline]"

definition join_lines :: "string list \<Rightarrow> string" where
  "join_lines ls = (case ls of [] \<Rightarrow> [] | l # rest \<Rightarrow> l @ concat (map (Cons newline) rest))"

definition plain_line :: "string \<Rightarrow> bool" where
  "plain_line l \<longleftrightarrow> newline \<notin> set l \<and> carriage_return \<notin> set l"

lemma foldl_add_data: "data \<noteq> [] \<Longrightarrow> foldl add_data data ls = data @ concat (map (Cons newline) ls)"
  by (induction ls arbitrary: data) (simp_all add: add_data_def)

lemma Scan_field:
  assumes "sc_rest sc = field @ '': '' @ value @ newline # rest" "plain_line field" "plain_line value"
    "int (length field + length value) + 2 < sc_limit sc"
  shows "Scan sc = Line (field @ '': '' @ value) (sc\<lparr>sc_rest := rest\<rparr>)"
  using Scan_line [of sc "field @ '': '' @ value" rest] assms by (simp add: plain_line_def)

section \<open>What a stream may queue\<close>

text \<open>
  The stream state machine without the validity of the single event, which \<open>Recv\<close> checks when
  it hands the event over: \<open>emit_all v es\<close> is the state after the events \<open>es\<close> have been queued.
\<close>

fun emit_all :: "ModelStreamValidator \<Rightarrow> ModelEvent list \<Rightarrow> ModelStreamValidator option" where
  "emit_all v [] = Some v"
| "emit_all v (e # es) =
     (if sv_terminal v \<or> (mv_Type e = ModelEventStart \<longleftrightarrow> sv_started v) \<or>
         mv_Sequence e \<noteq> sv_lastSequence v + 1
      then None
      else emit_all \<lparr>sv_lastSequence = mv_Sequence e, sv_started = True, sv_terminal = terminal_event e\<rparr> es)"

lemma emit_all_append:
  "emit_all v (xs @ ys) = (case emit_all v xs of None \<Rightarrow> None | Some w \<Rightarrow> emit_all w ys)"
  by (induction v xs rule: emit_all.induct) auto

lemma emit_all_started: "emit_all v es = Some w \<Longrightarrow> sv_started v \<or> es \<noteq> [] \<Longrightarrow> sv_started w"
  by (induction v es rule: emit_all.induct) (auto split: if_splits)

lemma accept_all_emit:
  "accept_all v es = Inr w \<longleftrightarrow> emit_all v es = Some w \<and> (\<forall>e\<in>set es. ModelEvent_Validate e = None)"
proof (induction es arbitrary: v)
  case (Cons e es)
  show ?case unfolding accept_all_Cons_Inr Accept_None using Cons.IH by auto
qed auto

text \<open>The identifiers of the completed tool calls among some events, and the sum of their usage.\<close>

definition call_ids :: "ModelEvent list \<Rightarrow> string list" where
  "call_ids es = map tk_ID (List.map_filter mv_ToolCall es)"

lemma call_ids_simps [simp]:
  "call_ids [] = []"
  "call_ids (e # es) = (case mv_ToolCall e of None \<Rightarrow> [] | Some c \<Rightarrow> [tk_ID c]) @ call_ids es"
  "call_ids (xs @ ys) = call_ids xs @ call_ids ys"
  by (auto simp: call_ids_def List.map_filter_def split: option.splits)

definition usage_total :: "(Usage \<Rightarrow> int) \<Rightarrow> ModelEvent list \<Rightarrow> int" where
  "usage_total f es = sum_list (map f (List.map_filter mv_Usage es))"

lemma usage_total_simps [simp]:
  "usage_total f [] = 0"
  "usage_total f (e # es) = (case mv_Usage e of None \<Rightarrow> 0 | Some u \<Rightarrow> f u) + usage_total f es"
  "usage_total f (xs @ ys) = usage_total f xs + usage_total f ys"
  by (auto simp: usage_total_def List.map_filter_def split: option.splits)

section \<open>The events a provider queues and what a call meets\<close>

text \<open>The number of an event is set when it is queued.\<close>

definition text_event :: "string \<Rightarrow> ModelEvent" where
  "text_event t = (blank_event ModelEventTextDelta 0)\<lparr>mv_Text := t\<rparr>"

definition delta_event :: "ToolCallDelta \<Rightarrow> ModelEvent" where
  "delta_event d = (blank_event ModelEventToolCallDelta 0)\<lparr>mv_ToolCallDelta := Some d\<rparr>"

definition call_event :: "ToolCall \<Rightarrow> ModelEvent" where
  "call_event c = (blank_event ModelEventToolCall 0)\<lparr>mv_ToolCall := Some c\<rparr>"

definition stop_event :: "StopReason \<Rightarrow> ModelEvent" where
  "stop_event r = (blank_event ModelEventStop 0)\<lparr>mv_Stop := r\<rparr>"

definition provider_failure :: ModelEvent where
  "provider_failure = (blank_event ModelEventError 0)
     \<lparr>mv_Error := Some \<lparr>me_Code = ''provider_error'', me_Message = ''provider reported an error'',
        me_Retryable = False, me_SafeToReroute = False\<rparr>\<rparr>"

lemmas event_defs = blank_event_def text_event_def delta_event_def call_event_def stop_event_def
  provider_failure_def terminal_event_def

text \<open>
  A read runs beside the caller's and the stream's context; the select statement takes the
  result or the end of one of the contexts.
\<close>

datatype select = ReadArrives | CallerDone error | StreamDone error

text \<open>
  What one call of \<open>Recv\<close> meets: the answers of the caller's and of the stream's context
  when asked, and the outcome of the select statement at each read.
\<close>

record recv_env =
  env_ctx :: ctx
  env_stream :: ctx
  env_select :: "nat \<Rightarrow> select"

definition honest :: "recv_env \<Rightarrow> bool" where
  "honest env \<longleftrightarrow>
     (\<forall>i e. env_ctx env i = Some e \<or> env_stream env i = Some e \<longrightarrow> \<not> errors_Is e ErrEOF)"

section \<open>The contract of a provider stream\<close>

text \<open>
  The states a stream goes through, and its answers, when \<open>Recv\<close> is called once after the
  other.
\<close>

primrec recv_state :: "('env \<Rightarrow> 's \<Rightarrow> 's \<times> ModelEvent answer) \<Rightarrow> (nat \<Rightarrow> 'env) \<Rightarrow> 's \<Rightarrow> nat \<Rightarrow> 's" where
  "recv_state recv envs s 0 = s"
| "recv_state recv envs s (Suc i) = fst (recv (envs i) (recv_state recv envs s i))"

definition recv_reply ::
  "('env \<Rightarrow> 's \<Rightarrow> 's \<times> ModelEvent answer) \<Rightarrow> (nat \<Rightarrow> 'env) \<Rightarrow> 's \<Rightarrow> nat \<Rightarrow> ModelEvent answer" where
  "recv_reply recv envs s i = snd (recv (envs i) (recv_state recv envs s i))"

text \<open>
  A stream answers \<open>Recv\<close> from a queue that its reading extends. \<open>history H s\<close> is what the
  provider keeps of everything it has queued so far, \<open>H\<close>, the part still in the queue included,
  \<open>finished\<close> that the terminal event has been queued, and \<open>honest\<close> that no context answers with
  the end of file.
\<close>

locale provider_stream =
  fixes recv :: "'env \<Rightarrow> 's \<Rightarrow> 's \<times> ModelEvent answer"
    and queue :: "'s \<Rightarrow> ModelEvent list"
    and history :: "ModelEvent list \<Rightarrow> 's \<Rightarrow> bool"
    and finished :: "'s \<Rightarrow> bool"
    and honest :: "'env \<Rightarrow> bool"
  assumes recv_answers:
    "history H s \<Longrightarrow> recv env s = (s', Answers e) \<Longrightarrow>
       \<exists>new. history (H @ new) s' \<and> queue s @ new = e # queue s' \<and> ModelEvent_Validate e = None"
    and recv_eof:
    "history H s \<Longrightarrow> honest env \<Longrightarrow> recv env s = (s', Fails err) \<Longrightarrow> errors_Is err ErrEOF \<Longrightarrow>
       queue s = [] \<and> finished s"
    and history_emitted:
    "history H s \<Longrightarrow> \<exists>v. emit_all zero_validator H = Some v \<and> (finished s \<longrightarrow> sv_terminal v)"
begin

lemma received_history:
  assumes "history (queue s) s"
  shows "map (recv_reply recv envs s) [0..<length es] = map Answers es \<Longrightarrow>
    history (es @ queue (recv_state recv envs s (length es))) (recv_state recv envs s (length es)) \<and>
    (\<forall>e\<in>set es. ModelEvent_Validate e = None)"
proof (induction es rule: rev_induct)
  case Nil
  then show ?case using assms by simp
next
  case (snoc e es)
  let ?s = "recv_state recv envs s (length es)"
  from snoc.prems have first: "map (recv_reply recv envs s) [0..<length es] = map Answers es"
    and "recv_reply recv envs s (length es) = Answers e"
    by simp_all
  then have step: "recv (envs (length es)) ?s = (fst (recv (envs (length es)) ?s), Answers e)"
    by (simp add: recv_reply_def prod_eq_iff)
  from snoc.IH [OF first] have "history (es @ queue ?s) ?s" by blast
  from recv_answers [OF this step] obtain new where
    new: "history ((es @ queue ?s) @ new) (fst (recv (envs (length es)) ?s))"
      "queue ?s @ new = e # queue (fst (recv (envs (length es)) ?s))" "ModelEvent_Validate e = None"
    by blast
  from new(2) have "(es @ queue ?s) @ new = (es @ [e]) @ queue (fst (recv (envs (length es)) ?s))"
    by simp
  with new snoc.IH [OF first] show ?case by simp
qed

text \<open>
  Whatever the environment does, the events handed over up to the first failure are accepted by
  the validator, and they are a complete canonical stream when that failure is the end of file.
\<close>

lemma stream_conforms:
  assumes "history (queue s) s" "map (recv_reply recv envs s) [0..<length es] = map Answers es"
  shows "(\<exists>v. accept_all zero_validator es = Inr v) \<and>
    (honest (envs (length es)) \<longrightarrow> (\<exists>err. recv_reply recv envs s (length es) = Fails err \<and> errors_Is err ErrEOF)
       \<longrightarrow> canonical es)"
proof -
  let ?s = "recv_state recv envs s (length es)"
  note hist = received_history [OF assms]
  then obtain v where v: "emit_all zero_validator (es @ queue ?s) = Some v" "finished ?s \<longrightarrow> sv_terminal v"
    using history_emitted by blast
  then obtain w where w: "emit_all zero_validator es = Some w"
    by (auto simp: emit_all_append split: option.splits)
  with hist have accepted: "accept_all zero_validator es = Inr w"
    by (simp add: accept_all_emit)
  have "canonical es"
    if "honest (envs (length es))" and fails: "recv_reply recv envs s (length es) = Fails err" "errors_Is err ErrEOF" for err
  proof -
    have step: "recv (envs (length es)) ?s = (fst (recv (envs (length es)) ?s), Fails err)"
      using fails(1) by (simp add: recv_reply_def prod_eq_iff)
    from recv_eof [OF _ that(1) step fails(2)] hist have "queue ?s = []" and "finished ?s"
      by blast+
    with v w have "sv_terminal w" by simp
    moreover have "es \<noteq> []"
      using w \<open>sv_terminal w\<close> by (auto simp: zero_validator_def)
    then have "sv_started w" using emit_all_started [OF w] by simp
    ultimately have "Complete w = None" by (simp add: Complete_None)
    with accepted accept_all_language [of es] show ?thesis by blast
  qed
  with accepted show ?thesis by blast
qed

end

end
