(* ===== verification/AnthropicStream.thy ===== *)
theory AnthropicStream
  imports Sse "HOL-Library.AList"
begin

text \<open>
  The event stream of the Anthropic provider (\<open>src/provider/anthropic/stream.go\<close>): the
  decoder of server-sent events, the translation of the provider's events into model events,
  \<open>Recv\<close> and \<open>Close\<close>.

  \<open>json.Unmarshal\<close> into a stream envelope is a parameter, and the theorems hold for every
  decoder. A response body is finite; a read that never returns is a call that does not return.
  The goroutine that \<open>nextSSE\<close> starts and the two contexts race: \<open>env_select\<close> names the case the
  select statement takes at the n-th read. When a context wins, the stream is closed, so that
  every later call fails on the stream's context and the decoder is not observed again.
\<close>

section \<open>The decoder\<close>

function next_loop :: "int \<Rightarrow> scanner \<Rightarrow> string \<Rightarrow> string \<Rightarrow> (error + string \<times> string) \<times> scanner \<times> bool" where
  "next_loop bound sc event data =
     (case Scan sc of
        Done err \<Rightarrow>
          (case err of
             Some e \<Rightarrow> (Inl e, sc, True)
           | None \<Rightarrow> (if data \<noteq> [] then Inr (event, data) else Inl io_EOF, sc, True))
      | Line line sc' \<Rightarrow>
          if line = [] then
            if data = [] then next_loop bound sc' [] data else (Inr (event, data), sc', False)
          else if HasPrefix line '':'' then next_loop bound sc' event data
          else (case Cut line CHR '':'' of
                  None \<Rightarrow> next_loop bound sc' event data
                | Some (field, value) \<Rightarrow>
                    let value = TrimPrefix value '' '' in
                    if field = ''event'' then
                      if event \<noteq> [] then (Inl (errorf ''repeated SSE event field''), sc', False)
                      else next_loop bound sc' value data
                    else if field = ''data'' then
                      if data_too_long bound data value
                      then (Inl (errorf ''SSE event exceeds configured size limit''), sc', False)
                      else next_loop bound sc' event (add_data data value)
                    else next_loop bound sc' event data))"
  by pat_completeness auto
termination
  by (relation "measure (\<lambda>(_, sc, _, _). length (sc_rest sc))") (auto dest: Scan_shorter)

declare next_loop.simps [simp del]

definition sseDecoder_Next :: "sseDecoder \<Rightarrow> (error + string \<times> string) \<times> sseDecoder" where
  "sseDecoder_Next d =
     (if sd_exhausted d then (Inl io_EOF, d)
      else case next_loop (sd_maxEventBytes d) (sd_scanner d) [] [] of
        (r, sc, ended) \<Rightarrow> (r, d\<lparr>sd_scanner := sc, sd_exhausted := ended\<rparr>))"

lemma next_loop_shorter:
  "next_loop bound sc event data = (r, sc', ended) \<Longrightarrow>
     ended \<or> length (sc_rest sc') < length (sc_rest sc)"
proof (induction "length (sc_rest sc)" arbitrary: sc event data rule: less_induct)
  case less
  show ?case
  proof (cases "Scan sc")
    case (Done err)
    then show ?thesis using less.prems by (subst (asm) next_loop.simps) (auto split: option.splits)
  next
    case (Line line sc2)
    note shorter = Scan_shorter [OF Line]
    have IH: "next_loop bound sc2 event2 data2 = (r, sc', ended) \<Longrightarrow>
        ended \<or> length (sc_rest sc') < length (sc_rest sc)" for event2 data2
      using less.hyps [OF shorter] shorter by (meson less_trans)
    show ?thesis using less.prems shorter
      by (subst (asm) next_loop.simps) (auto simp: Line Let_def split: if_splits option.splits dest: IH)
  qed
qed

lemma sseDecoder_Next_left:
  "sseDecoder_Next d = (Inr ev, d') \<Longrightarrow> decoder_left d' < decoder_left d"
  by (auto simp: sseDecoder_Next_def decoder_left_def split: if_splits prod.splits dest: next_loop_shorter)

lemma next_loop_bound:
  "next_loop bound sc event data = (Inr (name, out), sc', ended) \<Longrightarrow> int (length data) \<le> bound \<Longrightarrow>
     fits_event bound out"
proof (induction "length (sc_rest sc)" arbitrary: sc event data rule: less_induct)
  case less
  show ?case
  proof (cases "Scan sc")
    case (Done err)
    then show ?thesis using less.prems
      by (subst (asm) next_loop.simps) (auto simp: fits_event_def split: option.splits if_splits)
  next
    case (Line line sc2)
    have IH: "next_loop bound sc2 event2 data2 = (Inr (name, out), sc', ended) \<Longrightarrow>
        int (length data2) \<le> bound \<Longrightarrow> fits_event bound out" for event2 data2
      using less.hyps [OF Scan_shorter [OF Line]] .
    show ?thesis
    proof (cases "line = [] \<and> data \<noteq> []")
      case True
      then show ?thesis using less.prems Line
        by (subst (asm) next_loop.simps) (auto simp: fits_event_def)
    next
      case False
      then show ?thesis using less.prems
        by (subst (asm) next_loop.simps)
           (auto simp: Line Let_def split: if_splits option.splits intro: IH, (metis IH add_data_length)+)
    qed
  qed
qed

lemma next_loop_data_line:
  assumes "sc_rest sc = data_field l @ rest" "plain_line l" "int (length l) + 6 < sc_limit sc"
    "\<not> data_too_long bound data l"
  shows "next_loop bound sc event data = next_loop bound (sc\<lparr>sc_rest := rest\<rparr>) event (add_data data l)"
proof -
  have "Scan sc = Line (''data'' @ '': '' @ l) (sc\<lparr>sc_rest := rest\<rparr>)"
    using assms by (intro Scan_field) (simp_all add: data_field_def plain_line_def)
  moreover have "Cut (''data'' @ CHR '':'' # '' '' @ l) CHR '':'' = Some (''data'', '' '' @ l)"
    by (rule Cut_append) simp
  ultimately show ?thesis using assms(4)
    by (subst next_loop.simps) (simp add: HasPrefix_def TrimPrefix_def)
qed

lemma next_loop_event_line:
  assumes "sc_rest sc = event_field name @ rest" "plain_line name" "int (length name) + 7 < sc_limit sc"
  shows "next_loop bound sc [] data = next_loop bound (sc\<lparr>sc_rest := rest\<rparr>) name data"
proof -
  have "Scan sc = Line (''event'' @ '': '' @ name) (sc\<lparr>sc_rest := rest\<rparr>)"
    using assms by (intro Scan_field) (simp_all add: event_field_def plain_line_def)
  moreover have "Cut (''event'' @ CHR '':'' # '' '' @ name) CHR '':'' = Some (''event'', '' '' @ name)"
    by (rule Cut_append) simp
  ultimately show ?thesis
    by (subst next_loop.simps) (simp add: HasPrefix_def TrimPrefix_def)
qed

lemma next_loop_data_lines:
  assumes "sc_rest sc = concat (map data_field ls) @ rest" "\<And>l. l \<in> set ls \<Longrightarrow> plain_line l \<and> int (length l) + 6 < sc_limit sc"
    "int (length (foldl add_data data ls)) \<le> bound"
  shows "next_loop bound sc event data =
    next_loop bound (sc\<lparr>sc_rest := rest\<rparr>) event (foldl add_data data ls)"
  using assms
proof (induction ls arbitrary: sc data)
  case Nil
  then have "sc\<lparr>sc_rest := rest\<rparr> = sc" by simp
  then show ?case by simp
next
  case (Cons l ls)
  have grows: "length data \<le> length (foldl add_data data xs)" for data xs
  proof (induction xs arbitrary: data)
    case (Cons x xs)
    have "length data \<le> length (add_data data x)" by (simp add: add_data_def)
    with Cons [of "add_data data x"] show ?case by simp
  qed simp
  have "int (length (add_data data l)) \<le> bound"
    using grows [of "add_data data l" ls] Cons.prems(3) by simp
  then have "\<not> data_too_long bound data l"
    by (auto simp: data_too_long_def add_data_def split: if_splits)
  then have "next_loop bound sc event data =
      next_loop bound (sc\<lparr>sc_rest := concat (map data_field ls) @ rest\<rparr>) event (add_data data l)"
    using Cons.prems by (intro next_loop_data_line) simp_all
  then show ?case using Cons.IH [of "sc\<lparr>sc_rest := concat (map data_field ls) @ rest\<rparr>" "add_data data l"]
      Cons.prems by simp
qed

lemma next_loop_end_of_event:
  assumes "sc_rest sc = newline # rest" "data \<noteq> []" "0 < sc_limit sc"
  shows "next_loop bound sc event data = (Inr (event, data), sc\<lparr>sc_rest := rest\<rparr>, False)"
  using assms Scan_line [of sc "[]" rest] by (subst next_loop.simps) simp


text \<open>
  The data of an event the decoder returns is never empty and never longer than the
  configured event size, whatever the body holds.
\<close>

theorem sseDecoder_bounded:
  assumes "sseDecoder_Next d = (Inr (name, data), d')" "0 \<le> sd_maxEventBytes d"
  shows "data \<noteq> [] \<and> int (length data) \<le> sd_maxEventBytes d"
  using assms by (auto simp: sseDecoder_Next_def fits_event_def split: if_splits prod.splits dest: next_loop_bound)

section \<open>The stream\<close>

record blockState =
  bs_kind :: string
  bs_id :: string
  bs_name :: string
  bs_input :: string

record usageTotals =
  ut_input :: int
  ut_output :: int
  ut_cacheRead :: int
  ut_cacheWrite :: int

record wireUsage =
  wu_InputTokens :: "int option"
  wu_OutputTokens :: "int option"
  wu_CacheReadTokens :: "int option"
  wu_CacheWriteTokens :: "int option"

record envelopeBlock =
  eb_Type :: string
  eb_Text :: string
  eb_ID :: string
  eb_Name :: string
  eb_Input :: bytes

record envelopeDelta =
  ed_Type :: string
  ed_Text :: string
  ed_PartialJSON :: string
  ed_StopReason :: "string option"

record streamEnvelope =
  se_Type :: string
  se_Index :: int
  se_Message :: "wireUsage option"
  se_ContentBlock :: "envelopeBlock option"
  se_Delta :: "envelopeDelta option"
  se_Usage :: "wireUsage option"
  se_Error :: bytes

text \<open>
  \<open>as_closed\<close> says that \<open>closeOnce\<close> has run, and with it the stream's \<open>cancel\<close>; \<open>as_bodyClose\<close> is
  what closing the body returns.
\<close>

record messageStream =
  as_decoder :: sseDecoder
  as_bodyClose :: "error option"
  as_closed :: bool
  as_closeErr :: "error option"
  as_sequence :: "64 word"
  as_queue :: "ModelEvent list"
  as_started :: bool
  as_messageDelta :: bool
  as_done :: bool
  as_stopReason :: string
  as_blocks :: "(int \<times> blockState) list"
  as_seenCallIDs :: "string list"
  as_nextBlock :: int
  as_usage :: usageTotals

definition newMessageStream :: "sseDecoder \<Rightarrow> error option \<Rightarrow> messageStream" where
  "newMessageStream decoder bodyClose =
     \<lparr>as_decoder = decoder, as_bodyClose = bodyClose, as_closed = False, as_closeErr = None,
      as_sequence = 0, as_queue = [], as_started = False, as_messageDelta = False, as_done = False,
      as_stopReason = [], as_blocks = [], as_seenCallIDs = [], as_nextBlock = 0,
      as_usage = \<lparr>ut_input = 0, ut_output = 0, ut_cacheRead = 0, ut_cacheWrite = 0\<rparr>\<rparr>"

definition sse_error :: "string \<Rightarrow> error" where
  "sse_error msg = Error [AnthropicErrSSEProtocol] msg"

definition enqueue :: "messageStream \<Rightarrow> ModelEvent \<Rightarrow> messageStream" where
  "enqueue s event =
     s\<lparr>as_sequence := as_sequence s + 1,
       as_queue := as_queue s @ [event\<lparr>mv_Sequence := as_sequence s + 1\<rparr>]\<rparr>"

definition normalizeStopReason :: "string \<Rightarrow> StopReason" where
  "normalizeStopReason reason =
     (if reason \<in> {''end_turn'', ''stop_sequence'', ''pause_turn''} then StopEndTurn
      else if reason = ''tool_use'' then StopToolUse
      else if reason \<in> {''max_tokens'', ''model_context_window_exceeded''} then StopMaxTokens
      else if reason = ''refusal'' then StopRefusal
      else StopUnknown)"

definition reported :: "int option \<Rightarrow> int \<Rightarrow> int" where
  "reported field current = (case field of None \<Rightarrow> current | Some v \<Rightarrow> v)"

definition updateUsage :: "messageStream \<Rightarrow> wireUsage \<Rightarrow> messageStream \<times> error option" where
  "updateUsage s wire =
     (let was = as_usage s;
          total = \<lparr>ut_input = reported (wu_InputTokens wire) (ut_input was),
                   ut_output = reported (wu_OutputTokens wire) (ut_output was),
                   ut_cacheRead = reported (wu_CacheReadTokens wire) (ut_cacheRead was),
                   ut_cacheWrite = reported (wu_CacheWriteTokens wire) (ut_cacheWrite was)\<rparr>
      in if ut_input total < 0 \<or> ut_output total < 0 \<or> ut_cacheRead total < 0 \<or> ut_cacheWrite total < 0
         then (s, Some (sse_error ''negative usage''))
         else if ut_input total < ut_input was \<or> ut_output total < ut_output was \<or>
                 ut_cacheRead total < ut_cacheRead was \<or> ut_cacheWrite total < ut_cacheWrite was
         then (s, Some (sse_error ''cumulative usage decreased''))
         else
           let delta = \<lparr>us_InputTokens = ut_input total - ut_input was,
                        us_OutputTokens = ut_output total - ut_output was,
                        us_CacheReadTokens = ut_cacheRead total - ut_cacheRead was,
                        us_CacheWriteTokens = ut_cacheWrite total - ut_cacheWrite was, us_Cost = 0\<rparr>;
               s = s\<lparr>as_usage := total\<rparr>
           in if us_InputTokens delta \<noteq> 0 \<or> us_OutputTokens delta \<noteq> 0 \<or>
                 us_CacheReadTokens delta \<noteq> 0 \<or> us_CacheWriteTokens delta \<noteq> 0
              then (enqueue s ((blank_event ModelEventUsage 0)\<lparr>mv_Usage := Some delta\<rparr>), None)
              else (s, None))"

subsection \<open>One provider event\<close>

definition consume_error :: "messageStream \<Rightarrow> messageStream \<times> error option" where
  "consume_error s =
     (if as_done s then (s, Some (sse_error ''event followed terminal event''))
      else
        let s = (if as_started s then s
                 else enqueue (s\<lparr>as_started := True\<rparr>) (blank_event ModelEventStart 0))
        in ((enqueue s provider_failure)\<lparr>as_done := True\<rparr>, None))"

definition message_start :: "messageStream \<Rightarrow> streamEnvelope \<Rightarrow> messageStream \<times> error option" where
  "message_start s env =
     (case se_Message env of
        None \<Rightarrow> (s, Some (sse_error ''repeated or incomplete message_start''))
      | Some usage \<Rightarrow>
          if as_started s then (s, Some (sse_error ''repeated or incomplete message_start''))
          else updateUsage (enqueue (s\<lparr>as_started := True\<rparr>) (blank_event ModelEventStart 0)) usage)"

definition content_block_start :: "messageStream \<Rightarrow> streamEnvelope \<Rightarrow> messageStream \<times> error option" where
  "content_block_start s env =
     (case se_ContentBlock env of
        None \<Rightarrow> (s, Some (sse_error ''invalid content block start''))
      | Some content \<Rightarrow>
          if se_Index env \<noteq> as_nextBlock s \<or> as_blocks s \<noteq> []
          then (s, Some (sse_error ''invalid content block start''))
          else
            let block = \<lparr>bs_kind = eb_Type content, bs_id = eb_ID content, bs_name = eb_Name content, bs_input = []\<rparr>;
                open_block = (\<lambda>s block.
                  (s\<lparr>as_blocks := AList.update (se_Index env) block (as_blocks s),
                     as_nextBlock := wrap64 (as_nextBlock s + 1)\<rparr>, None))
            in if bs_kind block = ''text'' then
                 open_block (if eb_Text content \<noteq> [] then enqueue s (text_event (eb_Text content)) else s) block
               else if bs_kind block = ''tool_use'' then
                 if bs_id block = [] \<or> bs_name block = []
                 then (s, Some (sse_error ''tool block lacks ID or name''))
                 else open_block
                   (enqueue s (delta_event \<lparr>td2_Index = se_Index env, td2_ID = bs_id block,
                      td2_Name = bs_name block, td2_InputFragment = []\<rparr>))
                   (if eb_Input content \<noteq> [] \<and> eb_Input content \<noteq> ''{}''
                    then block\<lparr>bs_input := eb_Input content\<rparr> else block)
               else (s, Some (sse_error ''unsupported content block'')))"

definition content_block_delta :: "messageStream \<Rightarrow> streamEnvelope \<Rightarrow> messageStream \<times> error option" where
  "content_block_delta s env =
     (case (map_of (as_blocks s) (se_Index env), se_Delta env) of
        (Some block, Some delta) \<Rightarrow>
          if ed_Type delta = ''text_delta'' then
            if bs_kind block \<noteq> ''text'' \<or> ed_Text delta = [] then (s, Some (sse_error ''invalid text delta''))
            else (enqueue s (text_event (ed_Text delta)), None)
          else if ed_Type delta = ''input_json_delta'' then
            if bs_kind block \<noteq> ''tool_use'' \<or> ed_PartialJSON delta = []
            then (s, Some (sse_error ''invalid tool-input delta''))
            else
              (enqueue
                 (s\<lparr>as_blocks := AList.update (se_Index env)
                      (block\<lparr>bs_input := bs_input block @ ed_PartialJSON delta\<rparr>) (as_blocks s)\<rparr>)
                 (delta_event \<lparr>td2_Index = se_Index env, td2_ID = [], td2_Name = [],
                    td2_InputFragment = ed_PartialJSON delta\<rparr>), None)
          else (s, Some (sse_error ''unsupported delta''))
      | _ \<Rightarrow> (s, Some (sse_error ''delta has no open content block'')))"

definition content_block_stop :: "messageStream \<Rightarrow> streamEnvelope \<Rightarrow> messageStream \<times> error option" where
  "content_block_stop s env =
     (case map_of (as_blocks s) (se_Index env) of
        None \<Rightarrow> (s, Some (sse_error ''stop has no open content block''))
      | Some block \<Rightarrow>
          let s = s\<lparr>as_blocks := AList.delete (se_Index env) (as_blocks s)\<rparr> in
          if bs_kind block = ''tool_use'' then
            let input = (if bs_input block = [] then ''{}'' else bs_input block);
                call = \<lparr>tk_ID = bs_id block, tk_Name = bs_name block, tk_Input = input\<rparr>;
                probe = (call_event call)\<lparr>mv_Sequence := 1\<rparr>
            in if ModelEvent_Validate probe \<noteq> None
               then (s, Some (sse_error ''invalid completed tool input''))
               else if tk_ID call \<in> set (as_seenCallIDs s)
               then (s, Some (sse_error ''duplicate completed tool-call ID''))
               else (enqueue (s\<lparr>as_seenCallIDs := tk_ID call # as_seenCallIDs s\<rparr>) (call_event call), None)
          else (s, None))"

definition message_delta :: "messageStream \<Rightarrow> streamEnvelope \<Rightarrow> messageStream \<times> error option" where
  "message_delta s env =
     (case se_Delta env of
        None \<Rightarrow> (s, Some (sse_error ''incomplete message_delta''))
      | Some delta \<Rightarrow>
          (case ed_StopReason delta of
             None \<Rightarrow> (s, Some (sse_error ''incomplete message_delta''))
           | Some reason \<Rightarrow>
               if as_blocks s \<noteq> [] then (s, Some (sse_error ''incomplete message_delta''))
               else if as_stopReason s \<noteq> [] \<and> as_stopReason s \<noteq> reason
               then (s, Some (sse_error ''conflicting stop reasons''))
               else
                 let s = s\<lparr>as_stopReason := reason, as_messageDelta := True\<rparr> in
                 (case se_Usage env of None \<Rightarrow> (s, None) | Some usage \<Rightarrow> updateUsage s usage)))"

definition message_stop :: "messageStream \<Rightarrow> messageStream \<times> error option" where
  "message_stop s =
     (if as_blocks s \<noteq> [] \<or> as_stopReason s = []
      then (s, Some (sse_error ''message_stop before completed message''))
      else ((enqueue s (stop_event (normalizeStopReason (as_stopReason s))))\<lparr>as_done := True\<rparr>, None))"

definition consume ::
  "(bytes \<Rightarrow> streamEnvelope option) \<Rightarrow> messageStream \<Rightarrow> string \<Rightarrow> bytes \<Rightarrow> messageStream \<times> error option" where
  "consume unmarshal s eventName data =
     (case unmarshal data of
        None \<Rightarrow> (s, Some (sse_error ''malformed event JSON''))
      | Some env \<Rightarrow>
          if se_Type env = [] then (s, Some (sse_error ''malformed event JSON''))
          else if eventName = [] \<or> eventName \<noteq> se_Type env
          then (s, Some (sse_error ''SSE event name does not match payload type''))
          else if se_Type env = ''ping'' then (s, None)
          else if se_Type env = ''error'' then consume_error s
          else if \<not> as_started s \<and> se_Type env \<noteq> ''message_start''
          then (s, Some (sse_error ''first event is not message_start''))
          else if as_messageDelta s \<and> se_Type env \<noteq> ''message_delta'' \<and> se_Type env \<noteq> ''message_stop''
          then (s, Some (sse_error ''content event followed message_delta''))
          else if se_Type env = ''message_start'' then message_start s env
          else if se_Type env = ''content_block_start'' then content_block_start s env
          else if se_Type env = ''content_block_delta'' then content_block_delta s env
          else if se_Type env = ''content_block_stop'' then content_block_stop s env
          else if se_Type env = ''message_delta'' then message_delta s env
          else if se_Type env = ''message_stop'' then message_stop s
          else (s, Some (sse_error ''unsupported event type'')))"

subsection \<open>Receiving\<close>

definition Close :: "messageStream \<Rightarrow> messageStream \<times> error option" where
  "Close s =
     (let s = (if as_closed s then s else s\<lparr>as_closed := True, as_closeErr := as_bodyClose s\<rparr>)
      in (s, as_closeErr s))"

text \<open>The stream's context: its own answer, or cancelled once the stream has been closed.\<close>

definition stream_ctx_Err :: "messageStream \<Rightarrow> error option \<Rightarrow> error option" where
  "stream_ctx_Err s sample =
     (case sample of
        Some e \<Rightarrow> Some e
      | None \<Rightarrow> if as_closed s then Some (Error [ErrCanceled] ''context canceled'') else None)"

definition nextSSE :: "recv_env \<Rightarrow> nat \<Rightarrow> messageStream \<Rightarrow> (error + string \<times> string) \<times> messageStream" where
  "nextSSE env n s =
     (case env_select env n of
        CallerDone err \<Rightarrow> (Inl err, fst (Close s))
      | StreamDone err \<Rightarrow> (Inl err, fst (Close s))
      | ReadArrives \<Rightarrow>
          (case sseDecoder_Next (as_decoder s) of
             (r, d) \<Rightarrow>
               let s = s\<lparr>as_decoder := d\<rparr> in
               (case env_ctx env (1 + 2 * n) of
                  Some err \<Rightarrow> (Inl err, fst (Close s))
                | None \<Rightarrow> (r, s))))"

definition take_event :: "messageStream \<Rightarrow> messageStream \<times> ModelEvent answer" where
  "take_event s =
     (case as_queue s of
        [] \<Rightarrow> (s, Panics)
      | event # rest \<Rightarrow>
          (s\<lparr>as_queue := rest\<rparr>,
           case ModelEvent_Validate event of
             Some err \<Rightarrow> Fails (Error [AnthropicErrSSEProtocol] (''generated event: '' @ detail err))
           | None \<Rightarrow> Answers (ModelEvent_Clone event)))"

definition read_failure :: "recv_env \<Rightarrow> nat \<Rightarrow> messageStream \<Rightarrow> error \<Rightarrow> error" where
  "read_failure env n s err =
     (case stream_ctx_Err s (env_stream env (1 + n)) of
        Some e \<Rightarrow> e
      | None \<Rightarrow>
          (case env_ctx env (2 + 2 * n) of
             Some e \<Rightarrow> e
           | None \<Rightarrow>
               if errors_Is err ErrEOF then sse_error ''stream ended before message_stop''
               else sse_error (detail err)))"

lemma Close_decoder [simp]: "as_decoder (fst (Close s)) = as_decoder s"
  by (simp add: Close_def Let_def)

definition same_body :: "messageStream \<Rightarrow> messageStream \<Rightarrow> bool" where
  "same_body s s' \<longleftrightarrow> as_decoder s' = as_decoder s \<and> as_closed s' = as_closed s"

lemma updateUsage_body: "same_body s (fst (updateUsage s u))"
  by (simp add: same_body_def updateUsage_def enqueue_def Let_def)

lemma consume_error_body: "same_body s (fst (consume_error s))"
  by (simp add: same_body_def consume_error_def enqueue_def Let_def)

lemma message_start_body: "same_body s (fst (message_start s env))"
  using updateUsage_body [of "enqueue (s\<lparr>as_started := True\<rparr>) (blank_event ModelEventStart 0)"]
  by (simp add: same_body_def message_start_def enqueue_def split: option.split)

lemma content_block_start_body: "same_body s (fst (content_block_start s env))"
  by (simp add: same_body_def content_block_start_def enqueue_def Let_def split: option.split)

lemma content_block_delta_body: "same_body s (fst (content_block_delta s env))"
  by (simp add: same_body_def content_block_delta_def enqueue_def split: option.split)

lemma content_block_stop_body: "same_body s (fst (content_block_stop s env))"
  by (simp add: same_body_def content_block_stop_def enqueue_def Let_def split: option.split)

lemma message_delta_body: "same_body s (fst (message_delta s env))"
  using updateUsage_body [of "s\<lparr>as_stopReason := r, as_messageDelta := True\<rparr>" for r]
  by (simp add: same_body_def message_delta_def Let_def split: option.split)

lemma message_stop_body: "same_body s (fst (message_stop s))"
  by (simp add: same_body_def message_stop_def enqueue_def)

lemma consume_body: "same_body s (fst (consume unmarshal s name data))"
  using consume_error_body message_start_body content_block_start_body content_block_delta_body
    content_block_stop_body message_delta_body message_stop_body
  by (simp add: consume_def same_body_def split: option.split)

lemma nextSSE_left:
  "nextSSE env n s = (Inr ev, s') \<Longrightarrow> decoder_left (as_decoder s') < decoder_left (as_decoder s)"
  by (auto simp: nextSSE_def Let_def sseDecoder_Next_left split: select.splits prod.splits option.splits)

lemma consume_left:
  "nextSSE env n s = (Inr (name, data), s') \<Longrightarrow> consume unmarshal s' name data = (s'', r) \<Longrightarrow>
     decoder_left (as_decoder s'') < decoder_left (as_decoder s)"
  using nextSSE_left [of env n s _ s'] consume_body [of s' unmarshal name data] by (simp add: same_body_def)

function recv_loop ::
  "(bytes \<Rightarrow> streamEnvelope option) \<Rightarrow> recv_env \<Rightarrow> nat \<Rightarrow> messageStream \<Rightarrow> messageStream \<times> ModelEvent answer" where
  "recv_loop unmarshal env n s =
     (if as_queue s \<noteq> [] then take_event s
      else if as_done s then (s, Fails io_EOF)
      else case nextSSE env n s of
        (Inl err, s') \<Rightarrow> (s', Fails (read_failure env n s' err))
      | (Inr (eventName, data), s') \<Rightarrow>
          if data = [] then recv_loop unmarshal env (Suc n) s'
          else (case consume unmarshal s' eventName data of
                  (s'', Some err) \<Rightarrow> (s'', Fails err)
                | (s'', None) \<Rightarrow> recv_loop unmarshal env (Suc n) s''))"
  by pat_completeness auto
termination
  by (relation "measure (\<lambda>(_, _, _, s). decoder_left (as_decoder s))")
     (auto dest: nextSSE_left [OF sym] consume_left [OF sym sym])

declare recv_loop.simps [simp del]

definition Recv ::
  "(bytes \<Rightarrow> streamEnvelope option) \<Rightarrow> recv_env \<Rightarrow> messageStream \<Rightarrow> messageStream \<times> ModelEvent answer" where
  "Recv unmarshal env s =
     (case env_ctx env 0 of
        Some err \<Rightarrow> (s, Fails err)
      | None \<Rightarrow>
          (case stream_ctx_Err s (env_stream env 0) of
             Some err \<Rightarrow> (s, Fails err)
           | None \<Rightarrow> recv_loop unmarshal env 0 s))"

end
