(* ===== verification/AnthropicProps.thy ===== *)
theory AnthropicProps
  imports AnthropicStream
begin

text \<open>
  What the stream of the Anthropic provider keeps: everything it queues continues a canonical
  stream, the identifiers of its completed calls are distinct, and its usage events add up to
  the totals the provider has reported. The contract of a provider stream is interpreted here.
\<close>

section \<open>The history of a stream\<close>

definition phase :: "messageStream \<Rightarrow> ModelStreamValidator" where
  "phase s = \<lparr>sv_lastSequence = as_sequence s, sv_started = as_started s, sv_terminal = as_done s\<rparr>"

definition usage_history :: "ModelEvent list \<Rightarrow> usageTotals \<Rightarrow> bool" where
  "usage_history H t \<longleftrightarrow>
     usage_total us_InputTokens H = ut_input t \<and> usage_total us_OutputTokens H = ut_output t \<and>
     usage_total us_CacheReadTokens H = ut_cacheRead t \<and> usage_total us_CacheWriteTokens H = ut_cacheWrite t"

definition history :: "ModelEvent list \<Rightarrow> messageStream \<Rightarrow> bool" where
  "history H s \<longleftrightarrow>
     emit_all zero_validator H = Some (phase s) \<and> usage_history H (as_usage s) \<and>
     distinct (call_ids H) \<and> set (call_ids H) = set (as_seenCallIDs s)"

text \<open>A step queues some more events and keeps the history.\<close>

definition continues :: "messageStream \<Rightarrow> messageStream \<Rightarrow> bool" where
  "continues s s' \<longleftrightarrow>
     (\<forall>H. history H s \<longrightarrow> (\<exists>new. as_queue s' = as_queue s @ new \<and> history (H @ new) s'))"

lemma continuesI:
  assumes "as_queue s' = as_queue s @ new" "emit_all (phase s) new = Some (phase s')"
    "\<And>H. usage_history H (as_usage s) \<Longrightarrow> usage_history (H @ new) (as_usage s')"
    "distinct (call_ids new)" "set (call_ids new) \<inter> set (as_seenCallIDs s) = {}"
    "set (as_seenCallIDs s') = set (call_ids new) \<union> set (as_seenCallIDs s)"
  shows "continues s s'"
  unfolding continues_def history_def
  using assms by (intro allI impI exI [of _ new]) (auto simp: emit_all_append)

lemma continues_trans: "continues s s' \<Longrightarrow> continues s' s'' \<Longrightarrow> continues s s''"
  unfolding continues_def by (metis append.assoc)

lemma continues_same:
  "as_queue s' = as_queue s \<Longrightarrow> phase s' = phase s \<Longrightarrow> as_usage s' = as_usage s \<Longrightarrow>
     as_seenCallIDs s' = as_seenCallIDs s \<Longrightarrow> continues s s'"
  by (rule continuesI [where new = "[]"]) simp_all

lemma continues_refl [simp]: "continues s s"
  by (rule continues_same) simp_all

text \<open>An event that is neither the first, nor the last, nor a call, nor usage.\<close>

lemma continues_enqueue:
  assumes "\<not> as_done s" "as_started s" "mv_Type e \<noteq> ModelEventStart" "\<not> terminal_event e"
    "mv_ToolCall e = None" "mv_Usage e = None"
  shows "continues s (enqueue s e)"
  by (rule continuesI [where new = "[e\<lparr>mv_Sequence := as_sequence s + 1\<rparr>]"])
     (use assms in \<open>simp_all add: enqueue_def phase_def terminal_event_def usage_history_def\<close>)

lemma continues_start:
  assumes "\<not> as_done s" "\<not> as_started s"
  shows "continues s (enqueue (s\<lparr>as_started := True\<rparr>) (blank_event ModelEventStart 0))"
  by (rule continuesI [where new = "[blank_event ModelEventStart (as_sequence s + 1)]"])
     (use assms in \<open>simp_all add: enqueue_def phase_def event_defs usage_history_def\<close>)

lemma continues_terminal:
  assumes "\<not> as_done s" "as_started s" "terminal_event e" "mv_ToolCall e = None" "mv_Usage e = None"
  shows "continues s ((enqueue s e)\<lparr>as_done := True\<rparr>)"
  by (rule continuesI [where new = "[e\<lparr>mv_Sequence := as_sequence s + 1\<rparr>]"])
     (use assms in \<open>auto simp: enqueue_def phase_def terminal_event_def usage_history_def\<close>)

lemma continues_call:
  assumes "\<not> as_done s" "as_started s" "tk_ID c \<notin> set (as_seenCallIDs s)"
  shows "continues s (enqueue (s\<lparr>as_seenCallIDs := tk_ID c # as_seenCallIDs s\<rparr>) (call_event c))"
  by (rule continuesI [where new = "[(call_event c)\<lparr>mv_Sequence := as_sequence s + 1\<rparr>]"])
     (use assms in \<open>simp_all add: enqueue_def phase_def event_defs usage_history_def\<close>)

lemma continues_usage:
  assumes "\<not> as_done s" "as_started s"
  shows "continues s (fst (updateUsage s u))"
proof (cases "snd (updateUsage s u)")
  case (Some err)
  then have "fst (updateUsage s u) = s"
    by (auto simp: updateUsage_def Let_def split: if_splits)
  then show ?thesis by simp
next
  case None
  let ?new = "drop (length (as_queue s)) (as_queue (fst (updateUsage s u)))"
  show ?thesis
    by (rule continuesI [where new = ?new])
       (use assms None in \<open>auto simp: updateUsage_def Let_def enqueue_def phase_def event_defs
          usage_history_def split: if_splits\<close>)
qed

section \<open>Every operation continues the stream\<close>

lemma consume_error_continues: "\<not> as_done s \<Longrightarrow> continues s (fst (consume_error s))"
proof -
  assume live: "\<not> as_done s"
  let ?s = "if as_started s then s else enqueue (s\<lparr>as_started := True\<rparr>) (blank_event ModelEventStart 0)"
  have "continues s ?s" using live continues_start by simp
  moreover have "continues ?s ((enqueue ?s provider_failure)\<lparr>as_done := True\<rparr>)"
    using live by (intro continues_terminal) (auto simp: event_defs enqueue_def)
  ultimately have "continues s ((enqueue ?s provider_failure)\<lparr>as_done := True\<rparr>)"
    by (rule continues_trans)
  with live show ?thesis by (simp add: consume_error_def Let_def)
qed

lemma message_start_continues: "\<not> as_done s \<Longrightarrow> continues s (fst (message_start s env))"
proof -
  assume live: "\<not> as_done s"
  let ?s = "enqueue (s\<lparr>as_started := True\<rparr>) (blank_event ModelEventStart 0)"
  have "continues s (fst (updateUsage ?s u))" if "\<not> as_started s" for u
    using continues_trans [OF continues_start continues_usage] live that by (simp add: enqueue_def)
  then show ?thesis by (simp add: message_start_def split: option.split)
qed

lemma content_block_start_continues:
  assumes "\<not> as_done s" "as_started s"
  shows "continues s (fst (content_block_start s env))"
proof -
  have opened: "continues s (s'\<lparr>as_blocks := b, as_nextBlock := n\<rparr>)" if "continues s s'" for s' b n
    using that by (rule continues_trans) (rule continues_same, simp_all add: phase_def)
  have "continues s (enqueue s (text_event t))" "continues s (enqueue s (delta_event d))" for t d
    using assms by (intro continues_enqueue; simp add: event_defs)+
  then show ?thesis using opened
    by (simp add: content_block_start_def Let_def split: option.split)
qed

lemma content_block_delta_continues:
  assumes "\<not> as_done s" "as_started s"
  shows "continues s (fst (content_block_delta s env))"
proof -
  have "continues s (enqueue s (text_event t))" for t
    using assms by (intro continues_enqueue) (simp_all add: event_defs)
  moreover have "continues s (enqueue (s\<lparr>as_blocks := b\<rparr>) (delta_event d))" for b d
  proof (rule continues_trans)
    show "continues s (s\<lparr>as_blocks := b\<rparr>)" by (rule continues_same) (simp_all add: phase_def)
    show "continues (s\<lparr>as_blocks := b\<rparr>) (enqueue (s\<lparr>as_blocks := b\<rparr>) (delta_event d))"
      using assms by (intro continues_enqueue) (simp_all add: event_defs)
  qed
  ultimately show ?thesis by (simp add: content_block_delta_def split: option.split)
qed

lemma content_block_stop_continues:
  assumes "\<not> as_done s" "as_started s"
  shows "continues s (fst (content_block_stop s env))"
proof -
  let ?s = "s\<lparr>as_blocks := AList.delete (se_Index env) (as_blocks s)\<rparr>"
  have same: "continues s ?s" by (rule continues_same) (simp_all add: phase_def)
  have call: "continues s (enqueue (?s\<lparr>as_seenCallIDs := i # as_seenCallIDs s\<rparr>)
      (call_event \<lparr>tk_ID = i, tk_Name = m, tk_Input = input\<rparr>))"
    if "i \<notin> set (as_seenCallIDs s)" for i m input
    using continues_trans [OF same continues_call [where c = "\<lparr>tk_ID = i, tk_Name = m, tk_Input = input\<rparr>"]]
      assms that by simp
  show ?thesis
    using same call by (auto simp: content_block_stop_def Let_def split: option.split)
qed

lemma message_delta_continues:
  assumes "\<not> as_done s" "as_started s"
  shows "continues s (fst (message_delta s env))"
proof -
  have same: "continues s (s\<lparr>as_stopReason := r, as_messageDelta := True\<rparr>)" for r
    by (rule continues_same) (simp_all add: phase_def)
  have "continues s (fst (updateUsage (s\<lparr>as_stopReason := r, as_messageDelta := True\<rparr>) u))" for r u
    by (rule continues_trans [OF same continues_usage]) (use assms in simp_all)
  with same show ?thesis by (simp add: message_delta_def Let_def split: option.split)
qed

lemma message_stop_continues:
  "\<not> as_done s \<Longrightarrow> as_started s \<Longrightarrow> continues s (fst (message_stop s))"
  using continues_terminal by (simp add: message_stop_def event_defs)

lemma consume_continues:
  assumes "\<not> as_done s"
  shows "continues s (fst (consume unmarshal s name data))"
  using assms consume_error_continues message_start_continues content_block_start_continues
    content_block_delta_continues content_block_stop_continues message_delta_continues
    message_stop_continues
  by (simp add: consume_def split: option.split)

text \<open>Every failure of the translation is a protocol error of the provider's stream.\<close>

definition protocol_failure :: "error option \<Rightarrow> bool" where
  "protocol_failure r \<longleftrightarrow> (case r of None \<Rightarrow> True | Some err \<Rightarrow> sentinels err = [AnthropicErrSSEProtocol])"

lemma protocol_failure_simps [simp]:
  "protocol_failure None" "protocol_failure (Some (sse_error msg))"
  by (simp_all add: protocol_failure_def sse_error_def)

lemma updateUsage_failure: "protocol_failure (snd (updateUsage s u))"
  by (simp add: updateUsage_def Let_def)

lemma consume_failure: "protocol_failure (snd (consume unmarshal s name data))"
proof -
  have "protocol_failure (snd (message_start s env))" "protocol_failure (snd (message_delta s env))"
    "protocol_failure (snd (content_block_start s env))" "protocol_failure (snd (content_block_stop s env))"
    "protocol_failure (snd (content_block_delta s env))" "protocol_failure (snd (message_stop s))"
    "protocol_failure (snd (consume_error s))" for env
    using updateUsage_failure
    by (simp_all add: message_start_def message_delta_def content_block_start_def content_block_stop_def
        content_block_delta_def message_stop_def consume_error_def Let_def split: option.split)
  then show ?thesis by (simp add: consume_def split: option.split)
qed

section \<open>Receiving\<close>

lemma Close_simps [simp]:
  "as_queue (fst (Close s)) = as_queue s" "phase (fst (Close s)) = phase s"
  "as_usage (fst (Close s)) = as_usage s" "as_seenCallIDs (fst (Close s)) = as_seenCallIDs s"
  by (simp_all add: Close_def Let_def phase_def)

lemma phase_decoder [simp]: "phase (s\<lparr>as_decoder := d\<rparr>) = phase s"
  by (simp add: phase_def)

lemma nextSSE_same:
  assumes "nextSSE env n s = (r, s')"
  shows "continues s s'" "as_queue s' = as_queue s" "as_done s' = as_done s"
proof -
  have "as_queue s' = as_queue s \<and> phase s' = phase s \<and> as_usage s' = as_usage s \<and>
      as_seenCallIDs s' = as_seenCallIDs s"
    using assms by (auto simp: nextSSE_def Let_def split: select.splits prod.splits option.splits)
  then show "continues s s'" "as_queue s' = as_queue s" "as_done s' = as_done s"
    by (auto intro: continues_same simp: phase_def)
qed

lemma read_failure_not_eof:
  "honest env \<Longrightarrow> \<not> errors_Is (read_failure env n s err) ErrEOF"
  by (auto simp: read_failure_def stream_ctx_Err_def honest_def sse_error_def split: option.split)

text \<open>
  What one call returns: the head of a queue that continues the history, or a failure, which is
  the end of file only on an empty queue after the terminal event.
\<close>

definition recv_result :: "recv_env \<Rightarrow> ModelEvent list \<Rightarrow> messageStream \<Rightarrow> messageStream \<times> ModelEvent answer \<Rightarrow> bool" where
  "recv_result env H s result \<longleftrightarrow>
     (case result of
        (s', Answers e) \<Rightarrow>
          \<exists>new. history (H @ new) s' \<and> as_queue s @ new = e # as_queue s' \<and> ModelEvent_Validate e = None
      | (s', Fails err) \<Rightarrow> honest env \<longrightarrow> errors_Is err ErrEOF \<longrightarrow> as_queue s = [] \<and> as_done s
      | (s', Panics) \<Rightarrow> False)"

lemma take_event_result:
  assumes "history H s" "as_queue s \<noteq> []"
  shows "recv_result env H s (take_event s)"
proof -
  obtain e rest where q: "as_queue s = e # rest" using assms(2) by (cases "as_queue s") auto
  have "history H (s\<lparr>as_queue := rest\<rparr>)" using assms(1) by (simp add: history_def phase_def)
  then show ?thesis
    by (auto simp: take_event_def q recv_result_def split: option.split)
qed

lemma recv_result_later:
  assumes "history H s" "continues s s'"
    and later: "\<And>H'. history H' s' \<Longrightarrow> recv_result env H' s' result"
  shows "recv_result env H s result"
proof -
  obtain new where new: "as_queue s' = as_queue s @ new" "history (H @ new) s'"
    using assms(1,2) unfolding continues_def by blast
  have "as_done s" if "as_queue s' = []" "as_done s'"
    using that new assms(1) by (auto simp: history_def phase_def)
  with later [OF new(2)] new(1) show ?thesis
    by (auto simp: recv_result_def split: prod.splits answer.splits)
qed

lemma recv_loop_result: "history H s \<Longrightarrow> recv_result env H s (recv_loop unmarshal env n s)"
proof (induction unmarshal env n s arbitrary: H rule: recv_loop.induct)
  case (1 unmarshal env n s)
  show ?case
  proof (cases "as_queue s = [] \<and> \<not> as_done s")
    case False
    then show ?thesis using take_event_result [OF "1.prems"]
      by (subst recv_loop.simps) (auto simp: recv_result_def)
  next
    case True
    obtain r s1 where read: "nextSSE env n s = (r, s1)" by (cases "nextSSE env n s")
    note same = nextSSE_same [OF read]
    show ?thesis
    proof (cases r)
      case (Inl err)
      then show ?thesis using True read read_failure_not_eof [of env n s1 err]
        by (subst recv_loop.simps) (auto simp: recv_result_def)
    next
      case (Inr ev)
      obtain name data where ev: "ev = (name, data)" by (cases ev)
      show ?thesis
      proof (cases "data = []")
        case empty: True
        have "recv_result env H' s1 (recv_loop unmarshal env (Suc n) s1)" if "history H' s1" for H'
          using "1.IH"(1) [of _ s1] True read Inr ev empty that by auto
        then show ?thesis using recv_result_later [OF "1.prems" same(1)] True read Inr ev empty
          by (subst recv_loop.simps) auto
      next
        case False
        obtain s2 fault where step: "consume unmarshal s1 name data = (s2, fault)"
          by (cases "consume unmarshal s1 name data")
        have "continues s1 s2"
          using consume_continues [of s1 unmarshal name data] step True same(3) by simp
        then have cont: "continues s s2" using same(1) continues_trans by blast
        show ?thesis
        proof (cases fault)
          case None
          have "recv_result env H' s2 (recv_loop unmarshal env (Suc n) s2)" if "history H' s2" for H'
            using "1.IH"(2) [of _ s1] True read Inr ev False step None that by auto
          then show ?thesis using recv_result_later [OF "1.prems" cont] True read Inr ev False step None
            by (subst recv_loop.simps) auto
        next
          case (Some err)
          then show ?thesis
            using consume_failure [of unmarshal s1 name data] True read Inr ev False step
            by (subst recv_loop.simps) (auto simp: recv_result_def protocol_failure_def errors_Is_def)
        qed
      qed
    qed
  qed
qed

lemma Recv_result: "history H s \<Longrightarrow> recv_result env H s (Recv unmarshal env s)"
  using recv_loop_result [of H s env unmarshal 0]
  by (auto simp: Recv_def recv_result_def honest_def stream_ctx_Err_def split: option.split)

interpretation anthropic: provider_stream "Recv unmarshal" as_queue history as_done honest
  for unmarshal
proof
  show "\<exists>new. history (H @ new) s' \<and> as_queue s @ new = e # as_queue s' \<and> ModelEvent_Validate e = None"
    if "history H s" "Recv unmarshal env s = (s', Answers e)" for H s env s' e
    using Recv_result [OF that(1), of env unmarshal] that(2) by (simp add: recv_result_def)
  show "as_queue s = [] \<and> as_done s"
    if "history H s" "honest env" "Recv unmarshal env s = (s', Fails err)" "errors_Is err ErrEOF"
    for H s env s' err
    using Recv_result [OF that(1), of env unmarshal] that(2-) by (simp add: recv_result_def)
  show "\<exists>v. emit_all zero_validator H = Some v \<and> (as_done s \<longrightarrow> sv_terminal v)" if "history H s" for H s
    using that by (simp add: history_def phase_def)
qed

lemma history_new: "history [] (newMessageStream d c)"
  by (simp add: history_def newMessageStream_def phase_def zero_validator_def usage_history_def)

section \<open>Properties\<close>

text \<open>
  [C22] Refinement of the stream contract by the Anthropic stream: whatever the response body,
  the JSON decoder and the contexts do, the events handed over before the first failure are
  accepted one after the other by \<open>ModelStreamValidator\<close>; when that failure is the end of file
  they are a complete canonical stream; and no tool-call identifier is completed twice.
\<close>

theorem message_stream_conforms:
  assumes "\<And>i. honest (envs i)"
    and "map (recv_reply (Recv unmarshal) envs (newMessageStream d c)) [0..<length es] = map Answers es"
  shows "(\<exists>v. accept_all zero_validator es = Inr v) \<and>
    ((\<exists>err. recv_reply (Recv unmarshal) envs (newMessageStream d c) (length es) = Fails err \<and>
        errors_Is err ErrEOF) \<longrightarrow> canonical es) \<and>
    distinct (call_ids es)"
proof -
  have start: "history (as_queue (newMessageStream d c)) (newMessageStream d c)"
    using history_new by (simp add: newMessageStream_def)
  note anthropic.received_history [OF start assms(2)]
  then have "distinct (call_ids es)" by (auto simp: history_def)
  with anthropic.stream_conforms [OF start assms(2)] assms(1) show ?thesis by blast
qed

text \<open>
  Usage is never lost or counted twice: at every point of the stream the usage events
  handed over together with those still queued add up to the cumulative totals the provider has
  reported so far, for input, output and both cache counters.
\<close>

theorem message_stream_usage:
  assumes "map (recv_reply (Recv unmarshal) envs (newMessageStream d c)) [0..<length es] = map Answers es"
    and "s = recv_state (Recv unmarshal) envs (newMessageStream d c) (length es)"
  shows "usage_total us_InputTokens (es @ as_queue s) = ut_input (as_usage s) \<and>
    usage_total us_OutputTokens (es @ as_queue s) = ut_output (as_usage s) \<and>
    usage_total us_CacheReadTokens (es @ as_queue s) = ut_cacheRead (as_usage s) \<and>
    usage_total us_CacheWriteTokens (es @ as_queue s) = ut_cacheWrite (as_usage s)"
proof -
  have start: "history (as_queue (newMessageStream d c)) (newMessageStream d c)"
    using history_new by (simp add: newMessageStream_def)
  from anthropic.received_history [OF start assms(1)] assms(2)
  show ?thesis unfolding history_def usage_history_def by blast
qed

end
