(* ===== verification/OpenAIStream.thy ===== *)
theory OpenAIStream
  imports Sse "HOL-Library.AList"
begin

text \<open>
  The event stream of the OpenAI-compatible provider
  (\<open>src/provider/openaicompat/stream.go\<close>): its decoder of server-sent events, the
  accumulation of function-call fragments over chunks, \<open>finalize\<close> at \<open>[DONE]\<close>, \<open>Recv\<close> and
  \<open>Close\<close>. The conventions are those of the Anthropic stream: \<open>json.Unmarshal\<close> into a chunk is
  a parameter, the body is finite, and \<open>env_select\<close> decides the race of a read with the contexts.
\<close>

section \<open>The decoder\<close>

function chat_next_loop :: "int \<Rightarrow> scanner \<Rightarrow> string \<Rightarrow> (error + string) \<times> scanner \<times> bool" where
  "chat_next_loop bound sc data =
     (case Scan sc of
        Done err \<Rightarrow>
          (case err of
             Some e \<Rightarrow> (Inl e, sc, True)
           | None \<Rightarrow> (if data \<noteq> [] then Inr data else Inl io_EOF, sc, True))
      | Line line sc' \<Rightarrow>
          if line = [] then
            if data = [] then chat_next_loop bound sc' data else (Inr data, sc', False)
          else if HasPrefix line '':'' then chat_next_loop bound sc' data
          else (case Cut line CHR '':'' of
                  None \<Rightarrow> chat_next_loop bound sc' data
                | Some (field, value) \<Rightarrow>
                    if field \<noteq> ''data'' then chat_next_loop bound sc' data
                    else
                      let value = TrimPrefix value '' '' in
                      if data_too_long bound data value
                      then (Inl (errorf ''SSE event exceeds configured size limit''), sc', False)
                      else chat_next_loop bound sc' (add_data data value)))"
  by pat_completeness auto
termination
  by (relation "measure (\<lambda>(_, sc, _). length (sc_rest sc))") (auto dest: Scan_shorter)

declare chat_next_loop.simps [simp del]

definition chat_sseDecoder_Next :: "sseDecoder \<Rightarrow> (error + string) \<times> sseDecoder" where
  "chat_sseDecoder_Next d =
     (if sd_exhausted d then (Inl io_EOF, d)
      else case chat_next_loop (sd_maxEventBytes d) (sd_scanner d) [] of
        (r, sc, ended) \<Rightarrow> (r, d\<lparr>sd_scanner := sc, sd_exhausted := ended\<rparr>))"

lemma chat_next_loop_shorter:
  "chat_next_loop bound sc data = (r, sc', ended) \<Longrightarrow>
     ended \<or> length (sc_rest sc') < length (sc_rest sc)"
proof (induction "length (sc_rest sc)" arbitrary: sc data rule: less_induct)
  case less
  show ?case
  proof (cases "Scan sc")
    case (Done err)
    then show ?thesis using less.prems by (subst (asm) chat_next_loop.simps) (auto split: option.splits)
  next
    case (Line line sc2)
    note shorter = Scan_shorter [OF Line]
    have IH: "chat_next_loop bound sc2 data2 = (r, sc', ended) \<Longrightarrow>
        ended \<or> length (sc_rest sc') < length (sc_rest sc)" for data2
      using less.hyps [OF shorter] shorter by (meson less_trans)
    show ?thesis using less.prems shorter
      by (subst (asm) chat_next_loop.simps) (auto simp: Line Let_def split: if_splits option.splits dest: IH)
  qed
qed

lemma chat_sseDecoder_Next_left:
  "chat_sseDecoder_Next d = (Inr data, d') \<Longrightarrow> decoder_left d' < decoder_left d"
  by (auto simp: chat_sseDecoder_Next_def decoder_left_def split: if_splits prod.splits
      dest: chat_next_loop_shorter)

section \<open>The stream\<close>

record callAccumulator =
  ca_id :: string
  ca_name :: string
  ca_arguments :: string

record toolCallChunk =
  tcc_Index :: int
  tcc_ID :: string
  tcc_Type :: string
  tcc_Name :: string
  tcc_Arguments :: string

record completionDelta =
  cd_Content :: "string option"
  cd_Refusal :: "string option"
  cd_ToolCalls :: "toolCallChunk list"

record completionChoice =
  cc_Index :: int
  cc_Delta :: completionDelta
  cc_FinishReason :: "string option"

record completionUsage =
  cu_PromptTokens :: int
  cu_CompletionTokens :: int
  cu_CachedTokens :: int

text \<open>\<open>ck_Error\<close> says that the chunk's error object is present; nothing of it is read.\<close>

record completionChunk =
  ck_Choices :: "completionChoice list"
  ck_Usage :: "completionUsage option"
  ck_Error :: bool

record chatStream =
  cs_decoder :: sseDecoder
  cs_bodyClose :: "error option"
  cs_closed :: bool
  cs_closeErr :: "error option"
  cs_sequence :: "64 word"
  cs_queue :: "ModelEvent list"
  cs_done :: bool
  cs_finish :: string
  cs_calls :: "(int \<times> callAccumulator) list"
  cs_usage :: "Usage option"

definition chat_error :: "string \<Rightarrow> error" where
  "chat_error msg = Error [OpenAIErrSSEProtocol] msg"

definition chat_enqueue :: "chatStream \<Rightarrow> ModelEvent \<Rightarrow> chatStream" where
  "chat_enqueue s event =
     s\<lparr>cs_sequence := cs_sequence s + 1,
       cs_queue := cs_queue s @ [event\<lparr>mv_Sequence := cs_sequence s + 1\<rparr>]\<rparr>"

definition newChatStream :: "sseDecoder \<Rightarrow> error option \<Rightarrow> chatStream" where
  "newChatStream decoder bodyClose =
     chat_enqueue
       \<lparr>cs_decoder = decoder, cs_bodyClose = bodyClose, cs_closed = False, cs_closeErr = None,
        cs_sequence = 0, cs_queue = [], cs_done = False, cs_finish = [], cs_calls = [], cs_usage = None\<rparr>
       (blank_event ModelEventStart 0)"

definition normalizeFinishReason :: "string \<Rightarrow> StopReason" where
  "normalizeFinishReason reason =
     (if reason = ''stop'' then StopEndTurn
      else if reason \<in> {''tool_calls'', ''function_call''} then StopToolUse
      else if reason = ''length'' then StopMaxTokens
      else if reason = ''content_filter'' then StopRefusal
      else StopUnknown)"

subsection \<open>One chunk\<close>

definition no_accumulator :: callAccumulator where
  "no_accumulator = \<lparr>ca_id = [], ca_name = [], ca_arguments = []\<rparr>"

definition accumulate :: "toolCallChunk \<Rightarrow> callAccumulator \<Rightarrow> callAccumulator" where
  "accumulate c a =
     \<lparr>ca_id = ca_id a @ tcc_ID c, ca_name = ca_name a @ tcc_Name c,
      ca_arguments = ca_arguments a @ tcc_Arguments c\<rparr>"

definition chunk_delta :: "toolCallChunk \<Rightarrow> ToolCallDelta" where
  "chunk_delta c =
     \<lparr>td2_Index = tcc_Index c, td2_ID = tcc_ID c, td2_Name = tcc_Name c, td2_InputFragment = tcc_Arguments c\<rparr>"

fun consume_calls :: "chatStream \<Rightarrow> toolCallChunk list \<Rightarrow> chatStream \<times> error option" where
  "consume_calls s [] = (s, None)"
| "consume_calls s (c # cs) =
     (if tcc_Index c < 0 \<or> (tcc_Type c \<noteq> [] \<and> tcc_Type c \<noteq> ''function'')
      then (s, Some (chat_error ''invalid function-call fragment''))
      else case ToolCallDelta_Validate (chunk_delta c) of
        Some err \<Rightarrow> (s, Some (chat_error (detail err)))
      | None \<Rightarrow>
          let a = (case map_of (cs_calls s) (tcc_Index c) of None \<Rightarrow> no_accumulator | Some a \<Rightarrow> a);
              s = s\<lparr>cs_calls := AList.update (tcc_Index c) (accumulate c a) (cs_calls s)\<rparr>
          in consume_calls (chat_enqueue s (delta_event (chunk_delta c))) cs)"

definition chunk_usage :: "completionUsage \<Rightarrow> Usage" where
  "chunk_usage u =
     \<lparr>us_InputTokens = cu_PromptTokens u, us_OutputTokens = cu_CompletionTokens u,
      us_CacheReadTokens = cu_CachedTokens u, us_CacheWriteTokens = 0, us_Cost = 0\<rparr>"

definition consume_usage :: "chatStream \<Rightarrow> completionUsage option \<Rightarrow> chatStream \<times> error option" where
  "consume_usage s usage =
     (case usage of
        None \<Rightarrow> (s, None)
      | Some u \<Rightarrow>
          if cs_usage s \<noteq> None then (s, Some (chat_error ''repeated usage payload''))
          else (case Usage_Validate (chunk_usage u) of
                  Some err \<Rightarrow> (s, Some (chat_error (detail err)))
                | None \<Rightarrow> (s\<lparr>cs_usage := Some (chunk_usage u)\<rparr>, None)))"

definition enqueue_text :: "chatStream \<Rightarrow> string option \<Rightarrow> chatStream" where
  "enqueue_text s t =
     (case t of None \<Rightarrow> s | Some t \<Rightarrow> if t = [] then s else chat_enqueue s (text_event t))"

definition consume_choice :: "chatStream \<Rightarrow> completionChoice \<Rightarrow> chatStream \<times> error option" where
  "consume_choice s choice =
     (if cc_Index choice \<noteq> 0 then (s, Some (chat_error ''completion choice index is unsupported''))
      else
        let delta = cc_Delta choice;
            s = enqueue_text (enqueue_text s (cd_Content delta)) (cd_Refusal delta)
        in (case consume_calls s (cd_ToolCalls delta) of
              (s, Some err) \<Rightarrow> (s, Some err)
            | (s, None) \<Rightarrow>
                (case cc_FinishReason choice of
                   None \<Rightarrow> (s, None)
                 | Some reason \<Rightarrow>
                     if cs_finish s \<noteq> [] \<and> cs_finish s \<noteq> reason
                     then (s, Some (chat_error ''conflicting finish reasons''))
                     else (s\<lparr>cs_finish := reason\<rparr>, None))))"

definition consumeChunk ::
  "(bytes \<Rightarrow> completionChunk option) \<Rightarrow> chatStream \<Rightarrow> bytes \<Rightarrow> chatStream \<times> error option" where
  "consumeChunk unmarshal s data =
     (case unmarshal data of
        None \<Rightarrow> (s, Some (chat_error ''malformed chunk JSON''))
      | Some chunk \<Rightarrow>
          if ck_Error chunk then ((chat_enqueue s provider_failure)\<lparr>cs_done := True\<rparr>, None)
          else if 1 < length (ck_Choices chunk)
          then (s, Some (chat_error ''multiple completion choices are unsupported''))
          else (case consume_usage s (ck_Usage chunk) of
                  (s, Some err) \<Rightarrow> (s, Some err)
                | (s, None) \<Rightarrow>
                    (case ck_Choices chunk of
                       [] \<Rightarrow> (s, None)
                     | choice # _ \<Rightarrow> consume_choice s choice)))"

subsection \<open>The end of the completion\<close>

definition completed_call :: "callAccumulator \<Rightarrow> ToolCall" where
  "completed_call a = \<lparr>tk_ID = ca_id a, tk_Name = ca_name a, tk_Input = ca_arguments a\<rparr>"

fun finalize_calls :: "chatStream \<Rightarrow> string list \<Rightarrow> (int \<times> callAccumulator) list \<Rightarrow> chatStream \<times> error option" where
  "finalize_calls s seen [] = (s, None)"
| "finalize_calls s seen ((index, a) # rest) =
     (case ModelEvent_Validate ((call_event (completed_call a))\<lparr>mv_Sequence := 1\<rparr>) of
        Some err \<Rightarrow> (s, Some (chat_error (''completed function call: '' @ detail err)))
      | None \<Rightarrow>
          if ca_id a \<in> set seen then (s, Some (chat_error ''duplicate completed call ID''))
          else finalize_calls (chat_enqueue s (call_event (completed_call a))) (ca_id a # seen) rest)"

definition usage_event :: "Usage \<Rightarrow> ModelEvent" where
  "usage_event u = (blank_event ModelEventUsage 0)\<lparr>mv_Usage := Some u\<rparr>"

text \<open>The indices are sorted; the accumulator of each is then looked up.\<close>

definition finalize :: "chatStream \<Rightarrow> chatStream \<times> error option" where
  "finalize s =
     (if cs_finish s = [] then (s, Some (chat_error ''[DONE] arrived without a finish reason''))
      else
        let calls = sort_key fst (cs_calls s);
            stop = normalizeFinishReason (cs_finish s)
        in if stop = StopToolUse \<and> calls = []
           then (s, Some (chat_error ''tool finish contained no calls''))
           else if stop \<noteq> StopToolUse \<and> calls \<noteq> []
           then (s, Some (chat_error ''completed calls have finish reason''))
           else (case finalize_calls s [] calls of
                   (s, Some err) \<Rightarrow> (s, Some err)
                 | (s, None) \<Rightarrow>
                     let s = (case cs_usage s of None \<Rightarrow> s | Some u \<Rightarrow> chat_enqueue s (usage_event u))
                     in (chat_enqueue s (stop_event stop), None)))"

subsection \<open>Receiving\<close>

definition chat_Close :: "chatStream \<Rightarrow> chatStream \<times> error option" where
  "chat_Close s =
     (let s = (if cs_closed s then s else s\<lparr>cs_closed := True, cs_closeErr := cs_bodyClose s\<rparr>)
      in (s, cs_closeErr s))"

definition chat_ctx_Err :: "chatStream \<Rightarrow> error option \<Rightarrow> error option" where
  "chat_ctx_Err s sample =
     (case sample of
        Some e \<Rightarrow> Some e
      | None \<Rightarrow> if cs_closed s then Some (Error [ErrCanceled] ''context canceled'') else None)"

definition chat_nextSSE :: "recv_env \<Rightarrow> nat \<Rightarrow> chatStream \<Rightarrow> (error + string) \<times> chatStream" where
  "chat_nextSSE env n s =
     (case env_select env n of
        CallerDone err \<Rightarrow> (Inl err, fst (chat_Close s))
      | StreamDone err \<Rightarrow> (Inl err, fst (chat_Close s))
      | ReadArrives \<Rightarrow>
          (case chat_sseDecoder_Next (cs_decoder s) of
             (r, d) \<Rightarrow>
               let s = s\<lparr>cs_decoder := d\<rparr> in
               (case env_ctx env (1 + 2 * n) of
                  Some err \<Rightarrow> (Inl err, fst (chat_Close s))
                | None \<Rightarrow> (r, s))))"

definition chat_take_event :: "chatStream \<Rightarrow> chatStream \<times> ModelEvent answer" where
  "chat_take_event s =
     (case cs_queue s of
        [] \<Rightarrow> (s, Panics)
      | event # rest \<Rightarrow>
          (s\<lparr>cs_queue := rest\<rparr>,
           case ModelEvent_Validate event of
             Some err \<Rightarrow> Fails (chat_error (''generated event: '' @ detail err))
           | None \<Rightarrow> Answers (ModelEvent_Clone event)))"

definition chat_read_failure :: "recv_env \<Rightarrow> nat \<Rightarrow> chatStream \<Rightarrow> error \<Rightarrow> error" where
  "chat_read_failure env n s err =
     (case chat_ctx_Err s (env_stream env (1 + n)) of
        Some e \<Rightarrow> e
      | None \<Rightarrow>
          (case env_ctx env (2 + 2 * n) of
             Some e \<Rightarrow> e
           | None \<Rightarrow>
               if errors_Is err ErrEOF then chat_error ''stream ended before [DONE]''
               else chat_error (detail err)))"

text \<open>What \<open>Recv\<close> does with one event of the server.\<close>

definition chat_consume ::
  "(bytes \<Rightarrow> completionChunk option) \<Rightarrow> chatStream \<Rightarrow> string \<Rightarrow> chatStream \<times> error option" where
  "chat_consume unmarshal s data =
     (if data = [] then (s, None)
      else if data = ''[DONE]'' then
        (case finalize s of
           (s', Some err) \<Rightarrow> (s', Some err)
         | (s', None) \<Rightarrow> (s'\<lparr>cs_done := True\<rparr>, None))
      else consumeChunk unmarshal s data)"

lemma enqueue_decoder [simp]: "cs_decoder (chat_enqueue s e) = cs_decoder s"
  by (simp add: chat_enqueue_def)

lemma consume_calls_decoder [simp]: "cs_decoder (fst (consume_calls s cs)) = cs_decoder s"
  by (induction s cs rule: consume_calls.induct) (simp_all add: Let_def split: option.split)

lemma finalize_calls_decoder [simp]: "cs_decoder (fst (finalize_calls s seen cs)) = cs_decoder s"
  by (induction s seen cs rule: finalize_calls.induct) (simp_all split: option.split)

lemma enqueue_text_decoder [simp]: "cs_decoder (enqueue_text s t) = cs_decoder s"
  by (simp add: enqueue_text_def split: option.split)

lemma consume_choice_decoder [simp]: "cs_decoder (fst (consume_choice s choice)) = cs_decoder s"
proof -
  have "cs_decoder s' = cs_decoder s"
    if "consume_calls (enqueue_text (enqueue_text s t) u) cs = (s', r)" for s' r t u cs
    using consume_calls_decoder [of "enqueue_text (enqueue_text s t) u" cs] that by simp
  then show ?thesis by (auto simp: consume_choice_def Let_def split: prod.split option.split)
qed

lemma consume_usage_decoder: "consume_usage s u = (s', r) \<Longrightarrow> cs_decoder s' = cs_decoder s"
  by (auto simp: consume_usage_def split: option.splits if_splits)

lemma consumeChunk_decoder: "cs_decoder (fst (consumeChunk unmarshal s data)) = cs_decoder s"
  by (auto simp: consumeChunk_def split: prod.split option.split list.split dest: consume_usage_decoder)

lemma finalize_decoder: "cs_decoder (fst (finalize s)) = cs_decoder s"
proof -
  have "cs_decoder s' = cs_decoder s" if "finalize_calls s [] cs = (s', r)" for s' r cs
    using finalize_calls_decoder [of s "[]" cs] that by simp
  then show ?thesis by (auto simp: finalize_def Let_def split: prod.split option.split)
qed

lemma chat_consume_decoder: "chat_consume unmarshal s data = (s', r) \<Longrightarrow> cs_decoder s' = cs_decoder s"
  using finalize_decoder [of s] consumeChunk_decoder [of unmarshal s data]
  by (auto simp: chat_consume_def split: prod.splits option.splits if_splits)

lemma chat_nextSSE_left:
  "chat_nextSSE env n s = (Inr data, s') \<Longrightarrow> decoder_left (cs_decoder s') < decoder_left (cs_decoder s)"
  by (auto simp: chat_nextSSE_def Let_def chat_sseDecoder_Next_left
      split: select.splits prod.splits option.splits)

function chat_recv_loop ::
  "(bytes \<Rightarrow> completionChunk option) \<Rightarrow> recv_env \<Rightarrow> nat \<Rightarrow> chatStream \<Rightarrow> chatStream \<times> ModelEvent answer" where
  "chat_recv_loop unmarshal env n s =
     (if cs_queue s \<noteq> [] then chat_take_event s
      else if cs_done s then (s, Fails io_EOF)
      else case chat_nextSSE env n s of
        (Inl err, s') \<Rightarrow> (s', Fails (chat_read_failure env n s' err))
      | (Inr data, s') \<Rightarrow>
          (case chat_consume unmarshal s' data of
             (s'', Some err) \<Rightarrow> (s'', Fails err)
           | (s'', None) \<Rightarrow> chat_recv_loop unmarshal env (Suc n) s''))"
  by pat_completeness auto
termination
  by (relation "measure (\<lambda>(_, _, _, s). decoder_left (cs_decoder s))")
     (auto dest!: chat_nextSSE_left [OF sym] chat_consume_decoder [OF sym])

declare chat_recv_loop.simps [simp del]

definition chat_Recv ::
  "(bytes \<Rightarrow> completionChunk option) \<Rightarrow> recv_env \<Rightarrow> chatStream \<Rightarrow> chatStream \<times> ModelEvent answer" where
  "chat_Recv unmarshal env s =
     (case env_ctx env 0 of
        Some err \<Rightarrow> (s, Fails err)
      | None \<Rightarrow>
          (case chat_ctx_Err s (env_stream env 0) of
             Some err \<Rightarrow> (s, Fails err)
           | None \<Rightarrow> chat_recv_loop unmarshal env 0 s))"

end
