(* ===== verification/OpenAIProps.thy ===== *)
theory OpenAIProps
  imports OpenAIStream
begin

text \<open>
  What the stream of the OpenAI-compatible provider keeps: everything it queues continues a
  canonical stream, and the completed calls are assembled from the fragments handed over before
  them, one call per index, in the order of the indices. The contract of a provider stream is
  interpreted here.
\<close>

section \<open>Assembling calls from fragments\<close>

definition deltas :: "ModelEvent list \<Rightarrow> ToolCallDelta list" where
  "deltas es = List.map_filter mv_ToolCallDelta es"

definition tool_calls :: "ModelEvent list \<Rightarrow> ToolCall list" where
  "tool_calls es = List.map_filter mv_ToolCall es"

text \<open>The fragments of one index, joined field by field.\<close>

definition joined :: "ToolCallDelta list \<Rightarrow> callAccumulator" where
  "joined ds = \<lparr>ca_id = concat (map td2_ID ds), ca_name = concat (map td2_Name ds),
     ca_arguments = concat (map td2_InputFragment ds)\<rparr>"

definition fragments :: "ModelEvent list \<Rightarrow> int \<Rightarrow> ToolCallDelta list" where
  "fragments es i = filter (\<lambda>d. td2_Index d = i) (deltas es)"

definition assembled :: "ModelEvent list \<Rightarrow> ToolCall list" where
  "assembled es =
     map (\<lambda>i. completed_call (joined (fragments es i))) (sorted_list_of_set (td2_Index ` set (deltas es)))"

lemma deltas_simps [simp]:
  "deltas [] = []" "deltas (e # es) = (case mv_ToolCallDelta e of None \<Rightarrow> [] | Some d \<Rightarrow> [d]) @ deltas es"
  "deltas (xs @ ys) = deltas xs @ deltas ys"
  by (auto simp: deltas_def List.map_filter_def split: option.splits)

lemma tool_calls_simps [simp]:
  "tool_calls [] = []" "tool_calls (e # es) = (case mv_ToolCall e of None \<Rightarrow> [] | Some c \<Rightarrow> [c]) @ tool_calls es"
  "tool_calls (xs @ ys) = tool_calls xs @ tool_calls ys"
  by (auto simp: tool_calls_def List.map_filter_def split: option.splits)

lemma call_ids_tool_calls: "call_ids es = map tk_ID (tool_calls es)"
  by (simp add: call_ids_def tool_calls_def)

section \<open>The history of a stream\<close>

definition accumulated :: "ModelEvent list \<Rightarrow> (int \<times> callAccumulator) list \<Rightarrow> bool" where
  "accumulated H calls \<longleftrightarrow>
     distinct (map fst calls) \<and>
     map_of calls = (\<lambda>i. if fragments H i = [] then None else Some (joined (fragments H i)))"

definition chat_history :: "ModelEvent list \<Rightarrow> chatStream \<Rightarrow> bool" where
  "chat_history H s \<longleftrightarrow>
     emit_all zero_validator H =
       Some \<lparr>sv_lastSequence = cs_sequence s, sv_started = True, sv_terminal = cs_done s\<rparr> \<and>
     accumulated H (cs_calls s) \<and> distinct (call_ids H) \<and>
     (if cs_done s then mv_Type (last H) = ModelEventStop \<longrightarrow> tool_calls H = assembled H
      else tool_calls H = [])"

definition chat_continues :: "chatStream \<Rightarrow> chatStream \<Rightarrow> bool" where
  "chat_continues s s' \<longleftrightarrow>
     (\<forall>H. chat_history H s \<longrightarrow> (\<exists>new. cs_queue s' = cs_queue s @ new \<and> chat_history (H @ new) s'))"

lemma chat_continues_trans: "chat_continues s s' \<Longrightarrow> chat_continues s' s'' \<Longrightarrow> chat_continues s s''"
  unfolding chat_continues_def by (metis append.assoc)

lemma chat_continues_same:
  "cs_queue s' = cs_queue s \<Longrightarrow> cs_sequence s' = cs_sequence s \<Longrightarrow> cs_done s' = cs_done s \<Longrightarrow>
     cs_calls s' = cs_calls s \<Longrightarrow> chat_continues s s'"
  unfolding chat_continues_def chat_history_def by (intro allI impI exI [of _ "[]"]) simp

lemma chat_continues_refl [simp]: "chat_continues s s"
  by (rule chat_continues_same) simp_all

lemma fragments_other: "deltas new = [] \<Longrightarrow> fragments (H @ new) i = fragments H i"
  by (simp add: fragments_def)

lemma accumulated_other: "deltas new = [] \<Longrightarrow> accumulated (H @ new) calls = accumulated H calls"
  by (simp add: accumulated_def fragments_other cong: if_cong)

lemma chat_continues_enqueue:
  assumes "\<not> cs_done s" "mv_Type e \<noteq> ModelEventStart" "\<not> terminal_event e"
    "mv_ToolCall e = None" "mv_ToolCallDelta e = None"
  shows "chat_continues s (chat_enqueue s e)"
  unfolding chat_continues_def chat_history_def
  by (intro allI impI exI [of _ "[e\<lparr>mv_Sequence := cs_sequence s + 1\<rparr>]"])
     (use assms in \<open>simp add: chat_enqueue_def emit_all_append terminal_event_def accumulated_other\<close>)

lemma chat_continues_failure:
  assumes "\<not> cs_done s"
  shows "chat_continues s ((chat_enqueue s provider_failure)\<lparr>cs_done := True\<rparr>)"
  unfolding chat_continues_def chat_history_def
  by (intro allI impI exI [of _ "[provider_failure\<lparr>mv_Sequence := cs_sequence s + 1\<rparr>]"])
     (use assms in \<open>simp add: chat_enqueue_def emit_all_append event_defs accumulated_other\<close>)

lemma joined_snoc: "joined (ds @ [chunk_delta c]) = accumulate c (joined ds)"
  by (simp add: joined_def accumulate_def chunk_delta_def)

lemma accumulated_update:
  assumes "accumulated H calls" "mv_ToolCallDelta e = Some (chunk_delta c)"
  shows "accumulated (H @ [e]) (AList.update (tcc_Index c)
    (accumulate c (case map_of calls (tcc_Index c) of None \<Rightarrow> no_accumulator | Some a \<Rightarrow> a)) calls)"
proof -
  have index: "td2_Index (chunk_delta c) = tcc_Index c" by (simp add: chunk_delta_def)
  have none: "no_accumulator = joined []" by (simp add: no_accumulator_def joined_def)
  have "fragments (H @ [e]) i =
      (if i = tcc_Index c then fragments H i @ [chunk_delta c] else fragments H i)" for i
    using assms(2) index by (simp add: fragments_def)
  with assms(1) show ?thesis
    by (auto simp: accumulated_def update_conv' distinct_update fun_eq_iff joined_snoc
        joined_snoc [of "[]", simplified] none)
qed

lemma chat_continues_fragment:
  assumes "\<not> cs_done s"
  shows "chat_continues s (chat_enqueue (s\<lparr>cs_calls := AList.update (tcc_Index c)
    (accumulate c (case map_of (cs_calls s) (tcc_Index c) of None \<Rightarrow> no_accumulator | Some a \<Rightarrow> a))
    (cs_calls s)\<rparr>) (delta_event (chunk_delta c)))"
  unfolding chat_continues_def chat_history_def
  by (intro allI impI exI [of _ "[(delta_event (chunk_delta c))\<lparr>mv_Sequence := cs_sequence s + 1\<rparr>]"])
     (use assms accumulated_update in \<open>simp add: chat_enqueue_def emit_all_append event_defs\<close>)

section \<open>Every operation continues the stream\<close>

lemma consume_calls_continues:
  "\<not> cs_done s \<Longrightarrow> chat_continues s (fst (consume_calls s cs)) \<and> \<not> cs_done (fst (consume_calls s cs))"
proof (induction s cs rule: consume_calls.induct)
  case (2 s c cs)
  let ?s = "chat_enqueue (s\<lparr>cs_calls := AList.update (tcc_Index c)
    (accumulate c (case map_of (cs_calls s) (tcc_Index c) of None \<Rightarrow> no_accumulator | Some a \<Rightarrow> a))
    (cs_calls s)\<rparr>) (delta_event (chunk_delta c))"
  have step: "chat_continues s ?s" using 2(2) by (rule chat_continues_fragment)
  have "\<not> cs_done ?s" using 2(2) by (simp add: chat_enqueue_def)
  show ?case
  proof (cases "(tcc_Index c < 0 \<or> (tcc_Type c \<noteq> [] \<and> tcc_Type c \<noteq> ''function'')) \<or>
      ToolCallDelta_Validate (chunk_delta c) \<noteq> None")
    case True
    then show ?thesis using 2(2) by (auto split: option.split)
  next
    case False
    then have unfolded: "consume_calls s (c # cs) = consume_calls ?s cs" by (auto simp: Let_def)
    have "chat_continues ?s (fst (consume_calls ?s cs)) \<and> \<not> cs_done (fst (consume_calls ?s cs))"
      using "2.IH" [OF _ _ refl refl] False \<open>\<not> cs_done ?s\<close> by simp
    with step show ?thesis unfolding unfolded using chat_continues_trans by blast
  qed
qed simp

lemma enqueue_text_continues:
  assumes "\<not> cs_done s"
  shows "chat_continues s (enqueue_text s t)" "\<not> cs_done (enqueue_text s t)"
proof -
  have "chat_continues s (chat_enqueue s (text_event x))" for x
    using assms by (intro chat_continues_enqueue) (simp_all add: event_defs)
  then show "chat_continues s (enqueue_text s t)" by (simp add: enqueue_text_def split: option.split)
  show "\<not> cs_done (enqueue_text s t)"
    using assms by (simp add: enqueue_text_def chat_enqueue_def split: option.split)
qed

lemma consume_choice_continues:
  assumes "\<not> cs_done s"
  shows "chat_continues s (fst (consume_choice s choice))"
proof -
  let ?s = "enqueue_text (enqueue_text s (cd_Content (cc_Delta choice))) (cd_Refusal (cc_Delta choice))"
  let ?r = "consume_calls ?s (cd_ToolCalls (cc_Delta choice))"
  have "\<not> cs_done ?s" "chat_continues s ?s"
    using enqueue_text_continues assms chat_continues_trans by blast+
  then have calls: "chat_continues s (fst ?r)"
    using consume_calls_continues chat_continues_trans by blast
  moreover have "chat_continues (fst ?r) ((fst ?r)\<lparr>cs_finish := reason\<rparr>)" for reason
    by (rule chat_continues_same) simp_all
  ultimately have "chat_continues s ((fst ?r)\<lparr>cs_finish := reason\<rparr>)" for reason
    using chat_continues_trans by blast
  with calls show ?thesis
    by (cases ?r) (auto simp: consume_choice_def Let_def split: option.split)
qed

lemma consumeChunk_continues:
  assumes "\<not> cs_done s"
  shows "chat_continues s (fst (consumeChunk unmarshal s data))"
proof -
  have usage: "chat_continues s s1 \<and> \<not> cs_done s1" if "consume_usage s u = (s1, r)" for u s1 r
    using that assms by (auto simp: consume_usage_def split: option.splits if_splits intro: chat_continues_same)
  have "chat_continues s (fst (consume_choice s1 choice))" if "consume_usage s u = (s1, r)" for u s1 r choice
    using usage [OF that] consume_choice_continues chat_continues_trans by blast
  with usage chat_continues_failure [OF assms] show ?thesis
    by (auto simp: consumeChunk_def split: prod.split option.split list.split)
qed

lemma finalize_calls_result:
  "finalize_calls s seen cs = (s', None) \<Longrightarrow>
     \<exists>new. cs_queue s' = cs_queue s @ new \<and> s' = s\<lparr>cs_queue := cs_queue s', cs_sequence := cs_sequence s'\<rparr> \<and>
       tool_calls new = map (completed_call \<circ> snd) cs \<and> deltas new = [] \<and>
       emit_all \<lparr>sv_lastSequence = cs_sequence s, sv_started = True, sv_terminal = False\<rparr> new =
         Some \<lparr>sv_lastSequence = cs_sequence s', sv_started = True, sv_terminal = False\<rparr> \<and>
       distinct (call_ids new) \<and> set (call_ids new) \<inter> set seen = {}"
proof (induction s seen cs rule: finalize_calls.induct)
  case (1 s seen)
  then show ?case by (intro exI [of _ "[]"]) simp
next
  case (2 s seen index a rest)
  let ?e = "(call_event (completed_call a))\<lparr>mv_Sequence := cs_sequence s + 1\<rparr>"
  from "2.prems" have valid: "ModelEvent_Validate ((call_event (completed_call a))\<lparr>mv_Sequence := 1\<rparr>) = None"
    and fresh: "ca_id a \<notin> set seen"
    and later: "finalize_calls (chat_enqueue s (call_event (completed_call a))) (ca_id a # seen) rest = (s', None)"
    by (auto split: option.splits if_splits)
  from "2.IH" [OF valid fresh later] obtain new where
    new: "cs_queue s' = cs_queue s @ ?e # new"
      "s' = (chat_enqueue s (call_event (completed_call a)))\<lparr>cs_queue := cs_queue s', cs_sequence := cs_sequence s'\<rparr>"
      "tool_calls new = map (completed_call \<circ> snd) rest" "deltas new = []"
      "emit_all \<lparr>sv_lastSequence = cs_sequence s + 1, sv_started = True, sv_terminal = False\<rparr> new =
         Some \<lparr>sv_lastSequence = cs_sequence s', sv_started = True, sv_terminal = False\<rparr>"
      "distinct (call_ids new)" "set (call_ids new) \<inter> set (ca_id a # seen) = {}"
    by (auto simp: chat_enqueue_def)
  have "s' = s\<lparr>cs_queue := cs_queue s', cs_sequence := cs_sequence s'\<rparr>"
    using new(2) by (simp add: chat_enqueue_def)
  moreover have "tk_ID (completed_call a) = ca_id a" by (simp add: completed_call_def)
  ultimately show ?case using new(1,3-) fresh
    by (intro exI [of _ "?e # new"]) (auto simp: event_defs)
qed

lemma assembled_accumulated:
  assumes "accumulated H calls"
  shows "map (completed_call \<circ> snd) (sort_key fst calls) = assembled H"
proof -
  let ?sorted = "sort_key fst calls"
  have keys: "set (map fst calls) = td2_Index ` set (deltas H)"
  proof -
    have "set (map fst calls) = dom (map_of calls)" by (simp add: dom_map_of_conv_image_fst)
    also have "\<dots> = td2_Index ` set (deltas H)"
      using assms by (auto simp: accumulated_def fragments_def dom_def filter_empty_conv)
    finally show ?thesis .
  qed
  have "distinct (map fst ?sorted)" "sorted (map fst ?sorted)"
    using assms by (simp_all add: accumulated_def distinct_map)
  then have indices: "map fst ?sorted = sorted_list_of_set (td2_Index ` set (deltas H))"
    using keys sorted_list_of_set.idem_if_sorted_distinct by (metis set_map set_sort)
  have "snd p = joined (fragments H (fst p))" if "p \<in> set ?sorted" for p
  proof -
    have "distinct (map fst calls)" using assms by (simp add: accumulated_def)
    then have "map_of calls (fst p) = Some (snd p)" using that by simp
    with assms show ?thesis by (auto simp: accumulated_def split: if_splits)
  qed
  then have "map (completed_call \<circ> snd) ?sorted =
      map (\<lambda>i. completed_call (joined (fragments H i))) (map fst ?sorted)"
    by simp
  then show ?thesis unfolding assembled_def indices .
qed

lemma finalize_continues:
  assumes "\<not> cs_done s" "finalize s = (s', None)"
  shows "chat_continues s (s'\<lparr>cs_done := True\<rparr>)"
proof -
  let ?stop = "normalizeFinishReason (cs_finish s)"
  obtain s1 where calls: "finalize_calls s [] (sort_key fst (cs_calls s)) = (s1, None)"
    and s': "s' = chat_enqueue (case cs_usage s1 of None \<Rightarrow> s1 | Some u \<Rightarrow> chat_enqueue s1 (usage_event u))
      (stop_event ?stop)"
    using assms(2) by (auto simp: finalize_def Let_def split: if_splits prod.splits option.splits)
  from finalize_calls_result [OF calls] obtain new where
    new: "cs_queue s1 = cs_queue s @ new"
      "s1 = s\<lparr>cs_queue := cs_queue s1, cs_sequence := cs_sequence s1\<rparr>"
      "tool_calls new = map (completed_call \<circ> snd) (sort_key fst (cs_calls s))" "deltas new = []"
      "emit_all \<lparr>sv_lastSequence = cs_sequence s, sv_started = True, sv_terminal = False\<rparr> new =
         Some \<lparr>sv_lastSequence = cs_sequence s1, sv_started = True, sv_terminal = False\<rparr>"
      "distinct (call_ids new)"
    by blast
  from new(2) have same: "cs_calls s1 = cs_calls s" by (metis chatStream.select_convs(9) chatStream.surjective chatStream.update_convs(5,6))
  let ?tail = "drop (length (cs_queue s1)) (cs_queue s')"
  have tail: "cs_queue s' = cs_queue s1 @ ?tail" "tool_calls ?tail = []" "deltas ?tail = []"
    "emit_all \<lparr>sv_lastSequence = cs_sequence s1, sv_started = True, sv_terminal = False\<rparr> ?tail =
       Some \<lparr>sv_lastSequence = cs_sequence s', sv_started = True, sv_terminal = True\<rparr>"
    "cs_calls s' = cs_calls s1"
    by (auto simp: s' chat_enqueue_def event_defs usage_event_def split: option.split)
  show ?thesis unfolding chat_continues_def
  proof (intro allI impI exI [of _ "new @ ?tail"] conjI)
    fix H assume H: "chat_history H s"
    show "cs_queue (s'\<lparr>cs_done := True\<rparr>) = cs_queue s @ new @ ?tail"
      using tail(1) new(1) by simp
    have quiet: "tool_calls H = []" using H assms(1) by (simp add: chat_history_def)
    then have "call_ids (H @ new @ ?tail) = call_ids new" using tail(2) by (simp add: call_ids_tool_calls)
    moreover have "tool_calls (H @ new @ ?tail) = assembled (H @ new @ ?tail)"
      using assembled_accumulated [of H "cs_calls s"] H new(3,4) tail(2,3) quiet
      by (simp add: chat_history_def assembled_def fragments_def)
    moreover have "deltas (new @ ?tail) = []" using new(4) tail(3) by simp
    ultimately show "chat_history (H @ new @ ?tail) (s'\<lparr>cs_done := True\<rparr>)"
      using H assms(1) new(5,6) tail(4,5) same accumulated_other [of "new @ ?tail" H]
      by (simp add: chat_history_def emit_all_append)
  qed
qed

lemma chat_consume_continues:
  assumes "\<not> cs_done s" "chat_consume unmarshal s data = (s', None)"
  shows "chat_continues s s'"
  using assms finalize_continues [OF assms(1)] consumeChunk_continues [OF assms(1), of unmarshal data]
  by (auto simp: chat_consume_def split: if_splits prod.splits option.splits)

definition chat_protocol_failure :: "error option \<Rightarrow> bool" where
  "chat_protocol_failure r \<longleftrightarrow> (case r of None \<Rightarrow> True | Some err \<Rightarrow> sentinels err = [OpenAIErrSSEProtocol])"

lemma chat_protocol_failure_simps [simp]:
  "chat_protocol_failure None" "chat_protocol_failure (Some (chat_error msg))"
  by (simp_all add: chat_protocol_failure_def chat_error_def)

lemma consume_calls_failure: "consume_calls s cs = (s', r) \<Longrightarrow> chat_protocol_failure r"
  by (induction s cs rule: consume_calls.induct) (auto simp: Let_def split: if_splits option.splits)

lemma finalize_calls_failure: "finalize_calls s seen cs = (s', r) \<Longrightarrow> chat_protocol_failure r"
  by (induction s seen cs rule: finalize_calls.induct) (auto split: if_splits option.splits)

lemma chat_consume_failure: "chat_consume unmarshal s data = (s', r) \<Longrightarrow> chat_protocol_failure r"
proof -
  have fin: "chat_protocol_failure r" if "finalize s = (s1, r)" for s1 r
    using that
    by (auto simp: finalize_def Let_def split: if_splits prod.splits option.splits dest: finalize_calls_failure)
  have choice: "chat_protocol_failure r" if "consume_choice s1 c = (s2, r)" for s1 s2 c r
    using that by (auto simp: consume_choice_def Let_def split: if_splits prod.splits option.splits
        dest: consume_calls_failure)
  have usage: "chat_protocol_failure r" if "consume_usage s u = (s2, r)" for s2 u r
    using that by (auto simp: consume_usage_def split: if_splits option.splits)
  have chunk: "chat_protocol_failure r" if "consumeChunk unmarshal s data = (s2, r)" for s2 r
    using that by (auto simp: consumeChunk_def split: if_splits prod.splits option.splits list.splits
        dest: choice usage)
  show "chat_consume unmarshal s data = (s', r) \<Longrightarrow> chat_protocol_failure r"
    by (auto simp: chat_consume_def split: if_splits prod.splits option.splits dest: fin chunk)
qed

section \<open>Receiving\<close>

lemma chat_Close_simps [simp]:
  "cs_queue (fst (chat_Close s)) = cs_queue s" "cs_sequence (fst (chat_Close s)) = cs_sequence s"
  "cs_done (fst (chat_Close s)) = cs_done s" "cs_calls (fst (chat_Close s)) = cs_calls s"
  by (simp_all add: chat_Close_def Let_def)

lemma chat_nextSSE_same:
  assumes "chat_nextSSE env n s = (r, s')"
  shows "chat_continues s s'" "cs_done s' = cs_done s"
proof -
  have "cs_queue s' = cs_queue s \<and> cs_sequence s' = cs_sequence s \<and> cs_done s' = cs_done s \<and>
      cs_calls s' = cs_calls s"
    using assms by (auto simp: chat_nextSSE_def Let_def split: select.splits prod.splits option.splits)
  then show "chat_continues s s'" "cs_done s' = cs_done s" by (auto intro: chat_continues_same)
qed

lemma chat_read_failure_not_eof:
  "honest env \<Longrightarrow> \<not> errors_Is (chat_read_failure env n s err) ErrEOF"
  by (auto simp: chat_read_failure_def chat_ctx_Err_def honest_def chat_error_def split: option.split)

definition chat_result :: "recv_env \<Rightarrow> ModelEvent list \<Rightarrow> chatStream \<Rightarrow> chatStream \<times> ModelEvent answer \<Rightarrow> bool" where
  "chat_result env H s result \<longleftrightarrow>
     (case result of
        (s', Answers e) \<Rightarrow>
          \<exists>new. chat_history (H @ new) s' \<and> cs_queue s @ new = e # cs_queue s' \<and> ModelEvent_Validate e = None
      | (s', Fails err) \<Rightarrow> honest env \<longrightarrow> errors_Is err ErrEOF \<longrightarrow> cs_queue s = [] \<and> cs_done s
      | (s', Panics) \<Rightarrow> False)"

lemma chat_take_event_result:
  assumes "chat_history H s" "cs_queue s \<noteq> []"
  shows "chat_result env H s (chat_take_event s)"
proof -
  obtain e rest where q: "cs_queue s = e # rest" using assms(2) by (cases "cs_queue s") auto
  have "chat_history H (s\<lparr>cs_queue := rest\<rparr>)" using assms(1) by (simp add: chat_history_def)
  then show ?thesis
    by (auto simp: chat_take_event_def q chat_result_def chat_error_def split: option.split)
qed

lemma chat_result_later:
  assumes "chat_history H s" "chat_continues s s'"
    and later: "\<And>H'. chat_history H' s' \<Longrightarrow> chat_result env H' s' result"
  shows "chat_result env H s result"
proof -
  obtain new where new: "cs_queue s' = cs_queue s @ new" "chat_history (H @ new) s'"
    using assms(1,2) unfolding chat_continues_def by blast
  have "cs_done s" if "cs_queue s' = []" "cs_done s'"
    using that new assms(1) by (auto simp: chat_history_def)
  with later [OF new(2)] new(1) show ?thesis
    by (auto simp: chat_result_def split: prod.splits answer.splits)
qed

lemma chat_recv_loop_result: "chat_history H s \<Longrightarrow> chat_result env H s (chat_recv_loop unmarshal env n s)"
proof (induction unmarshal env n s arbitrary: H rule: chat_recv_loop.induct)
  case (1 unmarshal env n s)
  show ?case
  proof (cases "cs_queue s = [] \<and> \<not> cs_done s")
    case False
    then show ?thesis using chat_take_event_result [OF "1.prems"]
      by (subst chat_recv_loop.simps) (auto simp: chat_result_def)
  next
    case True
    obtain r s1 where read: "chat_nextSSE env n s = (r, s1)" by (cases "chat_nextSSE env n s")
    note same = chat_nextSSE_same [OF read]
    show ?thesis
    proof (cases r)
      case (Inl err)
      then show ?thesis using True read chat_read_failure_not_eof [of env n s1 err]
        by (subst chat_recv_loop.simps) (auto simp: chat_result_def)
    next
      case (Inr data)
      obtain s2 fault where step: "chat_consume unmarshal s1 data = (s2, fault)"
        by (cases "chat_consume unmarshal s1 data")
      show ?thesis
      proof (cases fault)
        case None
        then have cont: "chat_continues s s2"
          using chat_consume_continues [of s1 unmarshal data s2] step True same chat_continues_trans by simp
        have "chat_result env H' s2 (chat_recv_loop unmarshal env (Suc n) s2)" if "chat_history H' s2" for H'
          using "1.IH" [of _ s1] True read Inr step None that by auto
        then show ?thesis using chat_result_later [OF "1.prems" cont] True read Inr step None
          by (subst chat_recv_loop.simps) auto
      next
        case (Some err)
        then show ?thesis using chat_consume_failure [OF step] True read Inr step
          by (subst chat_recv_loop.simps) (auto simp: chat_result_def chat_protocol_failure_def errors_Is_def)
      qed
    qed
  qed
qed

lemma chat_Recv_result: "chat_history H s \<Longrightarrow> chat_result env H s (chat_Recv unmarshal env s)"
  using chat_recv_loop_result [of H s env unmarshal 0]
  by (auto simp: chat_Recv_def chat_result_def honest_def chat_ctx_Err_def split: option.split)

interpretation openai: provider_stream "chat_Recv unmarshal" cs_queue chat_history cs_done honest
  for unmarshal
proof
  show "\<exists>new. chat_history (H @ new) s' \<and> cs_queue s @ new = e # cs_queue s' \<and> ModelEvent_Validate e = None"
    if "chat_history H s" "chat_Recv unmarshal env s = (s', Answers e)" for H s env s' e
    using chat_Recv_result [OF that(1), of env unmarshal] that(2) by (simp add: chat_result_def)
  show "cs_queue s = [] \<and> cs_done s"
    if "chat_history H s" "honest env" "chat_Recv unmarshal env s = (s', Fails err)" "errors_Is err ErrEOF"
    for H s env s' err
    using chat_Recv_result [OF that(1), of env unmarshal] that(2-) by (simp add: chat_result_def)
  show "\<exists>v. emit_all zero_validator H = Some v \<and> (cs_done s \<longrightarrow> sv_terminal v)" if "chat_history H s" for H s
    using that by (simp add: chat_history_def)
qed

lemma chat_history_new: "chat_history (cs_queue (newChatStream d c)) (newChatStream d c)"
  by (simp add: chat_history_def newChatStream_def chat_enqueue_def zero_validator_def accumulated_def
      fragments_def fun_eq_iff event_defs)

section \<open>Properties\<close>

text \<open>
  [C23] Refinement of the stream contract by the OpenAI-compatible stream: whatever the response
  body, the JSON decoder and the contexts do, the events handed over before the first failure
  are accepted one after the other by \<open>ModelStreamValidator\<close>; when that failure is the end of
  file they are a complete canonical stream; and no tool-call identifier is completed twice.
\<close>

theorem chat_stream_conforms:
  assumes "\<And>i. honest (envs i)"
    and "map (recv_reply (chat_Recv unmarshal) envs (newChatStream d c)) [0..<length es] = map Answers es"
  shows "(\<exists>v. accept_all zero_validator es = Inr v) \<and>
    ((\<exists>err. recv_reply (chat_Recv unmarshal) envs (newChatStream d c) (length es) = Fails err \<and>
        errors_Is err ErrEOF) \<longrightarrow> canonical es) \<and>
    distinct (call_ids es)"
proof -
  note openai.received_history [OF chat_history_new assms(2)]
  then have "distinct (call_ids es)" by (auto simp: chat_history_def)
  with openai.stream_conforms [OF chat_history_new assms(2)] assms(1) show ?thesis by blast
qed

text \<open>
  Equivalence of the incremental accumulation with a reference: when the stream has handed
  over its stop event, the completed tool calls are exactly those assembled from all the
  fragments of the stream, one call for each index that occurs, in ascending order of the
  indices, each field the concatenation of its fragments in the order of arrival.
\<close>

theorem chat_stream_assembles:
  assumes "map (recv_reply (chat_Recv unmarshal) envs (newChatStream d c)) [0..<length es] = map Answers es"
    and "mv_Type (last es) = ModelEventStop" "es \<noteq> []"
  shows "tool_calls es = assembled es"
proof -
  let ?s = "recv_state (chat_Recv unmarshal) envs (newChatStream d c) (length es)"
  note hist = openai.received_history [OF chat_history_new assms(1)]
  then obtain w where w: "emit_all zero_validator (es @ cs_queue ?s) = Some w" "sv_terminal w = cs_done ?s"
    by (auto simp: chat_history_def)
  obtain front e where es: "es = front @ [e]" using assms(3) by (cases es rule: rev_cases) auto
  have stop: "terminal_event e" using assms(2) es by (simp add: terminal_event_def)
  then have "cs_queue ?s = []"
    using w(1) es by (cases "cs_queue ?s") (auto simp: emit_all_append split: option.splits if_splits)
  moreover from this have "cs_done ?s"
    using w es stop by (auto simp: emit_all_append split: option.splits if_splits)
  ultimately show ?thesis using hist assms(2) by (simp add: chat_history_def)
qed

end
