(* ===== verification/StreamExample.thy ===== *)
theory StreamExample
  imports AnthropicProps OpenAIProps
begin

text \<open>
  Two concrete streams, one per provider: a body of server-sent events, a decoder that knows the
  payloads of that body, and contexts that stay live. They are the inputs of the witnesses.
\<close>

definition quiet :: recv_env where
  "quiet = \<lparr>env_ctx = background, env_stream = background, env_select = (\<lambda>_. ReadArrives)\<rparr>"

lemma honest_quiet: "honest quiet"
  by (simp add: honest_def quiet_def)

section \<open>A message of the Anthropic provider\<close>

definition blank_envelope :: "string \<Rightarrow> streamEnvelope" where
  "blank_envelope t = \<lparr>se_Type = t, se_Index = 0, se_Message = None, se_ContentBlock = None,
     se_Delta = None, se_Usage = None, se_Error = []\<rparr>"

definition sample_unmarshal :: "bytes \<Rightarrow> streamEnvelope option" where
  "sample_unmarshal data =
     (if data = ''1'' then Some ((blank_envelope ''message_start'')\<lparr>se_Message :=
         Some \<lparr>wu_InputTokens = Some 7, wu_OutputTokens = None, wu_CacheReadTokens = None, wu_CacheWriteTokens = None\<rparr>\<rparr>)
      else if data = ''2'' then Some ((blank_envelope ''message_delta'')\<lparr>se_Delta :=
         Some \<lparr>ed_Type = [], ed_Text = [], ed_PartialJSON = [], ed_StopReason = Some ''end_turn''\<rparr>\<rparr>)
      else if data = ''3'' then Some (blank_envelope ''message_stop'')
      else None)"

definition sample_body :: bytes where
  "sample_body =
     event_field ''message_start'' @ data_field ''1'' @ [newline] @
     event_field ''message_delta'' @ data_field ''2'' @ [newline] @
     event_field ''message_stop'' @ data_field ''3'' @ [newline]"

definition sample_stream :: messageStream where
  "sample_stream = newMessageStream (newSSEDecoder sample_body None False 40) None"

definition sample_events :: "ModelEvent list" where
  "sample_events =
     [blank_event ModelEventStart 1,
      (blank_event ModelEventUsage 2)\<lparr>mv_Usage := Some \<lparr>us_InputTokens = 7, us_OutputTokens = 0,
         us_CacheReadTokens = 0, us_CacheWriteTokens = 0, us_Cost = 0\<rparr>\<rparr>,
      (blank_event ModelEventStop 3)\<lparr>mv_Stop := StopEndTurn\<rparr>]"

lemma sample_replies:
  "map (recv_reply (Recv sample_unmarshal) (\<lambda>_. quiet) sample_stream) [0..<length sample_events] =
     map Answers sample_events"
  by code_simp

lemma sample_end: "recv_reply (Recv sample_unmarshal) (\<lambda>_. quiet) sample_stream (length sample_events) = Fails io_EOF"
  by code_simp

theorem message_stream_conforms_witness:
  "canonical sample_events \<and> distinct (call_ids sample_events)"
proof -
  have "\<exists>err. recv_reply (Recv sample_unmarshal) (\<lambda>_. quiet) sample_stream (length sample_events) = Fails err \<and>
      errors_Is err ErrEOF"
    using sample_end by (simp add: io_EOF_def)
  then show ?thesis
    using message_stream_conforms [OF honest_quiet sample_replies [unfolded sample_stream_def]]
    unfolding sample_stream_def by blast
qed

theorem message_stream_usage_witness:
  "usage_total us_InputTokens (sample_events @
      as_queue (recv_state (Recv sample_unmarshal) (\<lambda>_. quiet) sample_stream (length sample_events))) =
   ut_input (as_usage (recv_state (Recv sample_unmarshal) (\<lambda>_. quiet) sample_stream (length sample_events)))"
  using message_stream_usage [OF sample_replies [unfolded sample_stream_def] refl]
  unfolding sample_stream_def by blast

definition sample_decoder :: sseDecoder where
  "sample_decoder = newSSEDecoder (event_field ''a'' @ data_field ''b'' @ data_field ''c'' @ [newline] @ ''rest'') None False 40"


theorem sseDecoder_bounded_witness:
  "\<exists>name data d. sseDecoder_Next sample_decoder = (Inr (name, data), d) \<and> int (length data) \<le> 40"
proof -
  have "\<exists>d. sseDecoder_Next sample_decoder = (Inr (''a'', ''b'' @ [newline] @ ''c''), d)"
    by (intro exI) code_simp
  then obtain d where d: "sseDecoder_Next sample_decoder = (Inr (''a'', ''b'' @ [newline] @ ''c''), d)" ..
  have "sd_maxEventBytes sample_decoder = 40" by (simp add: sample_decoder_def newSSEDecoder_def Let_def)
  with sseDecoder_bounded [OF d] d show ?thesis by auto
qed

section \<open>A completion of the OpenAI-compatible provider\<close>

definition blank_choice :: completionChoice where
  "blank_choice = \<lparr>cc_Index = 0,
     cc_Delta = \<lparr>cd_Content = None, cd_Refusal = None, cd_ToolCalls = []\<rparr>, cc_FinishReason = None\<rparr>"

definition sample_fragment :: "string \<Rightarrow> string \<Rightarrow> string \<Rightarrow> completionChunk" where
  "sample_fragment i name arguments =
     \<lparr>ck_Choices = [blank_choice\<lparr>cc_Delta := \<lparr>cd_Content = None, cd_Refusal = None,
        cd_ToolCalls = [\<lparr>tcc_Index = 0, tcc_ID = i, tcc_Type = ''function'', tcc_Name = name,
          tcc_Arguments = arguments\<rparr>]\<rparr>\<rparr>], ck_Usage = None, ck_Error = False\<rparr>"

definition chat_sample_unmarshal :: "bytes \<Rightarrow> completionChunk option" where
  "chat_sample_unmarshal data =
     (if data = ''1'' then Some (sample_fragment ''c1'' ''read'' ''{'')
      else if data = ''2'' then Some (sample_fragment [] [] ''}'')
      else if data = ''3'' then
        Some \<lparr>ck_Choices = [blank_choice\<lparr>cc_FinishReason := Some ''tool_calls''\<rparr>], ck_Usage = None, ck_Error = False\<rparr>
      else None)"

definition chat_sample_stream :: chatStream where
  "chat_sample_stream = newChatStream
     (newSSEDecoder (concat (map (\<lambda>d. data_field d @ [newline]) [''1'', ''2'', ''3'', ''[DONE]''])) None False 40) None"

definition chat_sample_events :: "ModelEvent list" where
  "chat_sample_events =
     [blank_event ModelEventStart 1,
      (blank_event ModelEventToolCallDelta 2)\<lparr>mv_ToolCallDelta := Some \<lparr>td2_Index = 0, td2_ID = ''c1'',
         td2_Name = ''read'', td2_InputFragment = ''{''\<rparr>\<rparr>,
      (blank_event ModelEventToolCallDelta 3)\<lparr>mv_ToolCallDelta := Some \<lparr>td2_Index = 0, td2_ID = [],
         td2_Name = [], td2_InputFragment = ''}''\<rparr>\<rparr>,
      (blank_event ModelEventToolCall 4)\<lparr>mv_ToolCall := Some \<lparr>tk_ID = ''c1'', tk_Name = ''read'', tk_Input = ''{}''\<rparr>\<rparr>,
      (blank_event ModelEventStop 5)\<lparr>mv_Stop := StopToolUse\<rparr>]"

lemma chat_sample_replies:
  "map (recv_reply (chat_Recv chat_sample_unmarshal) (\<lambda>_. quiet) chat_sample_stream)
     [0..<length chat_sample_events] = map Answers chat_sample_events"
  by code_simp

lemma chat_sample_end:
  "recv_reply (chat_Recv chat_sample_unmarshal) (\<lambda>_. quiet) chat_sample_stream
     (length chat_sample_events) = Fails io_EOF"
  by code_simp

theorem chat_stream_conforms_witness:
  "canonical chat_sample_events \<and> distinct (call_ids chat_sample_events)"
proof -
  have "\<exists>err. recv_reply (chat_Recv chat_sample_unmarshal) (\<lambda>_. quiet) chat_sample_stream
      (length chat_sample_events) = Fails err \<and> errors_Is err ErrEOF"
    using chat_sample_end by (simp add: io_EOF_def)
  then show ?thesis
    using chat_stream_conforms [OF honest_quiet chat_sample_replies [unfolded chat_sample_stream_def]]
    unfolding chat_sample_stream_def by blast
qed

theorem chat_stream_assembles_witness:
  "tool_calls chat_sample_events = assembled chat_sample_events \<and> tool_calls chat_sample_events \<noteq> []"
proof -
  have "mv_Type (last chat_sample_events) = ModelEventStop" "chat_sample_events \<noteq> []"
    and some: "tool_calls chat_sample_events \<noteq> []"
    by (simp_all add: chat_sample_events_def blank_event_def)
  from chat_stream_assembles [OF chat_sample_replies [unfolded chat_sample_stream_def] this(1,2)] some
  show ?thesis by blast
qed

end
