(* ===== verification/SqliteStore.thy ===== *)
theory SqliteStore
  imports ProjectionInv MemoryStore "HOL-Library.Signed_Division"
begin

text \<open>
  The durable event store (\<open>src/store/sqlite/store.go\<close>). The database is its three tables and
  its \<open>user_version\<close>; each SQL statement of the source is a function on the tables with the
  constraints of the schema, and a transaction that is not committed leaves no trace; a commit that reports an
  error has not taken effect. What the
  driver does beside that is a parameter: at each of its calls it may fail, with any error. The
  encoder and the strict decoder of projections are parameters too.

  A uint64 the source hands to the driver is at most \<open>math.MaxInt64\<close> by the checks before it, so a
  column holds it as the same integer. \<open>Time.UnixNano\<close> wraps outside the years 1678 to 2262.
\<close>

section \<open>The database\<close>

record eventRow =
  row_aggregate :: AggregateRef
  row_sequence :: int
  row_eventID :: string
  row_type :: string
  row_schemaVersion :: int
  row_causationID :: string
  row_correlationID :: string
  row_attemptID :: string
  row_occurredAtNS :: int
  row_payload :: bytes
  row_payloadSHA256 :: string

record projectionRow =
  prow_sequence :: int
  prow_document :: bytes
  prow_digest :: string

text \<open>\<open>aggregate_versions\<close>, \<open>events\<close>, \<open>workload_projections\<close>, and whether they have been created.\<close>

record database =
  db_userVersion :: int
  db_installed :: bool
  db_versions :: "AggregateRef \<rightharpoonup> int"
  db_events :: "eventRow list"
  db_projections :: "AggregateRef \<rightharpoonup> projectionRow"

record sqliteStore =
  st_db :: database
  st_busyMillis :: int

text \<open>The points at which an operation calls the driver.\<close>

datatype sq_point =
    AcquireConnection | SetBusyTimeout | BeginTx | EnsureVersion | ClaimVersion | RowsAffected
  | ReadVersion | InsertEvent nat | SelectProjection | PersistProjection | Commit
  | QueryEvents | NextRow nat | ScanRow nat
  | OpenDatabase | PingDatabase | InspectVersion | ReadUserVersion | InstallSchema | RecordVersion
  | ReadSettings

text \<open>
  What one call meets: the context's first answer, the time left until its deadline, what
  \<open>mapContextError\<close> finds when it asks the context, and the driver's failures.
\<close>

record sq_call =
  qc_ctx :: "error option"
  qc_remaining :: "duration option"
  qc_mapped :: "error option"
  qc_driver :: "sq_point \<Rightarrow> error option"

record sq_codec =
  qe_events :: codec
  qe_marshal :: "WorkloadProjection \<Rightarrow> error + bytes"
  qe_decode :: "bytes \<Rightarrow> error + (WorkloadProjection \<times> bytes)"

definition driver_plain :: "sq_call \<Rightarrow> sq_point \<Rightarrow> error + unit" where
  "driver_plain call point = (case qc_driver call point of Some e \<Rightarrow> Inl e | None \<Rightarrow> Inr ())"

definition driver :: "sq_call \<Rightarrow> sq_point \<Rightarrow> string \<Rightarrow> error + unit" where
  "driver call point what =
     (case qc_driver call point of Some e \<Rightarrow> Inl (wrapf what e) | None \<Rightarrow> Inr ())"

definition mapContextError :: "sq_call \<Rightarrow> error \<Rightarrow> error" where
  "mapContextError call err = (case qc_mapped call of Some e \<Rightarrow> e | None \<Rightarrow> err)"

definition driver_mapped :: "sq_call \<Rightarrow> sq_point \<Rightarrow> string \<Rightarrow> error + unit" where
  "driver_mapped call point what =
     (case qc_driver call point of
        Some e \<Rightarrow> Inl (mapContextError call (wrapf what e)) | None \<Rightarrow> Inr ())"

definition corrupt :: "string \<Rightarrow> error" where
  "corrupt msg = Error [ErrCorruptStore] msg"

section \<open>Statements\<close>

definition ensure_version :: "AggregateRef \<Rightarrow> database \<Rightarrow> database" where
  "ensure_version a db =
     (case db_versions db a of
        Some _ \<Rightarrow> db | None \<Rightarrow> db\<lparr>db_versions := (db_versions db)(a \<mapsto> 0)\<rparr>)"

text \<open>The update and the number of rows it affects.\<close>

definition claim_version :: "AggregateRef \<Rightarrow> int \<Rightarrow> int \<Rightarrow> database \<Rightarrow> database \<times> nat" where
  "claim_version a expected count db =
     (if db_versions db a = Some expected
      then (db\<lparr>db_versions := (db_versions db)(a \<mapsto> expected + count)\<rparr>, 1) else (db, 0))"

definition aggregateVersion :: "sq_call \<Rightarrow> database \<Rightarrow> AggregateRef \<Rightarrow> error + 64 word" where
  "aggregateVersion call db a =
     sum_bind (driver call ReadVersion ''read aggregate version'') (\<lambda>_.
       case db_versions db a of
         None \<Rightarrow> Inl (errorf ''read aggregate version: no rows'')
       | Some v \<Rightarrow> if v < 0 then Inl (corrupt ''negative aggregate version'') else Inr (of_int v))"

definition unix_epoch :: time where "unix_epoch = 62135596800 * 10 ^ 9"

definition Time_UnixNano :: "time \<Rightarrow> int" where
  "Time_UnixNano t = wrap64 (t - unix_epoch)"

definition event_row :: "Event \<Rightarrow> eventRow" where
  "event_row e =
     \<lparr>row_aggregate = ev_Aggregate e, row_sequence = uint (ev_Sequence e), row_eventID = ev_ID e,
      row_type = ev_Type e, row_schemaVersion = uint (ev_SchemaVersion e),
      row_causationID = ev_CausationID e, row_correlationID = ev_CorrelationID e,
      row_attemptID = ev_AttemptID e, row_occurredAtNS = Time_UnixNano (ev_OccurredAt e),
      row_payload = ev_Payload e, row_payloadSHA256 = ev_PayloadSHA256 e\<rparr>"

text \<open>Primary key, unique identifier, the two checks and the foreign key of the table.\<close>

definition violates :: "database \<Rightarrow> eventRow \<Rightarrow> bool" where
  "violates db row \<longleftrightarrow>
     (\<exists>r\<in>set (db_events db).
        (row_aggregate r = row_aggregate row \<and> row_sequence r = row_sequence row) \<or>
        row_eventID r = row_eventID row) \<or>
     row_sequence row \<le> 0 \<or> row_schemaVersion row \<le> 0 \<or> db_versions db (row_aggregate row) = None"

definition insertEvent :: "sq_call \<Rightarrow> nat \<Rightarrow> database \<Rightarrow> Event \<Rightarrow> error + database" where
  "insertEvent call i db e =
     sum_bind (driver call (InsertEvent i) ''insert event sequence'') (\<lambda>_.
       if violates db (event_row e) then Inl (errorf ''insert event sequence: constraint failed'')
       else Inr (db\<lparr>db_events := db_events db @ [event_row e]\<rparr>))"

section \<open>Events\<close>

definition parseOptionalID :: "string \<Rightarrow> error + ID" where
  "parseOptionalID value = (if value = [] then Inr [] else ParseID value)"

definition as_corrupt :: "error + 'a \<Rightarrow> error + 'a" where
  "as_corrupt m = (case m of Inl e \<Rightarrow> Inl (corrupt (detail e)) | Inr x \<Rightarrow> Inr x)"

definition scanEvent :: "sq_call \<Rightarrow> nat \<Rightarrow> AggregateRef \<Rightarrow> eventRow \<Rightarrow> error + Event" where
  "scanEvent call i a row =
     sum_bind (driver call (ScanRow i) ''scan SQLite event'') (\<lambda>_.
     if row_sequence row < 1 \<or> row_schemaVersion row < 1 \<or> 2 ^ 32 - 1 < row_schemaVersion row
     then Inl (corrupt ''invalid event sequence or schema version'')
     else
       sum_bind (as_corrupt (ParseID (row_eventID row))) (\<lambda>eventID.
       sum_bind (as_corrupt (parseOptionalID (row_causationID row))) (\<lambda>causationID.
       sum_bind (as_corrupt (parseOptionalID (row_correlationID row))) (\<lambda>correlationID.
       sum_bind (as_corrupt (parseOptionalID (row_attemptID row))) (\<lambda>attemptID.
       let event = \<lparr>ev_ID = eventID, ev_Aggregate = a, ev_Sequence = of_int (row_sequence row),
             ev_Type = row_type row, ev_SchemaVersion = of_int (row_schemaVersion row),
             ev_CausationID = causationID, ev_CorrelationID = correlationID, ev_AttemptID = attemptID,
             ev_OccurredAt = unix_epoch + row_occurredAtNS row, ev_Payload = row_payload row,
             ev_PayloadSHA256 = row_payloadSHA256 row\<rparr>
       in case Event_Validate event of
            Some e \<Rightarrow> Inl (corrupt (''event validation: '' @ detail e)) | None \<Rightarrow> Inr event)))))"

section \<open>The persisted projection\<close>

definition decodeStrict :: "(bytes \<Rightarrow> error + ('p \<times> bytes)) \<Rightarrow> bytes \<Rightarrow> error + 'p" where
  "decodeStrict decode document =
     sum_bind (decode document) (\<lambda>(value, rest).
       if list_all json_space rest then Inr value else Inl (errorf ''multiple JSON values''))"

definition loadWorkloadProjectionTx ::
  "sq_codec \<Rightarrow> sq_call \<Rightarrow> database \<Rightarrow> AggregateRef \<Rightarrow> 64 word \<Rightarrow> error + WorkloadProjection" where
  "loadWorkloadProjectionTx q call db a expected =
     sum_bind (driver call SelectProjection ''load workload projection for update'') (\<lambda>_.
     case db_projections db a of
       None \<Rightarrow>
         if expected \<noteq> 0 then Inl (corrupt ''workload projection missing at sequence'')
         else NewWorkloadProjection a
     | Some row \<Rightarrow>
         if prow_sequence row < 1 \<or> of_int (prow_sequence row) \<noteq> expected \<or>
            sha256Hex (prow_document row) \<noteq> prow_digest row
         then Inl (corrupt ''workload projection version or digest mismatch'')
         else
           sum_bind (as_corrupt (decodeStrict (qe_decode q) (prow_document row))) (\<lambda>projection.
           if pj_Aggregate projection \<noteq> a \<or> pj_Version projection \<noteq> expected
           then Inl (corrupt ''workload projection identity mismatch'') else Inr projection))"

fun apply_created :: "codec \<Rightarrow> Event list \<Rightarrow> WorkloadProjection \<Rightarrow> error + WorkloadProjection" where
  "apply_created dc [] p = Inr p"
| "apply_created dc (e # es) p =
     (case WorkloadProjection_Apply dc e p of
        (Some err, _) \<Rightarrow> Inl (wrapf ''update workload projection'' err)
      | (None, p') \<Rightarrow> apply_created dc es p')"

definition updateWorkloadProjection ::
  "sq_codec \<Rightarrow> sq_call \<Rightarrow> database \<Rightarrow> AggregateRef \<Rightarrow> 64 word \<Rightarrow> Event list \<Rightarrow> error + database" where
  "updateWorkloadProjection q call db a expected events =
     sum_bind (loadWorkloadProjectionTx q call db a expected) (\<lambda>projection.
     sum_bind (apply_created (qe_events q) events projection) (\<lambda>projection.
     sum_bind (wrapped ''encode workload projection'' (qe_marshal q projection)) (\<lambda>document.
     sum_bind (driver call PersistProjection ''persist workload projection'') (\<lambda>_.
     if db_versions db a = None \<or> uint (pj_Version projection) \<le> 0
     then Inl (errorf ''persist workload projection: constraint failed'')
     else Inr (db\<lparr>db_projections := (db_projections db)(a \<mapsto>
       \<lparr>prow_sequence = uint (pj_Version projection), prow_document = document,
        prow_digest = sha256Hex document\<rparr>)\<rparr>)))))"

section \<open>Append\<close>

text \<open>
  The time left is rounded up to whole milliseconds in 64 bits; \<open>time.Duration\<close> division
  truncates towards zero.
\<close>

definition boundBusyTimeout :: "sq_call \<Rightarrow> int \<Rightarrow> error + int" where
  "boundBusyTimeout call busyMillis =
     (case qc_remaining call of
        None \<Rightarrow> Inr busyMillis
      | Some remaining \<Rightarrow>
          if remaining \<le> 0 then Inl (Error [ErrDeadlineExceeded] ''context deadline exceeded'')
          else
            let deadlineMillis = wrap64 (remaining + 10 ^ 6 - 1) sdiv 10 ^ 6;
                operationMillis = (if deadlineMillis < busyMillis then deadlineMillis else busyMillis)
            in if operationMillis = busyMillis then Inr busyMillis
               else sum_bind (driver_mapped call SetBusyTimeout ''bound SQLite busy timeout'')
                      (\<lambda>_. Inr operationMillis))"

fun insert_drafts ::
  "sq_call \<Rightarrow> AggregateRef \<Rightarrow> 64 word \<Rightarrow> (nat \<Rightarrow> tick) \<Rightarrow> nat \<Rightarrow> EventDraft list \<Rightarrow> database
    \<Rightarrow> error + (Event list \<times> database)" where
  "insert_drafts call a expected ticks i [] db = Inr ([], db)"
| "insert_drafts call a expected ticks i (d # ds) db =
     (case ticks i of
        (at, now, ent) \<Rightarrow>
          (case NewEvent a (expected + of_nat i + 1) d at now ent of
             Inl e \<Rightarrow> Inl (wrapf ''materialize draft'' e)
           | Inr event \<Rightarrow>
               sum_bind (insertEvent call i db event) (\<lambda>db.
               sum_bind (insert_drafts call a expected ticks (Suc i) ds db) (\<lambda>(events, db).
                 Inr (event # events, db)))))"

definition append_tx ::
  "sq_codec \<Rightarrow> sq_call \<Rightarrow> sqliteStore \<Rightarrow> AggregateRef \<Rightarrow> 64 word \<Rightarrow> EventDraft list \<Rightarrow> (nat \<Rightarrow> tick)
    \<Rightarrow> error + (Event list \<times> database)" where
  "append_tx q call st a expected drafts ticks =
     sum_bind (driver_mapped call AcquireConnection ''acquire SQLite append connection'') (\<lambda>_.
     sum_bind (boundBusyTimeout call (st_busyMillis st)) (\<lambda>_.
     sum_bind (driver_mapped call BeginTx ''begin SQLite append'') (\<lambda>_.
     sum_bind (driver call EnsureVersion ''ensure aggregate version'') (\<lambda>_.
     sum_bind (driver call ClaimVersion ''claim aggregate version'') (\<lambda>_.
     sum_bind (driver call RowsAffected ''read version claim result'') (\<lambda>_.
     case claim_version a (uint expected) (int (length drafts)) (ensure_version a (st_db st)) of
       (db, rowsAffected) \<Rightarrow>
         if rowsAffected \<noteq> 1 then
           sum_bind (aggregateVersion call db a) (\<lambda>actual. Inl VersionConflictError)
         else
           sum_bind (insert_drafts call a expected ticks 0 drafts db) (\<lambda>(created, db).
           sum_bind (if ag_Type a = WorkloadAggregateType
                     then updateWorkloadProjection q call db a expected created else Inr db) (\<lambda>db.
           sum_bind (driver call Commit ''commit SQLite append'') (\<lambda>_. Inr (created, db))))))))))"

definition Store_Append ::
  "sq_codec \<Rightarrow> sq_call \<Rightarrow> sqliteStore \<Rightarrow> AggregateRef \<Rightarrow> 64 word \<Rightarrow> EventDraft list \<Rightarrow> (nat \<Rightarrow> tick)
    \<Rightarrow> (error + Event list) \<times> sqliteStore" where
  "Store_Append q call st a expected drafts ticks =
     (case first_error
        [qc_ctx call, AggregateRef_Validate a, first_invalid ''draft'' EventDraft_Validate drafts] of
        Some e \<Rightarrow> (Inl e, st)
      | None \<Rightarrow>
          if drafts = [] then (Inr [], st)
          else if max64 < uint expected \<or> max64 - uint expected < int (length drafts)
          then (Inl (errorf ''event sequence exceeds SQLite integer range''), st)
          else (case append_tx q call st a expected drafts ticks of
                  Inl e \<Rightarrow> (Inl e, st)
                | Inr (created, db) \<Rightarrow> (Inr (cloneEvents created), st\<lparr>st_db := db\<rparr>)))"

section \<open>Load\<close>

definition rows_after :: "database \<Rightarrow> AggregateRef \<Rightarrow> int \<Rightarrow> eventRow list" where
  "rows_after db a after =
     sort_key row_sequence (filter (\<lambda>r. row_aggregate r = a \<and> after < row_sequence r) (db_events db))"

fun load_rows :: "sq_call \<Rightarrow> AggregateRef \<Rightarrow> nat \<Rightarrow> 64 word \<Rightarrow> eventRow list \<Rightarrow> error + Event list" where
  "load_rows call a i expected rows =
     sum_bind (driver call (NextRow i) ''iterate SQLite events'') (\<lambda>_.
       case rows of
         [] \<Rightarrow> Inr []
       | row # rest \<Rightarrow>
           sum_bind (scanEvent call i a row) (\<lambda>event.
           if ev_Sequence event \<noteq> expected then Inl (corrupt ''event sequence'')
           else sum_bind (load_rows call a (Suc i) (expected + 1) rest) (\<lambda>events.
             Inr (event # events))))"

declare load_rows.simps [simp del]

definition Store_Load :: "sq_call \<Rightarrow> sqliteStore \<Rightarrow> AggregateRef \<Rightarrow> 64 word \<Rightarrow> error + Event list" where
  "Store_Load call st a after =
     (case first_error [qc_ctx call, AggregateRef_Validate a] of
        Some e \<Rightarrow> Inl e
      | None \<Rightarrow>
          if max64 < uint after then Inr []
          else sum_bind (driver call QueryEvents ''load SQLite events'') (\<lambda>_.
            sum_bind (load_rows call a 0 (after + 1) (rows_after (st_db st) a (uint after)))
              (\<lambda>events. Inr (cloneEvents events))))"

definition cloneProjection :: "WorkloadProjection \<Rightarrow> WorkloadProjection" where
  "cloneProjection p =
     p\<lparr>pj_Steps := (\<lambda>i. map_option (\<lambda>s. s\<lparr>st_Requirements := cloneRequirements (st_Requirements s)\<rparr>) (pj_Steps p i))\<rparr>"

definition Store_LoadWorkloadProjection ::
  "sq_codec \<Rightarrow> sq_call \<Rightarrow> sqliteStore \<Rightarrow> AggregateRef \<Rightarrow> error + WorkloadProjection" where
  "Store_LoadWorkloadProjection q call st a =
     (case first_error
        [qc_ctx call, AggregateRef_Validate a,
         fail_if (ag_Type a \<noteq> WorkloadAggregateType) ''workload projection requires the workload aggregate type''] of
        Some e \<Rightarrow> Inl e
      | None \<Rightarrow>
          sum_bind (driver call SelectProjection ''load SQLite workload projection'') (\<lambda>_.
          case db_projections (st_db st) a of
            None \<Rightarrow> Inl (Error [ErrAggregateNotFound] ''aggregate not found'')
          | Some row \<Rightarrow>
              if prow_sequence row < 1 \<or> sha256Hex (prow_document row) \<noteq> prow_digest row
              then Inl (corrupt ''workload projection integrity check failed'')
              else
                sum_bind (as_corrupt (decodeStrict (qe_decode q) (prow_document row))) (\<lambda>projection.
                if pj_Aggregate projection \<noteq> a \<or> pj_Version projection \<noteq> of_int (prow_sequence row) \<or>
                   wl_ID (pj_Workload projection) \<noteq> ag_ID a
                then Inl (corrupt ''workload projection identity mismatch'')
                else Inr (cloneProjection projection))))"

text \<open>A nil store answers every operation with an error, after the context has been asked.\<close>

definition ready :: "sqliteStore option \<Rightarrow> error option" where
  "ready store = (case store of None \<Rightarrow> Some (errorf ''SQLite store is nil'') | Some _ \<Rightarrow> None)"

section \<open>Opening\<close>

definition currentSchemaVersion :: int where "currentSchemaVersion = 1"

record Options =
  op_BusyTimeout :: duration
  op_MaxOpenConnections :: int

record Diagnostics =
  dg_JournalMode :: string
  dg_ForeignKeys :: bool
  dg_BusyTimeout :: duration
  dg_SchemaVersion :: int

text \<open>The answers of the four pragmas, the schema version apart.\<close>

record settings =
  se_journalMode :: string
  se_foreignKeys :: int
  se_busyMillis :: int

text \<open>\<open>strings.ToLower\<close> on the driver's journal mode, an ASCII word.\<close>

definition Store_Diagnostics :: "sq_call \<Rightarrow> settings \<Rightarrow> database \<Rightarrow> error + Diagnostics" where
  "Store_Diagnostics call answers db =
     (case qc_ctx call of
        Some e \<Rightarrow> Inl e
      | None \<Rightarrow>
          sum_bind (driver_plain call AcquireConnection) (\<lambda>_.
          sum_bind (driver_plain call ReadSettings) (\<lambda>_.
          Inr \<lparr>dg_JournalMode = ToLower_ascii (se_journalMode answers),
               dg_ForeignKeys = (se_foreignKeys answers = 1),
               dg_BusyTimeout = wrap64 (se_busyMillis answers * 10 ^ 6),
               dg_SchemaVersion = db_userVersion db\<rparr>)))"

definition future_schema :: error where
  "future_schema = Error [ErrFutureSchema] ''sqlite store schema is newer than this build''"

text \<open>
  Creating the tables fails when they exist, which the statement reports. The first component is
  the database after the transaction has been committed or rolled back.
\<close>

definition Store_initialize :: "sq_call \<Rightarrow> settings \<Rightarrow> database \<Rightarrow> database \<times> error option" where
  "Store_initialize call answers db =
     (let version = db_userVersion db;
          installed = (if version = 0
            then sum_bind (driver call InstallSchema ''install SQLite schema version 1'') (\<lambda>_.
                 if db_installed db then Inl (errorf ''install SQLite schema version 1: table exists'')
                 else sum_bind (driver call RecordVersion ''record SQLite schema version 1'') (\<lambda>_.
                   Inr (\<lparr>db_userVersion = 1, db_installed = True, db_versions = Map.empty, db_events = [],
                         db_projections = Map.empty\<rparr>)))
            else if version \<noteq> currentSchemaVersion then Inl (errorf ''unsupported SQLite schema version'')
            else Inr db)
      in case sum_bind (driver call BeginTx ''begin SQLite schema initialization'') (\<lambda>_.
              sum_bind (driver call ReadUserVersion ''read SQLite schema version'') (\<lambda>_.
              if version > currentSchemaVersion then Inl future_schema
              else sum_bind installed (\<lambda>db.
                sum_bind (driver call Commit ''commit SQLite schema initialization'') (\<lambda>_. Inr db)))) of
           Inl e \<Rightarrow> (db, Some e)
         | Inr db' \<Rightarrow>
             (case Store_Diagnostics call answers db' of
                Inl e \<Rightarrow> (db', Some (wrapf ''verify SQLite settings'' e))
              | Inr d \<Rightarrow>
                  (db', if dg_JournalMode d \<noteq> ''wal'' \<or> \<not> dg_ForeignKeys d \<or> dg_SchemaVersion d \<noteq> currentSchemaVersion
                        then Some (errorf ''SQLite settings invalid'') else None)))"

text \<open>
  The file system as \<open>OpenWithOptions\<close> meets it: the database at the path, if any, and the
  outcomes of resolving the path and of creating and closing a new file.
\<close>

record open_env =
  oe_call :: sq_call
  oe_settings :: settings
  oe_abs :: "error option"
  oe_create :: "error option"
  oe_close :: "error option"

definition empty_database :: database where
  "empty_database = \<lparr>db_userVersion = 0, db_installed = False, db_versions = Map.empty, db_events = [],
     db_projections = Map.empty\<rparr>"

definition ensureDatabaseFile :: "open_env \<Rightarrow> database option \<Rightarrow> (error + bool \<times> database) \<times> database option" where
  "ensureDatabaseFile env disk =
     (case oe_create env of
        Some e \<Rightarrow> (Inl (wrapf ''create SQLite database'' e), disk)
      | None \<Rightarrow>
          (case disk of
             Some db \<Rightarrow> (Inr (False, db), disk)
           | None \<Rightarrow>
               (case oe_close env of
                  Some e \<Rightarrow> (Inl (wrapf ''close new SQLite database'' e), Some empty_database)
                | None \<Rightarrow> (Inr (True, empty_database), Some empty_database))))"

text \<open>Removal of a file that was created by the failing call; its errors are ignored.\<close>

definition cleanupNewDatabase :: "bool \<Rightarrow> database option \<Rightarrow> database option" where
  "cleanupNewDatabase created disk = (if created then None else disk)"

definition inspectSchemaVersion :: "sq_call \<Rightarrow> database \<Rightarrow> error + int" where
  "inspectSchemaVersion call db =
     sum_bind (driver call InspectVersion ''read SQLite schema version'') (\<lambda>_. Inr (db_userVersion db))"

definition open_checked ::
  "open_env \<Rightarrow> int \<Rightarrow> bool \<Rightarrow> database \<Rightarrow> (error + sqliteStore) \<times> database option" where
  "open_checked env busyMillis created db =
     (let call = oe_call env; cleanup = cleanupNewDatabase created (Some db) in
      case inspectSchemaVersion call db of
        Inl e \<Rightarrow> (Inl e, cleanup)
      | Inr existing \<Rightarrow>
          if existing > currentSchemaVersion then (Inl future_schema, Some db)
          else (case sum_bind (driver call OpenDatabase ''open SQLite database'') (\<lambda>_.
                     driver call PingDatabase ''connect to SQLite database'') of
                  Inl e \<Rightarrow> (Inl e, cleanup)
                | Inr _ \<Rightarrow>
                    (case Store_initialize call (oe_settings env) db of
                       (db', Some e) \<Rightarrow> (Inl e, cleanupNewDatabase created (Some db'))
                     | (db', None) \<Rightarrow> (Inr \<lparr>st_db = db', st_busyMillis = busyMillis\<rparr>, Some db'))))"

definition OpenWithOptions ::
  "open_env \<Rightarrow> string \<Rightarrow> Options \<Rightarrow> database option \<Rightarrow> (error + sqliteStore) \<times> database option" where
  "OpenWithOptions env file options disk =
     (let timeout = (if op_BusyTimeout options = 0 then 5 * 10 ^ 9 else op_BusyTimeout options);
          busyMillis = timeout sdiv 10 ^ 6
      in case first_error
           [qc_ctx (oe_call env),
            fail_if (blank file) ''SQLite path is required'',
            fail_if (op_BusyTimeout options < 0) ''busy timeout cannot be negative'',
            fail_if (op_MaxOpenConnections options < 0) ''maximum open connections cannot be negative'',
            fail_if (busyMillis < 1 \<or> 2 ^ 31 - 1 < busyMillis) ''busy timeout must be between 1ms and 2147483647ms'',
            map_option (wrapf ''resolve SQLite path'') (oe_abs env)] of
           Some e \<Rightarrow> (Inl e, disk)
         | None \<Rightarrow>
             (case ensureDatabaseFile env disk of
                (Inl e, disk) \<Rightarrow> (Inl e, disk)
              | (Inr (created, db), disk) \<Rightarrow> open_checked env busyMillis created db))"

definition Open :: "open_env \<Rightarrow> string \<Rightarrow> database option \<Rightarrow> (error + sqliteStore) \<times> database option" where
  "Open env file disk = OpenWithOptions env file \<lparr>op_BusyTimeout = 0, op_MaxOpenConnections = 0\<rparr> disk"

text \<open>A store that is nil closes without an error; otherwise the answer is the driver's.\<close>

definition Store_Close :: "error option \<Rightarrow> sqliteStore option \<Rightarrow> error option" where
  "Store_Close closed store = (case store of None \<Rightarrow> None | Some _ \<Rightarrow> closed)"

end
