(* ===== verification/SqliteProps.thy ===== *)
theory SqliteProps
  imports SqliteStore
begin

text \<open>
  The SQLite store keeps the contract of an event store: its invariant ties the version table to
  the rows of the event table, every operation preserves it, and the interpretation of the locale
  \<open>event_store\<close> discharges the laws. It refines the in-memory store, and the projection it
  persists is the one that replaying its events gives.
\<close>

section \<open>Rows and streams\<close>

abbreviation rows_of :: "database \<Rightarrow> AggregateRef \<Rightarrow> eventRow list" where
  "rows_of db a \<equiv> rows_after db a 0"

definition row_event :: "AggregateRef \<Rightarrow> eventRow \<Rightarrow> Event" where
  "row_event a row =
     \<lparr>ev_ID = row_eventID row, ev_Aggregate = a, ev_Sequence = of_int (row_sequence row),
      ev_Type = row_type row, ev_SchemaVersion = of_int (row_schemaVersion row),
      ev_CausationID = row_causationID row, ev_CorrelationID = row_correlationID row,
      ev_AttemptID = row_attemptID row, ev_OccurredAt = unix_epoch + row_occurredAtNS row,
      ev_Payload = row_payload row, ev_PayloadSHA256 = row_payloadSHA256 row\<rparr>"

lemma row_event_simps [simp]:
  "ev_Aggregate (row_event a row) = a" "ev_Sequence (row_event a row) = of_int (row_sequence row)"
  by (simp_all add: row_event_def)

definition sq_stream :: "sqliteStore \<Rightarrow> AggregateRef \<Rightarrow> Event list" where
  "sq_stream st a = map (row_event a) (rows_of (st_db st) a)"

definition sq_version :: "sqliteStore \<Rightarrow> AggregateRef \<Rightarrow> 64 word" where
  "sq_version st a = (case db_versions (st_db st) a of None \<Rightarrow> 0 | Some v \<Rightarrow> of_int v)"

text \<open>
  The rows of a valid aggregate are numbered from one, their number is the version, and each
  of them reads back as a valid event.
\<close>

definition rows_ok :: "database \<Rightarrow> AggregateRef \<Rightarrow> bool" where
  "rows_ok db a \<longleftrightarrow>
     map row_sequence (rows_of db a) = map int [1..<Suc (length (rows_of db a))] \<and>
     int (length (rows_of db a)) \<le> max64 \<and>
     (case db_versions db a of None \<Rightarrow> rows_of db a = [] | Some v \<Rightarrow> v = int (length (rows_of db a))) \<and>
     (\<forall>r\<in>set (rows_of db a). 0 < row_schemaVersion r \<and> row_schemaVersion r < 2 ^ 32 \<and>
        Event_Validate (row_event a r) = None)"

definition sq_inv :: "sqliteStore \<Rightarrow> bool" where
  "sq_inv st \<longleftrightarrow>
     (\<forall>a. AggregateRef_Validate a = None \<longrightarrow> rows_ok (st_db st) a) \<and>
     (\<forall>r\<in>set (db_events (st_db st)). 0 < row_sequence r)"

text \<open>A clock whose instants \<open>UnixNano\<close> represents.\<close>

definition nano_time :: "time \<Rightarrow> time" where
  "nano_time t = unix_epoch + Time_UnixNano t"

definition nano_ticks :: "(nat \<Rightarrow> tick) \<Rightarrow> nat \<Rightarrow> tick" where
  "nano_ticks ticks i = (case ticks i of (at, now, ent) \<Rightarrow> (nano_time at, now, ent))"

lemma nano_time_idem [simp]: "Time_UnixNano (nano_time t) = Time_UnixNano t"
  by (simp add: nano_time_def Time_UnixNano_def)

lemma nano_ticks_exact:
  "(\<And>i. in64 (fst (ticks i) - unix_epoch)) \<Longrightarrow> nano_ticks ticks = ticks"
proof
  fix i assume "\<And>i. in64 (fst (ticks i) - unix_epoch)"
  from this [of i] show "nano_ticks ticks i = ticks i"
    by (cases "ticks i") (simp add: nano_ticks_def nano_time_def Time_UnixNano_def)
qed

section \<open>Appending rows in order\<close>

lemma insort_key_snoc: "f y \<le> f x \<Longrightarrow> insort_key f y (zs @ [x]) = insort_key f y zs @ [x]"
  by (induction zs) auto

lemma sort_key_snoc: "(\<And>y. y \<in> set xs \<Longrightarrow> f y \<le> f x) \<Longrightarrow> sort_key f (xs @ [x]) = sort_key f xs @ [x]"
proof (induction xs)
  case (Cons y ys)
  then show ?case by (simp add: insort_key_snoc)
qed simp

lemma sort_key_append_sorted:
  "sorted (map f ys) \<Longrightarrow> (\<And>x y. x \<in> set xs \<Longrightarrow> y \<in> set ys \<Longrightarrow> f x \<le> f y) \<Longrightarrow>
     sort_key f (xs @ ys) = sort_key f xs @ ys"
proof (induction ys rule: rev_induct)
  case (snoc y ys)
  have "sort_key f ((xs @ ys) @ [y]) = sort_key f (xs @ ys) @ [y]"
    using snoc.prems by (intro sort_key_snoc) (auto simp: sorted_append)
  with snoc show ?case by (simp add: sorted_append)
qed simp

lemma rows_same_events: "db_events db' = db_events db \<Longrightarrow> rows_after db' a n = rows_after db a n"
  by (simp add: rows_after_def)

lemma row_event_row:
  assumes "NewEvent a n d (nano_time at) now ent = Inr e"
  shows "row_event a (event_row e) = e"
proof -
  have "ev_Aggregate e = a" "ev_OccurredAt e = nano_time at" using NewEvent_InrD [OF assms] by blast+
  moreover have "unix_epoch + Time_UnixNano (nano_time at) = nano_time at"
    by (simp only: nano_time_idem) (simp add: nano_time_def)
  ultimately show ?thesis by (cases e) (simp add: row_event_def event_row_def)
qed

lemma insertEvent_Inr:
  "insertEvent call i db e = Inr db' \<Longrightarrow>
     db' = db\<lparr>db_events := db_events db @ [event_row e]\<rparr> \<and> \<not> violates db (event_row e)"
  by (auto simp: insertEvent_def split: if_splits)

lemma insert_drafts_Inr:
  "insert_drafts call a n ticks i ds db = Inr (es, db') \<Longrightarrow>
     materialize a n ticks i ds = Inr es \<and> db' = db\<lparr>db_events := db_events db @ map event_row es\<rparr>"
proof (induction ds arbitrary: i db es)
  case (Cons d ds)
  obtain at now ent where t: "ticks i = (at, now, ent)" by (cases "ticks i")
  from Cons.prems obtain e db1 rest where
    e: "NewEvent a (n + of_nat i + 1) d at now ent = Inr e" "insertEvent call i db e = Inr db1"
    and rest: "insert_drafts call a n ticks (Suc i) ds db1 = Inr (rest, db')" and es: "es = e # rest"
    by (auto simp: t split: sum.splits)
  from Cons.IH [OF rest] insertEvent_Inr [OF e(2)] e(1) show ?case by (simp add: t es)
qed simp

text \<open>The events of one append are numbered on from the expected sequence, without wrapping.\<close>

lemma materialize_sequences:
  assumes "materialize a n ticks 0 ds = Inr es" "uint n + int (length ds) \<le> max64"
  shows "map row_sequence (map event_row es) = map int [Suc (unat n)..<Suc (unat n + length ds)]"
    and "length es = length ds"
proof -
  show len: "length es = length ds" using materialize_InrD(1) [OF assms(1)] by (metis length_map)
  have "uint (ev_Sequence (es ! j)) = int (Suc (unat n + j))" if "j < length ds" for j
  proof -
    have "int (unat n) + int (length ds) \<le> 9223372036854775807"
      using assms(2) by (simp add: max64_def)
    then have "unat n + j + 1 < 18446744073709551616"
      using that by linarith
    moreover have word: "n + of_nat j + 1 = of_nat (unat n + j + 1)" by simp
    ultimately have "unat (n + of_nat j + 1) = unat n + j + 1"
      unfolding word unat_of_nat by simp
    moreover have "ev_Sequence (es ! j) = n + of_nat j + 1"
      using materialize_InrD(2) [OF assms(1)] that len by simp
    ultimately show ?thesis by (simp add: uint_nat del: of_nat_unat)
  qed
  then show "map row_sequence (map event_row es) = map int [Suc (unat n)..<Suc (unat n + length ds)]"
    by (intro nth_equalityI) (simp_all add: len event_row_def del: upt_Suc)
qed

lemma materialize_all:
  assumes "materialize a n ticks 0 ds = Inr es"
  shows "\<forall>e\<in>set es. Event_Validate e = None \<and> ev_Aggregate e = a"
  using materialize_InrD(2) [OF assms] by (auto simp: in_set_conv_nth)

lemma driver_Inr: "driver call point what = Inr u \<longleftrightarrow> qc_driver call point = None"
  "driver_mapped call point what = Inr u \<longleftrightarrow> qc_driver call point = None"
  by (auto simp: driver_def driver_mapped_def split: option.split)

lemma append_tx_Inr:
  assumes "append_tx q call st a n ds ticks = Inr (es, db')"
  shows "materialize a n ticks 0 ds = Inr es" "sq_version st a = n"
    "case db_versions (st_db st) a of None \<Rightarrow> uint n = 0 | Some v \<Rightarrow> v = uint n"
    "db_versions db' = (db_versions (st_db st))(a \<mapsto> uint n + int (length ds))"
    "db_events db' = db_events (st_db st) @ map event_row es"
    "if ag_Type a = WorkloadAggregateType
     then \<exists>db. db_projections db = db_projections (st_db st) \<and> updateWorkloadProjection q call db a n es = Inr db'
     else db_projections db' = db_projections (st_db st)"
proof -
  let ?db = "ensure_version a (st_db st)"
  have claimed: "db_versions ?db a = Some (uint n)"
    using assms by (auto simp: append_tx_def claim_version_def split: if_splits)
  let ?claimed = "?db\<lparr>db_versions := (db_versions ?db)(a \<mapsto> uint n + int (length ds))\<rparr>"
  obtain db1 where inserted: "insert_drafts call a n ticks 0 ds ?claimed = Inr (es, db1)"
    and updated: "(if ag_Type a = WorkloadAggregateType
      then updateWorkloadProjection q call db1 a n es else Inr db1) = Inr db'"
    using assms claimed by (auto simp: append_tx_def claim_version_def)
  note ins = insert_drafts_Inr [OF inserted]
  then show "materialize a n ticks 0 ds = Inr es" by blast
  show was: "case db_versions (st_db st) a of None \<Rightarrow> uint n = 0 | Some v \<Rightarrow> v = uint n"
    using claimed by (auto simp: ensure_version_def split: option.splits)
  then show "sq_version st a = n" by (auto simp: sq_version_def word_of_int_uint split: option.splits)
      (metis uint_0_iff)
  have kept: "db_versions db' = db_versions db1 \<and> db_events db' = db_events db1"
    using updated by (auto simp: updateWorkloadProjection_def split: if_splits)
  have "db_projections db1 = db_projections (st_db st)"
    using ins by (auto simp: ensure_version_def split: option.splits)
  then show "if ag_Type a = WorkloadAggregateType
     then \<exists>db. db_projections db = db_projections (st_db st) \<and> updateWorkloadProjection q call db a n es = Inr db'
     else db_projections db' = db_projections (st_db st)"
    using updated by auto
  show "db_versions db' = (db_versions (st_db st))(a \<mapsto> uint n + int (length ds))"
    using kept ins by (auto simp: ensure_version_def split: option.splits)
  show "db_events db' = db_events (st_db st) @ map event_row es"
    using kept ins by (auto simp: ensure_version_def split: option.splits)
qed

lemma Store_Append_InrD:
  assumes "Store_Append q call st a n ds ticks = (Inr es, st')"
  shows "AggregateRef_Validate a = None"
    "(ds = [] \<and> es = [] \<and> st' = st) \<or>
     (ds \<noteq> [] \<and> uint n + int (length ds) \<le> max64 \<and>
      append_tx q call st a n ds ticks = Inr (es, st_db st') \<and> st' = st\<lparr>st_db := st_db st'\<rparr>)"
  using assms
  by (auto simp: Store_Append_def split: option.splits if_splits sum.splits prod.splits)

lemma Store_Append_InlD: "Store_Append q call st a n ds ticks = (Inl e, st') \<Longrightarrow> st' = st"
  by (auto simp: Store_Append_def split: option.splits if_splits sum.splits prod.splits)

section \<open>The laws of the contract\<close>

text \<open>After a non-empty append the rows of the aggregate are the old ones and the new ones behind them.\<close>

lemma rows_after_append:
  assumes "sq_inv st" "AggregateRef_Validate a = None" "uint n + int (length ds) \<le> max64"
    "append_tx q call st a n ds ticks = Inr (es, db')"
  shows "rows_of db' a = rows_of (st_db st) a @ map event_row es"
    "unat n = length (rows_of (st_db st) a)"
    "b \<noteq> a \<Longrightarrow> rows_of db' b = rows_of (st_db st) b"
proof -
  let ?rows = "rows_of (st_db st) a"
  note tx = append_tx_Inr [OF assms(4)]
  note seqs = materialize_sequences [OF tx(1) assms(3)]
  have ok: "rows_ok (st_db st) a" using assms(1,2) by (simp add: sq_inv_def)
  have "uint n = int (length ?rows)"
    using ok tx(3) by (cases "db_versions (st_db st) a") (auto simp: rows_ok_def)
  then have "int (unat n) = int (length ?rows)" by simp
  then show n: "unat n = length ?rows" by (simp only: of_nat_eq_iff)
  have new_rows: "\<forall>r\<in>set (map event_row es). row_aggregate r = a \<and> 0 < row_sequence r \<and> int (length ?rows) < row_sequence r"
  proof
    fix r assume r: "r \<in> set (map event_row es)"
    then have "row_sequence r \<in> set (map row_sequence (map event_row es))" by auto
    then have "int (length ?rows) < row_sequence r" unfolding seqs(1) n by auto
    moreover have "row_aggregate r = a"
      using r materialize_all [OF tx(1)] by (auto simp: event_row_def)
    ultimately show "row_aggregate r = a \<and> 0 < row_sequence r \<and> int (length ?rows) < row_sequence r" by simp
  qed
  have old_rows: "row_sequence r \<le> int (length ?rows)" if "r \<in> set ?rows" for r
  proof -
    have "row_sequence r \<in> set (map row_sequence ?rows)" using that by auto
    moreover have "map row_sequence ?rows = map int [1..<Suc (length ?rows)]"
      using ok by (simp add: rows_ok_def)
    ultimately have "row_sequence r \<in> set (map int [1..<Suc (length ?rows)])" by (simp only:)
    then show ?thesis by (auto simp del: upt_Suc)
  qed
  have "filter (\<lambda>r. row_aggregate r = a \<and> 0 < row_sequence r) (map event_row es) = map event_row es"
    using new_rows by (simp add: filter_id_conv)
  moreover have "sorted (map row_sequence (map event_row es))"
    unfolding seqs(1) by (simp add: sorted_map sorted_wrt_upt del: upt_Suc)
  moreover let ?old = "filter (\<lambda>r. row_aggregate r = a \<and> 0 < row_sequence r) (db_events (st_db st))"
  have "row_sequence x \<le> row_sequence y" if "x \<in> set ?old" "y \<in> set (map event_row es)" for x y
  proof -
    have "x \<in> set ?rows" using that(1) by (simp add: rows_after_def)
    then show ?thesis using old_rows new_rows that(2) by force
  qed
  ultimately show "rows_of db' a = ?rows @ map event_row es"
    using sort_key_append_sorted [of row_sequence "map event_row es" ?old]
    by (simp add: rows_after_def tx(5))
  show "rows_of db' b = rows_of (st_db st) b" if "b \<noteq> a"
  proof -
    have "filter (\<lambda>r. row_aggregate r = b \<and> 0 < row_sequence r) (map event_row es) = []"
      using new_rows that by (auto simp: filter_empty_conv)
    then show ?thesis by (simp add: rows_after_def tx(5))
  qed
qed

lemma materialize_nano:
  assumes "materialize a n (nano_ticks ticks) i ds = Inr es"
  shows "\<forall>e\<in>set es. row_event a (event_row e) = e"
  using assms
proof (induction ds arbitrary: i es)
  case (Cons d ds)
  obtain at now ent where t: "nano_ticks ticks i = (nano_time at, now, ent)"
    by (cases "ticks i") (simp add: nano_ticks_def)
  with Cons show ?case by (auto simp: row_event_row split: sum.splits)
qed simp

lemma Store_Append_stream:
  assumes "sq_inv st" "Store_Append q call st a n ds (nano_ticks ticks) = (Inr es, st')"
  shows "sq_stream st' a = sq_stream st a @ es" "b \<noteq> a \<Longrightarrow> sq_stream st' b = sq_stream st b"
proof -
  note D = Store_Append_InrD [OF assms(2)]
  have "sq_stream st' a = sq_stream st a @ es \<and> (b \<noteq> a \<longrightarrow> sq_stream st' b = sq_stream st b)"
  proof (cases "ds = []")
    case True
    with D show ?thesis by auto
  next
    case False
    with D have tx: "append_tx q call st a n ds (nano_ticks ticks) = Inr (es, st_db st')"
      and room: "uint n + int (length ds) \<le> max64" by auto
    note rows = rows_after_append [OF assms(1) D(1) room tx]
    from materialize_nano [OF append_tx_Inr(1) [OF tx]] rows show ?thesis
      by (simp add: sq_stream_def map_idI)
  qed
  then show "sq_stream st' a = sq_stream st a @ es" "b \<noteq> a \<Longrightarrow> sq_stream st' b = sq_stream st b"
    by blast+
qed

lemma Event_Validate_schema: "Event_Validate e = None \<Longrightarrow> ev_SchemaVersion e \<noteq> 0 \<and> ev_Sequence e \<noteq> 0"
  by (auto simp: Event_Validate_def EventDraft_Validate_def event_draft_def)

lemma Store_Append_inv:
  assumes "sq_inv st" "Store_Append q call st a n ds (nano_ticks ticks) = (r, st')"
  shows "sq_inv st'"
proof (cases "r = Inr [] \<or> (\<exists>e. r = Inl e)")
  case True
  then have "st' = st \<or> ds \<noteq> [] \<and> r = Inr []"
    using assms(2) Store_Append_InlD Store_Append_InrD(2) by blast
  moreover have "r \<noteq> Inr []" if "ds \<noteq> []"
    using Store_Append_InrD(2) [of q call st a n ds "nano_ticks ticks" "[]" st'] assms(2) that
      materialize_InrD(1) append_tx_Inr(1) by fastforce
  ultimately show ?thesis using assms(1) by auto
next
  case False
  then obtain es where r: "r = Inr es" "es \<noteq> []" by (cases r) auto
  note D = Store_Append_InrD [OF assms(2) [unfolded r(1)]]
  with r(2) have tx: "append_tx q call st a n ds (nano_ticks ticks) = Inr (es, st_db st')"
    and room: "uint n + int (length ds) \<le> max64" by auto
  note rows = rows_after_append [OF assms(1) D(1) room tx] and T = append_tx_Inr [OF tx]
  note seqs = materialize_sequences [OF T(1) room]
  have old: "rows_ok (st_db st) b" if "AggregateRef_Validate b = None" for b
    using assms(1) that by (simp add: sq_inv_def)
  have valid: "0 < row_schemaVersion row \<and> row_schemaVersion row < 2 ^ 32 \<and> 0 < row_sequence row \<and>
      Event_Validate (row_event a row) = None" if row: "row \<in> set (map event_row es)" for row
  proof -
    obtain e where e: "e \<in> set es" "row = event_row e" using row by auto
    have ok: "Event_Validate e = None" using materialize_all [OF T(1)] e(1) by blast
    have "row_event a row = e" using materialize_nano [OF T(1)] e by blast
    moreover have "uint (ev_SchemaVersion e) < 2 ^ 32"
      using uint_lt2p [of "ev_SchemaVersion e"] by simp
    ultimately show ?thesis using ok Event_Validate_schema [OF ok] e(2)
      by (simp add: event_row_def uint_0_iff less_le)
  qed
  have length_new: "length (rows_of (st_db st') a) = unat n + length ds"
    using rows(1,2) seqs(2) by simp
  have "rows_ok (st_db st') a"
    unfolding rows_ok_def
  proof (intro conjI)
    show "map row_sequence (rows_of (st_db st') a) = map int [1..<Suc (length (rows_of (st_db st') a))]"
    proof -
      have joined: "[1..<Suc (unat n)] @ [Suc (unat n)..<Suc (unat n + length ds)] = [1..<Suc (unat n + length ds)]"
        using upt_add_eq_append [of 1 "Suc (unat n)" "length ds"] by simp
      have "map row_sequence (rows_of (st_db st) a) = map int [1..<Suc (unat n)]"
        using old [OF D(1)] unfolding rows_ok_def rows(2) by blast
      then have "map row_sequence (rows_of (st_db st') a) =
          map int ([1..<Suc (unat n)] @ [Suc (unat n)..<Suc (unat n + length ds)])"
        by (simp only: rows(1) seqs(1) map_append)
      then show ?thesis unfolding joined length_new .
    qed
    show "int (length (rows_of (st_db st') a)) \<le> max64"
      using room unfolding length_new by simp
    show "case db_versions (st_db st') a of None \<Rightarrow> rows_of (st_db st') a = []
        | Some v \<Rightarrow> v = int (length (rows_of (st_db st') a))"
      unfolding T(4) length_new by simp
    show "\<forall>r\<in>set (rows_of (st_db st') a). 0 < row_schemaVersion r \<and> row_schemaVersion r < 2 ^ 32 \<and>
        Event_Validate (row_event a r) = None"
      using valid old [OF D(1)] unfolding rows(1) rows_ok_def set_append by blast
  qed
  moreover have "rows_ok (st_db st') b" if "AggregateRef_Validate b = None" "b \<noteq> a" for b
    using old [OF that(1)] that(2) unfolding rows_ok_def rows(3) [OF that(2)] T(4) by simp
  moreover have "\<forall>r\<in>set (db_events (st_db st')). 0 < row_sequence r"
    using assms(1) valid unfolding sq_inv_def T(5) set_append by blast
  ultimately show ?thesis unfolding sq_inv_def by blast
qed

lemma rows_after_drop:
  assumes "map row_sequence rows = map int [1..<Suc (length rows)]"
  shows "filter (\<lambda>r. int m < row_sequence r) rows = drop m rows"
proof -
  have seq: "row_sequence (rows ! i) = int (Suc i)" if "i < length rows" for i
  proof -
    have "map row_sequence rows ! i = map int [1..<Suc (length rows)] ! i" using assms by simp
    then show ?thesis using that by (simp del: upt_Suc)
  qed
  have "filter (\<lambda>r. int m < row_sequence r) (take m rows) = []"
    using seq by (auto simp: filter_empty_conv in_set_conv_nth)
  moreover have "filter (\<lambda>r. int m < row_sequence r) (drop m rows) = drop m rows"
    using seq by (auto simp: filter_id_conv in_set_conv_nth)
  ultimately show ?thesis by (metis append_Nil append_take_drop_id filter_append)
qed

lemma rows_after_eq:
  assumes "rows_ok db a"
  shows "rows_after db a (int m) = drop m (rows_of db a)"
proof -
  have "rows_after db a (int m) = filter (\<lambda>r. int m < row_sequence r) (rows_of db a)"
    unfolding rows_after_def filter_sort [symmetric] filter_filter
    by (rule filter_cong) auto
  then show ?thesis using rows_after_drop [of "rows_of db a" m] assms by (simp add: rows_ok_def)
qed

lemma scanEvent_Inr:
  assumes "scanEvent call i a row = Inr e"
  shows "e = row_event a row"
  using assms ParseID_Inr
  by (auto simp: scanEvent_def Let_def as_corrupt_def parseOptionalID_def row_event_def
      split: if_splits sum.splits option.splits)

lemma load_rows_Inr: "load_rows call a i n rows = Inr es \<Longrightarrow> es = map (row_event a) rows"
proof (induction rows arbitrary: i n es)
  case Nil
  then show ?case by (subst (asm) load_rows.simps) simp
next
  case (Cons row rows)
  then show ?case by (subst (asm) load_rows.simps) (auto split: if_splits dest: scanEvent_Inr)
qed

lemma Store_Load_Inr:
  assumes "sq_inv st" "Store_Load call st a m = Inr es"
  shows "es = drop (unat m) (sq_stream st a)"
proof -
  have valid: "AggregateRef_Validate a = None"
    using assms(2) by (auto simp: Store_Load_def split: option.splits)
  then have ok: "rows_ok (st_db st) a" using assms(1) by (simp add: sq_inv_def)
  show ?thesis
  proof (cases "max64 < uint m")
    case True
    then have "int (length (rows_of (st_db st) a)) \<le> int (unat m)"
      using ok by (simp add: rows_ok_def)
    then have "length (sq_stream st a) \<le> unat m" by (simp only: of_nat_le_iff sq_stream_def length_map)
    then show ?thesis using True assms(2) by (auto simp: Store_Load_def split: option.splits)
  next
    case False
    then have "es = map (row_event a) (rows_after (st_db st) a (int (unat m)))"
      using assms(2) by (auto simp: Store_Load_def split: option.splits dest: load_rows_Inr)
    then show ?thesis unfolding rows_after_eq [OF ok] by (simp add: sq_stream_def drop_map)
  qed
qed

text \<open>
  The interpretation is for every driver: \<open>calls\<close> turns the context of a call into everything the
  call meets, and the clock reads instants that \<open>UnixNano\<close> represents.
\<close>

interpretation sqlite: event_store
  "\<lambda>st c a n ds k. Store_Append q (calls c) st a n ds (nano_ticks k)"
  "\<lambda>st c a m. Store_Load (calls c) st a m" sq_stream sq_version sq_inv
  for q calls
proof
  show "st' = st" if "Store_Append q (calls c) st a n ds (nano_ticks k) = (Inl e, st')" for st c a n ds k e st'
    using that by (rule Store_Append_InlD)
  show "sq_stream st' a = sq_stream st a @ es"
    if "sq_inv st" "Store_Append q (calls c) st a n ds (nano_ticks k) = (Inr es, st')" for st c a n ds k es st'
    using that by (rule Store_Append_stream)
  show "map event_draft es = ds"
    if "Store_Append q (calls c) st a n ds (nano_ticks k) = (Inr es, st')" for st c a n ds k es st'
    using Store_Append_InrD(2) [OF that] by (auto dest: append_tx_Inr(1) materialize_InrD(1))
  show "n = sq_version st a \<and> sq_version st' a = n + of_nat (length ds)"
    if "Store_Append q (calls c) st a n ds (nano_ticks k) = (Inr es, st')" "ds \<noteq> []" for st c a n ds k es st'
    using Store_Append_InrD(2) [OF that(1)] that(2) append_tx_Inr(2,4) [of q "calls c" st a n ds "nano_ticks k" es "st_db st'"]
    by (auto simp: sq_version_def)
  show "sq_stream st' b = sq_stream st b"
    if "sq_inv st" "Store_Append q (calls c) st a n ds (nano_ticks k) = (Inr es, st')" "b \<noteq> a"
    for st c a n ds k es st' b
    using Store_Append_stream(2) [OF that(1,2)] that(3) by blast
  show "sq_inv st'" if "sq_inv st" "Store_Append q (calls c) st a n ds (nano_ticks k) = (r, st')"
    for st c a n ds k r st'
    using that by (rule Store_Append_inv)
  show "es = drop (unat m) (sq_stream st a)" if "sq_inv st" "Store_Load (calls c) st a m = Inr es" for st c a m es
    using that by (rule Store_Load_Inr)
  show "sq_version st a = of_nat (length (sq_stream st a))"
    if "sq_inv st" "AggregateRef_Validate a = None" for st a
  proof -
    have "rows_ok (st_db st) a" using that by (simp add: sq_inv_def)
    then show ?thesis by (auto simp: rows_ok_def sq_version_def sq_stream_def split: option.splits)
  qed
  show "Event_Validate (sq_stream st a ! i) = None \<and> ev_Aggregate (sq_stream st a ! i) = a \<and>
      ev_Sequence (sq_stream st a ! i) = of_nat (Suc i)"
    if "sq_inv st" "i < length (sq_stream st a)" "AggregateRef_Validate a = None" for st i a
  proof -
    let ?rows = "rows_of (st_db st) a"
    have ok: "rows_ok (st_db st) a" using that by (simp add: sq_inv_def)
    have i: "i < length ?rows" using that(2) by (simp add: sq_stream_def)
    have "map row_sequence ?rows ! i = map int [1..<Suc (length ?rows)] ! i" using ok by (simp add: rows_ok_def)
    then have "row_sequence (?rows ! i) = int (Suc i)" using i by (simp del: upt_Suc)
    moreover have "Event_Validate (row_event a (?rows ! i)) = None"
      using ok i nth_mem unfolding rows_ok_def by blast
    ultimately show ?thesis using i by (simp add: sq_stream_def)
  qed
qed

section \<open>The persisted projection\<close>

text \<open>
  The row of a workload: absent while its stream is empty, and otherwise a document that decodes
  to the replay of the stream.
\<close>

definition replayed :: "sq_codec \<Rightarrow> AggregateRef \<Rightarrow> Event list \<Rightarrow> WorkloadProjection \<Rightarrow> bool" where
  "replayed q a es p \<longleftrightarrow>
     (\<exists>p0. NewWorkloadProjection a = Inr p0 \<and>
        replay_events background (WorkloadProjection_Apply (qe_events q)) es p0 = (None, p))"

definition projection_row_ok :: "sq_codec \<Rightarrow> AggregateRef \<Rightarrow> Event list \<Rightarrow> projectionRow option \<Rightarrow> bool" where
  "projection_row_ok q a es row \<longleftrightarrow>
     (case row of
        None \<Rightarrow> es = []
      | Some r \<Rightarrow> es \<noteq> [] \<and> prow_digest r = sha256Hex (prow_document r) \<and>
          (\<exists>p. decodeStrict (qe_decode q) (prow_document r) = Inr p \<and> replayed q a es p))"

text \<open>
  The strict decoder undoes \<open>json.Marshal\<close> on the projections of one stream: \<open>json.Marshal\<close> compacts
  a \<open>json.RawMessage\<close> and replaces invalid UTF-8, so this is not required of every projection.
\<close>

definition projection_roundtrip :: "sq_codec \<Rightarrow> AggregateRef \<Rightarrow> Event list \<Rightarrow> bool" where
  "projection_roundtrip q a es \<longleftrightarrow>
     (\<forall>i p document. replayed q a (take i es) p \<longrightarrow> qe_marshal q p = Inr document \<longrightarrow>
        decodeStrict (qe_decode q) document = Inr p)"

lemma projection_roundtrip_append: "projection_roundtrip q a (es @ es') \<Longrightarrow> projection_roundtrip q a es"
  by (simp add: projection_roundtrip_def) (metis append_take_drop_id diff_is_0_eq' le_cases take0 take_all append_Nil2)

definition projections_ok :: "sq_codec \<Rightarrow> sqliteStore \<Rightarrow> bool" where
  "projections_ok q st \<longleftrightarrow>
     (\<forall>a. AggregateRef_Validate a = None \<longrightarrow> ag_Type a = WorkloadAggregateType \<longrightarrow>
        projection_roundtrip q a (sq_stream st a) \<longrightarrow>
        projection_row_ok q a (sq_stream st a) (db_projections (st_db st) a))"

lemma apply_events_replay:
  "apply_created dc es p = Inr p' \<Longrightarrow> replay_events background (WorkloadProjection_Apply dc) es p = (None, p')"
  by (induction es arbitrary: p) (auto split: prod.splits option.splits)

lemma updateWorkloadProjection_frame:
  "updateWorkloadProjection q call db a n es = Inr db' \<Longrightarrow> b \<noteq> a \<Longrightarrow> db_projections db' b = db_projections db b"
  by (auto simp: updateWorkloadProjection_def split: if_splits)

lemma updateWorkloadProjection_Inr:
  assumes "updateWorkloadProjection q call db a n es = Inr db'" "es \<noteq> []"
    "projection_roundtrip q a (old @ es)" "projection_row_ok q a old (db_projections db a)"
  shows "projection_row_ok q a (old @ es) (db_projections db' a)"
proof -
  from assms(1) obtain p p' document where
    p: "loadWorkloadProjectionTx q call db a n = Inr p" "apply_created (qe_events q) es p = Inr p'"
      "qe_marshal q p' = Inr document"
    and db': "db' = db\<lparr>db_projections := (db_projections db)(a \<mapsto>
      \<lparr>prow_sequence = uint (pj_Version p'), prow_document = document, prow_digest = sha256Hex document\<rparr>)\<rparr>"
    by (auto simp: updateWorkloadProjection_def split: if_splits)
  have "replayed q a old p"
  proof (cases "db_projections db a")
    case None
    with p(1) assms(4) show ?thesis
      by (auto simp: loadWorkloadProjectionTx_def projection_row_ok_def replayed_def split: if_splits)
  next
    case (Some row)
    with p(1) have "decodeStrict (qe_decode q) (prow_document row) = Inr p"
      by (auto simp: loadWorkloadProjectionTx_def as_corrupt_def split: if_splits sum.splits)
    with Some assms(4) show ?thesis by (auto simp: projection_row_ok_def)
  qed
  then obtain p0 where "NewWorkloadProjection a = Inr p0"
    "replay_events background (WorkloadProjection_Apply (qe_events q)) old p0 = (None, p)"
    by (auto simp: replayed_def)
  then have all: "replayed q a (old @ es) p'"
    using apply_events_replay [OF p(2)] by (simp add: replayed_def replay_events_append)
  then have "decodeStrict (qe_decode q) document = Inr p'"
    using assms(3) p(3) unfolding projection_roundtrip_def by (metis order_refl take_all)
  with all assms(2) show ?thesis by (auto simp: projection_row_ok_def db')
qed

lemma Store_Append_projections:
  assumes "sq_inv st" "projections_ok q st"
    and "Store_Append q call st a n ds (nano_ticks ticks) = (r, st')"
  shows "projections_ok q st'"
proof (cases r)
  case (Inl e)
  with assms(2,3) Store_Append_InlD show ?thesis by blast
next
  case (Inr es)
  note app = assms(3) [unfolded Inr]
  note D = Store_Append_InrD [OF app] and streams = Store_Append_stream [OF assms(1) app]
  show ?thesis
  proof (cases "ds = []")
    case True
    with D assms(2) show ?thesis by auto
  next
    case False
    with D have tx: "append_tx q call st a n ds (nano_ticks ticks) = Inr (es, st_db st')" by auto
    note T = append_tx_Inr [OF tx]
    have "length es = length ds" using materialize_InrD(1) [OF T(1)] by (metis length_map)
    then have new: "es \<noteq> []" using False by auto
    have row: "projection_row_ok q b (sq_stream st' b) (db_projections (st_db st') b)"
      if b: "AggregateRef_Validate b = None" "ag_Type b = WorkloadAggregateType"
        and trip: "projection_roundtrip q b (sq_stream st' b)" for b
    proof (cases "b = a")
      case True
      with b T(6) obtain db where db: "db_projections db = db_projections (st_db st)"
        "updateWorkloadProjection q call db a n es = Inr (st_db st')" by auto
      have "projection_row_ok q a (sq_stream st a) (db_projections db a)"
        using assms(2) b trip True streams(1) projection_roundtrip_append db(1) by (auto simp: projections_ok_def)
      from updateWorkloadProjection_Inr [OF db(2) new _ this] show ?thesis using trip True streams(1) by simp
    next
      case False
      with T(6) have "db_projections (st_db st') b = db_projections (st_db st) b"
        by (auto dest: updateWorkloadProjection_frame split: if_splits)
      with assms(2) b trip streams(2) [OF False] show ?thesis by (simp add: projections_ok_def)
    qed
    then show ?thesis by (simp add: projections_ok_def)
  qed
qed

text \<open>The stores a sequence of appends reaches from a freshly installed schema.\<close>

inductive sq_reachable :: "sq_codec \<Rightarrow> sqliteStore \<Rightarrow> bool" for q where
  sq_fresh: "db_versions (st_db st) = Map.empty \<Longrightarrow> db_events (st_db st) = [] \<Longrightarrow>
     db_projections (st_db st) = Map.empty \<Longrightarrow> sq_reachable q st"
| sq_appended: "sq_reachable q st \<Longrightarrow>
     Store_Append q call st a n ds (nano_ticks ticks) = (r, st') \<Longrightarrow> sq_reachable q st'"

lemma fresh_inv:
  assumes "db_versions (st_db st) = Map.empty" "db_events (st_db st) = []" "db_projections (st_db st) = Map.empty"
  shows "sq_inv st" "projections_ok q st"
  using assms
  by (simp_all add: sq_inv_def rows_ok_def rows_after_def max64_def projections_ok_def projection_row_ok_def sq_stream_def)

lemma sq_reachable_inv: "sq_reachable q st \<Longrightarrow> sq_inv st"
proof (induction rule: sq_reachable.induct)
  case (sq_fresh st)
  then show ?case by (rule fresh_inv)
next
  case (sq_appended st call a n ds ticks r st')
  then show ?case by (blast intro: Store_Append_inv)
qed

lemma sq_reachable_projections: "sq_reachable q st \<Longrightarrow> projections_ok q st"
proof (induction rule: sq_reachable.induct)
  case (sq_fresh st)
  then show ?case by (simp add: fresh_inv)
next
  case (sq_appended st call a n ds ticks r st')
  then show ?case by (blast intro: Store_Append_projections sq_reachable_inv)
qed

lemma cloneProjection_id [simp]: "cloneProjection p = p"
proof -
  have "s\<lparr>st_Requirements := cloneRequirements (st_Requirements s)\<rparr> = s" for s :: Step
    by (simp add: cloneRequirements_def)
  then show ?thesis by (simp add: cloneProjection_def option.map_ident)
qed

section \<open>Opening and the busy timeout\<close>

lemma Store_initialize_effect:
  assumes "Store_initialize call answers db = (db', e)"
  shows "db_userVersion db \<noteq> 0 \<Longrightarrow> db' = db" "e = None \<Longrightarrow> db_userVersion db' = 1"
    "db_userVersion db > 1 \<Longrightarrow> e \<noteq> None"
    "db' \<noteq> db \<Longrightarrow> \<not> db_installed db \<and> db' = \<lparr>db_userVersion = 1, db_installed = True, db_versions = Map.empty,
       db_events = [], db_projections = Map.empty\<rparr>"
  using assms
  by (auto simp: Store_initialize_def Store_Diagnostics_def Let_def currentSchemaVersion_def
      split: sum.splits if_splits option.splits elim!: sum_bind.elims)

lemma open_checked_effect:
  assumes "open_checked env m created db = (r, disk')"
  shows "db_userVersion db \<noteq> 0 \<Longrightarrow> \<not> created \<Longrightarrow> disk' = Some db" "db_userVersion db > 1 \<Longrightarrow> isl r"
    "created \<Longrightarrow> isl r \<Longrightarrow> db_userVersion db \<le> 1 \<Longrightarrow> disk' = None"
    "r = Inr st \<Longrightarrow> disk' = Some (st_db st) \<and> db_userVersion (st_db st) = 1 \<and> st_busyMillis st = m"
proof -
  obtain db' e where init: "Store_initialize (oe_call env) (oe_settings env) db = (db', e)" by fastforce
  note effect = Store_initialize_effect [OF init]
  note cases = assms [unfolded open_checked_def inspectSchemaVersion_def Let_def cleanupNewDatabase_def
      currentSchemaVersion_def init]
  show "disk' = Some db" if "db_userVersion db \<noteq> 0" "\<not> created"
    using cases that effect(1) by (auto split: sum.splits if_splits option.splits)
  show "isl r" if "db_userVersion db > 1"
    using cases that by (auto split: sum.splits if_splits option.splits)
  show "disk' = None" if "created" "isl r" "db_userVersion db \<le> 1"
    using cases that by (auto split: sum.splits if_splits option.splits)
  show "disk' = Some (st_db st) \<and> db_userVersion (st_db st) = 1 \<and> st_busyMillis st = m" if "r = Inr st"
    using cases that effect(2) by (auto split: sum.splits if_splits option.splits)
qed

lemma OpenWithOptions_cases:
  assumes "OpenWithOptions env file options disk = (r, disk')"
  obtains e where "r = Inl e" "disk' = disk"
  | e where "r = Inl e" "ensureDatabaseFile env disk = (Inl e, disk')"
  | m created db disk1 where "ensureDatabaseFile env disk = (Inr (created, db), disk1)"
      "open_checked env m created db = (r, disk')" "1 \<le> m" "m < 2 ^ 31"
proof -
  define m where "m = (if op_BusyTimeout options = 0 then 5 * 10 ^ 9 else op_BusyTimeout options) sdiv 10 ^ 6"
  show thesis
  proof (cases "first_error
           [qc_ctx (oe_call env),
            fail_if (blank file) ''SQLite path is required'',
            fail_if (op_BusyTimeout options < 0) ''busy timeout cannot be negative'',
            fail_if (op_MaxOpenConnections options < 0) ''maximum open connections cannot be negative'',
            fail_if (m < 1 \<or> 2 ^ 31 - 1 < m) ''busy timeout must be between 1ms and 2147483647ms'',
            map_option (wrapf ''resolve SQLite path'') (oe_abs env)]")
    case (Some e)
    with assms have "r = Inl e" "disk' = disk"
      unfolding OpenWithOptions_def Let_def m_def [symmetric] by simp_all
    then show ?thesis by (rule that(1))
  next
    case None
    then have m: "1 \<le> m" "m < 2 ^ 31" by auto
    from assms None have run: "(case ensureDatabaseFile env disk of
        (Inl e, disk) \<Rightarrow> (Inl e, disk)
      | (Inr (created, db), disk) \<Rightarrow> open_checked env m created db) = (r, disk')"
      unfolding OpenWithOptions_def Let_def m_def [symmetric] by simp
    show ?thesis
    proof (cases "ensureDatabaseFile env disk")
      case (Pair made disk1)
      with run m show ?thesis
        by (cases made) (auto intro: that(2) that(3))
    qed
  qed
qed

text \<open>
  The busy timeout of an operation never exceeds the configured one, and it is at least a
  millisecond unless the rounding of the remaining time leaves the 64-bit range.
\<close>

lemma boundBusyTimeout_bounds:
  assumes "boundBusyTimeout call busyMillis = Inr m" "1 \<le> busyMillis"
  shows "m \<le> busyMillis" "(\<And>r. qc_remaining call = Some r \<Longrightarrow> r \<le> max64 - 10 ^ 6) \<Longrightarrow> 1 \<le> m"
proof -
  show "m \<le> busyMillis" using assms
    by (auto simp: boundBusyTimeout_def Let_def split: option.splits if_splits)
  assume r: "\<And>r. qc_remaining call = Some r \<Longrightarrow> r \<le> max64 - 10 ^ 6"
  have "1 \<le> wrap64 (r + 10 ^ 6 - 1) sdiv 10 ^ 6" if "qc_remaining call = Some r" "0 < r" for r
  proof -
    have "wrap64 (r + 10 ^ 6 - 1) = r + 10 ^ 6 - 1"
      using r [OF that(1)] that(2) by (intro wrap64_id) (simp add: in64_def max64_def min64_def)
    then show ?thesis using that(2) by (simp add: signed_divide_int_def zdiv_mono1 [of "10^6", simplified])
  qed
  then show "1 \<le> m" using assms
    by (auto simp: boundBusyTimeout_def Let_def split: option.splits if_splits)
qed

lemma boundBusyTimeout_overflow:
  "1 \<le> busyMillis \<Longrightarrow> qc_remaining call = Some max64 \<Longrightarrow> qc_driver call SetBusyTimeout = None \<Longrightarrow>
   \<exists>m. boundBusyTimeout call busyMillis = Inr m \<and> m < 0"
  by (simp add: boundBusyTimeout_def driver_mapped_def wrap64_def max64_def Let_def signed_divide_int_def)

section \<open>Properties\<close>

text \<open>
  [C9] The durable store refines the in-memory one. While the two hold the same streams, an
  append that SQLite commits is one the in-memory store accepts with the same events at the same
  expected sequence, and the streams stay the same; an append that SQLite refuses, for whatever
  reason, leaves the database as it was; and what SQLite loads is what the in-memory store loads.
\<close>

theorem sqlite_refines_memory:
  assumes "sq_inv db" "store_inv st" "\<forall>a. AggregateRef_Validate a = None \<longrightarrow> stream_of st a = sq_stream db a"
    and "Store_Append q call db a n ds (nano_ticks ticks) = (r, db')"
    and "length (stream_of st a) + length ds < 2 ^ 64"
  shows "(case r of
      Inl e \<Rightarrow> db' = db
    | Inr es \<Rightarrow> \<exists>st'. Append st background a n ds (nano_ticks ticks) = (Inr es, st') \<and> store_inv st' \<and>
        (\<forall>b. AggregateRef_Validate b = None \<longrightarrow> stream_of st' b = sq_stream db' b)) \<and>
    (\<forall>es. Store_Load call db a n = Inr es \<longrightarrow> Load st background a n = Inr es)"
proof
  show "case r of
      Inl e \<Rightarrow> db' = db
    | Inr es \<Rightarrow> \<exists>st'. Append st background a n ds (nano_ticks ticks) = (Inr es, st') \<and> store_inv st' \<and>
        (\<forall>b. AggregateRef_Validate b = None \<longrightarrow> stream_of st' b = sq_stream db' b)"
  proof (cases r)
    case (Inl e)
    with assms(4) show ?thesis using Store_Append_InlD by auto
  next
    case (Inr es)
    note app = assms(4) [unfolded Inr]
    note D = Store_Append_InrD [OF app]
    have same: "stream_of st a = sq_stream db a" using assms(3) D(1) by blast
    have drafts: "first_invalid ''draft'' EventDraft_Validate ds = None"
      using app by (auto simp: Store_Append_def split: option.splits)
    have "\<exists>st'. Append st background a n ds (nano_ticks ticks) = (Inr es, st')"
    proof (cases "ds = []")
      case True
      with D drafts show ?thesis by (simp add: Append_def first_invalid_def)
    next
      case False
      with D have tx: "append_tx q call db a n ds (nano_ticks ticks) = Inr (es, st_db db')" by auto
      have "n = of_nat (length (stream_of st a))"
        using sqlite.invar_version [OF assms(1) D(1)] append_tx_Inr(2) [OF tx] same by simp
      moreover have checks: "first_error [background 0, AggregateRef_Validate a,
          first_invalid ''draft'' EventDraft_Validate ds] = None"
        using D(1) drafts by simp
      ultimately show ?thesis using append_tx_Inr(1) [OF tx] False
        unfolding Append_def checks by (simp add: Let_def stream_of_def)
    qed
    then obtain st' where st': "Append st background a n ds (nano_ticks ticks) = (Inr es, st')" by blast
    have "stream_of st' b = sq_stream db' b" if "AggregateRef_Validate b = None" for b
      using memory.append_stream [OF assms(2) st'] memory.append_frame [OF assms(2) st' that]
        Store_Append_stream [OF assms(1) app] assms(3) that same by (cases "b = a") auto
    moreover have "store_inv st'" using memory.append_invar [OF assms(2) st' assms(5)] .
    ultimately show ?thesis using st' Inr by auto
  qed
  show "\<forall>es. Store_Load call db a n = Inr es \<longrightarrow> Load st background a n = Inr es"
  proof (intro allI impI)
    fix es assume load: "Store_Load call db a n = Inr es"
    then have valid: "AggregateRef_Validate a = None" by (auto simp: Store_Load_def split: option.splits)
    then have "\<exists>es'. Load st background a n = Inr es'" by (simp add: Load_def Let_def)
    then obtain es' where es': "Load st background a n = Inr es'" ..
    with memory.load_stream [OF assms(2) es'] Store_Load_Inr [OF assms(1) load] assms(3) valid
    show "Load st background a n = Inr es" by simp
  qed
qed



end
