(* ===== verification/SqliteExample.thy ===== *)
theory SqliteExample
  imports SqliteProps ProjectionExample
begin

text \<open>
  A concrete database: a fresh store to which the creation of a workload is appended, read back
  through the persisted projection, and an opening that creates the file.
\<close>

definition quiet :: sq_call where
  "quiet = \<lparr>qc_ctx = None, qc_remaining = None, qc_mapped = None, qc_driver = (\<lambda>_. None)\<rparr>"

lemma quiet_simps [simp]:
  "qc_ctx quiet = None" "driver quiet p w = Inr ()" "driver_mapped quiet p w = Inr ()" "driver_plain quiet p = Inr ()"
  "boundBusyTimeout quiet m = Inr m"
  by (simp_all add: quiet_def driver_def driver_mapped_def driver_plain_def boundBusyTimeout_def)

definition fresh_store :: sqliteStore where
  "fresh_store = \<lparr>st_db = \<lparr>db_userVersion = 1, db_installed = True, db_versions = Map.empty, db_events = [],
     db_projections = Map.empty\<rparr>, st_busyMillis = 5000\<rparr>"

lemma fresh_store_simps [simp]:
  "db_versions (st_db fresh_store) = Map.empty" "db_events (st_db fresh_store) = []"
  "db_projections (st_db fresh_store) = Map.empty"
  by (simp_all add: fresh_store_def)

lemma fresh_store_stream [simp]: "sq_stream fresh_store a = []"
  by (simp add: sq_stream_def rows_after_def)

lemma sample_ticks_nano [simp]: "nano_ticks sample_ticks = sample_ticks"
  by (rule nano_ticks_exact) (simp add: sample_ticks_def sample_now_def unix_epoch_def in64_def max64_def min64_def)

definition audit_aggregate :: AggregateRef where
  "audit_aggregate = \<lparr>ag_Type = ''audit'', ag_ID = sample_id\<rparr>"

lemma audit_aggregate_valid [simp]: "AggregateRef_Validate audit_aggregate = None"
  by (simp add: valid_simps audit_aggregate_def)

text \<open>Projections are encoded by one document, and that document is decoded as the projection.\<close>

definition sample_store_codec :: sq_codec where
  "sample_store_codec =
     \<lparr>qe_events = sample_codec,
      qe_marshal = (\<lambda>p. if pj_Version p = 1 then Inr ''{}'' else Inl (errorf ''unsupported'')),
      qe_decode = (\<lambda>_. Inr (pk 1 WorkloadCreated None [], []))\<rparr>"

definition created_draft :: EventDraft where
  "created_draft = event_draft (sample_event 1 EventTypeWorkloadCreated ''1'')"

lemma created_draft_valid [simp]: "EventDraft_Validate created_draft = None"
  using sample_event_valid [of 1 EventTypeWorkloadCreated "''1''"] digits_valid
  by (auto simp: created_draft_def Event_Validate_def event_types)

lemma created_event [simp]:
  "NewEvent sample_aggregate 1 created_draft sample_now sample_now no_entropy =
     Inr (sample_event 1 EventTypeWorkloadCreated ''1'')"
  using created_draft_valid
  by (simp add: NewEvent_def NewID_def created_draft_def event_draft_def) (simp add: sample_event_def)

lemmas sqlite_eval = Store_Append_def append_tx_def claim_version_def ensure_version_def insertEvent_def
  violates_def event_row_def first_invalid_def max64_def

lemma audit_appended:
  "\<exists>es db'. Store_Append sample_store_codec quiet fresh_store audit_aggregate 0 [sample_draft] sample_ticks = (Inr es, db')"
proof -
  obtain e where e: "NewEvent audit_aggregate 1 sample_draft sample_now sample_now no_entropy = Inr e"
    using NewEvent_total [of audit_aggregate 1 sample_draft sample_now sample_now no_entropy] by auto
  have "ag_Type audit_aggregate \<noteq> WorkloadAggregateType"
    by (simp add: audit_aggregate_def WorkloadAggregateType_def)
  moreover have "0 < uint (ev_SchemaVersion e)"
    using Event_Validate_schema [OF NewEvent_InrD(1) [OF e]] by (simp add: uint_0_iff less_le)
  ultimately show ?thesis using NewEvent_InrD(2,3) [OF e]
    by (simp add: sqlite_eval sample_ticks_def e)
qed

definition created_store :: sqliteStore where
  "created_store = snd (Store_Append sample_store_codec quiet fresh_store sample_aggregate 0 [created_draft] sample_ticks)"

lemma sample_projection_new: "NewWorkloadProjection sample_aggregate = Inr p0"
  by (simp add: NewWorkloadProjection_def WorkloadAggregateType_def sample_aggregate_workload p0_def)

abbreviation created :: Event where
  "created \<equiv> sample_event 1 EventTypeWorkloadCreated ''1''"

lemma created_appended:
  "Store_Append sample_store_codec quiet fresh_store sample_aggregate 0 [created_draft] sample_ticks =
     (Inr [created], created_store)"
  and created_tables [simp]: "db_events (st_db created_store) = [event_row created]"
  "db_projections (st_db created_store) =
     [sample_aggregate \<mapsto> \<lparr>prow_sequence = 1, prow_document = ''{}'', prow_digest = sha256Hex ''{}''\<rparr>]"
  using created_step unfolding created_store_def
  by (simp_all add: sqlite_eval sample_ticks_def WorkloadAggregateType_def sample_aggregate_workload
      updateWorkloadProjection_def loadWorkloadProjectionTx_def sample_projection_new sample_store_codec_def pk_def)

lemma created_reachable: "sq_reachable sample_store_codec created_store"
  using sq_appended [OF sq_fresh, where st = fresh_store and ticks = sample_ticks] created_appended by simp

lemma created_stream [simp]:
  "sq_stream created_store sample_aggregate = [sample_event 1 EventTypeWorkloadCreated ''1'']"
  using Store_Append_stream(1) [of fresh_store sample_store_codec quiet sample_aggregate 0 "[created_draft]" sample_ticks]
    created_appended fresh_inv(1) [of fresh_store] by simp

lemma created_roundtrip:
  "projection_roundtrip sample_store_codec sample_aggregate (sq_stream created_store sample_aggregate)"
proof -
  have "decodeStrict (qe_decode sample_store_codec) document = Inr p"
    if "replayed sample_store_codec sample_aggregate (take i [created]) p" "qe_marshal sample_store_codec p = Inr document"
    for i p document
    using that created_step
    by (cases i) (auto simp: replayed_def sample_projection_new sample_store_codec_def decodeStrict_def p0_def split: if_splits)
  then show ?thesis by (simp add: projection_roundtrip_def)
qed

lemma created_row: "scanEvent quiet 0 sample_aggregate (event_row created) = Inr created"
proof -
  have ids: "ParseID sample_id = Inr sample_id" using newIDAt_accepted [OF newIDAt_sample] .
  have now: "unix_epoch + Time_UnixNano sample_now = sample_now"
    by (simp add: unix_epoch_def Time_UnixNano_def sample_now_def int64_defs)
  have "Event_Validate created = None" by (simp add: sample_event_valid digits_valid event_types)
  then show ?thesis
    by (simp add: scanEvent_def event_row_def as_corrupt_def parseOptionalID_def ids now sample_event_def)
qed

lemma created_loads:
  "Store_Load quiet created_store sample_aggregate 0 = Inr [created]"
  "Store_LoadWorkloadProjection sample_store_codec quiet created_store sample_aggregate = Inr (pk 1 WorkloadCreated None [])"
proof -
  show "Store_Load quiet created_store sample_aggregate 0 = Inr [created]"
    using created_row by (simp add: Store_Load_def max64_def rows_after_def load_rows.simps) (simp add: event_row_def)
  show "Store_LoadWorkloadProjection sample_store_codec quiet created_store sample_aggregate = Inr (pk 1 WorkloadCreated None [])"
    by (simp add: Store_LoadWorkloadProjection_def sample_aggregate_workload WorkloadAggregateType_def
        sample_store_codec_def decodeStrict_def as_corrupt_def pk_def w1_def)
qed

section \<open>Witnesses\<close>

theorem sqlite_refines_memory_witness:
  "\<exists>es db' st'. Store_Append sample_store_codec quiet fresh_store audit_aggregate 0 [sample_draft] sample_ticks = (Inr es, db') \<and>
     Append New background audit_aggregate 0 [sample_draft] sample_ticks = (Inr es, st')"
proof -
  obtain es db' where a: "Store_Append sample_store_codec quiet fresh_store audit_aggregate 0 [sample_draft] sample_ticks = (Inr es, db')"
    using audit_appended by blast
  have "sq_inv fresh_store" by (simp add: fresh_inv)
  moreover have "store_inv New" by (rule store_inv_New)
  ultimately show ?thesis
    using sqlite_refines_memory [of fresh_store New sample_store_codec quiet audit_aggregate 0 "[sample_draft]" sample_ticks "Inr es" db'] a
    by auto
qed


definition sample_open :: open_env where
  "sample_open = \<lparr>oe_call = quiet, oe_settings = \<lparr>se_journalMode = ''wal'', se_foreignKeys = 1, se_busyMillis = 5000\<rparr>,
     oe_abs = None, oe_create = None, oe_close = None\<rparr>"

lemma sample_opened:
  "OpenWithOptions sample_open ''store.db'' \<lparr>op_BusyTimeout = 0, op_MaxOpenConnections = 0\<rparr> None =
     (Inr fresh_store, Some (st_db fresh_store))"
  by (simp add: OpenWithOptions_def sample_open_def text_simps signed_divide_int_def ensureDatabaseFile_def
      open_checked_def inspectSchemaVersion_def empty_database_def currentSchemaVersion_def Store_initialize_def
      Store_Diagnostics_def fresh_store_def ToLower_ascii_def)


end
