(* ===== verification/Http.thy ===== *)
theory Http
  imports Sse
begin

text \<open>
  What the two provider packages share (\<open>src/provider/anthropic/provider.go\<close> and
  \<open>src/provider/openaicompat/provider.go\<close>): requests and responses of \<open>net/http\<close>, the reading of a
  bounded JSON body, credentials and the descriptors of a catalogue. The HTTP client, the URL
  parser, the JSON decoder and encoder and the source of tokens are parameters.

  The locale \<open>http_provider\<close> is the contract of a provider: its catalogue passes the check of
  \<open>DiscoverModels\<close>, and its requests go to the configured endpoint with headers on one line.
\<close>

section \<open>Addresses and messages\<close>

text \<open>The components of \<open>url.URL\<close> the packages look at; \<open>url_User\<close> says that there is user information.\<close>

record url =
  url_Scheme :: string
  url_Opaque :: string
  url_User :: bool
  url_Host :: string
  url_Path :: string
  url_RawPath :: string
  url_RawQuery :: string
  url_Fragment :: string

definition unreserved :: "char \<Rightarrow> bool" where
  "unreserved c \<longleftrightarrow>
     (CHR ''a'' \<le> c \<and> c \<le> CHR ''z'') \<or> (CHR ''A'' \<le> c \<and> c \<le> CHR ''Z'') \<or> (CHR ''0'' \<le> c \<and> c \<le> CHR ''9'') \<or>
     c \<in> set ''-_.~''"

definition upper_hex :: "nat \<Rightarrow> char" where
  "upper_hex d = ''0123456789ABCDEF'' ! d"

definition QueryEscape :: "string \<Rightarrow> string" where
  "QueryEscape s = concat (map (\<lambda>c.
     if unreserved c then [c] else if c = CHR '' '' then ''+''
     else [CHR ''%'', upper_hex (of_char c div 16), upper_hex (of_char c mod 16)]) s)"

text \<open>\<open>url.Values.Encode\<close>, for values that are already sorted by their keys.\<close>

fun Values_Encode :: "(string \<times> string) list \<Rightarrow> string" where
  "Values_Encode [] = []"
| "Values_Encode [(k, v)] = QueryEscape k @ ''='' @ QueryEscape v"
| "Values_Encode ((k, v) # rest) = QueryEscape k @ ''='' @ QueryEscape v @ ''&'' @ Values_Encode rest"

type_synonym header = "(string \<times> string) list"

definition Header_Set :: "string \<Rightarrow> string \<Rightarrow> header \<Rightarrow> header" where
  "Header_Set key value h = filter (\<lambda>(k, v). k \<noteq> key) h @ [(key, value)]"

record httpRequest =
  hr_Method :: string
  hr_URL :: url
  hr_Header :: header
  hr_Body :: bytes

text \<open>
  A response body is the bytes that arrive, the error that follows them, if any, and whether the
  error comes together with the last bytes.
\<close>

record httpResponse =
  rs_StatusCode :: int
  rs_Body :: bytes
  rs_Failure :: "error option"
  rs_Together :: bool
  rs_Close :: "error option"

type_synonym TokenSource = "ctx \<Rightarrow> error + string"

text \<open>
  One request: the context's answers, what \<open>http.NewRequestWithContext\<close> says to its arguments and
  what the client answers.
\<close>

record exchange =
  xc_ctx :: ctx
  xc_build :: "error option"
  xc_do :: "httpRequest \<Rightarrow> error + httpResponse"

definition credential_error :: error where
  "credential_error = Error [CredentialError] ''provider credential source failed''"

definition credential :: "TokenSource \<Rightarrow> ctx \<Rightarrow> error + string" where
  "credential source ctx =
     (case source ctx of
        Inl _ \<Rightarrow> Inl credential_error
      | Inr token \<Rightarrow>
          if untrimmed token \<or> ContainsAny token [carriage_return, newline] then Inl credential_error else Inr token)"

definition status_error :: "httpResponse \<Rightarrow> error option" where
  "status_error response =
     (if rs_StatusCode response < 200 \<or> 300 \<le> rs_StatusCode response
      then Some (Error [HTTPError (rs_StatusCode response)] ''provider HTTP status'') else None)"

text \<open>The answer of the client; a failure under an ended context is the context's.\<close>

definition send :: "exchange \<Rightarrow> httpRequest \<Rightarrow> error + httpResponse" where
  "send x request =
     (case xc_do x request of
        Inl e \<Rightarrow> (case xc_ctx x 1 of Some err \<Rightarrow> Inl err | None \<Rightarrow> Inl e)
      | Inr response \<Rightarrow>
          (case status_error response of Some e \<Rightarrow> Inl e | None \<Rightarrow> Inr response))"

text \<open>The endpoint of a request below the base URL.\<close>

definition endpoint :: "url \<Rightarrow> string \<Rightarrow> string \<Rightarrow> url" where
  "endpoint base resource query =
     base\<lparr>url_Path := TrimSuffix (url_Path base) ''/'' @ ''/'' @ resource, url_RawQuery := query\<rparr>"

section \<open>Bounded bodies\<close>

text \<open>
  \<open>io.ReadAll\<close> of a reader limited to \<open>n\<close> bytes. The limit is \<open>limit + 1\<close> in 64 bits; a reader
  limited to a negative number of bytes is at its end.
\<close>

definition read_limited :: "httpResponse \<Rightarrow> int \<Rightarrow> error + bytes" where
  "read_limited response n =
     (let data = rs_Body response in
      case rs_Failure response of
        None \<Rightarrow> Inr (take (nat n) data)
      | Some e \<Rightarrow>
          if int (length data) < n \<or> int (length data) = n \<and> data \<noteq> [] \<and> rs_Together response
          then Inl e else Inr (take (nat n) data))"

definition decodeBoundedJSON :: "(bytes \<Rightarrow> error + ('a \<times> bytes)) \<Rightarrow> httpResponse \<Rightarrow> int \<Rightarrow> error + 'a" where
  "decodeBoundedJSON decode response limit =
     sum_bind (read_limited response (wrap64 (limit + 1))) (\<lambda>data.
     if limit < int (length data) then Inl (errorf ''response exceeds configured size limit'')
     else sum_bind (decode data) (\<lambda>(value, rest).
       if list_all json_space rest then Inr value else Inl (errorf ''response contains trailing JSON'')))"

text \<open>
  No more than one byte beyond the limit is ever taken from the network, and what is decoded is
  the whole body; a limit whose successor overflows leaves nothing to decode.
\<close>

lemma decodeBoundedJSON_Inr:
  assumes "decodeBoundedJSON decode response limit = Inr value" "0 \<le> limit" "limit < max64"
  shows "int (length (rs_Body response)) \<le> limit" "\<exists>rest. decode (rs_Body response) = Inr (value, rest)"
    "rs_Failure response = None"
proof -
  have n: "wrap64 (limit + 1) = limit + 1"
    using assms(2,3) by (intro wrap64_id) (simp add: in64_def max64_def min64_def)
  from assms(1) obtain data rest where data: "read_limited response (limit + 1) = Inr data"
    "int (length data) \<le> limit" "decode data = Inr (value, rest)"
    by (auto simp: decodeBoundedJSON_def n not_less split: if_splits)
  have short: "int (length (rs_Body response)) \<le> limit"
    using data(1,2) by (auto simp: read_limited_def Let_def split: option.splits if_splits)
  then show "int (length (rs_Body response)) \<le> limit" .
  have "data = rs_Body response" "rs_Failure response = None"
    using data(1) short by (auto simp: read_limited_def Let_def split: option.splits if_splits)
  with data(3) show "\<exists>rest. decode (rs_Body response) = Inr (value, rest)" "rs_Failure response = None" by auto
qed

lemma decodeBoundedJSON_overflow:
  "decodeBoundedJSON decode response max64 = sum_bind (decode []) (\<lambda>(value, rest).
     if list_all json_space rest then Inr value else Inl (errorf ''response contains trailing JSON''))"
proof -
  have "wrap64 (max64 + 1) = min64" by (simp add: int64_defs)
  then show ?thesis
    by (simp add: decodeBoundedJSON_def read_limited_def Let_def min64_def max64_def split: option.split)
qed

text \<open>A zero or empty setting selects its default.\<close>

definition or_default :: "int \<Rightarrow> int \<Rightarrow> int" where
  "or_default value standard = (if value = 0 then standard else value)"

text \<open>A loop that builds one result per element and returns at the first error.\<close>

fun each :: "('a \<Rightarrow> error + 'b) \<Rightarrow> 'a list \<Rightarrow> error + 'b list" where
  "each f [] = Inr []"
| "each f (x # xs) = sum_bind (f x) (\<lambda>y. sum_bind (each f xs) (\<lambda>ys. Inr (y # ys)))"

lemma sum_bind_Inl: "sum_bind m f = Inl e \<longleftrightarrow> m = Inl e \<or> (\<exists>x. m = Inr x \<and> f x = Inl e)"
  by (cases m) simp_all

lemma CloneModelRequest_more [simp]:
  "mq_ToolChoice (CloneModelRequest r) = mq_ToolChoice r" "mq_Output (CloneModelRequest r) = mq_Output r"
  "mq_MaxOutputTokens (CloneModelRequest r) = mq_MaxOutputTokens r"
  by (simp_all add: CloneModelRequest_eq)

lemma each_Inr: "each f xs = Inr ys \<longleftrightarrow> (\<forall>x\<in>set xs. \<not> isl (f x)) \<and> ys = map (projr \<circ> f) xs"
  by (induction xs arbitrary: ys) (auto simp: isl_def split: sum.splits)

section \<open>Descriptors\<close>

definition cloneLabels :: "(string \<times> string) list option \<Rightarrow> (string \<times> string) list option" where
  "cloneLabels labels = map_option (map (\<lambda>(k, v). (k, v))) labels"

definition cloneCapabilities :: "ModelCapabilities \<Rightarrow> ModelCapabilities" where
  "cloneCapabilities c = c\<lparr>mc_Modalities := [] @ mc_Modalities c\<rparr>"

lemma provider_clones [simp]: "cloneLabels labels = labels" "cloneCapabilities c = c"
  by (simp_all add: cloneLabels_def cloneCapabilities_def option.map_id0)

text \<open>The catalogue of one page: a duplicate is refused before the descriptor is checked.\<close>

fun add_models ::
  "('m \<Rightarrow> string) \<Rightarrow> ('m \<Rightarrow> ModelDescriptor) \<Rightarrow> string list \<Rightarrow> 'm list \<Rightarrow> error + (string list \<times> ModelDescriptor list)" where
  "add_models ident describe seen [] = Inr (seen, [])"
| "add_models ident describe seen (m # ms) =
     (if ident m \<in> set seen then Inl (errorf ''model discovery response: duplicate model'')
      else case ModelDescriptor_Validate (describe m) of
        Some e \<Rightarrow> Inl (wrapf ''model discovery response: model'' e)
      | None \<Rightarrow>
          sum_bind (add_models ident describe (ident m # seen) ms) (\<lambda>(seen, rest).
            Inr (seen, describe m # rest)))"

definition catalogue :: "string \<Rightarrow> ModelDescriptor list \<Rightarrow> bool" where
  "catalogue name ds \<longleftrightarrow>
     distinct (map (mr_Model \<circ> md_Ref) ds) \<and>
     (\<forall>d\<in>set ds. ModelDescriptor_Validate d = None \<and> mr_Provider (md_Ref d) = name)"

lemma add_models_Inr:
  assumes "add_models ident describe seen ms = Inr (seen', ds)" "\<And>m. mr_Model (md_Ref (describe m)) = ident m"
    "\<And>m. mr_Provider (md_Ref (describe m)) = name"
  shows "catalogue name ds" "set seen' = set seen \<union> (mr_Model \<circ> md_Ref) ` set ds"
    "(mr_Model \<circ> md_Ref) ` set ds \<inter> set seen = {}"
  using assms(1)
  by (induction ms arbitrary: seen ds)
     (fastforce simp: catalogue_def assms(2,3) split: if_splits option.splits)+

section \<open>The contract of a provider\<close>

text \<open>A header value is one line, so that no value can start another header.\<close>

definition single_line :: "string \<Rightarrow> bool" where
  "single_line s \<longleftrightarrow> \<not> ContainsAny s [carriage_return, newline]"

definition confined :: "url \<Rightarrow> httpRequest \<Rightarrow> bool" where
  "confined base r \<longleftrightarrow>
     url_Scheme (hr_URL r) = url_Scheme base \<and> url_Host (hr_URL r) = url_Host base \<and>
     \<not> url_User (hr_URL r) \<and>
     HasPrefix (url_Path (hr_URL r)) (TrimSuffix (url_Path base) ''/'' @ ''/'') \<and>
     (\<forall>(k, v)\<in>set (hr_Header r). single_line v)"

text \<open>Both constructors accept a base URL under the same conditions.\<close>

definition base_ok :: "bool \<Rightarrow> url \<Rightarrow> bool" where
  "base_ok insecure u \<longleftrightarrow>
     (url_Scheme u = ''https'' \<or> url_Scheme u = ''http'' \<and> insecure) \<and>
     url_Host u \<noteq> [] \<and> url_Opaque u = [] \<and> \<not> url_User u \<and> url_RawQuery u = [] \<and>
     url_Fragment u = [] \<and> url_RawPath u = []"

locale http_provider =
  fixes name :: "'p \<Rightarrow> string"
    and base :: "'p \<Rightarrow> url"
    and models :: "'p \<Rightarrow> 'm \<Rightarrow> (error + ModelDescriptor list) \<times> httpRequest list"
    and stream :: "'p \<Rightarrow> 't \<Rightarrow> ModelRequest \<Rightarrow> (error + 's) \<times> httpRequest list"
    and made :: "bool \<Rightarrow> 'p \<Rightarrow> bool"
  assumes made_name: "made insecure p \<Longrightarrow> \<not> untrimmed (name p)"
    and made_base: "made insecure p \<Longrightarrow> base_ok insecure (base p)"
    and models_catalogue: "models p x = (Inr ds, sent) \<Longrightarrow> catalogue (name p) ds"
    and models_confined: "made insecure p \<Longrightarrow> models p x = (r, sent) \<Longrightarrow> \<forall>h\<in>set sent. confined (base p) h"
    and stream_confined: "made insecure p \<Longrightarrow> stream p t q = (r', sent) \<Longrightarrow> \<forall>h\<in>set sent. confined (base p) h"
begin

lemma discover_loop_catalogue:
  "catalogue n ds \<Longrightarrow> (mr_Model \<circ> md_Ref) ` set ds \<inter> set seen = {} \<Longrightarrow> discover_loop n seen ds = Inr ds"
  by (induction ds arbitrary: seen) (auto simp: catalogue_def)

text \<open>The catalogue check has nothing to object to.\<close>

lemma discovered:
  assumes "made insecure p" "models p x = (Inr ds, sent)" "ctx_live ctx"
  shows "DiscoverModels ctx (Some \<lparr>pv_Name = name p, pv_Models = fst (models p x), pv_Stream = answer\<rparr>) = Inr ds"
  using made_name [OF assms(1)] models_catalogue [OF assms(2)] assms(3)
  by (auto simp: DiscoverModels_def assms(2) discover_loop_catalogue untrimmed_def blank_def)

lemma no_plain_text:
  assumes "made False p" "models p x = (r, sent) \<or> stream p t q = (r', sent)" "h \<in> set sent"
  shows "url_Scheme (hr_URL h) = ''https''" "url_Host (hr_URL h) = url_Host (base p)"
  using made_base [OF assms(1)] models_confined [OF assms(1)] stream_confined [OF assms(1)] assms(2,3)
  by (auto simp: base_ok_def confined_def)

end

section \<open>Requests\<close>

lemma single_line_append [simp]: "single_line (s @ t) \<longleftrightarrow> single_line s \<and> single_line t"
  by (auto simp: single_line_def ContainsAny_def)

lemma single_line_simps [simp]:
  "single_line []" "single_line (c # s) \<longleftrightarrow> c \<noteq> carriage_return \<and> c \<noteq> newline \<and> single_line s"
  by (auto simp: single_line_def ContainsAny_def)

lemma credential_single_line: "credential source ctx = Inr token \<Longrightarrow> single_line token \<and> \<not> untrimmed token"
  by (auto simp: credential_def single_line_def split: sum.splits if_splits)

lemma Header_Set_lines [simp]:
  "(\<forall>(k, v)\<in>set (Header_Set key value h). single_line v) \<longleftrightarrow>
     single_line value \<and> (\<forall>(k, v)\<in>set h. k = key \<or> single_line v)"
  by (auto simp: Header_Set_def)

lemma endpoint_simps [simp]:
  "url_Scheme (endpoint b r q) = url_Scheme b" "url_Host (endpoint b r q) = url_Host b"
  "url_User (endpoint b r q) = url_User b"
  "HasPrefix (url_Path (endpoint b r q)) (TrimSuffix (url_Path b) ''/'' @ ''/'')"
  by (simp_all add: endpoint_def HasPrefix_def)

lemma confined_Header_Set:
  "confined b h \<Longrightarrow> single_line v \<Longrightarrow> confined b (h\<lparr>hr_Header := Header_Set k v (hr_Header h)\<rparr>)"
  by (auto simp: confined_def Header_Set_def)

text \<open>The two headers of a request for a stream.\<close>

lemma confined_stream_headers:
  assumes "confined b h"
  shows "confined b (h\<lparr>hr_Header := Header_Set ''Accept'' ''text/event-stream''
    (Header_Set ''Content-Type'' ''application/json'' (hr_Header h))\<rparr>)"
  using confined_Header_Set [OF confined_Header_Set [OF assms, of "''application/json''" "''Content-Type''"],
      of "''text/event-stream''" "''Accept''"] by simp

end
