(* ===== verification/AnthropicProvider.thy ===== *)
theory AnthropicProvider
  imports Http AnthropicProps
begin

text \<open>
  The Anthropic provider (\<open>src/provider/anthropic/translate.go\<close> and \<open>provider.go\<close>): the translation of
  a model request, the construction of a provider, the discovery of its models and the opening of
  a stream. \<open>Models\<close> and \<open>Stream\<close> return, beside their result, the requests they have sent.
\<close>

section \<open>The wire format\<close>

record contentBlock =
  bl_Type :: string
  bl_Text :: string
  bl_ID :: string
  bl_Name :: string
  bl_Input :: bytes
  bl_ToolUseID :: string
  bl_Content :: string
  bl_IsError :: bool

record wireMessage =
  wm_Role :: string
  wm_Content :: "contentBlock list"

record wireTool =
  wi_Name :: string
  wi_Description :: string
  wi_InputSchema :: bytes
  wi_Strict :: bool

record wireToolChoice =
  wh_Type :: string
  wh_Name :: string

record outputConfig =
  of_Type :: string
  of_Schema :: bytes

record messageRequest =
  ma_Model :: string
  ma_MaxTokens :: int
  ma_System :: "contentBlock list"
  ma_Messages :: "wireMessage list"
  ma_Tools :: "wireTool list"
  ma_ToolChoice :: "wireToolChoice option"
  ma_OutputConfig :: "outputConfig option"
  ma_Stream :: bool

definition zero_block :: contentBlock where
  "zero_block = \<lparr>bl_Type = [], bl_Text = [], bl_ID = [], bl_Name = [], bl_Input = [], bl_ToolUseID = [],
     bl_Content = [], bl_IsError = False\<rparr>"

section \<open>Translation\<close>

definition translation_error :: "string \<Rightarrow> error" where
  "translation_error msg = Error [AnthropicErrTranslation] msg"

fun translateTextBlocks :: "ContentPart list \<Rightarrow> error + contentBlock list" where
  "translateTextBlocks [] = Inr []"
| "translateTextBlocks (part # parts) =
     (if cp_Type part \<noteq> ContentText then Inl (errorf ''content type is unsupported'')
      else sum_bind (translateTextBlocks parts) (\<lambda>blocks.
        Inr (zero_block\<lparr>bl_Type := ''text'', bl_Text := cp_Text part\<rparr> # blocks)))"

definition assistant_block :: "ContentPart \<Rightarrow> error + contentBlock" where
  "assistant_block part =
     (case cp_Type part of
        ContentText \<Rightarrow> Inr (zero_block\<lparr>bl_Type := ''text'', bl_Text := cp_Text part\<rparr>)
      | ContentToolCall \<Rightarrow>
          Inr (zero_block\<lparr>bl_Type := ''tool_use'', bl_ID := cp_ToolCallID part, bl_Name := cp_ToolName part,
                 bl_Input := [] @ cp_JSON part\<rparr>)
      | _ \<Rightarrow> Inl (errorf ''assistant content type is unsupported''))"

definition tool_block :: "ContentPart \<Rightarrow> error + contentBlock" where
  "tool_block part =
     (if cp_Type part \<noteq> ContentToolResult then Inl (errorf ''tool content type is unsupported'')
      else
        let content = cp_JSON part; content = (if content = [] then cp_Text part else content) in
        Inr (zero_block\<lparr>bl_Type := ''tool_result'', bl_ToolUseID := cp_ToolCallID part, bl_Content := content,
               bl_IsError := cp_IsError part\<rparr>))"

definition translateMessage :: "Message \<Rightarrow> error + wireMessage" where
  "translateMessage message =
     (case mg_Role message of
        RoleUser \<Rightarrow>
          sum_bind (translateTextBlocks (mg_Content message)) (\<lambda>blocks.
            Inr \<lparr>wm_Role = ''user'', wm_Content = blocks\<rparr>)
      | RoleAssistant \<Rightarrow>
          sum_bind (each assistant_block (mg_Content message)) (\<lambda>blocks.
            Inr \<lparr>wm_Role = ''assistant'', wm_Content = blocks\<rparr>)
      | RoleTool \<Rightarrow>
          sum_bind (each tool_block (mg_Content message)) (\<lambda>blocks.
            Inr \<lparr>wm_Role = ''user'', wm_Content = blocks\<rparr>)
      | _ \<Rightarrow> Inl (errorf ''message role is unsupported''))"

text \<open>\<open>fmt.Errorf("%w: message %d: %v", ErrTranslation, index, err)\<close> keeps the text of the cause only.\<close>

definition as_translation :: "error + 'a \<Rightarrow> error + 'a" where
  "as_translation m = (case m of Inl e \<Rightarrow> Inl (translation_error (''message: '' @ detail e)) | Inr x \<Rightarrow> Inr x)"

lemma as_translation_Inr [simp]: "as_translation m = Inr x \<longleftrightarrow> m = Inr x"
  by (simp add: as_translation_def split: sum.split)

text \<open>The loop over the messages: the system blocks and the conversation.\<close>

fun translate_messages :: "bool \<Rightarrow> Message list \<Rightarrow> error + (contentBlock list \<times> wireMessage list)" where
  "translate_messages sawConversation [] = Inr ([], [])"
| "translate_messages sawConversation (message # rest) =
     (if mg_Role message = RoleSystem then
        if sawConversation then Inl (translation_error ''system content must precede conversation'')
        else sum_bind (as_translation (translateTextBlocks (mg_Content message))) (\<lambda>blocks.
             sum_bind (translate_messages sawConversation rest) (\<lambda>(system, messages).
               Inr (blocks @ system, messages)))
      else
        sum_bind (as_translation (translateMessage message)) (\<lambda>translated.
        sum_bind (translate_messages True rest) (\<lambda>(system, messages).
          Inr (system, translated # messages))))"

definition translate_choice :: "bool \<Rightarrow> ToolChoice \<Rightarrow> error + wireToolChoice option" where
  "translate_choice tools choice =
     (if tools then
        (case tc_Mode choice of
           ToolChoiceAuto \<Rightarrow> Inr (Some \<lparr>wh_Type = ''auto'', wh_Name = []\<rparr>)
         | ToolChoiceNone \<Rightarrow> Inr (Some \<lparr>wh_Type = ''none'', wh_Name = []\<rparr>)
         | ToolChoiceRequired \<Rightarrow> Inr (Some \<lparr>wh_Type = ''any'', wh_Name = []\<rparr>)
         | ToolChoiceNamed \<Rightarrow> Inr (Some \<lparr>wh_Type = ''tool'', wh_Name = tc_Name choice\<rparr>)
         | ToolChoiceOther _ \<Rightarrow> Inl (translation_error ''unknown tool choice''))
      else if tc_Mode choice = ToolChoiceRequired
      then Inl (translation_error ''required tool choice has no tools'') else Inr None)"

datatype AuthMode = AuthUnset | AuthBearer | AuthAPIKey | AuthOther string

record anthropicProvider =
  ap_name :: string
  ap_baseURL :: url
  ap_authMode :: AuthMode
  ap_tokenSource :: "TokenSource option"
  ap_apiVersion :: string
  ap_defaultCapabilities :: ModelCapabilities
  ap_labels :: "(string \<times> string) list option"
  ap_defaultOutputTokens :: int
  ap_maxBodyBytes :: int
  ap_maxEventBytes :: int
  ap_maxModelPages :: int

definition translateRequest :: "anthropicProvider \<Rightarrow> ModelRequest \<Rightarrow> error + messageRequest" where
  "translateRequest provider request =
     (let request = CloneModelRequest request in
      case ModelRequest_Validate request of
        Some e \<Rightarrow> Inl (translation_error (detail e))
      | None \<Rightarrow>
          if mr_Provider (mq_Model request) \<noteq> ap_name provider
          then Inl (translation_error ''model provider mismatch'')
          else
            sum_bind (translate_messages False (mq_Messages request)) (\<lambda>(system, messages).
            if messages = [] then Inl (translation_error ''conversation has no user or assistant message'')
            else
              let tools = map (\<lambda>tool. \<lparr>wi_Name = td_Name tool, wi_Description = td_Description tool,
                    wi_InputSchema = [] @ td_InputSchema tool, wi_Strict = td_Strict tool\<rparr>) (mq_Tools request)
              in sum_bind (translate_choice (tools \<noteq> []) (mq_ToolChoice request)) (\<lambda>choice.
                Inr \<lparr>ma_Model = mr_Model (mq_Model request),
                     ma_MaxTokens = (if mq_MaxOutputTokens request > 0 then mq_MaxOutputTokens request
                       else ap_defaultOutputTokens provider),
                     ma_System = system, ma_Messages = messages, ma_Tools = tools, ma_ToolChoice = choice,
                     ma_OutputConfig = map_option (\<lambda>out. \<lparr>of_Type = ''json_schema'', of_Schema = [] @ oc_Schema out\<rparr>)
                       (mq_Output request),
                     ma_Stream = True\<rparr>)))"

section \<open>The provider\<close>

record anthropicConfig =
  ac_Name :: string
  ac_BaseURL :: string
  ac_AllowInsecureHTTP :: bool
  ac_AuthMode :: AuthMode
  ac_TokenSource :: "TokenSource option"
  ac_APIVersion :: string
  ac_DefaultCapabilities :: ModelCapabilities
  ac_Labels :: "(string \<times> string) list option"
  ac_DefaultOutputTokens :: int
  ac_MaxBodyBytes :: int
  ac_MaxEventBytes :: int
  ac_MaxModelPages :: int

definition config_error :: "string \<Rightarrow> error" where
  "config_error msg = Error [AnthropicErrConfiguration] msg"

definition refuse :: "bool \<Rightarrow> string \<Rightarrow> error option" where
  "refuse bad msg = (if bad then Some (config_error msg) else None)"

lemma refuse_None [simp]: "refuse bad msg = None \<longleftrightarrow> \<not> bad"
  by (simp add: refuse_def)

definition Anthropic_New :: "(string \<Rightarrow> error + url) \<Rightarrow> anthropicConfig \<Rightarrow> error + anthropicProvider" where
  "Anthropic_New Parse config =
     (let name = TrimSpace (ac_Name config) in
      case first_error
        [refuse (name = [] \<or> name \<noteq> ac_Name config) ''provider name is empty or has surrounding whitespace'',
         refuse (TrimSpace (ac_BaseURL config) = [] \<or> TrimSpace (ac_BaseURL config) \<noteq> ac_BaseURL config)
           ''base URL is empty or has surrounding whitespace''] of
        Some e \<Rightarrow> Inl e
      | None \<Rightarrow>
          (case Parse (ac_BaseURL config) of
             Inl _ \<Rightarrow> Inl (config_error ''base URL must be absolute without user information, query, or fragment'')
           | Inr baseURL \<Rightarrow>
               let authMode = (if ac_AuthMode config = AuthUnset then AuthBearer else ac_AuthMode config);
                   apiVersion = (if ac_APIVersion config = [] then ''2023-06-01'' else ac_APIVersion config);
                   capabilities = cloneCapabilities (ac_DefaultCapabilities config);
                   capabilities = (if mc_ToolUse capabilities = ToolUseOther [] then capabilities\<lparr>mc_ToolUse := ToolUseNone\<rparr>
                     else capabilities);
                   descriptor = \<lparr>md_Ref = \<lparr>mr_Provider = name, mr_Model = ''configured''\<rparr>,
                     md_Capabilities = capabilities, md_Labels = cloneLabels (ac_Labels config)\<rparr>;
                   outputTokens = or_default (ac_DefaultOutputTokens config) 4096;
                   maxBody = or_default (ac_MaxBodyBytes config) (4 * 2 ^ 20);
                   maxEvent = or_default (ac_MaxEventBytes config) (2 ^ 20);
                   maxPages = or_default (ac_MaxModelPages config) 100
               in case first_error
                 [refuse (url_Scheme baseURL = [] \<or> url_Host baseURL = [] \<or> url_Opaque baseURL \<noteq> [] \<or> url_User baseURL \<or>
                          url_RawQuery baseURL \<noteq> [] \<or> url_Fragment baseURL \<noteq> [] \<or> url_RawPath baseURL \<noteq> [])
                    ''base URL must be absolute without user information, query, or fragment'',
                  refuse (url_Scheme baseURL \<noteq> ''https'' \<and> (url_Scheme baseURL \<noteq> ''http'' \<or> \<not> ac_AllowInsecureHTTP config))
                    ''base URL must use HTTPS; plain HTTP requires explicit opt-in'',
                  refuse (authMode \<noteq> AuthBearer \<and> authMode \<noteq> AuthAPIKey) ''unknown authentication mode'',
                  refuse (untrimmed apiVersion \<or> ContainsAny apiVersion [carriage_return, newline]) ''invalid API version'',
                  map_option (\<lambda>e. config_error (''defaults: '' @ detail e)) (ModelDescriptor_Validate descriptor),
                  refuse (outputTokens < 1) ''default output tokens must be positive'',
                  refuse (maxBody < 1 \<or> maxEvent < 1 \<or> maxPages < 1) ''size and page limits must be positive''] of
                 Some e \<Rightarrow> Inl e
               | None \<Rightarrow>
                   Inr \<lparr>ap_name = name, ap_baseURL = baseURL\<lparr>url_Path := TrimSuffix (url_Path baseURL) ''/''\<rparr>,
                        ap_authMode = authMode, ap_tokenSource = ac_TokenSource config, ap_apiVersion = apiVersion,
                        ap_defaultCapabilities = md_Capabilities descriptor, ap_labels = md_Labels descriptor,
                        ap_defaultOutputTokens = outputTokens, ap_maxBodyBytes = maxBody, ap_maxEventBytes = maxEvent,
                        ap_maxModelPages = maxPages\<rparr>))"

definition Anthropic_newRequest ::
  "anthropicProvider \<Rightarrow> exchange \<Rightarrow> string \<Rightarrow> string \<Rightarrow> (string \<times> string) list \<Rightarrow> bytes \<Rightarrow> error + httpRequest" where
  "Anthropic_newRequest provider x method resource query body =
     (case first_error [xc_ctx x 0, xc_build x] of
        Some e \<Rightarrow> Inl e
      | None \<Rightarrow>
          let request = \<lparr>hr_Method = method, hr_URL = endpoint (ap_baseURL provider) resource (Values_Encode query),
                hr_Header = Header_Set ''anthropic-version'' (ap_apiVersion provider) [], hr_Body = body\<rparr>
          in case ap_tokenSource provider of
               None \<Rightarrow> Inr request
             | Some source \<Rightarrow>
                 sum_bind (credential source (xc_ctx x)) (\<lambda>token.
                   Inr (request\<lparr>hr_Header :=
                     (if ap_authMode provider = AuthAPIKey then Header_Set ''x-api-key'' token (hr_Header request)
                      else Header_Set ''Authorization'' (''Bearer '' @ token) (hr_Header request))\<rparr>)))"

record pageModel =
  pm_ID :: string
  pm_MaxInputTokens :: "int option"
  pm_MaxTokens :: "int option"

record modelPage =
  pg_Data :: "pageModel list"
  pg_HasMore :: bool
  pg_LastID :: string

definition page_descriptor :: "anthropicProvider \<Rightarrow> pageModel \<Rightarrow> ModelDescriptor" where
  "page_descriptor provider model =
     (let c = cloneCapabilities (ap_defaultCapabilities provider);
          c = (case pm_MaxInputTokens model of None \<Rightarrow> c | Some n \<Rightarrow> c\<lparr>mc_ContextTokens := n\<rparr>);
          c = (case pm_MaxTokens model of None \<Rightarrow> c | Some n \<Rightarrow> c\<lparr>mc_MaxOutputTokens := n\<rparr>)
      in \<lparr>md_Ref = \<lparr>mr_Provider = ap_name provider, mr_Model = pm_ID model\<rparr>, md_Capabilities = c,
          md_Labels = cloneLabels (ap_labels provider)\<rparr>)"

text \<open>One page: the decoded body and what closing it says.\<close>

definition fetch_page ::
  "(bytes \<Rightarrow> error + (modelPage \<times> bytes)) \<Rightarrow> anthropicProvider \<Rightarrow> exchange \<Rightarrow> httpRequest \<Rightarrow> error + modelPage" where
  "fetch_page decode provider x request =
     sum_bind (send x request) (\<lambda>response.
     sum_bind (wrapped ''model discovery response'' (decodeBoundedJSON decode response (ap_maxBodyBytes provider))) (\<lambda>page.
     case rs_Close response of Some e \<Rightarrow> Inl e | None \<Rightarrow> Inr page))"

definition page_query :: "string \<Rightarrow> (string \<times> string) list" where
  "page_query after = (if after = [] then [(''limit'', ''1000'')] else [(''after_id'', after), (''limit'', ''1000'')])"

text \<open>
  The loop over the pages. \<open>left\<close> counts the pages that may still be asked for and \<open>xs\<close> holds the
  exchange of each; the requests that were sent come back with the result.
\<close>

fun models_loop ::
  "(bytes \<Rightarrow> error + (modelPage \<times> bytes)) \<Rightarrow> anthropicProvider \<Rightarrow> (nat \<Rightarrow> exchange) \<Rightarrow> nat \<Rightarrow> string list \<Rightarrow>
   string list \<Rightarrow> string \<Rightarrow> (error + ModelDescriptor list) \<times> httpRequest list" where
  "models_loop decode provider xs 0 seen cursors after =
     (Inl (errorf ''model discovery response: pagination exceeds pages''), [])"
| "models_loop decode provider xs (Suc left) seen cursors after =
     (case Anthropic_newRequest provider (xs 0) ''GET'' ''models'' (page_query after) [] of
        Inl e \<Rightarrow> (Inl e, [])
      | Inr request \<Rightarrow>
          (case sum_bind (fetch_page decode provider (xs 0) request) (\<lambda>page.
                sum_bind (add_models pm_ID (page_descriptor provider) seen (pg_Data page)) (\<lambda>(seen, models).
                Inr (page, seen, models))) of
             Inl e \<Rightarrow> (Inl e, [request])
           | Inr (page, seen, models) \<Rightarrow>
               if \<not> pg_HasMore page then (Inr models, [request])
               else if pg_LastID page = []
               then (Inl (errorf ''model discovery response: paginated page has no last ID''), [request])
               else if pg_LastID page \<in> set cursors
               then (Inl (errorf ''model discovery response: pagination cycle''), [request])
               else (case models_loop decode provider (\<lambda>i. xs (Suc i)) left seen (pg_LastID page # cursors) (pg_LastID page) of
                       (Inl e, sent) \<Rightarrow> (Inl e, request # sent)
                     | (Inr rest, sent) \<Rightarrow> (Inr (models @ rest), request # sent))))"

definition Anthropic_Models ::
  "(bytes \<Rightarrow> error + (modelPage \<times> bytes)) \<Rightarrow> anthropicProvider \<Rightarrow> error option \<Rightarrow> (nat \<Rightarrow> exchange)
    \<Rightarrow> (error + ModelDescriptor list) \<times> httpRequest list" where
  "Anthropic_Models decode provider ctxErr xs =
     (case ctxErr of
        Some e \<Rightarrow> (Inl e, [])
      | None \<Rightarrow> models_loop decode provider xs (nat (ap_maxModelPages provider)) [] [] [])"

definition encode_request :: "(messageRequest \<Rightarrow> error + bytes) \<Rightarrow> messageRequest \<Rightarrow> error + bytes" where
  "encode_request Marshal payload =
     (case Marshal payload of Inl _ \<Rightarrow> Inl (translation_error ''encode request'') | Inr body \<Rightarrow> Inr body)"

definition Anthropic_Stream ::
  "(messageRequest \<Rightarrow> error + bytes) \<Rightarrow> anthropicProvider \<Rightarrow> exchange \<Rightarrow> ModelRequest
    \<Rightarrow> (error + messageStream) \<times> httpRequest list" where
  "Anthropic_Stream Marshal provider x request =
     (case sum_bind (translateRequest provider request) (\<lambda>payload.
           sum_bind (encode_request Marshal payload) (\<lambda>body.
           Anthropic_newRequest provider x ''POST'' ''messages'' [] body)) of
        Inl e \<Rightarrow> (Inl e, [])
      | Inr httpRequest \<Rightarrow>
          let httpRequest = httpRequest\<lparr>hr_Header := Header_Set ''Accept'' ''text/event-stream''
                (Header_Set ''Content-Type'' ''application/json'' (hr_Header httpRequest))\<rparr>
          in (sum_bind (send x httpRequest) (\<lambda>response.
                Inr (newMessageStream (newSSEDecoder (rs_Body response) (rs_Failure response) (rs_Together response)
                  (ap_maxEventBytes provider)) (rs_Close response))), [httpRequest]))"

section \<open>What a translation keeps\<close>

text \<open>
  What a part of a message says to a model, read from the request and from the wire: a text, a call
  of a tool, or the result of a call.
\<close>

datatype said = SaidText string | SaidCall string string bytes | SaidResult string string bool

definition part_said :: "ContentPart \<Rightarrow> said" where
  "part_said p =
     (if cp_Type p = ContentToolCall then SaidCall (cp_ToolCallID p) (cp_ToolName p) (cp_JSON p)
      else if cp_Type p = ContentToolResult
      then SaidResult (cp_ToolCallID p) (if cp_JSON p = [] then cp_Text p else cp_JSON p) (cp_IsError p)
      else SaidText (cp_Text p))"

definition block_said :: "contentBlock \<Rightarrow> said" where
  "block_said b =
     (if bl_Type b = ''tool_use'' then SaidCall (bl_ID b) (bl_Name b) (bl_Input b)
      else if bl_Type b = ''tool_result'' then SaidResult (bl_ToolUseID b) (bl_Content b) (bl_IsError b)
      else SaidText (bl_Text b))"

definition spoken :: "Message \<Rightarrow> bool" where
  "spoken m \<longleftrightarrow>
     (case mg_Role m of
        RoleAssistant \<Rightarrow> (\<forall>p\<in>set (mg_Content m). cp_Type p \<in> {ContentText, ContentToolCall})
      | RoleTool \<Rightarrow> (\<forall>p\<in>set (mg_Content m). cp_Type p = ContentToolResult)
      | RoleOther _ \<Rightarrow> False
      | _ \<Rightarrow> (\<forall>p\<in>set (mg_Content m). cp_Type p = ContentText))"

definition said_by :: "MessageRole \<Rightarrow> string" where
  "said_by role = (if role = RoleAssistant then ''assistant'' else ''user'')"

abbreviation from_system :: "Message \<Rightarrow> bool" where
  "from_system m \<equiv> mg_Role m = RoleSystem"

text \<open>The requests that can be translated: system messages first, and only supported contents.\<close>

definition supported :: "anthropicProvider \<Rightarrow> ModelRequest \<Rightarrow> bool" where
  "supported provider r \<longleftrightarrow>
     ModelRequest_Validate r = None \<and> mr_Provider (mq_Model r) = ap_name provider \<and>
     (\<forall>m\<in>set (mq_Messages r). spoken m) \<and>
     dropWhile from_system (mq_Messages r) \<noteq> [] \<and>
     (\<forall>m\<in>set (dropWhile from_system (mq_Messages r)). \<not> from_system m) \<and>
     \<not> (mq_Tools r = [] \<and> tc_Mode (mq_ToolChoice r) = ToolChoiceRequired)"

definition choice_read :: "wireToolChoice \<Rightarrow> ToolChoiceMode" where
  "choice_read c =
     (if wh_Type c = ''auto'' then ToolChoiceAuto else if wh_Type c = ''none'' then ToolChoiceNone
      else if wh_Type c = ''any'' then ToolChoiceRequired else ToolChoiceNamed)"

text \<open>The request, read back from the wire.\<close>

definition faithful :: "anthropicProvider \<Rightarrow> ModelRequest \<Rightarrow> messageRequest \<Rightarrow> bool" where
  "faithful provider r w \<longleftrightarrow>
     ma_Model w = mr_Model (mq_Model r) \<and> ma_Stream w \<and>
     ma_MaxTokens w = (if 0 < mq_MaxOutputTokens r then mq_MaxOutputTokens r else ap_defaultOutputTokens provider) \<and>
     map block_said (ma_System w) =
       concat (map (map part_said \<circ> mg_Content) (takeWhile from_system (mq_Messages r))) \<and>
     map (\<lambda>m. (wm_Role m, map block_said (wm_Content m))) (ma_Messages w) =
       map (\<lambda>m. (said_by (mg_Role m), map part_said (mg_Content m))) (dropWhile from_system (mq_Messages r)) \<and>
     map (\<lambda>t. (wi_Name t, wi_Description t, wi_InputSchema t, wi_Strict t)) (ma_Tools w) =
       map (\<lambda>t. (td_Name t, td_Description t, td_InputSchema t, td_Strict t)) (mq_Tools r) \<and>
     (case ma_ToolChoice w of
        None \<Rightarrow> mq_Tools r = []
      | Some c \<Rightarrow> mq_Tools r \<noteq> [] \<and> choice_read c = tc_Mode (mq_ToolChoice r) \<and>
          (tc_Mode (mq_ToolChoice r) = ToolChoiceNamed \<longrightarrow> wh_Name c = tc_Name (mq_ToolChoice r))) \<and>
     map_option of_Schema (ma_OutputConfig w) = map_option oc_Schema (mq_Output r)"

lemma translateTextBlocks_Inr:
  "translateTextBlocks ps = Inr bs \<longleftrightarrow>
     (\<forall>p\<in>set ps. cp_Type p = ContentText) \<and>
     bs = map (\<lambda>p. zero_block\<lparr>bl_Type := ''text'', bl_Text := cp_Text p\<rparr>) ps"
  by (induction ps arbitrary: bs) auto

lemma translateTextBlocks_said:
  "translateTextBlocks ps = Inr bs \<Longrightarrow> map block_said bs = map part_said ps"
  by (simp add: translateTextBlocks_Inr block_said_def part_said_def zero_block_def)

lemma assistant_block_said:
  "\<not> isl (assistant_block p) \<longleftrightarrow> cp_Type p \<in> {ContentText, ContentToolCall}"
  "\<not> isl (assistant_block p) \<Longrightarrow> block_said (projr (assistant_block p)) = part_said p"
  by (auto simp: assistant_block_def block_said_def part_said_def zero_block_def split: ContentType.splits)

lemma tool_block_said:
  "\<not> isl (tool_block p) \<longleftrightarrow> cp_Type p = ContentToolResult"
  "\<not> isl (tool_block p) \<Longrightarrow> block_said (projr (tool_block p)) = part_said p"
  by (auto simp: tool_block_def Let_def block_said_def part_said_def zero_block_def split: if_splits)

lemma translateMessage_said:
  assumes "\<not> from_system m"
  shows "spoken m \<longleftrightarrow> (\<exists>w. translateMessage m = Inr w)"
    "translateMessage m = Inr w \<Longrightarrow>
       (wm_Role w, map block_said (wm_Content w)) = (said_by (mg_Role m), map part_said (mg_Content m))"
proof -
  show "spoken m \<longleftrightarrow> (\<exists>w. translateMessage m = Inr w)"
    using assms by (cases "mg_Role m")
      (auto simp: translateMessage_def spoken_def translateTextBlocks_Inr each_Inr assistant_block_said(1) tool_block_said(1))
  show "(wm_Role w, map block_said (wm_Content w)) = (said_by (mg_Role m), map part_said (mg_Content m))"
    if "translateMessage m = Inr w"
    using that assms by (cases "mg_Role m")
      (auto simp: translateMessage_def said_by_def each_Inr assistant_block_said(2) tool_block_said(2)
        dest: translateTextBlocks_said)
qed

lemma conversation_said:
  "(\<exists>x. translate_messages True ms = Inr x) \<longleftrightarrow> (\<forall>m\<in>set ms. spoken m \<and> \<not> from_system m)"
  "translate_messages True ms = Inr (system, messages) \<Longrightarrow> system = [] \<and>
     map (\<lambda>m. (wm_Role m, map block_said (wm_Content m))) messages =
     map (\<lambda>m. (said_by (mg_Role m), map part_said (mg_Content m))) ms"
proof -
  show "(\<exists>x. translate_messages True ms = Inr x) \<longleftrightarrow> (\<forall>m\<in>set ms. spoken m \<and> \<not> from_system m)"
    using translateMessage_said(1) by (induction ms) (auto split: prod.splits)
  show "system = [] \<and> map (\<lambda>m. (wm_Role m, map block_said (wm_Content m))) messages =
     map (\<lambda>m. (said_by (mg_Role m), map part_said (mg_Content m))) ms"
    if "translate_messages True ms = Inr (system, messages)"
    using that
  proof (induction ms arbitrary: system messages)
    case (Cons m ms)
    then obtain w rest where "\<not> from_system m" "translateMessage m = Inr w"
      "translate_messages True ms = Inr (system, rest)" "messages = w # rest"
      by (auto split: if_splits prod.splits)
    with Cons.IH translateMessage_said(2) show ?case by simp
  qed simp
qed

lemma translate_messages_first:
  "\<not> from_system m \<Longrightarrow> translate_messages saw (m # ms) = translate_messages True (m # ms)"
  by simp

lemma messages_said:
  "(\<exists>x. translate_messages False ms = Inr x) \<longleftrightarrow>
     (\<forall>m\<in>set ms. spoken m) \<and> (\<forall>m\<in>set (dropWhile from_system ms). \<not> from_system m)"
  "translate_messages False ms = Inr (system, messages) \<Longrightarrow>
     map block_said system = concat (map (map part_said \<circ> mg_Content) (takeWhile from_system ms)) \<and>
     map (\<lambda>m. (wm_Role m, map block_said (wm_Content m))) messages =
     map (\<lambda>m. (said_by (mg_Role m), map part_said (mg_Content m))) (dropWhile from_system ms)"
proof -
  show "(\<exists>x. translate_messages False ms = Inr x) \<longleftrightarrow>
     (\<forall>m\<in>set ms. spoken m) \<and> (\<forall>m\<in>set (dropWhile from_system ms). \<not> from_system m)"
  proof (induction ms)
    case (Cons m ms)
    show ?case
    proof (cases "from_system m")
      case True
      with Cons show ?thesis by (auto simp: spoken_def translateTextBlocks_Inr split: prod.splits)
    next
      case False
      then show ?thesis using conversation_said(1) [of "m # ms"] translate_messages_first [OF False, of False ms] by auto
    qed
  qed simp
  show "map block_said system = concat (map (map part_said \<circ> mg_Content) (takeWhile from_system ms)) \<and>
     map (\<lambda>m. (wm_Role m, map block_said (wm_Content m))) messages =
     map (\<lambda>m. (said_by (mg_Role m), map part_said (mg_Content m))) (dropWhile from_system ms)"
    if "translate_messages False ms = Inr (system, messages)"
    using that
  proof (induction ms arbitrary: system messages)
    case (Cons m ms)
    show ?case
    proof (cases "from_system m")
      case True
      with Cons.prems obtain bs rest where "translateTextBlocks (mg_Content m) = Inr bs"
        "translate_messages False ms = Inr (rest, messages)" "system = bs @ rest"
        by (auto split: prod.splits)
      with Cons.IH True translateTextBlocks_said show ?thesis by simp
    next
      case False
      then show ?thesis
        using conversation_said(2) [of "m # ms" system messages] translate_messages_first [OF False, of False ms] Cons.prems
        by simp
    qed
  qed simp
qed

lemma translate_messages_error:
  "translate_messages saw ms = Inl e \<Longrightarrow> errors_Is e AnthropicErrTranslation"
  by (induction saw ms rule: translate_messages.induct)
     (auto simp: as_translation_def translation_error_def errors_Is_def split: if_splits sum.splits elim!: sum_bind.elims)

lemma translate_choice_read:
  "translate_choice tools choice = Inl e \<Longrightarrow> errors_Is e AnthropicErrTranslation"
  "tools \<Longrightarrow> translate_choice tools choice = Inr c \<Longrightarrow> c \<noteq> None \<and> choice_read (the c) = tc_Mode choice \<and>
     (tc_Mode choice = ToolChoiceNamed \<longrightarrow> wh_Name (the c) = tc_Name choice)"
  "\<not> tools \<Longrightarrow> translate_choice tools choice = Inr c \<Longrightarrow> c = None \<and> tc_Mode choice \<noteq> ToolChoiceRequired"
  "(\<exists>c. translate_choice tools choice = Inr c) \<longleftrightarrow>
     (if tools then \<forall>s. tc_Mode choice \<noteq> ToolChoiceOther s else tc_Mode choice \<noteq> ToolChoiceRequired)"
  by (auto simp: translate_choice_def choice_read_def translation_error_def errors_Is_def
      split: if_splits ToolChoiceMode.splits)

text \<open>
  [C18] The Anthropic translation loses and invents nothing. A request is refused, with
  \<open>ErrTranslation\<close>, exactly when it is not a supported one; otherwise the wire request, read back,
  is the request: the same model, the texts of the leading system messages in order, every other
  message in order with the same speaker and the same texts, calls and results, the same tools,
  choice and output schema, and the requested or the default token limit.
\<close>

theorem translateRequest_faithful:
  "case translateRequest provider r of
     Inl e \<Rightarrow> errors_Is e AnthropicErrTranslation \<and> \<not> supported provider r
   | Inr w \<Rightarrow> supported provider r \<and> faithful provider r w"
proof (cases "ModelRequest_Validate r = None \<and> mr_Provider (mq_Model r) = ap_name provider")
  case False
  then show ?thesis
    by (auto simp: translateRequest_def Let_def supported_def translation_error_def errors_Is_def split: option.splits)
next
  case valid: True
  then have known: "\<forall>s. tc_Mode (mq_ToolChoice r) \<noteq> ToolChoiceOther s"
    by (auto simp: ModelRequest_Validate_def)
  show ?thesis
  proof (cases "translate_messages False (mq_Messages r)")
    case (Inl e)
    have "\<not> supported provider r"
      using messages_said(1) [of "mq_Messages r"] Inl by (auto simp: supported_def)
    with valid Inl translate_messages_error [OF Inl] show ?thesis
      by (simp add: translateRequest_def Let_def)
  next
    case (Inr x)
    obtain system messages where x: "x = (system, messages)" by fastforce
    note said = messages_said(2) [OF Inr [unfolded x]]
    have "length messages = length (dropWhile from_system (mq_Messages r))"
      using arg_cong [OF said [THEN conjunct2], of length] by simp
    then have empty: "messages = [] \<longleftrightarrow> dropWhile from_system (mq_Messages r) = []"
      by (metis length_0_conv)
    have spoken: "(\<forall>m\<in>set (mq_Messages r). spoken m) \<and>
        (\<forall>m\<in>set (dropWhile from_system (mq_Messages r)). \<not> from_system m)"
      using messages_said(1) Inr by blast
    show ?thesis
    proof (cases "translate_choice (mq_Tools r \<noteq> []) (mq_ToolChoice r)")
      case choice: (Inl e)
      with known translate_choice_read(4) [of "mq_Tools r \<noteq> []" "mq_ToolChoice r"]
      have "mq_Tools r = [] \<and> tc_Mode (mq_ToolChoice r) = ToolChoiceRequired" by (auto split: if_splits)
      with valid Inr x empty choice translate_choice_read(1) [OF choice] show ?thesis
        by (auto simp: translateRequest_def supported_def Let_def translation_error_def errors_Is_def)
    next
      case choice: (Inr c)
      have "supported provider r \<longleftrightarrow> messages \<noteq> []"
        unfolding supported_def using valid spoken empty translate_choice_read(3) [OF _ choice] by blast
      moreover have "case c of None \<Rightarrow> mq_Tools r = []
        | Some w \<Rightarrow> mq_Tools r \<noteq> [] \<and> choice_read w = tc_Mode (mq_ToolChoice r) \<and>
            (tc_Mode (mq_ToolChoice r) = ToolChoiceNamed \<longrightarrow> wh_Name w = tc_Name (mq_ToolChoice r))"
        using translate_choice_read(2,3) [OF _ choice] by (cases "mq_Tools r = []") (auto split: option.splits)
      ultimately show ?thesis
        using valid Inr x choice said
        by (simp add: translateRequest_def Let_def faithful_def translation_error_def errors_Is_def
            option.map_comp comp_def)
    qed
  qed
qed

section \<open>The contract\<close>

definition anthropic_made :: "bool \<Rightarrow> anthropicProvider \<Rightarrow> bool" where
  "anthropic_made insecure p \<longleftrightarrow>
     (\<exists>Parse config. Anthropic_New Parse config = Inr p \<and> ac_AllowInsecureHTTP config = insecure)"

lemma Anthropic_New_Inr:
  assumes "Anthropic_New Parse config = Inr p"
  shows "\<not> untrimmed (ap_name p)" "base_ok (ac_AllowInsecureHTTP config) (ap_baseURL p)" "single_line (ap_apiVersion p)"
    "ap_authMode p \<in> {AuthBearer, AuthAPIKey}" "1 \<le> ap_defaultOutputTokens p" "1 \<le> ap_maxBodyBytes p"
    "1 \<le> ap_maxEventBytes p" "1 \<le> ap_maxModelPages p"
  using assms
  by (auto simp: Anthropic_New_def Let_def untrimmed_def base_ok_def single_line_def
      split: option.splits sum.splits)

lemma Anthropic_newRequest_confined:
  assumes "anthropic_made insecure p" "Anthropic_newRequest p x method resource query body = Inr h"
  shows "confined (ap_baseURL p) h"
proof -
  obtain Parse config where "Anthropic_New Parse config = Inr p" using assms(1) by (auto simp: anthropic_made_def)
  note made = Anthropic_New_Inr [OF this]
  show ?thesis using assms(2) made(2,3)
    by (auto simp: Anthropic_newRequest_def confined_def base_ok_def Let_def Header_Set_def
        split: option.splits if_splits dest!: credential_single_line)
qed

lemma page_descriptor_ref:
  "mr_Model (md_Ref (page_descriptor p m)) = pm_ID m" "mr_Provider (md_Ref (page_descriptor p m)) = ap_name p"
  by (simp_all add: page_descriptor_def Let_def)

lemma models_loop_sent:
  assumes "anthropic_made insecure p"
  shows "models_loop decode p xs left seen cursors after = (r, sent) \<Longrightarrow>
    length sent \<le> left \<and> (\<forall>h\<in>set sent. confined (ap_baseURL p) h)"
proof (induction left arbitrary: xs seen cursors after r sent)
  case (Suc left)
  from Suc.prems consider (none) "sent = []" | (one) h where "sent = [h]"
      "Anthropic_newRequest p (xs 0) ''GET'' ''models'' (page_query after) [] = Inr h"
    | (more) h and page :: modelPage and seen' r' rest where "sent = h # rest"
      "Anthropic_newRequest p (xs 0) ''GET'' ''models'' (page_query after) [] = Inr h"
      "models_loop decode p (\<lambda>i. xs (Suc i)) left seen' (pg_LastID page # cursors) (pg_LastID page) = (r', rest)"
    by (auto split: sum.splits prod.splits if_splits)
  then show ?case
  proof cases
    case (more h page seen' r' rest)
    with Suc.IH [OF more(3)] Anthropic_newRequest_confined [OF assms] show ?thesis by auto
  qed (use Anthropic_newRequest_confined [OF assms] in auto)
qed simp

lemma models_loop_catalogue:
  "models_loop decode p xs left seen cursors after = (Inr ds, sent) \<Longrightarrow>
    catalogue (ap_name p) ds \<and> (mr_Model \<circ> md_Ref) ` set ds \<inter> set seen = {}"
proof (induction left arbitrary: xs seen cursors after ds sent)
  case (Suc left)
  from Suc.prems consider (last) page :: modelPage and seen' where
      "add_models pm_ID (page_descriptor p) seen (pg_Data page) = Inr (seen', ds)"
    | (more) page :: modelPage and seen' models rest sent' where
      "add_models pm_ID (page_descriptor p) seen (pg_Data page) = Inr (seen', models)" "ds = models @ rest"
      "models_loop decode p (\<lambda>i. xs (Suc i)) left seen' (pg_LastID page # cursors) (pg_LastID page) = (Inr rest, sent')"
    by (auto split: sum.splits prod.splits if_splits)
  then show ?case
  proof cases
    case last
    from add_models_Inr [OF last page_descriptor_ref] show ?thesis by blast
  next
    case more
    with Suc.IH [OF more(3)] add_models_Inr [OF more(1) page_descriptor_ref] show ?thesis
      by (auto simp: catalogue_def)
  qed
qed simp

lemma Anthropic_Stream_sent:
  assumes "anthropic_made insecure p" "Anthropic_Stream Marshal p x q = (r, sent)"
  shows "length sent \<le> 1 \<and> (\<forall>h\<in>set sent. confined (ap_baseURL p) h)"
proof -
  from assms(2) consider "sent = []" | h body where
    "Anthropic_newRequest p x ''POST'' ''messages'' [] body = Inr h"
    "sent = [h\<lparr>hr_Header := Header_Set ''Accept'' ''text/event-stream''
       (Header_Set ''Content-Type'' ''application/json'' (hr_Header h))\<rparr>]"
    by (auto simp: Anthropic_Stream_def Let_def split: sum.splits)
  then show ?thesis
  proof cases
    case 2
    with confined_stream_headers [OF Anthropic_newRequest_confined [OF assms(1) 2(1)]] show ?thesis by simp
  qed simp
qed

interpretation anthropic_provider: http_provider ap_name ap_baseURL
  "\<lambda>p x. Anthropic_Models decode p (fst x) (snd x)" "Anthropic_Stream Marshal" anthropic_made
  for decode Marshal
proof
  show "\<not> untrimmed (ap_name p)" if "anthropic_made insecure p" for insecure p
    using that Anthropic_New_Inr(1) by (auto simp: anthropic_made_def)
  show "base_ok insecure (ap_baseURL p)" if "anthropic_made insecure p" for insecure p
    using that Anthropic_New_Inr(2) by (auto simp: anthropic_made_def)
  show "catalogue (ap_name p) ds" if "Anthropic_Models decode p (fst x) (snd x) = (Inr ds, sent)"
    for p ds sent and x :: "error option \<times> (nat \<Rightarrow> exchange)"
    using that models_loop_catalogue [of decode p "snd x"] by (auto simp: Anthropic_Models_def split: option.splits)
  show "\<forall>h\<in>set sent. confined (ap_baseURL p) h"
    if "anthropic_made insecure p" "Anthropic_Models decode p (fst x) (snd x) = (r, sent)"
    for insecure p r sent and x :: "error option \<times> (nat \<Rightarrow> exchange)"
    using that models_loop_sent [OF that(1)] by (auto simp: Anthropic_Models_def split: option.splits)
  show "\<forall>h\<in>set sent. confined (ap_baseURL p) h"
    if "anthropic_made insecure p" "Anthropic_Stream Marshal p t q = (r', sent)" for insecure p t q r' sent
    using Anthropic_Stream_sent [OF that] by blast
qed

end
