(* ===== verification/OpenAIProvider.thy ===== *)
theory OpenAIProvider
  imports Http OpenAIProps
begin

text \<open>
  The provider for OpenAI-compatible endpoints (\<open>src/provider/openaicompat/translate.go\<close> and
  \<open>provider.go\<close>): the translation of a model request, the construction of a provider, the discovery of
  its models and the opening of a stream.
\<close>

section \<open>The wire format\<close>

record chatToolFunction =
  cf_Name :: string
  cf_Description :: string
  cf_Parameters :: bytes
  cf_Arguments :: string
  cf_Strict :: bool

record chatToolCall =
  ct_ID :: string
  ct_Type :: string
  ct_Function :: chatToolFunction

record chatMessage =
  ch_Role :: string
  ch_Content :: "string option"
  ch_ToolCalls :: "chatToolCall list"
  ch_ToolCallID :: string

record chatTool =
  cl_Type :: string
  cl_Function :: chatToolFunction

text \<open>The field \<open>ToolChoice\<close> holds a string or a \<open>namedToolChoice\<close>.\<close>

datatype chatToolChoice = ChoiceMode string | ChoiceNamed string string

record chatResponseFormat =
  rf_Type :: string
  rf_Name :: string
  rf_Schema :: bytes
  rf_Strict :: bool

record chatRequest =
  cq_Model :: string
  cq_Messages :: "chatMessage list"
  cq_Tools :: "chatTool list"
  cq_ToolChoice :: chatToolChoice
  cq_ResponseFormat :: "chatResponseFormat option"
  cq_MaxTokens :: "int option"
  cq_MaxCompletionTokens :: "int option"
  cq_Stream :: bool
  cq_IncludeUsage :: bool

definition zero_function :: chatToolFunction where
  "zero_function = \<lparr>cf_Name = [], cf_Description = [], cf_Parameters = [], cf_Arguments = [], cf_Strict = False\<rparr>"

definition zero_message :: chatMessage where
  "zero_message = \<lparr>ch_Role = [], ch_Content = None, ch_ToolCalls = [], ch_ToolCallID = []\<rparr>"

section \<open>Translation\<close>

definition chat_translation_error :: "string \<Rightarrow> error" where
  "chat_translation_error msg = Error [OpenAIErrTranslation] msg"

fun textOnlyContent :: "ContentPart list \<Rightarrow> error + string" where
  "textOnlyContent [] = Inr []"
| "textOnlyContent (part # parts) =
     (if cp_Type part \<noteq> ContentText then Inl (errorf ''content type is unsupported'')
      else sum_bind (textOnlyContent parts) (\<lambda>content. Inr (cp_Text part @ content)))"

text \<open>The loop of \<open>translateAssistant\<close>: the text so far, whether there was one, and the calls.\<close>

fun assistant_parts ::
  "ContentPart list \<Rightarrow> bool \<Rightarrow> string \<Rightarrow> chatToolCall list \<Rightarrow> error + (bool \<times> string \<times> chatToolCall list)" where
  "assistant_parts [] hasText content calls = Inr (hasText, content, calls)"
| "assistant_parts (part # parts) hasText content calls =
     (case cp_Type part of
        ContentText \<Rightarrow> assistant_parts parts True (content @ cp_Text part) calls
      | ContentToolCall \<Rightarrow>
          assistant_parts parts hasText content
            (calls @ [\<lparr>ct_ID = cp_ToolCallID part, ct_Type = ''function'',
               ct_Function = zero_function\<lparr>cf_Name := cp_ToolName part, cf_Arguments := cp_JSON part\<rparr>\<rparr>])
      | _ \<Rightarrow> Inl (errorf ''assistant content type is unsupported''))"

definition translateAssistant :: "ContentPart list \<Rightarrow> error + chatMessage" where
  "translateAssistant parts =
     sum_bind (assistant_parts parts False [] []) (\<lambda>(hasText, content, calls).
       let result = zero_message\<lparr>ch_Role := ''assistant'', ch_ToolCalls := calls,
             ch_Content := (if hasText then Some content else None)\<rparr>
       in if ch_Content result = None \<and> ch_ToolCalls result = []
          then Inl (errorf ''assistant message has no translatable content'') else Inr result)"

record toolGroup =
  gr_id :: string
  gr_content :: string
  gr_parts :: nat

text \<open>
  One part of a tool message. The groups are pointers shared between the list and the map by
  call ID, so the list alone says what both hold: a write to the group of an ID changes its element.
\<close>

definition add_result :: "ContentPart \<Rightarrow> toolGroup list \<Rightarrow> error + toolGroup list" where
  "add_result part groups =
     (if cp_ToolCallID part = [] then Inl (errorf ''tool result content has no call ID'')
      else
        let groups = (if cp_ToolCallID part \<in> gr_id ` set groups then groups
              else groups @ [\<lparr>gr_id = cp_ToolCallID part, gr_content = [], gr_parts = 0\<rparr>]);
            written = (\<lambda>content. map (\<lambda>g.
              if gr_id g = cp_ToolCallID part
              then g\<lparr>gr_content := (if gr_parts g > 0 then gr_content g @ [newline] else gr_content g) @ content,
                     gr_parts := Suc (gr_parts g)\<rparr> else g) groups)
        in case cp_Type part of
             ContentToolResult \<Rightarrow>
               if cp_JSON part = [] then Inl (errorf ''tool result has no JSON content'') else Inr (written (cp_JSON part))
           | ContentText \<Rightarrow> Inr (written (cp_Text part))
           | _ \<Rightarrow> Inl (errorf ''tool result content type is unsupported''))"

fun add_results :: "ContentPart list \<Rightarrow> toolGroup list \<Rightarrow> error + toolGroup list" where
  "add_results [] groups = Inr groups"
| "add_results (part # parts) groups = sum_bind (add_result part groups) (add_results parts)"

definition translateToolResults :: "ContentPart list \<Rightarrow> error + chatMessage list" where
  "translateToolResults parts =
     sum_bind (add_results parts []) (\<lambda>groups.
       Inr (map (\<lambda>current. zero_message\<lparr>ch_Role := ''tool'', ch_ToolCallID := gr_id current,
         ch_Content := Some (gr_content current)\<rparr>) groups))"

definition as_chat_translation :: "error + 'a \<Rightarrow> error + 'a" where
  "as_chat_translation m =
     (case m of Inl e \<Rightarrow> Inl (chat_translation_error (''message: '' @ detail e)) | Inr x \<Rightarrow> Inr x)"

lemma as_chat_translation_Inr [simp]: "as_chat_translation m = Inr x \<longleftrightarrow> m = Inr x"
  by (simp add: as_chat_translation_def split: sum.split)

definition role_text :: "MessageRole \<Rightarrow> string" where
  "role_text role =
     (case role of RoleSystem \<Rightarrow> ''system'' | RoleUser \<Rightarrow> ''user'' | RoleAssistant \<Rightarrow> ''assistant'' | RoleTool \<Rightarrow> ''tool''
      | RoleOther s \<Rightarrow> s)"

fun translateMessages :: "Message list \<Rightarrow> error + chatMessage list" where
  "translateMessages [] = Inr []"
| "translateMessages (message # rest) =
     sum_bind
       (case mg_Role message of
          RoleAssistant \<Rightarrow> as_chat_translation (sum_bind (translateAssistant (mg_Content message)) (\<lambda>m. Inr [m]))
        | RoleTool \<Rightarrow> as_chat_translation (translateToolResults (mg_Content message))
        | RoleOther _ \<Rightarrow> Inl (chat_translation_error ''message has unsupported role'')
        | role \<Rightarrow>
            as_chat_translation (sum_bind (textOnlyContent (mg_Content message)) (\<lambda>content.
              Inr [zero_message\<lparr>ch_Role := role_text role, ch_Content := Some content\<rparr>])))
       (\<lambda>translated. sum_bind (translateMessages rest) (\<lambda>messages. Inr (translated @ messages)))"

datatype TokenLimitField = TokenLimitUnset | TokenLimitMaxTokens | TokenLimitMaxCompletionTokens | TokenLimitOther string

record openaiProvider =
  op_name :: string
  op_baseURL :: url
  op_tokenSource :: "TokenSource option"
  op_defaultCapabilities :: ModelCapabilities
  op_labels :: "(string \<times> string) list option"
  op_tokenLimitField :: TokenLimitField
  op_maxBodyBytes :: int
  op_maxEventBytes :: int

definition chat_choice :: "ToolChoice \<Rightarrow> error + chatToolChoice" where
  "chat_choice choice =
     (case tc_Mode choice of
        ToolChoiceAuto \<Rightarrow> Inr (ChoiceMode ''auto'')
      | ToolChoiceNone \<Rightarrow> Inr (ChoiceMode ''none'')
      | ToolChoiceRequired \<Rightarrow> Inr (ChoiceMode ''required'')
      | ToolChoiceNamed \<Rightarrow> Inr (ChoiceNamed ''function'' (tc_Name choice))
      | ToolChoiceOther _ \<Rightarrow> Inl (chat_translation_error ''unknown tool choice''))"

definition chat_format :: "OutputConstraint option \<Rightarrow> error + chatResponseFormat option" where
  "chat_format out =
     (case out of
        None \<Rightarrow> Inr None
      | Some out \<Rightarrow>
          if untrimmed (oc_Name out)
          then Inl (chat_translation_error ''output schema name is empty or has surrounding whitespace'')
          else Inr (Some \<lparr>rf_Type = ''json_schema'', rf_Name = oc_Name out, rf_Schema = [] @ oc_Schema out,
                          rf_Strict = oc_Strict out\<rparr>))"

definition chat_translateRequest :: "openaiProvider \<Rightarrow> ModelRequest \<Rightarrow> error + chatRequest" where
  "chat_translateRequest provider request =
     (let request = CloneModelRequest request in
      case ModelRequest_Validate request of
        Some e \<Rightarrow> Inl (chat_translation_error (detail e))
      | None \<Rightarrow>
          if mr_Provider (mq_Model request) \<noteq> op_name provider
          then Inl (chat_translation_error ''model provider does not match'')
          else
            sum_bind (translateMessages (mq_Messages request)) (\<lambda>messages.
            sum_bind (chat_choice (mq_ToolChoice request)) (\<lambda>choice.
            sum_bind (chat_format (mq_Output request)) (\<lambda>format.
              let limit = (if mq_MaxOutputTokens request > 0 then Some (mq_MaxOutputTokens request) else None);
                  completion = (op_tokenLimitField provider = TokenLimitMaxCompletionTokens)
              in Inr \<lparr>cq_Model = mr_Model (mq_Model request), cq_Messages = messages,
                   cq_Tools = map (\<lambda>d. \<lparr>cl_Type = ''function'', cl_Function = zero_function\<lparr>cf_Name := td_Name d,
                     cf_Description := td_Description d, cf_Parameters := [] @ td_InputSchema d,
                     cf_Strict := td_Strict d\<rparr>\<rparr>) (mq_Tools request),
                   cq_ToolChoice = choice, cq_ResponseFormat = format,
                   cq_MaxTokens = (if completion then None else limit),
                   cq_MaxCompletionTokens = (if completion then limit else None),
                   cq_Stream = True, cq_IncludeUsage = True\<rparr>))))"

section \<open>The provider\<close>

record openaiConfig =
  oa_Name :: string
  oa_BaseURL :: string
  oa_AllowInsecureHTTP :: bool
  oa_TokenSource :: "TokenSource option"
  oa_DefaultCapabilities :: ModelCapabilities
  oa_Labels :: "(string \<times> string) list option"
  oa_TokenLimitField :: TokenLimitField
  oa_MaxBodyBytes :: int
  oa_MaxEventBytes :: int

definition chat_config_error :: "string \<Rightarrow> error" where
  "chat_config_error msg = Error [OpenAIErrConfiguration] msg"

definition chat_refuse :: "bool \<Rightarrow> string \<Rightarrow> error option" where
  "chat_refuse bad msg = (if bad then Some (chat_config_error msg) else None)"

lemma chat_refuse_None [simp]: "chat_refuse bad msg = None \<longleftrightarrow> \<not> bad"
  by (simp add: chat_refuse_def)

text \<open>The errors of the descriptor are wrapped beside the configuration error.\<close>

definition OpenAI_New :: "(string \<Rightarrow> error + url) \<Rightarrow> openaiConfig \<Rightarrow> error + openaiProvider" where
  "OpenAI_New Parse config =
     (let name = TrimSpace (oa_Name config) in
      case first_error
        [chat_refuse (name = [] \<or> name \<noteq> oa_Name config) ''provider name is empty or has surrounding whitespace'',
         chat_refuse (TrimSpace (oa_BaseURL config) = [] \<or> oa_BaseURL config \<noteq> TrimSpace (oa_BaseURL config))
           ''base URL is empty or has surrounding whitespace''] of
        Some e \<Rightarrow> Inl e
      | None \<Rightarrow>
          (case Parse (oa_BaseURL config) of
             Inl e \<Rightarrow> Inl (chat_config_error (''base URL: '' @ detail e))
           | Inr baseURL \<Rightarrow>
               let capabilities = (oa_DefaultCapabilities config)\<lparr>mc_Modalities := [] @ mc_Modalities (oa_DefaultCapabilities config)\<rparr>;
                   capabilities = (if mc_ToolUse capabilities = ToolUseOther [] then capabilities\<lparr>mc_ToolUse := ToolUseNone\<rparr>
                     else capabilities);
                   descriptor = \<lparr>md_Ref = \<lparr>mr_Provider = name, mr_Model = ''configured''\<rparr>,
                     md_Capabilities = capabilities, md_Labels = cloneLabels (oa_Labels config)\<rparr>;
                   field = (if oa_TokenLimitField config = TokenLimitUnset then TokenLimitMaxTokens
                     else oa_TokenLimitField config);
                   maxBodyBytes = or_default (oa_MaxBodyBytes config) (4 * 2 ^ 20);
                   maxEventBytes = or_default (oa_MaxEventBytes config) (2 ^ 20)
               in case first_error
                 [chat_refuse (url_Scheme baseURL = [] \<or> url_Host baseURL = [] \<or> url_Opaque baseURL \<noteq> [] \<or> url_User baseURL \<or>
                          url_RawQuery baseURL \<noteq> [] \<or> url_Fragment baseURL \<noteq> [] \<or> url_RawPath baseURL \<noteq> [])
                    ''base URL must be absolute without user information, query, or fragment'',
                  (if url_Scheme baseURL = ''https'' then None
                   else if url_Scheme baseURL = ''http''
                   then chat_refuse (\<not> oa_AllowInsecureHTTP config) ''plain HTTP requires explicit opt-in''
                   else Some (chat_config_error ''base URL scheme must be HTTPS or HTTP'')),
                  map_option (wrap_sentinel OpenAIErrConfiguration) (ModelDescriptor_Validate descriptor),
                  chat_refuse (field \<noteq> TokenLimitMaxTokens \<and> field \<noteq> TokenLimitMaxCompletionTokens) ''unknown token-limit field'',
                  chat_refuse (maxBodyBytes < 1) ''maximum body bytes must be positive'',
                  chat_refuse (maxEventBytes < 1) ''maximum event bytes must be positive''] of
                 Some e \<Rightarrow> Inl e
               | None \<Rightarrow>
                   Inr \<lparr>op_name = name, op_baseURL = baseURL\<lparr>url_Path := TrimSuffix (url_Path baseURL) ''/''\<rparr>,
                        op_tokenSource = oa_TokenSource config, op_defaultCapabilities = md_Capabilities descriptor,
                        op_labels = md_Labels descriptor, op_tokenLimitField = field, op_maxBodyBytes = maxBodyBytes,
                        op_maxEventBytes = maxEventBytes\<rparr>))"

definition OpenAI_newRequest ::
  "openaiProvider \<Rightarrow> exchange \<Rightarrow> string \<Rightarrow> string \<Rightarrow> bytes \<Rightarrow> error + httpRequest" where
  "OpenAI_newRequest provider x method resource body =
     (case first_error [xc_ctx x 0, xc_build x] of
        Some e \<Rightarrow> Inl e
      | None \<Rightarrow>
          let request = \<lparr>hr_Method = method,
                hr_URL = endpoint (op_baseURL provider) resource (url_RawQuery (op_baseURL provider)),
                hr_Header = [], hr_Body = body\<rparr>
          in case op_tokenSource provider of
               None \<Rightarrow> Inr request
             | Some source \<Rightarrow>
                 sum_bind (credential source (xc_ctx x)) (\<lambda>token.
                   Inr (request\<lparr>hr_Header := Header_Set ''Authorization'' (''Bearer '' @ token) (hr_Header request)\<rparr>)))"

definition chat_descriptor :: "openaiProvider \<Rightarrow> string \<Rightarrow> ModelDescriptor" where
  "chat_descriptor provider model =
     \<lparr>md_Ref = \<lparr>mr_Provider = op_name provider, mr_Model = model\<rparr>,
      md_Capabilities = cloneCapabilities (op_defaultCapabilities provider), md_Labels = cloneLabels (op_labels provider)\<rparr>"

text \<open>
  The response is the list of the identifiers in \<open>data\<close>. The body is closed by a deferred call
  whose error is dropped.
\<close>

definition OpenAI_Models ::
  "(bytes \<Rightarrow> error + (string list \<times> bytes)) \<Rightarrow> openaiProvider \<Rightarrow> error option \<Rightarrow> exchange
    \<Rightarrow> (error + ModelDescriptor list) \<times> httpRequest list" where
  "OpenAI_Models decode provider ctxErr x =
     (case sum_bind (case ctxErr of Some e \<Rightarrow> Inl e | None \<Rightarrow> Inr ()) (\<lambda>_.
           OpenAI_newRequest provider x ''GET'' ''models'' []) of
        Inl e \<Rightarrow> (Inl e, [])
      | Inr request \<Rightarrow>
          (sum_bind (send x request) (\<lambda>response.
           sum_bind (wrapped ''model discovery response'' (decodeBoundedJSON decode response (op_maxBodyBytes provider))) (\<lambda>data.
           sum_bind (add_models (\<lambda>model. model) (chat_descriptor provider) [] data) (\<lambda>(seen, descriptors).
           Inr descriptors))), [request]))"

definition chat_encode :: "(chatRequest \<Rightarrow> error + bytes) \<Rightarrow> chatRequest \<Rightarrow> error + bytes" where
  "chat_encode Marshal payload =
     (case Marshal payload of Inl e \<Rightarrow> Inl (chat_translation_error (''encode request: '' @ detail e)) | Inr body \<Rightarrow> Inr body)"

definition OpenAI_Stream ::
  "(chatRequest \<Rightarrow> error + bytes) \<Rightarrow> openaiProvider \<Rightarrow> error option \<Rightarrow> exchange \<Rightarrow> ModelRequest
    \<Rightarrow> (error + chatStream) \<times> httpRequest list" where
  "OpenAI_Stream Marshal provider ctxErr x request =
     (case sum_bind (case ctxErr of Some e \<Rightarrow> Inl e | None \<Rightarrow> Inr ()) (\<lambda>_.
           sum_bind (chat_translateRequest provider request) (\<lambda>payload.
           sum_bind (chat_encode Marshal payload) (\<lambda>body.
           OpenAI_newRequest provider x ''POST'' ''chat/completions'' body))) of
        Inl e \<Rightarrow> (Inl e, [])
      | Inr httpRequest \<Rightarrow>
          let httpRequest = httpRequest\<lparr>hr_Header := Header_Set ''Accept'' ''text/event-stream''
                (Header_Set ''Content-Type'' ''application/json'' (hr_Header httpRequest))\<rparr>
          in (sum_bind (send x httpRequest) (\<lambda>response.
                Inr (newChatStream (newSSEDecoder (rs_Body response) (rs_Failure response) (rs_Together response)
                  (op_maxEventBytes provider)) (rs_Close response))), [httpRequest]))"

section \<open>The translation as a specification\<close>

text \<open>What a part of a tool message contributes to the answer of its call.\<close>

definition result_part :: "ContentPart \<Rightarrow> bool" where
  "result_part p \<longleftrightarrow> cp_ToolCallID p \<noteq> [] \<and>
     (cp_Type p = ContentText \<or> cp_Type p = ContentToolResult \<and> cp_JSON p \<noteq> [])"

definition result_text :: "ContentPart \<Rightarrow> string" where
  "result_text p = (if cp_Type p = ContentText then cp_Text p else cp_JSON p)"

text \<open>The call IDs in the order of their first occurrence, and the answer of each call.\<close>

definition first_ids :: "string list \<Rightarrow> string list" where
  "first_ids ids = rev (remdups (rev ids))"

definition groups_of :: "ContentPart list \<Rightarrow> toolGroup list" where
  "groups_of ps = map (\<lambda>i. let own = filter (\<lambda>p. cp_ToolCallID p = i) ps in
     \<lparr>gr_id = i, gr_content = join_lines (map result_text own), gr_parts = length own\<rparr>)
     (first_ids (map cp_ToolCallID ps))"

definition chat_form :: "Message \<Rightarrow> chatMessage list" where
  "chat_form m =
     (let texts = filter (\<lambda>p. cp_Type p = ContentText) (mg_Content m);
          calls = filter (\<lambda>p. cp_Type p = ContentToolCall) (mg_Content m) in
      case mg_Role m of
        RoleAssistant \<Rightarrow>
          [\<lparr>ch_Role = ''assistant'', ch_Content = (if texts = [] then None else Some (concat (map cp_Text texts))),
            ch_ToolCalls = map (\<lambda>p. \<lparr>ct_ID = cp_ToolCallID p, ct_Type = ''function'',
              ct_Function = zero_function\<lparr>cf_Name := cp_ToolName p, cf_Arguments := cp_JSON p\<rparr>\<rparr>) calls,
            ch_ToolCallID = []\<rparr>]
      | RoleTool \<Rightarrow>
          map (\<lambda>i. \<lparr>ch_Role = ''tool'',
            ch_Content = Some (join_lines (map result_text (filter (\<lambda>p. cp_ToolCallID p = i) (mg_Content m)))),
            ch_ToolCalls = [], ch_ToolCallID = i\<rparr>) (first_ids (map cp_ToolCallID (mg_Content m)))
      | role \<Rightarrow>
          [\<lparr>ch_Role = role_text role, ch_Content = Some (concat (map cp_Text (mg_Content m))),
            ch_ToolCalls = [], ch_ToolCallID = []\<rparr>])"

definition chat_spoken :: "Message \<Rightarrow> bool" where
  "chat_spoken m \<longleftrightarrow>
     (case mg_Role m of
        RoleAssistant \<Rightarrow> mg_Content m \<noteq> [] \<and> (\<forall>p\<in>set (mg_Content m). cp_Type p \<in> {ContentText, ContentToolCall})
      | RoleTool \<Rightarrow> (\<forall>p\<in>set (mg_Content m). result_part p)
      | RoleOther _ \<Rightarrow> False
      | _ \<Rightarrow> (\<forall>p\<in>set (mg_Content m). cp_Type p = ContentText))"

lemma first_ids_snoc: "first_ids (ids @ [i]) = (if i \<in> set ids then first_ids ids else first_ids ids @ [i])"
  by (simp add: first_ids_def)

lemma set_first_ids [simp]: "set (first_ids ids) = set ids"
  by (simp add: first_ids_def)

lemma join_lines_snoc: "join_lines (ls @ [l]) = (if ls = [] then l else join_lines ls @ newline # l)"
  by (cases ls) (simp_all add: join_lines_def)

lemma add_result_groups:
  "add_result p (groups_of ps) = Inr gs \<longleftrightarrow> result_part p \<and> gs = groups_of (ps @ [p])"
proof (cases "result_part p")
  case False
  then show ?thesis by (auto simp: add_result_def result_part_def Let_def split: ContentType.splits)
next
  case True
  let ?i = "cp_ToolCallID p"
  let ?old = "if ?i \<in> gr_id ` set (groups_of ps) then groups_of ps
    else groups_of ps @ [\<lparr>gr_id = ?i, gr_content = [], gr_parts = 0\<rparr>]"
  have ids: "gr_id ` set (groups_of ps) = cp_ToolCallID ` set ps"
    by (simp add: groups_of_def Let_def image_image)
  have written: "map (\<lambda>g. if gr_id g = ?i
        then g\<lparr>gr_content := (if gr_parts g > 0 then gr_content g @ [newline] else gr_content g) @ result_text p,
               gr_parts := Suc (gr_parts g)\<rparr> else g) ?old = groups_of (ps @ [p])"
  proof (cases "?i \<in> cp_ToolCallID ` set ps")
    case old: True
    then show ?thesis
      unfolding ids by (auto simp: groups_of_def Let_def first_ids_snoc join_lines_snoc filter_empty_conv)
  next
    case new: False
    then have none: "filter (\<lambda>q. cp_ToolCallID q = ?i) ps = []"
      by (metis (mono_tags, lifting) filter_False imageI)
    show ?thesis
      unfolding ids using new none
      by (auto simp: groups_of_def Let_def first_ids_snoc join_lines_def)
  qed
  from True consider "cp_Type p = ContentText" "result_text p = cp_Text p"
    | "cp_Type p = ContentToolResult" "result_text p = cp_JSON p" "cp_JSON p \<noteq> []"
    by (auto simp: result_part_def result_text_def)
  then show ?thesis
  proof cases
    case 1
    have "add_result p (groups_of ps) = Inr (groups_of (ps @ [p]))"
      unfolding add_result_def Let_def written [unfolded 1(2)] using True 1(1) by (simp add: result_part_def)
    with True show ?thesis by auto
  next
    case 2
    have "add_result p (groups_of ps) = Inr (groups_of (ps @ [p]))"
      unfolding add_result_def Let_def written [unfolded 2(2)] using True 2(1,3) by (simp add: result_part_def)
    with True show ?thesis by auto
  qed
qed

lemma add_results_groups:
  "add_results qs (groups_of ps) = Inr gs \<longleftrightarrow> (\<forall>p\<in>set qs. result_part p) \<and> gs = groups_of (ps @ qs)"
  by (induction qs arbitrary: ps) (auto simp: add_result_groups)

lemma translateToolResults_Inr:
  "translateToolResults ps = Inr ms \<longleftrightarrow> (\<forall>p\<in>set ps. result_part p) \<and>
     ms = map (\<lambda>i. \<lparr>ch_Role = ''tool'', ch_Content = Some (join_lines (map result_text (filter (\<lambda>p. cp_ToolCallID p = i) ps))),
            ch_ToolCalls = [], ch_ToolCallID = i\<rparr>) (first_ids (map cp_ToolCallID ps))"
proof -
  have "groups_of [] = []" by (simp add: groups_of_def first_ids_def)
  with add_results_groups [of ps "[]"] show ?thesis
    by (auto simp: translateToolResults_def groups_of_def Let_def zero_message_def)
qed

lemma textOnlyContent_Inr:
  "textOnlyContent ps = Inr t \<longleftrightarrow> (\<forall>p\<in>set ps. cp_Type p = ContentText) \<and> t = concat (map cp_Text ps)"
  by (induction ps arbitrary: t) auto

lemma assistant_parts_Inr:
  "assistant_parts ps has t cs = Inr x \<longleftrightarrow>
     (\<forall>p\<in>set ps. cp_Type p \<in> {ContentText, ContentToolCall}) \<and>
     x = (has \<or> filter (\<lambda>p. cp_Type p = ContentText) ps \<noteq> [],
          t @ concat (map cp_Text (filter (\<lambda>p. cp_Type p = ContentText) ps)),
          cs @ map (\<lambda>p. \<lparr>ct_ID = cp_ToolCallID p, ct_Type = ''function'',
              ct_Function = zero_function\<lparr>cf_Name := cp_ToolName p, cf_Arguments := cp_JSON p\<rparr>\<rparr>)
            (filter (\<lambda>p. cp_Type p = ContentToolCall) ps))"
  by (induction ps arbitrary: has t cs) (auto split: ContentType.splits)

lemma message_translated:
  "translateMessages [m] = Inr ws \<longleftrightarrow> chat_spoken m \<and> ws = chat_form m"
proof (cases "mg_Role m")
  case RoleAssistant
  have "filter (\<lambda>p. cp_Type p = ContentText) ps \<noteq> [] \<or> filter (\<lambda>p. cp_Type p = ContentToolCall) ps \<noteq> []"
    if "ps \<noteq> []" "\<forall>p\<in>set ps. cp_Type p \<in> {ContentText, ContentToolCall}" for ps
    using that by (cases ps) auto
  then show ?thesis using RoleAssistant
    by (auto simp: translateAssistant_def assistant_parts_Inr chat_spoken_def chat_form_def Let_def zero_message_def
        split: if_splits)
qed (auto simp: translateToolResults_Inr textOnlyContent_Inr chat_spoken_def chat_form_def Let_def zero_message_def)

lemma translateMessages_Cons:
  "translateMessages (m # ms) = sum_bind (translateMessages [m]) (\<lambda>w. sum_bind (translateMessages ms) (\<lambda>ws. Inr (w @ ws)))"
  by (cases "mg_Role m") (auto simp: as_chat_translation_def split: sum.split)

lemma translateMessages_Inr:
  "translateMessages ms = Inr ws \<longleftrightarrow> (\<forall>m\<in>set ms. chat_spoken m) \<and> ws = concat (map chat_form ms)"
proof (induction ms arbitrary: ws)
  case (Cons m ms)
  show ?case unfolding translateMessages_Cons [of m ms] sum_bind_Inr message_translated Cons.IH by auto
qed auto

lemma as_chat_translation_Inl: "as_chat_translation m = Inl e \<Longrightarrow> errors_Is e OpenAIErrTranslation"
  by (auto simp: as_chat_translation_def chat_translation_error_def errors_Is_def split: sum.splits)

lemma message_error: "translateMessages [m] = Inl e \<Longrightarrow> errors_Is e OpenAIErrTranslation"
  by (cases "mg_Role m")
     (auto simp: sum_bind_Inl chat_translation_error_def errors_Is_def dest: as_chat_translation_Inl [unfolded errors_Is_def])

lemma translateMessages_error: "translateMessages ms = Inl e \<Longrightarrow> errors_Is e OpenAIErrTranslation"
proof (induction ms)
  case (Cons m ms)
  then show ?case
    unfolding translateMessages_Cons [of m ms] sum_bind_Inl using message_error by auto
qed simp

definition chat_supported :: "openaiProvider \<Rightarrow> ModelRequest \<Rightarrow> bool" where
  "chat_supported provider r \<longleftrightarrow>
     ModelRequest_Validate r = None \<and> mr_Provider (mq_Model r) = op_name provider \<and>
     (\<forall>m\<in>set (mq_Messages r). chat_spoken m) \<and>
     (case mq_Output r of None \<Rightarrow> True | Some out \<Rightarrow> \<not> untrimmed (oc_Name out))"

definition chat_faithful :: "openaiProvider \<Rightarrow> ModelRequest \<Rightarrow> chatRequest \<Rightarrow> bool" where
  "chat_faithful provider r w \<longleftrightarrow>
     cq_Model w = mr_Model (mq_Model r) \<and> cq_Stream w \<and> cq_IncludeUsage w \<and>
     cq_Messages w = concat (map chat_form (mq_Messages r)) \<and>
     map (\<lambda>t. (cf_Name (cl_Function t), cf_Description (cl_Function t), cf_Parameters (cl_Function t),
       cf_Strict (cl_Function t))) (cq_Tools w) =
     map (\<lambda>t. (td_Name t, td_Description t, td_InputSchema t, td_Strict t)) (mq_Tools r) \<and>
     (case cq_ToolChoice w of
        ChoiceNamed ty n \<Rightarrow> tc_Mode (mq_ToolChoice r) = ToolChoiceNamed \<and> n = tc_Name (mq_ToolChoice r)
      | ChoiceMode s \<Rightarrow> (tc_Mode (mq_ToolChoice r), s) \<in>
          {(ToolChoiceAuto, ''auto''), (ToolChoiceNone, ''none''), (ToolChoiceRequired, ''required'')}) \<and>
     map_option (\<lambda>f. (rf_Name f, rf_Schema f, rf_Strict f)) (cq_ResponseFormat w) =
       map_option (\<lambda>out. (oc_Name out, oc_Schema out, oc_Strict out)) (mq_Output r) \<and>
     (if op_tokenLimitField provider = TokenLimitMaxCompletionTokens then cq_MaxTokens w = None
      else cq_MaxCompletionTokens w = None) \<and>
     (0 < mq_MaxOutputTokens r \<longrightarrow>
       (cq_MaxTokens w = Some (mq_MaxOutputTokens r) \<or> cq_MaxCompletionTokens w = Some (mq_MaxOutputTokens r)))"

text \<open>
  [C19] The OpenAI-compatible translation is its specification. A request is refused, with
  \<open>ErrTranslation\<close>, exactly when it is not a supported one; otherwise the messages sent are, in order,
  the form of each message: the joined texts of a user or system message, the joined texts and all
  calls of an assistant message, and for a tool message one answer per call ID, in the order of
  first occurrence, with all its parts joined by line feeds. Tools, choice, output schema and token
  limit are those of the request, the limit in the configured field only.
\<close>

theorem chat_translateRequest_faithful:
  "case chat_translateRequest provider r of
     Inl e \<Rightarrow> errors_Is e OpenAIErrTranslation \<and> \<not> chat_supported provider r
   | Inr w \<Rightarrow> chat_supported provider r \<and> chat_faithful provider r w"
proof (cases "ModelRequest_Validate r = None \<and> mr_Provider (mq_Model r) = op_name provider")
  case False
  then show ?thesis
    by (auto simp: chat_translateRequest_def Let_def chat_supported_def chat_translation_error_def errors_Is_def
        split: option.splits)
next
  case valid: True
  then have known: "\<forall>s. tc_Mode (mq_ToolChoice r) \<noteq> ToolChoiceOther s"
    by (auto simp: ModelRequest_Validate_def)
  show ?thesis
  proof (cases "translateMessages (mq_Messages r)")
    case (Inl e)
    with translateMessages_Inr [of "mq_Messages r"] have "\<not> chat_supported provider r"
      by (auto simp: chat_supported_def)
    with valid Inl translateMessages_error [OF Inl] show ?thesis
      by (simp add: chat_translateRequest_def Let_def)
  next
    case (Inr ws)
    then have ws: "\<forall>m\<in>set (mq_Messages r). chat_spoken m" "ws = concat (map chat_form (mq_Messages r))"
      by (simp_all add: translateMessages_Inr)
    obtain c where c: "chat_choice (mq_ToolChoice r) = Inr c" "case c of
        ChoiceNamed ty n \<Rightarrow> tc_Mode (mq_ToolChoice r) = ToolChoiceNamed \<and> n = tc_Name (mq_ToolChoice r)
      | ChoiceMode s \<Rightarrow> (tc_Mode (mq_ToolChoice r), s) \<in>
          {(ToolChoiceAuto, ''auto''), (ToolChoiceNone, ''none''), (ToolChoiceRequired, ''required'')}"
      using known by (cases "tc_Mode (mq_ToolChoice r)") (auto simp: chat_choice_def)
    show ?thesis
      using valid c(2)
      by (cases "mq_Output r") (auto simp: Inr [unfolded ws(2)] c(1) ws(1) chat_translateRequest_def Let_def chat_supported_def chat_faithful_def
          chat_format_def chat_translation_error_def errors_Is_def zero_function_def comp_def)
  qed
qed

section \<open>The contract\<close>

definition openai_made :: "bool \<Rightarrow> openaiProvider \<Rightarrow> bool" where
  "openai_made insecure p \<longleftrightarrow>
     (\<exists>Parse config. OpenAI_New Parse config = Inr p \<and> oa_AllowInsecureHTTP config = insecure)"

lemma OpenAI_New_Inr:
  assumes "OpenAI_New Parse config = Inr p"
  shows "\<not> untrimmed (op_name p)" "base_ok (oa_AllowInsecureHTTP config) (op_baseURL p)"
    "op_tokenLimitField p \<in> {TokenLimitMaxTokens, TokenLimitMaxCompletionTokens}" "1 \<le> op_maxBodyBytes p"
    "1 \<le> op_maxEventBytes p"
  using assms
  by (auto simp: OpenAI_New_def Let_def untrimmed_def base_ok_def split: option.splits sum.splits if_splits)

lemma OpenAI_newRequest_confined:
  assumes "openai_made insecure p" "OpenAI_newRequest p x method resource body = Inr h"
  shows "confined (op_baseURL p) h"
proof -
  have "\<not> url_User (op_baseURL p)"
    using assms(1) OpenAI_New_Inr(2) by (auto simp: openai_made_def base_ok_def)
  then show ?thesis using assms(2)
    by (auto simp: OpenAI_newRequest_def confined_def Let_def Header_Set_def
        split: option.splits dest!: credential_single_line)
qed

lemma OpenAI_Stream_sent:
  assumes "openai_made insecure p" "OpenAI_Stream Marshal p c x q = (r, sent)"
  shows "\<forall>h\<in>set sent. confined (op_baseURL p) h"
proof -
  from assms(2) consider "sent = []" | h body where
    "OpenAI_newRequest p x ''POST'' ''chat/completions'' body = Inr h"
    "sent = [h\<lparr>hr_Header := Header_Set ''Accept'' ''text/event-stream''
       (Header_Set ''Content-Type'' ''application/json'' (hr_Header h))\<rparr>]"
    by (auto simp: OpenAI_Stream_def Let_def split: sum.splits)
  then show ?thesis
  proof cases
    case 2
    with confined_stream_headers [OF OpenAI_newRequest_confined [OF assms(1) 2(1)]] show ?thesis by simp
  qed simp
qed

interpretation openai_provider: http_provider op_name op_baseURL
  "\<lambda>p x. OpenAI_Models decode p (fst x) (snd x)" "\<lambda>p x. OpenAI_Stream Marshal p (fst x) (snd x)" openai_made
  for decode Marshal
proof
  show "\<not> untrimmed (op_name p)" if "openai_made insecure p" for insecure p
    using that OpenAI_New_Inr(1) by (auto simp: openai_made_def)
  show "base_ok insecure (op_baseURL p)" if "openai_made insecure p" for insecure p
    using that OpenAI_New_Inr(2) by (auto simp: openai_made_def)
  show "catalogue (op_name p) ds" if "OpenAI_Models decode p (fst x) (snd x) = (Inr ds, sent)"
    for p ds sent and x :: "error option \<times> exchange"
    using that by (auto simp: OpenAI_Models_def chat_descriptor_def split: sum.splits option.splits
        intro!: add_models_Inr(1) [of "\<lambda>model. model" "chat_descriptor p"])
  show "\<forall>h\<in>set sent. confined (op_baseURL p) h"
    if "openai_made insecure p" "OpenAI_Models decode p (fst x) (snd x) = (r, sent)"
    for insecure p r sent and x :: "error option \<times> exchange"
    using that OpenAI_newRequest_confined [OF that(1)] by (auto simp: OpenAI_Models_def split: sum.splits option.splits)
  show "\<forall>h\<in>set sent. confined (op_baseURL p) h"
    if "openai_made insecure p" "OpenAI_Stream Marshal p (fst x) (snd x) q = (r', sent)"
    for insecure p q r' sent and x :: "error option \<times> exchange"
    using OpenAI_Stream_sent [OF that] .
qed

end
