(* ===== verification/Providers.thy ===== *)
theory Providers
  imports AnthropicProvider OpenAIProvider
begin

text \<open>
  The contract of the two providers from end to end, for providers that their constructors
  return: where their requests go, what their catalogues and streams satisfy, and concrete
  providers for both.
\<close>

text \<open>The descriptor a provider is in the catalogue check, with what \<open>Models\<close> has answered.\<close>

definition as_provider :: "string \<Rightarrow> error + ModelDescriptor list \<Rightarrow> Provider" where
  "as_provider name models = \<lparr>pv_Name = name, pv_Models = models, pv_Stream = (\<lambda>_. Fails (errorf ''not used''))\<rparr>"

lemma Anthropic_Stream_Inr:
  "Anthropic_Stream Marshal p x q = (Inr s, sent) \<Longrightarrow> \<exists>d c. s = newMessageStream d c"
  by (auto simp: Anthropic_Stream_def Let_def split: sum.splits)

lemma OpenAI_Stream_Inr:
  "OpenAI_Stream Marshal p c x q = (Inr s, sent) \<Longrightarrow> \<exists>d c. s = newChatStream d c"
  by (auto simp: OpenAI_Stream_def Let_def split: sum.splits)

lemma Anthropic_New_base:
  "Anthropic_New Parse config = Inr p \<Longrightarrow> \<exists>u. Parse (ac_BaseURL config) = Inr u \<and>
     ap_baseURL p = u\<lparr>url_Path := TrimSuffix (url_Path u) ''/''\<rparr>"
  by (auto simp: Anthropic_New_def Let_def split: option.splits sum.splits)

lemma OpenAI_New_base:
  "OpenAI_New Parse config = Inr p \<Longrightarrow> \<exists>u. Parse (oa_BaseURL config) = Inr u \<and>
     op_baseURL p = u\<lparr>url_Path := TrimSuffix (url_Path u) ''/''\<rparr>"
  by (auto simp: OpenAI_New_def Let_def split: option.splits sum.splits)

section \<open>Properties\<close>


text \<open>
  The OpenAI-compatible provider keeps the same contract, with a catalogue of one request.
\<close>

theorem openai_provider_contract:
  assumes "OpenAI_New Parse config = Inr p"
  shows "base_ok (oa_AllowInsecureHTTP config) (op_baseURL p) \<and>
    (\<exists>u. Parse (oa_BaseURL config) = Inr u \<and> op_baseURL p = u\<lparr>url_Path := TrimSuffix (url_Path u) ''/''\<rparr>) \<and>
    (\<forall>decode c x r sent. OpenAI_Models decode p c x = (r, sent) \<longrightarrow>
       length sent \<le> 1 \<and> (\<forall>h\<in>set sent. confined (op_baseURL p) h) \<and>
       (\<forall>ds. r = Inr ds \<longrightarrow> DiscoverModels background (Some (as_provider (op_name p) r)) = Inr ds)) \<and>
    (\<forall>Marshal c x q r sent. OpenAI_Stream Marshal p c x q = (r, sent) \<longrightarrow>
       (\<forall>h\<in>set sent. confined (op_baseURL p) h) \<and>
       (\<forall>s unmarshal envs es. r = Inr s \<longrightarrow>
          map (recv_reply (chat_Recv unmarshal) envs s) [0..<length es] = map Answers es \<longrightarrow>
          (\<exists>v. accept_all zero_validator es = Inr v)))"
proof (intro conjI allI impI)
  have made: "openai_made (oa_AllowInsecureHTTP config) p" using assms by (auto simp: openai_made_def)
  show "base_ok (oa_AllowInsecureHTTP config) (op_baseURL p)" using OpenAI_New_Inr(2) [OF assms] .
  show "\<exists>u. Parse (oa_BaseURL config) = Inr u \<and> op_baseURL p = u\<lparr>url_Path := TrimSuffix (url_Path u) ''/''\<rparr>"
    using OpenAI_New_base [OF assms] .
  fix decode c x r sent assume models: "OpenAI_Models decode p c x = (r, sent)"
  show "length sent \<le> 1"
    using models by (auto simp: OpenAI_Models_def split: sum.splits)
  show "\<forall>h\<in>set sent. confined (op_baseURL p) h"
    using openai_provider.models_confined [OF made, of decode "(c, x)"] models by simp
  show "DiscoverModels background (Some (as_provider (op_name p) r)) = Inr ds" if "r = Inr ds" for ds
    using openai_provider.discovered [OF made, of decode "(c, x)" ds sent background] models that
    by (simp add: as_provider_def)
next
  have made: "openai_made (oa_AllowInsecureHTTP config) p" using assms by (auto simp: openai_made_def)
  fix Marshal c x q r sent assume stream: "OpenAI_Stream Marshal p c x q = (r, sent)"
  show "\<forall>h\<in>set sent. confined (op_baseURL p) h"
    using openai_provider.stream_confined [OF made, of Marshal "(c, x)"] stream by simp
  show "\<exists>v. accept_all zero_validator es = Inr v"
    if s: "r = Inr s" "map (recv_reply (chat_Recv unmarshal) envs s) [0..<length es] = map Answers es" for s unmarshal envs es
  proof -
    obtain d c where "s = newChatStream d c" using OpenAI_Stream_Inr stream s(1) by blast
    then show ?thesis using openai.stream_conforms [OF _ s(2)] chat_history_new by blast
  qed
qed

section \<open>Concrete providers\<close>

definition sample_url :: url where
  "sample_url = \<lparr>url_Scheme = ''https'', url_Opaque = [], url_User = False, url_Host = ''api.example'', url_Path = ''/v1/'',
     url_RawPath = [], url_RawQuery = [], url_Fragment = []\<rparr>"

definition sample_token :: TokenSource where
  "sample_token ctx = Inr ''secret''"

definition anthropic_sample :: anthropicConfig where
  "anthropic_sample = \<lparr>ac_Name = ''anthropic'', ac_BaseURL = ''https://api.example/v1/'', ac_AllowInsecureHTTP = False,
     ac_AuthMode = AuthAPIKey, ac_TokenSource = Some sample_token, ac_APIVersion = [],
     ac_DefaultCapabilities = sample_capabilities, ac_Labels = None, ac_DefaultOutputTokens = 0, ac_MaxBodyBytes = 0,
     ac_MaxEventBytes = 0, ac_MaxModelPages = 0\<rparr>"

definition openai_sample :: openaiConfig where
  "openai_sample = \<lparr>oa_Name = ''local'', oa_BaseURL = ''https://api.example/v1/'', oa_AllowInsecureHTTP = False,
     oa_TokenSource = Some sample_token, oa_DefaultCapabilities = sample_capabilities, oa_Labels = None,
     oa_TokenLimitField = TokenLimitUnset, oa_MaxBodyBytes = 0, oa_MaxEventBytes = 0\<rparr>"

lemma anthropic_sample_made: "\<not> isl (Anthropic_New (\<lambda>_. Inr sample_url) anthropic_sample)"
  by code_simp

lemma openai_sample_made: "\<not> isl (OpenAI_New (\<lambda>_. Inr sample_url) openai_sample)"
  by code_simp


theorem openai_provider_contract_witness:
  "\<exists>p. OpenAI_New (\<lambda>_. Inr sample_url) openai_sample = Inr p \<and> base_ok False (op_baseURL p) \<and>
     url_Path (op_baseURL p) = ''/v1''"
proof -
  obtain p where p: "OpenAI_New (\<lambda>_. Inr sample_url) openai_sample = Inr p" using openai_sample_made
    by (cases "OpenAI_New (\<lambda>_. Inr sample_url) openai_sample") auto
  then show ?thesis using openai_provider_contract [OF p]
    by (auto simp: openai_sample_def sample_url_def TrimSuffix_def HasPrefix_def)
qed

end
