(* ===== verification/ToolOp.thy ===== *)
theory ToolOp
  imports Http
begin

text \<open>
  The file operations of the built-in tools (\<open>src/internal/toolop/operation.go\<close>): the decoding of their
  input, the check of a path, and reading, writing and editing a file below a root. Of the
  standard library this needs \<open>filepath.IsLocal\<close> and \<open>filepath.Clean\<close> for slash-separated paths,
  \<open>strings.Count\<close> and \<open>strings.Replace\<close>.

  The file system is a map from locations to nodes. How \<open>os.Root\<close> finds the location a path names,
  without ever leaving the root, and which of its calls fail, are parameters.
\<close>

section \<open>Paths\<close>

text \<open>The elements of a path, between slashes.\<close>

fun split_path :: "string \<Rightarrow> string \<Rightarrow> string list" where
  "split_path part [] = [part]"
| "split_path part (c # cs) = (if c = CHR ''/'' then part # split_path [] cs else split_path (part @ [c]) cs)"

abbreviation elements :: "string \<Rightarrow> string list" where
  "elements \<equiv> split_path []"

fun join_path :: "string list \<Rightarrow> string" where
  "join_path [] = []"
| "join_path [e] = e"
| "join_path (e # es) = e @ CHR ''/'' # join_path es"

text \<open>
  \<open>filepath.Clean\<close> on a relative path: the elements kept so far, the last one first. An element
  \<open>..\<close> takes back the last name, and is kept when there is none to take back.
\<close>

fun clean_elements :: "string list \<Rightarrow> string list \<Rightarrow> string list" where
  "clean_elements out [] = rev out"
| "clean_elements out (e # es) =
     (if e = [] \<or> e = ''.'' then clean_elements out es
      else if e = ''..'' then
        (case out of
           [] \<Rightarrow> clean_elements [''..''] es
         | e' # before \<Rightarrow> if e' = ''..'' then clean_elements (''..'' # out) es else clean_elements before es)
      else clean_elements (e # out) es)"

definition Clean :: "string \<Rightarrow> string" where
  "Clean p = (let es = clean_elements [] (elements p) in if es = [] then ''.'' else join_path es)"

text \<open>\<open>filepath.IsLocal\<close>: only a path with dots in it has to be cleaned first.\<close>

definition IsAbs :: "string \<Rightarrow> bool" where
  "IsAbs p \<longleftrightarrow> HasPrefix p ''/''"

definition IsLocal :: "string \<Rightarrow> bool" where
  "IsLocal p =
     (if IsAbs p \<or> p = [] then False
      else
        let hasDots = (\<exists>e\<in>set (elements p). e = ''.'' \<or> e = ''..'');
            p = (if hasDots then Clean p else p)
        in \<not> (p = ''..'' \<or> HasPrefix p ''../''))"

definition ValidatePath :: "string \<Rightarrow> error option" where
  "ValidatePath p =
     fail_if (\<not> IsLocal p \<or> ContainsAny p [CHR 0x5C, CHR '':'', CHR 0x00]) ''path must be local to the tool root''"

section \<open>Matches\<close>

text \<open>\<open>strings.Count\<close> for a substring that is not empty: matches that do not overlap.\<close>

function Count :: "string \<Rightarrow> string \<Rightarrow> nat" where
  "Count s sub =
     (if sub = [] \<or> s = [] then 0
      else if HasPrefix s sub then Suc (Count (drop (length sub) s) sub)
      else Count (tl s) sub)"
  by auto
termination by (relation "measure (length \<circ> fst)") auto

declare Count.simps [simp del]

text \<open>\<open>strings.Replace\<close> of the first match.\<close>

fun Replace_first :: "string \<Rightarrow> string \<Rightarrow> string \<Rightarrow> string" where
  "Replace_first [] old new = (if old = [] then new else [])"
| "Replace_first (c # cs) old new =
     (if HasPrefix (c # cs) old then new @ drop (length old) (c # cs) else c # Replace_first cs old new)"

section \<open>Input and result\<close>

definition MaxInput :: int where "MaxInput = 8 * 2 ^ 20"

record toolInput =
  ti_Path :: string
  ti_Text :: string
  ti_Old :: string
  ti_New :: string
  ti_Args :: "string list"

record toolResult =
  to_Text :: string
  to_Truncated :: bool
  to_PartialEffects :: bool
  to_ExitCode :: int
  to_Error :: string

definition zero_result :: toolResult where
  "zero_result = \<lparr>to_Text = [], to_Truncated = False, to_PartialEffects = False, to_ExitCode = 0, to_Error = []\<rparr>"

text \<open>The parameter is the decoder that refuses unknown fields; it returns the value and the rest.\<close>

definition toolop_Decode :: "(bytes \<Rightarrow> error + (toolInput \<times> bytes)) \<Rightarrow> bytes \<Rightarrow> error + toolInput" where
  "toolop_Decode decode data =
     (if MaxInput < int (length data) then Inl (errorf ''tool input exceeds 8 MiB'')
      else sum_bind (decode data) (\<lambda>(input, rest).
        if list_all json_space rest then Inr input
        else Inl (errorf ''input must contain exactly one JSON object'')))"

section \<open>The file system below a root\<close>

datatype node = Regular bytes | Directory | Symlink | Special

type_synonym nodes = "string \<rightharpoonup> node"

datatype fs_point = FsOpenRoot | FsOpen | FsStatFile | FsRead | FsLstat | FsStat | FsCreate nat | FsWrite | FsSync | FsCloseFile
  | FsRename | FsRemove

text \<open>
  \<open>fe_locate\<close> is the location a path names when its last element is not followed, \<open>fe_follow\<close> the
  one it names when it is. \<open>fe_written\<close> is how much of a text a failing write has written.
\<close>

record fs_env =
  fe_ctx :: ctx
  fe_fault :: "fs_point \<Rightarrow> error option"
  fe_locate :: "nodes \<Rightarrow> string \<Rightarrow> error + string"
  fe_follow :: "nodes \<Rightarrow> string \<Rightarrow> error + string"
  fe_random :: "nat \<Rightarrow> string"
  fe_written :: nat

definition not_exist :: error where "not_exist = Error [ErrNotExist] ''file does not exist''"
definition already_exists :: error where "already_exists = Error [ErrExist] ''file already exists''"

definition fs_call :: "fs_env \<Rightarrow> fs_point \<Rightarrow> error + unit" where
  "fs_call env point = (case fe_fault env point of Some e \<Rightarrow> Inl e | None \<Rightarrow> Inr ())"

lemma fs_call_Inr [simp]: "fs_call env point = Inr u \<longleftrightarrow> fe_fault env point = None"
  by (simp add: fs_call_def split: option.split)

definition node_at :: "nodes \<Rightarrow> string \<Rightarrow> error + node" where
  "node_at fs l = (case fs l of None \<Rightarrow> Inl not_exist | Some n \<Rightarrow> Inr n)"

lemma node_at_Inr [simp]: "node_at fs l = Inr n \<longleftrightarrow> fs l = Some n"
  by (simp add: node_at_def split: option.split)

definition Root_Lstat :: "fs_env \<Rightarrow> nodes \<Rightarrow> string \<Rightarrow> error + node" where
  "Root_Lstat env fs p = sum_bind (fs_call env FsLstat) (\<lambda>_. sum_bind (fe_locate env fs p) (node_at fs))"

definition Root_Stat :: "fs_env \<Rightarrow> nodes \<Rightarrow> string \<Rightarrow> error + node" where
  "Root_Stat env fs p = sum_bind (fs_call env FsStat) (\<lambda>_. sum_bind (fe_follow env fs p) (node_at fs))"

text \<open>Opening a file for reading, asking for its kind and reading at most \<open>n\<close> bytes of a regular one.\<close>

definition read_regular :: "fs_env \<Rightarrow> nodes \<Rightarrow> string \<Rightarrow> string \<Rightarrow> int \<Rightarrow> error + bytes" where
  "read_regular env fs p refusal n =
     sum_bind (fs_call env FsOpen) (\<lambda>_.
     sum_bind (fe_follow env fs p) (\<lambda>l.
     sum_bind (node_at fs l) (\<lambda>file.
     sum_bind (fs_call env FsStatFile) (\<lambda>_.
     case file of
       Regular data \<Rightarrow> sum_bind (fs_call env FsRead) (\<lambda>_. Inr (take (nat n) data))
     | _ \<Rightarrow> Inl (errorf refusal)))))"

text \<open>\<open>filepath.Dir\<close> and \<open>filepath.Join\<close> for the path of a temporary file beside the target.\<close>

definition Dir :: "string \<Rightarrow> string" where
  "Dir p = Clean (join_path (butlast (elements p)))"

definition temp_path :: "fs_env \<Rightarrow> string \<Rightarrow> nat \<Rightarrow> string" where
  "temp_path env p i = Clean (Dir p @ ''/'' @ ''.fabricrunner-'' @ fe_random env i)"

text \<open>The ten attempts to create a file that does not exist: its path, its location and the nodes after.\<close>

fun create_temp :: "fs_env \<Rightarrow> nodes \<Rightarrow> string \<Rightarrow> nat \<Rightarrow> nat \<Rightarrow> error + (string \<times> nodes)" where
  "create_temp env fs p i 0 = Inl already_exists"
| "create_temp env fs p i (Suc left) =
     (case sum_bind (fs_call env (FsCreate i)) (\<lambda>_.
           sum_bind (fe_locate env fs (temp_path env p i)) (\<lambda>l.
           if fs l \<noteq> None then Inl already_exists else Inr l)) of
        Inl e \<Rightarrow> if errors_Is e ErrExist \<and> left \<noteq> 0 then create_temp env fs p (Suc i) left else Inl e
      | Inr l \<Rightarrow> Inr (l, fs(l \<mapsto> Regular [])))"

text \<open>
  The replacement of the target by a file with the whole text. The temporary file is removed at the
  end, whatever happens; the error of its removal is dropped.
\<close>

definition remove_temp :: "fs_env \<Rightarrow> string \<Rightarrow> nodes \<Rightarrow> nodes" where
  "remove_temp env l fs = (if fe_fault env FsRemove = None then fs(l := None) else fs)"

definition replace_file :: "fs_env \<Rightarrow> nodes \<Rightarrow> string \<Rightarrow> string \<Rightarrow> (error + toolResult \<times> error option) \<times> nodes" where
  "replace_file env fs p content =
     (case create_temp env fs p 0 10 of
        Inl e \<Rightarrow> (Inl e, fs)
      | Inr (l, fs) \<Rightarrow>
          let written = (if fe_fault env FsWrite = None then content else take (fe_written env) content);
              fs = fs(l \<mapsto> Regular written);
              renamed = sum_bind (case errors_Join (errors_Join (fe_fault env FsWrite) (fe_fault env FsSync))
                                        (errors_Join (fe_fault env FsCloseFile) (fe_ctx env 2)) of
                                  Some e \<Rightarrow> Inl e | None \<Rightarrow> Inr ()) (\<lambda>_.
                sum_bind (fs_call env FsRename) (\<lambda>_.
                sum_bind (fe_locate env fs p) (\<lambda>target.
                if fs target = Some Directory then Inl (errorf ''rename: is a directory'')
                else Inr (if target = l then fs else (fs(target := fs l))(l := None)))))
          in case renamed of
               Inl e \<Rightarrow> (Inl e, remove_temp env l fs)
             | Inr fs \<Rightarrow> (Inr (zero_result\<lparr>to_Text := ''ok'', to_PartialEffects := True\<rparr>, fe_ctx env 3), remove_temp env l fs))"

text \<open>The new text of the file: the given one, or the edited one.\<close>

definition new_text :: "fs_env \<Rightarrow> nodes \<Rightarrow> string \<Rightarrow> toolInput \<Rightarrow> error + string" where
  "new_text env fs operation input =
     (if operation \<noteq> ''edit'' then Inr (ti_Text input)
      else if ti_Old input = [] then Inl (errorf ''edit match must not be empty'')
      else sum_bind (read_regular env fs (ti_Path input) ''only regular files may be edited'' (MaxInput + 1)) (\<lambda>data.
        if MaxInput < int (length data) then Inl (errorf ''file exceeds edit bound'')
        else if Count data (ti_Old input) \<noteq> 1 then Inl (errorf ''edit requires exactly one match'')
        else Inr (Replace_first data (ti_Old input) (ti_New input))))"

text \<open>
  \<open>Run\<close> returns a result and an error; the result beside an error is the zero one, except that a
  context that ends after the effect leaves both.
\<close>

definition toolop_Run ::
  "fs_env \<Rightarrow> nodes \<Rightarrow> string \<Rightarrow> toolInput \<Rightarrow> int \<Rightarrow> (toolResult \<times> error option) \<times> nodes" where
  "toolop_Run env fs operation input maxOutput =
     (let failed = (\<lambda>e. ((zero_result, Some e), fs)) in
      case first_error [fe_ctx env 0, ValidatePath (ti_Path input), fe_fault env FsOpenRoot] of
        Some e \<Rightarrow> failed e
      | None \<Rightarrow>
          if operation = ''read'' then
            (case read_regular env fs (ti_Path input) ''only regular files may be read'' (wrap64 (maxOutput + 1)) of
               Inl e \<Rightarrow> failed e
             | Inr data \<Rightarrow>
                 (if maxOutput < int (length data)
                  then (zero_result\<lparr>to_Text := take (nat maxOutput) data, to_Truncated := True\<rparr>, fe_ctx env 1)
                  else (zero_result\<lparr>to_Text := data\<rparr>, fe_ctx env 1), fs))
          else if operation = ''write'' \<or> operation = ''edit'' then
            if Root_Lstat env fs (ti_Path input) = Inr Symlink
            then failed (errorf ''write and edit refuse symlink targets'')
            else (case (case Root_Stat env fs (ti_Path input) of
                          Inl e \<Rightarrow> if errors_Is e ErrNotExist then None else Some e | Inr _ \<Rightarrow> None) of
                    Some e \<Rightarrow> failed e
                  | None \<Rightarrow>
                      (case sum_bind (new_text env fs operation input) (\<lambda>content.
                            if MaxInput < int (length content) then Inl (errorf ''write exceeds 8 MiB'')
                            else (case fe_ctx env 1 of Some e \<Rightarrow> Inl e | None \<Rightarrow> Inr content)) of
                         Inl e \<Rightarrow> failed e
                       | Inr content \<Rightarrow>
                           (case replace_file env fs (ti_Path input) content of
                              (Inl e, fs) \<Rightarrow> ((zero_result, Some e), fs)
                            | (Inr r, fs) \<Rightarrow> (r, fs))))
          else failed (errorf ''unknown filesystem operation''))"

section \<open>Local paths\<close>

text \<open>
  A path stays below the root when, read from the left, no element \<open>..\<close> comes before a name it can
  take back.
\<close>

fun stays_below :: "nat \<Rightarrow> string list \<Rightarrow> bool" where
  "stays_below depth [] = True"
| "stays_below depth (e # es) =
     (if e = [] \<or> e = ''.'' then stays_below depth es
      else if e = ''..'' then depth \<noteq> 0 \<and> stays_below (depth - 1) es
      else stays_below (Suc depth) es)"

lemma clean_elements_climbed:
  "out \<noteq> [] \<Longrightarrow> last out = ''..'' \<Longrightarrow> \<exists>rest. clean_elements out es = ''..'' # rest"
proof (induction es arbitrary: out)
  case Nil
  then show ?case by (cases out rule: rev_cases) auto
next
  case (Cons e es)
  show ?case
  proof (cases "e = ''..''")
    case True
    obtain e' before where out: "out = e' # before" using Cons.prems(1) by (cases out) auto
    show ?thesis
    proof (cases "e' = ''..''")
      case False
      with Cons.prems out have "before \<noteq> []" "last before = ''..''" by (auto split: if_splits)
      with Cons.IH False True out show ?thesis by simp
    qed (use Cons True out in simp)
  qed (use Cons in auto)
qed

lemma clean_elements_first:
  "(\<forall>e\<in>set out. e \<noteq> ''..'') \<Longrightarrow>
   stays_below (length out) es \<longleftrightarrow> (\<nexists>rest. clean_elements out es = ''..'' # rest)"
proof (induction es arbitrary: out)
  case Nil
  then show ?case by (metis clean_elements.simps(1) list.set_intros(1) set_rev stays_below.simps(1))
next
  case (Cons e es)
  consider "e = [] \<or> e = ''.''" | "e = ''..''" | "e \<noteq> []" "e \<noteq> ''.''" "e \<noteq> ''..''" by blast
  then show ?case
  proof cases
    case 2
    show ?thesis
    proof (cases out)
      case Nil
      with 2 clean_elements_climbed [of "[''..'']" es] show ?thesis by simp
    next
      case (Cons e' before)
      with Cons.IH [of before] Cons.prems 2 show ?thesis by simp
    qed
  next
    case 3
    with Cons.IH [of "e # out"] Cons.prems show ?thesis by simp
  qed (use Cons in auto)
qed

abbreviation not_slash :: "char \<Rightarrow> bool" where
  "not_slash c \<equiv> c \<noteq> CHR ''/''"

lemma first_element_dots:
  "p = ''..'' \<or> HasPrefix p ''../'' \<longleftrightarrow> takeWhile not_slash p = ''..''"
proof
  assume "takeWhile not_slash p = ''..''"
  moreover have "p = takeWhile not_slash p @ dropWhile not_slash p" by simp
  moreover have "dropWhile not_slash p = [] \<or> hd (dropWhile not_slash p) = CHR ''/''"
    using hd_dropWhile by blast
  ultimately show "p = ''..'' \<or> HasPrefix p ''../''"
    by (cases "dropWhile not_slash p") (auto simp: HasPrefix_def)
next
  assume "p = ''..'' \<or> HasPrefix p ''../''"
  then have "p = ''..'' \<or> (\<exists>q. p = ''../'' @ q)"
    by (metis HasPrefix_def append_take_drop_id)
  then show "takeWhile not_slash p = ''..''" by auto
qed

lemma split_path_first: "\<exists>es. split_path part p = (part @ takeWhile not_slash p) # es"
proof (induction p arbitrary: part)
  case (Cons a p)
  from Cons.IH [of "part @ [a]"] show ?case by auto
qed simp

lemma split_path_no_slash:
  "CHR ''/'' \<notin> set part \<Longrightarrow> e \<in> set (split_path part p) \<Longrightarrow> CHR ''/'' \<notin> set e"
proof (induction p arbitrary: part)
  case (Cons a p)
  from Cons.IH [of "part @ [a]"] Cons.IH [of "[]"] Cons.prems show ?case by (auto split: if_splits)
qed simp

lemma clean_elements_set: "set (clean_elements out es) \<subseteq> set out \<union> set es \<union> {''..''}"
  by (induction out es rule: clean_elements.induct) (auto split: list.splits if_splits)

lemma join_path_first: "CHR ''/'' \<notin> set e \<Longrightarrow> takeWhile not_slash (join_path (e # es)) = e"
  by (cases es) (auto simp: takeWhile_append)

lemma Clean_climbs: "takeWhile not_slash (Clean p) = ''..'' \<longleftrightarrow> (\<exists>rest. clean_elements [] (elements p) = ''..'' # rest)"
proof (cases "clean_elements [] (elements p)")
  case Nil
  then show ?thesis by (simp add: Clean_def)
next
  case (Cons e es)
  have "CHR ''/'' \<notin> set e"
    using clean_elements_set [of "[]" "elements p"] Cons split_path_no_slash [of "[]" e p] by auto
  from join_path_first [OF this, of es] Cons show ?thesis by (simp add: Clean_def)
qed

lemma no_dots_below: "(\<forall>e\<in>set es. e \<noteq> ''..'') \<Longrightarrow> stays_below depth es"
  by (induction es arbitrary: depth) auto

lemma IsLocal_iff: "IsLocal p \<longleftrightarrow> p \<noteq> [] \<and> \<not> IsAbs p \<and> stays_below 0 (elements p)"
proof (cases "\<exists>e\<in>set (elements p). e = ''.'' \<or> e = ''..''")
  case True
  with clean_elements_first [of "[]" "elements p"] Clean_climbs [of p] first_element_dots [of "Clean p"]
  show ?thesis by (auto simp: IsLocal_def Let_def)
next
  case False
  moreover have "takeWhile not_slash p \<in> set (elements p)"
    using split_path_first [of "[]" p] by auto
  ultimately have "takeWhile not_slash p \<noteq> ''..''" by auto
  with False no_dots_below [of "elements p"] first_element_dots [of p] show ?thesis
    by (auto simp: IsLocal_def Let_def)
qed

text \<open>
  [C21] The path check is exact. \<open>ValidatePath\<close> accepts a path if and only if it is not empty and not
  absolute, has no backslash, colon or zero byte, and never climbs above the root: read from the left,
  every element \<open>..\<close> takes back a name that came before it.
\<close>

theorem ValidatePath_exact:
  "ValidatePath p = None \<longleftrightarrow>
     p \<noteq> [] \<and> hd p \<noteq> CHR ''/'' \<and> set p \<inter> {CHR 0x5C, CHR '':'', CHR 0x00} = {} \<and> stays_below 0 (elements p)"
proof -
  have "p \<noteq> [] \<Longrightarrow> IsAbs p \<longleftrightarrow> hd p = CHR ''/''" by (cases p) (auto simp: IsAbs_def HasPrefix_def)
  then show ?thesis by (auto simp: ValidatePath_def IsLocal_iff ContainsAny_def)
qed

section \<open>Edits\<close>

lemma Count_drop:
  assumes "sub \<noteq> []"
  shows "(\<forall>j\<le>length sub. Count s sub \<le> Suc (Count (drop j s) sub)) \<and> (\<forall>k. Count (drop k s) sub \<le> Count s sub)"
proof (induction "length s" arbitrary: s rule: less_induct)
  case less
  note IH = less [THEN conjunct1, rule_format] and IHB = less [THEN conjunct2, rule_format]
  show ?case
  proof (cases s)
    case Nil
    then show ?thesis by simp
  next
    case (Cons c cs)
    note step = Count.simps [of s sub]
    show ?thesis
    proof (cases "HasPrefix s sub")
      case True
      then have count: "Count s sub = Suc (Count (drop (length sub) s) sub)" using step assms Cons by simp
      have "Count s sub \<le> Suc (Count (drop j s) sub)" if "j \<le> length sub" for j
      proof (cases "j = 0")
        case False
        then have "length (drop j s) < length s" using Cons by simp
        from IHB [OF this, of "length sub - j"] that show ?thesis by (simp add: count)
      qed simp
      moreover have "Count (drop k s) sub \<le> Count s sub" for k
      proof (cases "k = 0")
        case False
        then have shorter: "length (drop k s) < length s" using Cons by simp
        show ?thesis
        proof (cases "k \<le> length sub")
          case True
          from IH [OF shorter, of "length sub - k"] True show ?thesis by (simp add: count)
        next
          case False
          have "length (drop (length sub) s) < length s" using assms Cons by simp
          from IHB [OF this, of "k - length sub"] False show ?thesis by (simp add: count)
        qed
      qed simp
      ultimately show ?thesis by blast
    next
      case False
      then have count: "Count s sub = Count cs sub" using step assms Cons by simp
      have shorter: "length cs < length s" using Cons by simp
      have "Count s sub \<le> Suc (Count (drop j s) sub)" if "j \<le> length sub" for j
        using IH [OF shorter, of "j - 1"] that Cons count by (cases j) auto
      moreover have "Count (drop k s) sub \<le> Count s sub" for k
        using IHB [OF shorter, of "k - 1"] Cons count by (cases k) auto
      ultimately show ?thesis by blast
    qed
  qed
qed

lemma Count_match:
  assumes "sub \<noteq> []"
  shows "Suc (Count s sub) \<le> Count (before @ sub @ s) sub"
proof -
  have "Count (sub @ s) sub = Suc (Count s sub)"
    using assms by (simp add: Count.simps [of "sub @ s"] HasPrefix_def)
  moreover have "Count (drop (length before) (before @ sub @ s)) sub \<le> Count (before @ sub @ s) sub"
    using Count_drop [OF assms] by blast
  ultimately show ?thesis by simp
qed

lemma Count_two: "sub \<noteq> [] \<Longrightarrow> 2 \<le> Count (a @ sub @ b @ sub @ c) sub"
  using Count_match [of sub c b] Count_match [of sub "b @ sub @ c" a] by simp

lemma Replace_first_match:
  assumes "sub \<noteq> []"
  shows "Count s sub \<noteq> 0 \<Longrightarrow> \<exists>before after. s = before @ sub @ after \<and> Replace_first s sub new = before @ new @ after"
proof (induction s)
  case Nil
  then show ?case by (simp add: Count.simps)
next
  case (Cons c cs)
  show ?case
  proof (cases "HasPrefix (c # cs) sub")
    case True
    then have "c # cs = sub @ drop (length sub) (c # cs)" by (metis HasPrefix_def append_take_drop_id)
    then have "c # cs = [] @ sub @ drop (length sub) (c # cs) \<and>
        Replace_first (c # cs) sub new = [] @ new @ drop (length sub) (c # cs)" using True by simp
    then show ?thesis by blast
  next
    case False
    with Cons.prems assms have "Count cs sub \<noteq> 0" by (simp add: Count.simps [of "c # cs"])
    with Cons.IH obtain before after where "cs = before @ sub @ after" "Replace_first cs sub new = before @ new @ after"
      by blast
    then have "c # cs = (c # before) @ sub @ after \<and> Replace_first (c # cs) sub new = (c # before) @ new @ after"
      using False by simp
    then show ?thesis by blast
  qed
qed

lemma read_regular_Inr:
  "read_regular env fs p refusal n = Inr data \<Longrightarrow>
     \<exists>l whole. fe_follow env fs p = Inr l \<and> fs l = Some (Regular whole) \<and> data = take (nat n) whole"
proof -
  assume "read_regular env fs p refusal n = Inr data"
  then obtain l found where "fe_follow env fs p = Inr l" "fs l = Some found"
    "(case found of Regular whole \<Rightarrow> sum_bind (fs_call env FsRead) (\<lambda>_. Inr (take (nat n) whole))
      | _ \<Rightarrow> Inl (errorf refusal)) = Inr data"
    by (auto simp: read_regular_def)
  then show ?thesis by (cases found) auto
qed

text \<open>What an accepted edit does to the text of the file.\<close>

lemma new_text_edit:
  assumes "new_text env fs ''edit'' input = Inr content"
  shows "\<exists>l before after. fe_follow env fs (ti_Path input) = Inr l \<and>
    fs l = Some (Regular (before @ ti_Old input @ after)) \<and> content = before @ ti_New input @ after \<and>
    (\<nexists>a b c. before @ ti_Old input @ after = a @ ti_Old input @ b @ ti_Old input @ c)"
proof -
  from assms obtain data where old: "ti_Old input \<noteq> []" and data: "int (length data) \<le> MaxInput"
    "Count data (ti_Old input) = 1" "content = Replace_first data (ti_Old input) (ti_New input)"
    and read: "read_regular env fs (ti_Path input) ''only regular files may be edited'' (MaxInput + 1) = Inr data"
    by (auto simp: new_text_def not_less split: if_splits)
  from read_regular_Inr [OF read] obtain l whole where l: "fe_follow env fs (ti_Path input) = Inr l"
    "fs l = Some (Regular whole)" "data = take (nat (MaxInput + 1)) whole" by blast
  have "whole = data"
    using data(1) l(3) by (simp add: MaxInput_def min_def split: if_splits)
  moreover obtain before after where "data = before @ ti_Old input @ after" "content = before @ ti_New input @ after"
    using Replace_first_match [OF old, of data "ti_New input"] data(2,3) by auto
  moreover have "\<nexists>a b c. data = a @ ti_Old input @ b @ ti_Old input @ c"
    using Count_two [OF old] data(2) by (metis Suc_n_not_le_n numeral_2_eq_2 One_nat_def)
  ultimately show ?thesis using l(1,2) by auto
qed

text \<open>Matches that overlap are counted once, so an edit of an ambiguous place is accepted.\<close>

lemma overlapping_matches:
  "Count ''aaa'' ''aa'' = 1" "''aaa'' = [] @ ''aa'' @ ''a''" "''aaa'' = ''a'' @ ''aa'' @ []"
  by (simp_all add: Count.simps HasPrefix_def)

section \<open>Effects\<close>

lemma create_temp_Inr:
  "create_temp env fs p i left = Inr (l, fs') \<Longrightarrow>
     fs l = None \<and> fs' = fs(l \<mapsto> Regular []) \<and> (\<exists>j. fe_locate env fs (temp_path env p j) = Inr l)"
proof (induction left arbitrary: i)
  case (Suc left)
  from Suc.prems consider "create_temp env fs p (Suc i) left = Inr (l, fs')"
    | "fs l = None" "fs' = fs(l \<mapsto> Regular [])" "fe_locate env fs (temp_path env p i) = Inr l"
    by (auto split: sum.splits if_splits)
  then show ?case using Suc.IH by cases blast+
qed simp

text \<open>The temporary name is random; it is not a name of the target.\<close>

definition fresh_names :: "fs_env \<Rightarrow> string \<Rightarrow> bool" where
  "fresh_names env p \<longleftrightarrow>
     (\<forall>fs fs' i l. fe_locate env fs (temp_path env p i) = Inr l \<longrightarrow> fe_locate env fs' p \<noteq> Inr l)"

text \<open>A temporary file that could not be removed.\<close>

definition left_over :: "fs_env \<Rightarrow> nodes \<Rightarrow> nodes \<Rightarrow> bool" where
  "left_over env fs fs' \<longleftrightarrow> fe_fault env FsRemove \<noteq> None \<and> (\<exists>l part. fs l = None \<and> fs' = fs(l \<mapsto> Regular part))"

lemma replace_file_effect:
  assumes "replace_file env fs p content = (r, fs')" "fresh_names env p"
  shows "case r of
      Inl e \<Rightarrow> fs' = fs \<or> left_over env fs fs'
    | Inr (result, err) \<Rightarrow> to_PartialEffects result \<and> to_Text result = ''ok'' \<and>
        (\<exists>target. fs target \<noteq> Some Directory \<and> fs' = fs(target \<mapsto> Regular content))"
proof (cases "create_temp env fs p 0 10")
  case (Inl e)
  with assms(1) show ?thesis by (auto simp: replace_file_def)
next
  case (Inr created)
  then obtain l fs1 where made: "create_temp env fs p 0 10 = Inr (l, fs1)" by (cases created) auto
  from create_temp_Inr [OF made] obtain j where l: "fs l = None" "fs1 = fs(l \<mapsto> Regular [])"
    "fe_locate env fs (temp_path env p j) = Inr l" by blast
  define part where "part = (if fe_fault env FsWrite = None then content else take (fe_written env) content)"
  let ?fs = "fs(l \<mapsto> Regular part)"
  note made' = made [unfolded l(2)]
  have gone: "?fs(l := None) = fs" using l(1) by auto
  have removed: "remove_temp env l ?fs = fs \<or> left_over env fs (remove_temp env l ?fs)"
    using l(1) gone by (auto simp: remove_temp_def left_over_def)
  show ?thesis
  proof (cases r)
    case (Inl e)
    with assms(1) removed show ?thesis
      unfolding replace_file_def made' by (auto simp: Let_def part_def [symmetric] split: sum.splits)
  next
    case (Inr x)
    with assms(1) obtain target where target: "fe_locate env ?fs p = Inr target" "?fs target \<noteq> Some Directory"
      "fe_fault env FsWrite = None"
      "fs' = remove_temp env l (if target = l then ?fs else (?fs(target := ?fs l))(l := None))"
      "x = (zero_result\<lparr>to_Text := ''ok'', to_PartialEffects := True\<rparr>, fe_ctx env 3)"
      unfolding replace_file_def made' by (auto simp: Let_def part_def [symmetric] split: sum.splits option.splits if_splits)
    have "target \<noteq> l" using assms(2) l(3) target(1) by (auto simp: fresh_names_def)
    moreover have "part = content" using target(3) by (simp add: part_def)
    ultimately have "fs' = fs(target \<mapsto> Regular content)"
      using target(4) l(1) by (auto simp: remove_temp_def)
    with target(2,5) Inr \<open>target \<noteq> l\<close> show ?thesis by (auto simp: zero_result_def)
  qed
qed

lemma toolop_Run_effect:
  assumes "toolop_Run env fs operation input maxOutput = ((result, err), fs')"
    and "fresh_names env (ti_Path input)" "0 \<le> maxOutput"
  shows "(if to_PartialEffects result
      then operation \<in> {''write'', ''edit''} \<and> ValidatePath (ti_Path input) = None \<and>
        (\<exists>target content. new_text env fs operation input = Inr content \<and> int (length content) \<le> MaxInput \<and>
           fs target \<noteq> Some Directory \<and> fs' = fs(target \<mapsto> Regular content))
      else fs' = fs \<or> err \<noteq> None \<and> ValidatePath (ti_Path input) = None \<and> left_over env fs fs') \<and>
    (operation = ''read'' \<longrightarrow> fs' = fs \<and> int (length (to_Text result)) \<le> maxOutput)"
proof (cases "first_error [fe_ctx env 0, ValidatePath (ti_Path input), fe_fault env FsOpenRoot]")
  case (Some e)
  with assms(1,3) show ?thesis by (auto simp: toolop_Run_def Let_def zero_result_def)
next
  case None
  then have valid: "ValidatePath (ti_Path input) = None" by simp
  consider "operation = ''read''" | "operation = ''write'' \<or> operation = ''edit''"
    | "operation \<notin> {''read'', ''write'', ''edit''}" by blast
  then show ?thesis
  proof cases
    case 1
    with assms(1,3) None show ?thesis
      by (auto simp: toolop_Run_def Let_def zero_result_def split: sum.splits if_splits)
  next
    case 2
    then have op: "operation \<noteq> ''read''" by auto
    from assms(1) None 2 op consider "result = zero_result" "fs' = fs"
      | content r where "new_text env fs operation input = Inr content" "int (length content) \<le> MaxInput"
        "replace_file env fs (ti_Path input) content = (r, fs')" "(result, err) = (case r of Inl e \<Rightarrow> (zero_result, Some e) | Inr x \<Rightarrow> x)"
      by (auto simp: toolop_Run_def Let_def split: if_splits option.splits sum.splits prod.splits)
    then show ?thesis
    proof cases
      case (2 content r)
      from replace_file_effect [OF 2(3) assms(2)] 2 op valid \<open>operation = ''write'' \<or> operation = ''edit''\<close>
      show ?thesis by (cases r) (auto simp: zero_result_def)
    qed (use op in \<open>simp add: zero_result_def\<close>)
  next
    case 3
    with assms(1) None show ?thesis by (auto simp: toolop_Run_def Let_def zero_result_def)
  qed
qed

lemma toolop_Run_success:
  assumes "toolop_Run env fs operation input maxOutput = ((result, None), fs')" "fresh_names env (ti_Path input)"
    "operation = ''write'' \<or> operation = ''edit''"
  shows "to_PartialEffects result"
proof -
  from assms(1,3) obtain content r where
    "replace_file env fs (ti_Path input) content = (r, fs')" "(result, None) = (case r of Inl e \<Rightarrow> (zero_result, Some e) | Inr x \<Rightarrow> x)"
    by (auto simp: toolop_Run_def Let_def split: if_splits option.splits sum.splits prod.splits)
  with replace_file_effect [OF this(1) assms(2)] show ?thesis by (cases r) auto
qed

text \<open>
  [C14] A file operation is all or nothing. Reading changes no file and returns at most the output
  bound. Writing and editing either leave every file as it was, apart from a temporary file that
  could not be removed, and then report no effects; or they replace exactly one file, which is not a
  directory, by the whole new text, and report effects, even when the context has ended meanwhile.
  Nothing is touched for a path that is not local.
\<close>

theorem toolop_Run_atomic:
  assumes "toolop_Run env fs operation input maxOutput = ((result, err), fs')"
    and "fresh_names env (ti_Path input)" "0 \<le> maxOutput"
  shows "(if to_PartialEffects result
      then operation \<in> {''write'', ''edit''} \<and> ValidatePath (ti_Path input) = None \<and>
        (\<exists>target content. new_text env fs operation input = Inr content \<and> int (length content) \<le> MaxInput \<and>
           fs target \<noteq> Some Directory \<and> fs' = fs(target \<mapsto> Regular content))
      else fs' = fs \<or> err \<noteq> None \<and> ValidatePath (ti_Path input) = None \<and> left_over env fs fs') \<and>
    (operation = ''read'' \<longrightarrow> fs' = fs \<and> int (length (to_Text result)) \<le> maxOutput)"
  using toolop_Run_effect [OF assms] .

end
