(* ===== verification/SandboxExec.thy ===== *)
theory SandboxExec
  imports ToolOp Records
begin

text \<open>
  The sandbox backends (\<open>src/sandbox/executor.go\<close>, \<open>process_unix.go\<close>, \<open>native_linux.go\<close>,
  \<open>native_darwin.go\<close> and \<open>native_other.go\<close>) and the event sink of \<open>src/sandbox.go\<close>: establishing a confinement, running a command in it with bounded output, and closing it. What the operating
  system answers is a parameter. The confinement is shared between goroutines, so its life is a step
  relation on the state its mutex protects, with the steps in any order.
\<close>

section \<open>Commands and results\<close>

record sandboxConfig =
  sx_Root :: string
  sx_Helper :: string

record sandboxCommand =
  xm_Args :: "string list"
  xm_Input :: bytes
  xm_MaxOutput :: int

record sandboxResult =
  xr_Output :: bytes
  xr_Truncated :: bool
  xr_Started :: bool
  xr_ExitCode :: int

definition zero_sandbox_result :: sandboxResult where
  "zero_sandbox_result = \<lparr>xr_Output = [], xr_Truncated = False, xr_Started = False, xr_ExitCode = 0\<rparr>"

definition sandbox_denied :: "string \<Rightarrow> error" where
  "sandbox_denied msg = Error [ErrSandboxDenied] msg"

section \<open>The record of sandbox events\<close>

text \<open>
  The sink travels in a context, under a key of its own (\<open>src/sandbox.go\<close>). A context is here the values
  under that key, the innermost first; a nil sink hides an outer one and is no sink.
\<close>

type_synonym SandboxEventSink = "SandboxEvent \<Rightarrow> error option"
type_synonym sink_values = "SandboxEventSink option list"

definition WithSandboxEventSink :: "sink_values \<Rightarrow> SandboxEventSink option \<Rightarrow> sink_values" where
  "WithSandboxEventSink values sink = sink # values"

definition RecordSandboxEvent :: "sink_values \<Rightarrow> SandboxEvent \<Rightarrow> error option" where
  "RecordSandboxEvent values event = (case values of Some sink # _ \<Rightarrow> sink event | _ \<Rightarrow> None)"

lemma RecordSandboxEvent_simps [simp]:
  "RecordSandboxEvent [] = (\<lambda>event. None)"
  "RecordSandboxEvent (WithSandboxEventSink values (Some sink)) = sink"
  "RecordSandboxEvent (WithSandboxEventSink values None) = (\<lambda>event. None)"
  by (auto simp: RecordSandboxEvent_def WithSandboxEventSink_def)

section \<open>Bounded output\<close>

record boundedBuffer =
  bb_data :: bytes
  bb_max :: int
  bb_truncated :: bool

text \<open>Slicing with a negative bound panics, which is \<open>None\<close>; the second component is what \<open>Write\<close> returns.\<close>

definition boundedBuffer_Write :: "boundedBuffer \<Rightarrow> bytes \<Rightarrow> (boundedBuffer \<times> nat) option" where
  "boundedBuffer_Write b p =
     (let n = length p; left = bb_max b - int (length (bb_data b)) in
      if left < int (length p) then
        if left < 0 then None
        else Some (b\<lparr>bb_data := bb_data b @ take (nat left) p, bb_truncated := True\<rparr>, n)
      else Some (b\<lparr>bb_data := bb_data b @ p\<rparr>, n))"

fun write_chunks :: "boundedBuffer \<Rightarrow> bytes list \<Rightarrow> boundedBuffer option" where
  "write_chunks b [] = Some b"
| "write_chunks b (p # ps) = (case boundedBuffer_Write b p of None \<Rightarrow> None | Some (b, n) \<Rightarrow> write_chunks b ps)"

text \<open>The buffer holds the beginning of everything that was written, and says whether it lost anything.\<close>

lemma write_chunks_take:
  assumes "0 \<le> m"
  shows "write_chunks \<lparr>bb_data = take (nat m) old, bb_max = m, bb_truncated = (m < int (length old))\<rparr> ps =
    Some \<lparr>bb_data = take (nat m) (old @ concat ps), bb_max = m, bb_truncated = (m < int (length (old @ concat ps)))\<rparr>"
proof (induction ps arbitrary: old)
  case (Cons p ps)
  have "boundedBuffer_Write \<lparr>bb_data = take (nat m) old, bb_max = m, bb_truncated = (m < int (length old))\<rparr> p =
    Some (\<lparr>bb_data = take (nat m) (old @ p), bb_max = m, bb_truncated = (m < int (length (old @ p)))\<rparr>, length p)"
    using assms by (auto simp: boundedBuffer_Write_def Let_def min_def nat_diff_distrib)
  with Cons.IH [of "old @ p"] show ?case by simp
qed simp

lemma write_chunks_empty:
  "0 \<le> m \<Longrightarrow> write_chunks \<lparr>bb_data = [], bb_max = m, bb_truncated = False\<rparr> ps =
    Some \<lparr>bb_data = take (nat m) (concat ps), bb_max = m, bb_truncated = (m < int (length (concat ps)))\<rparr>"
  using write_chunks_take [of m "[]" ps] by simp

section \<open>Processes\<close>

text \<open>
  What a process does: it fails to start, or it writes its output in chunks and ends. \<open>pr_ctx\<close> is the
  context's error after that.
\<close>

record process =
  pr_start :: "error option"
  pr_chunks :: "bytes list"
  pr_wait :: "error option"
  pr_exit :: int
  pr_ctx :: "error option"

definition runProcess :: "process \<Rightarrow> sandboxCommand \<Rightarrow> sandboxResult \<times> error option" where
  "runProcess p command =
     (case pr_start p of
        Some e \<Rightarrow> (zero_sandbox_result, Some e)
      | None \<Rightarrow>
          (case write_chunks \<lparr>bb_data = [], bb_max = xm_MaxOutput command, bb_truncated = False\<rparr> (pr_chunks p) of
             None \<Rightarrow> (zero_sandbox_result, Some (errorf ''panic''))
           | Some output \<Rightarrow>
               (\<lparr>xr_Output = [] @ bb_data output, xr_Truncated = bb_truncated output, xr_Started = True, xr_ExitCode = pr_exit p\<rparr>,
                errors_Join (pr_wait p) (pr_ctx p))))"

text \<open>The arguments of \<open>bwrap\<close>; \<open>present\<close> says which of the system's files exist.\<close>

definition bwrap_args :: "(string \<Rightarrow> bool) \<Rightarrow> sandboxConfig \<Rightarrow> sandboxCommand \<Rightarrow> string list" where
  "bwrap_args present config command =
     [''--die-with-parent'', ''--new-session'', ''--unshare-all'', ''--cap-drop'', ''ALL'', ''--clearenv''] @
     concat (map (\<lambda>dir. if present dir then [''--ro-bind'', dir, dir] else []) [''/usr'', ''/bin'', ''/lib'', ''/lib64'']) @
     (if present ''/etc/ld.so.cache'' then [''--ro-bind'', ''/etc/ld.so.cache'', ''/etc/ld.so.cache''] else []) @
     [''--proc'', ''/proc'', ''--dev'', ''/dev'', ''--tmpfs'', ''/tmp'', ''--bind'', sx_Root config, ''/workspace'',
      ''--chdir'', ''/workspace'', ''--setenv'', ''PATH'', ''/usr/bin:/bin'', ''--setenv'', ''HOME'', ''/tmp'',
      ''--setenv'', ''TMPDIR'', ''/tmp'', ''--setenv'', ''LANG'', ''C''] @
     (if sx_Helper config \<noteq> [] then [''--ro-bind'', sx_Helper config, ''/runner-helper''] else []) @
     [''--''] @
     (case xm_Args command of
        [] \<Rightarrow> []
      | arg # args \<Rightarrow> (if arg = sx_Helper config \<and> sx_Helper config \<noteq> [] then ''/runner-helper'' else arg) # args)"

text \<open>\<open>spawn\<close> is the process that a program with its arguments, directory and input is.\<close>

record linux =
  lx_bwrap :: "error + string"
  lx_present :: "string \<Rightarrow> bool"
  lx_spawn :: "string \<Rightarrow> string list \<Rightarrow> string \<Rightarrow> bytes \<Rightarrow> process"

definition runNative :: "linux \<Rightarrow> sandboxConfig \<Rightarrow> sandboxCommand \<Rightarrow> sandboxResult \<times> error option" where
  "runNative os config command =
     (case lx_bwrap os of
        Inl e \<Rightarrow> (zero_sandbox_result, Some e)
      | Inr program \<Rightarrow>
          runProcess (lx_spawn os program (bwrap_args (lx_present os) config command) (sx_Root config) (xm_Input command)) command)"

text \<open>
  The backend for macOS (\<open>native_darwin.go\<close>): a profile for \<open>sandbox-exec\<close> that denies by default. How
  \<open>strconv.Quote\<close> writes a string is a parameter, as is what a program with its arguments does.
\<close>

record darwin =
  dw_Quote :: "string \<Rightarrow> string"
  dw_spawn :: "string \<Rightarrow> string list \<Rightarrow> string \<Rightarrow> bytes \<Rightarrow> process"

definition seatbelt_profile :: "(string \<Rightarrow> string) \<Rightarrow> sandboxConfig \<Rightarrow> string" where
  "seatbelt_profile Quote config =
     ''(version 1)(deny default)(allow process-exec)(allow sysctl-read)(allow file-read-metadata)'' @
     ''(allow file-read* (subpath \"/usr\") (subpath \"/bin\") (subpath \"/System\") (subpath \"/Library/Apple\") '' @
     ''(literal \"/dev/null\") (literal \"/dev/urandom\") (subpath '' @ Quote (sx_Root config) @
     '')) (allow file-write* (subpath '' @ Quote (sx_Root config) @ ''))'' @
     (if sx_Helper config \<noteq> [] then ''(allow file-read* (literal '' @ Quote (sx_Helper config) @ ''))'' else [])"

definition runNative_darwin :: "darwin \<Rightarrow> sandboxConfig \<Rightarrow> sandboxCommand \<Rightarrow> sandboxResult \<times> error option" where
  "runNative_darwin os config command =
     runProcess (dw_spawn os ''/usr/bin/sandbox-exec''
       ([''-p'', seatbelt_profile (dw_Quote os) config, ''--''] @ xm_Args command) (sx_Root config) (xm_Input command)) command"

text \<open>Every other system refuses (\<open>native_other.go\<close>).\<close>

definition runNative_other :: "string \<Rightarrow> sandboxConfig \<Rightarrow> sandboxCommand \<Rightarrow> sandboxResult \<times> error option" where
  "runNative_other GOOS config command =
     (zero_sandbox_result, Some (sandbox_denied (''sandbox execution denied: unsupported platform '' @ GOOS)))"

section \<open>The confinement\<close>

record confinement =
  co_config :: sandboxConfig
  co_backend :: string
  co_closed :: bool

type_synonym native_run = "sandboxConfig \<Rightarrow> sandboxCommand \<Rightarrow> sandboxResult \<times> error option"

definition confinement_Capability :: "confinement \<Rightarrow> SandboxCapability" where
  "confinement_Capability b = \<lparr>sc_Established = \<not> co_closed b, sc_Backend = co_backend b\<rparr>"

definition confinement_Run ::
  "native_run \<Rightarrow> error option \<Rightarrow> confinement \<Rightarrow> sandboxCommand \<Rightarrow> sandboxResult \<times> error option" where
  "confinement_Run native ctxErr b command =
     (case first_error
        [if co_closed b then Some (sandbox_denied ''sandbox execution denied'') else None,
         fail_if (xm_Args command = [] \<or> hd (xm_Args command) = []) ''argument vector is required'',
         fail_if (xm_MaxOutput command \<le> 0 \<or> 16 * 2 ^ 20 < xm_MaxOutput command) ''output bound must be between 1 and 16 MiB'',
         fail_if (16 * 2 ^ 20 < int (length (xm_Input command))) ''input exceeds 16 MiB'',
         ctxErr] of
        Some e \<Rightarrow> (zero_sandbox_result, Some e)
      | None \<Rightarrow> native (co_config b) command)"

text \<open>What the host answers while a confinement is established.\<close>

record host =
  ho_backend :: string
  ho_ctx :: ctx
  ho_Abs :: "string \<Rightarrow> error + string"
  ho_EvalSymlinks :: "string \<Rightarrow> error + string"
  ho_IsDir :: "string \<Rightarrow> error + bool"
  ho_IsRegular :: "string \<Rightarrow> error + bool"
  ho_Rel :: "string \<Rightarrow> string \<Rightarrow> error + string"
  ho_native :: native_run
  ho_record :: "SandboxEvent \<Rightarrow> error option"

definition sandbox_event :: "string \<Rightarrow> string \<Rightarrow> SandboxEvent" where
  "sandbox_event phase backend = \<lparr>se_Phase = phase, se_Backend = backend, se_PartialEffects = False\<rparr>"

definition Deny_Establish :: "(SandboxEvent \<Rightarrow> error option) \<Rightarrow> (error + confinement) \<times> SandboxEvent list" where
  "Deny_Establish record_event =
     (Inl (the (errors_Join (Some (sandbox_denied ''sandbox execution denied'')) (record_event (sandbox_event ''denied'' ''none'')))),
      [sandbox_event ''denied'' ''none''])"

definition deny :: "host \<Rightarrow> error \<Rightarrow> (error + confinement) \<times> SandboxEvent list" where
  "deny host cause =
     (let event = sandbox_event ''denied'' (ho_backend host) in
      (Inl (the (errors_Join (Some (wrap_sentinel ErrSandboxDenied cause)) (ho_record host event))), [event]))"

text \<open>The root and the helper after all links have been resolved.\<close>

definition resolve_root :: "host \<Rightarrow> string \<Rightarrow> error + string" where
  "resolve_root host root =
     (case ho_Abs host root of
        Inl _ \<Rightarrow> Inl (errorf ''explicit root required'')
      | Inr r \<Rightarrow>
          if root = [] then Inl (errorf ''explicit root required'')
          else sum_bind (ho_EvalSymlinks host r) (\<lambda>r.
            if ho_IsDir host r = Inr True then Inr r else Inl (errorf ''root is not a directory'')))"

definition resolve_helper :: "host \<Rightarrow> string \<Rightarrow> string \<Rightarrow> error + string" where
  "resolve_helper host root helper =
     (if helper = [] then Inr []
      else sum_bind (ho_Abs host helper) (\<lambda>h.
        sum_bind (ho_EvalSymlinks host h) (\<lambda>h.
        if ho_IsRegular host h \<noteq> Inr True then Inl (errorf ''helper is not a regular file'')
        else (case ho_Rel host root h of
                Inr rel \<Rightarrow> if IsLocal rel then Inl (errorf ''trusted helper must be outside writable root'') else Inr h
              | Inl _ \<Rightarrow> Inr h))))"

definition probe :: sandboxCommand where
  "probe = \<lparr>xm_Args = [''/usr/bin/true''], xm_Input = [], xm_MaxOutput = 1024\<rparr>"

definition native_Establish :: "host \<Rightarrow> sandboxConfig \<Rightarrow> (error + confinement) \<times> SandboxEvent list" where
  "native_Establish host config =
     (case sum_bind (case ho_ctx host 0 of Some e \<Rightarrow> Inl e | None \<Rightarrow> Inr ()) (\<lambda>_.
           sum_bind (resolve_root host (sx_Root config)) (\<lambda>root.
           sum_bind (resolve_helper host root (sx_Helper config)) (\<lambda>helper.
           Inr \<lparr>sx_Root = root, sx_Helper = helper\<rparr>))) of
        Inl cause \<Rightarrow> deny host cause
      | Inr config \<Rightarrow>
          let box = \<lparr>co_config = config, co_backend = ho_backend host, co_closed = False\<rparr> in
          (case confinement_Run (ho_native host) (ho_ctx host 1) box probe of
             (result, Some e) \<Rightarrow> deny host (wrapf ''probe failed'' e)
           | (result, None) \<Rightarrow>
               let event = sandbox_event ''established'' (ho_backend host) in
               (case ho_record host event of Some e \<Rightarrow> (Inl e, [event]) | None \<Rightarrow> (Inr box, [event]))))"

lemma resolve_root_native [simp]: "resolve_root (host\<lparr>ho_native := n\<rparr>) root = resolve_root host root"
  by (simp add: resolve_root_def split: sum.split)

lemma resolve_root_Inr: "resolve_root host root = Inr r \<Longrightarrow> ho_IsDir host r = Inr True"
  by (auto simp: resolve_root_def split: sum.splits if_splits)

lemma resolve_helper_Inr:
  "resolve_helper host root helper = Inr h \<Longrightarrow> helper \<noteq> [] \<Longrightarrow>
     ho_IsRegular host h = Inr True \<and> (\<forall>rel. ho_Rel host root h = Inr rel \<longrightarrow> \<not> IsLocal rel)"
proof -
  assume "resolve_helper host root helper = Inr h" "helper \<noteq> []"
  then obtain h' where "(if ho_IsRegular host h' \<noteq> Inr True then Inl (errorf ''helper is not a regular file'')
      else case ho_Rel host root h' of
        Inr rel \<Rightarrow> if IsLocal rel then Inl (errorf ''trusted helper must be outside writable root'') else Inr h'
      | Inl _ \<Rightarrow> Inr h') = Inr h"
    by (auto simp: resolve_helper_def)
  then show ?thesis by (cases "ho_Rel host root h'") (auto split: if_splits)
qed

lemma deny_effect:
  "\<exists>e. deny host cause = (Inl e, [sandbox_event ''denied'' (ho_backend host)]) \<and> errors_Is e ErrSandboxDenied"
  by (cases "ho_record host (sandbox_event ''denied'' (ho_backend host))")
     (auto simp: deny_def Let_def errors_Is_def wrap_sentinel_def)

lemma native_Establish_root:
  "fst (native_Establish host config) = Inr box \<Longrightarrow> resolve_root host (sx_Root config) = Inr (sx_Root (co_config box))"
  by (auto simp: native_Establish_def deny_def Let_def split: sum.splits prod.splits option.splits)

text \<open>Without a sink nothing can fail after the probe: every error is then a denial.\<close>

lemma native_Establish_without_sink:
  assumes "ho_record host = RecordSandboxEvent []" "native_Establish host config = (Inl e, events)"
  shows "errors_Is e ErrSandboxDenied \<and> events = [sandbox_event ''denied'' (ho_backend host)]"
proof -
  from assms obtain cause where "deny host cause = (Inl e, events)"
    by (auto simp: native_Establish_def Let_def split: sum.splits prod.splits option.splits)
  then show ?thesis using deny_effect [of host cause] by auto
qed

text \<open>Where there is no backend the probe fails, and no sandbox is ever established.\<close>

lemma unsupported_never_established:
  assumes "ho_native host = runNative_other GOOS"
  shows "\<exists>e. native_Establish host config = (Inl e, [sandbox_event ''denied'' (ho_backend host)]) \<and> errors_Is e ErrSandboxDenied"
proof -
  have "\<exists>cause. native_Establish host config = deny host cause"
    unfolding native_Establish_def Let_def
    by (auto simp: assms runNative_other_def confinement_Run_def probe_def fail_if_def split: sum.split option.split)
  then obtain cause where "native_Establish host config = deny host cause" ..
  with deny_effect [of host cause] show ?thesis by simp
qed

text \<open>
  [C17] Establishing a sandbox fails closed. A sandbox is handed out only for a root that resolves to a
  directory, with a helper that is a regular file outside of it, after the probe has run inside the
  sandbox without an error and the event of its establishment has been recorded; it is open. In every
  other case there is an error, and a denial is \<open>ErrSandboxDenied\<close>.
\<close>

theorem native_Establish_fail_closed:
  "case native_Establish host config of
     (Inr box, events) \<Rightarrow>
       events = [sandbox_event ''established'' (ho_backend host)] \<and>
       ho_record host (sandbox_event ''established'' (ho_backend host)) = None \<and> \<not> co_closed box \<and>
       resolve_root host (sx_Root config) = Inr (sx_Root (co_config box)) \<and>
       ho_IsDir host (sx_Root (co_config box)) = Inr True \<and>
       (sx_Helper config \<noteq> [] \<longrightarrow> ho_IsRegular host (sx_Helper (co_config box)) = Inr True \<and>
          (\<forall>rel. ho_Rel host (sx_Root (co_config box)) (sx_Helper (co_config box)) = Inr rel \<longrightarrow> \<not> IsLocal rel)) \<and>
       snd (ho_native host (co_config box) probe) = None
   | (Inl e, events) \<Rightarrow>
       events = [sandbox_event ''established'' (ho_backend host)] \<and> ho_record host (sandbox_event ''established'' (ho_backend host)) = Some e \<or>
       events = [sandbox_event ''denied'' (ho_backend host)] \<and> errors_Is e ErrSandboxDenied"
proof (cases "sum_bind (case ho_ctx host 0 of Some e \<Rightarrow> Inl e | None \<Rightarrow> Inr ()) (\<lambda>_.
           sum_bind (resolve_root host (sx_Root config)) (\<lambda>root.
           sum_bind (resolve_helper host root (sx_Helper config)) (\<lambda>helper.
           Inr \<lparr>sx_Root = root, sx_Helper = helper\<rparr>)))")
  case (Inl cause)
  with deny_effect [of host cause] show ?thesis by (auto simp: native_Establish_def)
next
  case (Inr resolved)
  then have paths: "resolve_root host (sx_Root config) = Inr (sx_Root resolved)"
    "resolve_helper host (sx_Root resolved) (sx_Helper config) = Inr (sx_Helper resolved)" by auto
  let ?box = "\<lparr>co_config = resolved, co_backend = ho_backend host, co_closed = False\<rparr>"
  obtain res err where run: "confinement_Run (ho_native host) (ho_ctx host 1) ?box probe = (res, err)" by fastforce
  show ?thesis
  proof (cases err)
    case (Some e)
    with Inr run deny_effect [of host "wrapf ''probe failed'' e"] show ?thesis
      by (auto simp: native_Establish_def Let_def)
  next
    case None
    with run have "snd (ho_native host resolved probe) = None"
      by (auto simp: confinement_Run_def split: option.splits)
    with Inr run None resolve_root_Inr [OF paths(1)] resolve_helper_Inr [OF paths(2)] paths(1) show ?thesis
      by (auto simp: native_Establish_def Let_def split: option.splits)
  qed
qed


section \<open>Goroutines\<close>

text \<open>
  The state behind the mutex, with the number of runs the wait group counts, whether the first
  closer still waits for them, and whether it has recorded the teardown.
\<close>

record cell =
  ce_closed :: bool
  ce_active :: nat
  ce_waiting :: bool
  ce_torn :: bool

datatype cell_step = RunEnter | RunRefused | RunLeave | CloseFirst | CloseAgain | CloseDone | CloseGivesUp

inductive cell_does :: "cell \<Rightarrow> cell_step \<Rightarrow> cell \<Rightarrow> bool" where
  enter: "\<not> ce_closed c \<Longrightarrow> cell_does c RunEnter (c\<lparr>ce_active := Suc (ce_active c)\<rparr>)"
| refused: "ce_closed c \<Longrightarrow> cell_does c RunRefused c"
| leave: "ce_active c = Suc n \<Longrightarrow> cell_does c RunLeave (c\<lparr>ce_active := n\<rparr>)"
| close_first: "\<not> ce_closed c \<Longrightarrow> cell_does c CloseFirst (c\<lparr>ce_closed := True, ce_waiting := True\<rparr>)"
| close_again: "ce_closed c \<Longrightarrow> cell_does c CloseAgain c"
| close_done: "ce_waiting c \<Longrightarrow> ce_active c = 0 \<Longrightarrow> cell_does c CloseDone (c\<lparr>ce_waiting := False, ce_torn := True\<rparr>)"
| close_gives_up: "ce_waiting c \<Longrightarrow> cell_does c CloseGivesUp (c\<lparr>ce_waiting := False\<rparr>)"

inductive_cases cell_doesE: "cell_does c l c'"

definition new_cell :: cell where
  "new_cell = \<lparr>ce_closed = False, ce_active = 0, ce_waiting = False, ce_torn = False\<rparr>"

inductive cell_reaches :: "cell_step list \<Rightarrow> cell \<Rightarrow> bool" where
  cell_start: "cell_reaches [] new_cell"
| cell_next: "cell_reaches ls c \<Longrightarrow> cell_does c l c' \<Longrightarrow> cell_reaches (ls @ [l]) c'"

lemma cell_invariant:
  "cell_reaches ls c \<Longrightarrow>
     count_list ls RunEnter = ce_active c + count_list ls RunLeave \<and>
     (ce_torn c \<longleftrightarrow> CloseDone \<in> set ls) \<and> (ce_torn c \<longrightarrow> ce_closed c \<and> ce_active c = 0 \<and> \<not> ce_waiting c) \<and>
     (ce_closed c \<longleftrightarrow> CloseFirst \<in> set ls) \<and> (ce_waiting c \<longrightarrow> ce_closed c)"
proof (induction rule: cell_reaches.induct)
  case (cell_next ls c l c')
  from cell_next.hyps(2) cell_next.IH show ?case by cases auto
qed (simp add: new_cell_def)

text \<open>Nothing happens after the teardown but refusals.\<close>

lemma torn_stays:
  "cell_reaches ls c \<Longrightarrow> ls = before @ CloseDone # after \<Longrightarrow>
     set after \<subseteq> {RunRefused, CloseAgain} \<and> count_list before RunEnter = count_list before RunLeave"
proof (induction arbitrary: before after rule: cell_reaches.induct)
  case (cell_next ls c l c')
  show ?case
  proof (cases after rule: rev_cases)
    case Nil
    with cell_next.prems have "ls = before" "l = CloseDone" by simp_all
    moreover from this(2) cell_next.hyps(2) have "ce_active c = 0" by (auto elim: cell_doesE)
    ultimately show ?thesis using cell_invariant [OF cell_next.hyps(1)] Nil by simp
  next
    case (snoc rest l')
    with cell_next.prems have ls: "ls = before @ CloseDone # rest" "l = l'" by simp_all
    then have "ce_torn c" "ce_closed c" "ce_active c = 0" "\<not> ce_waiting c"
      using cell_invariant [OF cell_next.hyps(1)] by auto
    with cell_next.hyps(2) have "l \<in> {RunRefused, CloseAgain}" by (auto elim: cell_doesE)
    with cell_next.IH [OF ls(1)] ls(2) snoc show ?thesis by auto
  qed
qed simp

text \<open>
  [C16] A teardown is final. However the runs and the closing of a confinement interleave, when the
  teardown is recorded every run that entered has left, and from then on no run enters: all that
  can still happen is that runs are refused and that further calls of \<open>Close\<close> return.
\<close>

theorem sandbox_teardown_final:
  assumes "cell_reaches (before @ CloseDone # after) c"
  shows "count_list before RunEnter = count_list before RunLeave \<and> set after \<subseteq> {RunRefused, CloseAgain} \<and>
    ce_active c = 0 \<and> ce_closed c"
  using torn_stays [OF assms refl] cell_invariant [OF assms] by auto

theorem sandbox_teardown_final_witness:
  "\<exists>c. cell_reaches ([RunEnter, CloseFirst, RunLeave] @ CloseDone # [RunRefused]) c \<and> ce_active c = 0"
proof -
  have "cell_reaches ([] @ [RunEnter]) (new_cell\<lparr>ce_active := 1\<rparr>)"
    using cell_next [OF cell_start enter] by (simp add: new_cell_def)
  from cell_next [OF this close_first] have
    "cell_reaches [RunEnter, CloseFirst] (new_cell\<lparr>ce_active := 1, ce_closed := True, ce_waiting := True\<rparr>)"
    by (simp add: new_cell_def)
  from cell_next [OF this leave [where n = 0]] have
    "cell_reaches [RunEnter, CloseFirst, RunLeave] (new_cell\<lparr>ce_closed := True, ce_waiting := True\<rparr>)"
    by (simp add: new_cell_def)
  from cell_next [OF this close_done] have
    "cell_reaches [RunEnter, CloseFirst, RunLeave, CloseDone] (new_cell\<lparr>ce_closed := True, ce_torn := True\<rparr>)"
    by (simp add: new_cell_def)
  from cell_next [OF this refused] have
    "cell_reaches ([RunEnter, CloseFirst, RunLeave] @ CloseDone # [RunRefused]) (new_cell\<lparr>ce_closed := True, ce_torn := True\<rparr>)"
    by (simp add: new_cell_def)
  with sandbox_teardown_final [OF this] show ?thesis by blast
qed

section \<open>A concrete host\<close>

definition sample_host :: host where
  "sample_host = \<lparr>ho_backend = ''bubblewrap'', ho_ctx = background, ho_Abs = Inr, ho_EvalSymlinks = Inr,
     ho_IsDir = (\<lambda>p. Inr (p = ''/work'')), ho_IsRegular = (\<lambda>p. Inr (p = ''/opt/helper'')),
     ho_Rel = (\<lambda>_ _. Inr ''../opt/helper''), ho_native = (\<lambda>_ _. (zero_sandbox_result\<lparr>xr_Started := True\<rparr>, None)),
     ho_record = (\<lambda>_. None)\<rparr>"

definition sample_sandbox :: sandboxConfig where
  "sample_sandbox = \<lparr>sx_Root = ''/work'', sx_Helper = ''/opt/helper''\<rparr>"

lemma sample_established:
  "native_Establish sample_host sample_sandbox =
     (Inr \<lparr>co_config = sample_sandbox, co_backend = ''bubblewrap'', co_closed = False\<rparr>, [sandbox_event ''established'' ''bubblewrap''])"
  by code_simp

theorem native_Establish_fail_closed_witness:
  "\<exists>box. native_Establish sample_host sample_sandbox = (Inr box, [sandbox_event ''established'' ''bubblewrap'']) \<and>
     ho_IsRegular sample_host (sx_Helper (co_config box)) = Inr True"
  using native_Establish_fail_closed [of sample_host sample_sandbox] sample_established
  by (auto simp: sample_sandbox_def)

end
