(* ===== verification/Tools.thy ===== *)
theory Tools
  imports SandboxExec
begin

text \<open>
  The built-in tools (\<open>src/tool/tools.go\<close>) and the helper program that runs inside the sandbox
  (\<open>src/cmd/fabricrunner-tool/main.go\<close>). Reading works on the root itself; writing, editing and commands
  only run in a sandbox. The executor and its sandboxes are an interface: the locale
  \<open>sandbox_contract\<close> says what the tools rely on, and the confinement of this program provides it.
\<close>

section \<open>The interface\<close>

record 'b sandbox_ops =
  bo_Establish :: "sandboxConfig \<Rightarrow> error + 'b"
  bo_Capability :: "'b \<Rightarrow> SandboxCapability"
  bo_Run :: "'b \<Rightarrow> sandboxCommand \<Rightarrow> sandboxResult \<times> error option"
  bo_Close :: "'b \<Rightarrow> 'b \<times> error option"

text \<open>
  What the tools rely on: a sandbox that is not established runs nothing, and the output of a
  command keeps its bound.
\<close>

locale sandbox_contract =
  fixes capability :: "'b \<Rightarrow> SandboxCapability"
    and run :: "'b \<Rightarrow> sandboxCommand \<Rightarrow> sandboxResult \<times> error option"
  assumes run_refused: "\<not> sc_Established (capability b) \<Longrightarrow> run b c = (r, e) \<Longrightarrow> e \<noteq> None \<and> \<not> xr_Started r"
    and run_bounded: "run b c = (r, e) \<Longrightarrow> xr_Started r \<Longrightarrow> int (length (xr_Output r)) \<le> xm_MaxOutput c"
begin

lemma started_established: "run b c = (r, e) \<Longrightarrow> xr_Started r \<Longrightarrow> sc_Established (capability b)"
  using run_refused by blast

end

lemma runProcess_bounded:
  "runProcess p c = (r, e) \<Longrightarrow> xr_Started r \<Longrightarrow> 0 \<le> xm_MaxOutput c \<Longrightarrow>
     xr_Output r = take (nat (xm_MaxOutput c)) (concat (pr_chunks p)) \<and>
     (xr_Truncated r \<longleftrightarrow> xm_MaxOutput c < int (length (concat (pr_chunks p))))"
  by (auto simp: runProcess_def write_chunks_empty zero_sandbox_result_def split: option.splits)

text \<open>A confinement keeps the contract on every backend whose runs keep the bound of their command.\<close>

definition bounded_native :: "native_run \<Rightarrow> bool" where
  "bounded_native native \<longleftrightarrow> (\<forall>config c r e. native config c = (r, e) \<longrightarrow> xr_Started r \<longrightarrow> 0 \<le> xm_MaxOutput c \<longrightarrow>
     int (length (xr_Output r)) \<le> xm_MaxOutput c)"

lemma bounded_natives:
  "bounded_native (runNative os)" "bounded_native (runNative_darwin mac)" "bounded_native (runNative_other GOOS)"
  unfolding bounded_native_def
proof (intro allI impI)
  fix config c r e
  assume "runNative os config c = (r, e)" and started: "xr_Started r" and bound: "0 \<le> xm_MaxOutput c"
  then obtain p where "runProcess p c = (r, e)"
    by (auto simp: runNative_def zero_sandbox_result_def split: sum.splits)
  from runProcess_bounded [OF this started bound] show "int (length (xr_Output r)) \<le> xm_MaxOutput c" using bound by simp
next
  show "\<forall>config c r e. runNative_darwin mac config c = (r, e) \<longrightarrow> xr_Started r \<longrightarrow> 0 \<le> xm_MaxOutput c \<longrightarrow>
      int (length (xr_Output r)) \<le> xm_MaxOutput c"
    using runProcess_bounded by (fastforce simp: runNative_darwin_def)
qed (auto simp: runNative_other_def zero_sandbox_result_def)

lemma confinement_contract: "bounded_native native \<Longrightarrow> sandbox_contract confinement_Capability (confinement_Run native ctxErr)"
proof
  assume native: "bounded_native native"
  show "e \<noteq> None \<and> \<not> xr_Started r"
    if "\<not> sc_Established (confinement_Capability b)" "confinement_Run native ctxErr b c = (r, e)" for b c r e
    using that by (auto simp: confinement_Capability_def confinement_Run_def zero_sandbox_result_def)
  show "int (length (xr_Output r)) \<le> xm_MaxOutput c"
    if run: "confinement_Run native ctxErr b c = (r, e)" and started: "xr_Started r" for b c r e
  proof -
    from run started have "0 \<le> xm_MaxOutput c" "native (co_config b) c = (r, e)"
      by (auto simp: confinement_Run_def zero_sandbox_result_def split: option.splits)
    with native started show ?thesis unfolding bounded_native_def by blast
  qed
qed

interpretation confined: sandbox_contract confinement_Capability "confinement_Run (runNative os) ctxErr"
  for os ctxErr
  by (rule confinement_contract [OF bounded_natives(1)])

interpretation seatbelt: sandbox_contract confinement_Capability "confinement_Run (runNative_darwin os) ctxErr"
  for os ctxErr
  by (rule confinement_contract [OF bounded_natives(2)])

section \<open>Handlers\<close>

record toolConfig =
  tg_Root :: string
  tg_Helper :: string
  tg_MaxOutput :: int
  tg_Timeout :: duration
  tg_Classification :: Classification

record 'b handler =
  hd_config :: toolConfig
  hd_name :: string
  hd_box :: "'b option"
  hd_closed :: bool

definition tool_schema :: "string \<Rightarrow> string \<Rightarrow> string" where
  "tool_schema properties required =
     ''{\"type\":\"object\",\"properties\":{'' @ properties @ ''},\"required\":['' @ required @ ''],\"additionalProperties\":false}''"

definition tool_specs :: "(string \<times> string \<times> string) list" where
  "tool_specs =
     [(''read'', ''\"path\":{\"type\":\"string\",\"minLength\":1}'', ''\"path\"''),
      (''write'', ''\"path\":{\"type\":\"string\",\"minLength\":1},\"text\":{\"type\":\"string\"}'', ''\"path\",\"text\"''),
      (''edit'', ''\"path\":{\"type\":\"string\",\"minLength\":1},\"old\":{\"type\":\"string\",\"minLength\":1},\"new\":{\"type\":\"string\"}'',
        ''\"path\",\"old\",\"new\"''),
      (''command'', ''\"args\":{\"type\":\"array\",\"minItems\":1,\"maxItems\":256,\"items\":{\"type\":\"string\"}}'', ''\"args\"'')]"

definition output_schema :: string where
  "output_schema =
     ''{\"type\":\"object\",\"properties\":{\"text\":{\"type\":\"string\"},\"truncated\":{\"type\":\"boolean\"},\"partial_effects\":{\"type\":\"boolean\"},\"exit_code\":{\"type\":\"integer\"},\"error\":{\"type\":\"string\"}},\"required\":[\"text\",\"truncated\",\"partial_effects\",\"exit_code\"],\"additionalProperties\":false}''"

text \<open>The definition of a tool, whether it may run beside others, and its handler.\<close>

definition bind_tool :: "toolConfig \<Rightarrow> string \<times> string \<times> string \<Rightarrow> ToolDefinition \<times> bool \<times> 'b handler" where
  "bind_tool config spec =
     (case spec of
        (name, properties, required) \<Rightarrow>
          (\<lparr>td_SideEffecting = (name \<noteq> ''read''), td_Name = name, td_Description = ''Bounded workspace '' @ name,
            td_InputSchema = tool_schema properties required, td_OutputSchema = output_schema, td_Strict = True\<rparr>,
           name = ''read'', \<lparr>hd_config = config, hd_name = name, hd_box = None, hd_closed = False\<rparr>))"

text \<open>\<open>isDir\<close> is what \<open>os.Stat\<close> says about the root; an empty classification selects the default.\<close>

definition tool_New :: "(string \<Rightarrow> error + bool) \<Rightarrow> toolConfig \<Rightarrow> error + (ToolDefinition \<times> bool \<times> 'b handler) list" where
  "tool_New isDir config =
     (let maxOutput = (if tg_MaxOutput config = 0 then 65536 else tg_MaxOutput config);
          timeout = (if tg_Timeout config = 0 then 60 * 10 ^ 9 else tg_Timeout config);
          class = (if tg_Classification config = ClassOther [] then ClassConfidential else tg_Classification config)
      in case first_error
           [fail_if (tg_Root config = []) ''explicit tool root required'',
            fail_if (isDir (tg_Root config) \<noteq> Inr True) ''tool root must be a directory'',
            fail_if (maxOutput < 1 \<or> 2 ^ 20 < maxOutput) ''output bound must be between 1 and 1 MiB'',
            fail_if (timeout < 0) ''negative timeout'',
            Classification_Validate class] of
           Some e \<Rightarrow> Inl e
         | None \<Rightarrow>
             Inr (map (bind_tool (config\<lparr>tg_MaxOutput := maxOutput, tg_Timeout := timeout, tg_Classification := class\<rparr>))
                    tool_specs))"

definition no_capability :: SandboxCapability where
  "no_capability = \<lparr>sc_Established = False, sc_Backend = []\<rparr>"

definition PrepareSandbox :: "'b sandbox_ops \<Rightarrow> 'b handler \<Rightarrow> (error + SandboxCapability) \<times> 'b handler" where
  "PrepareSandbox ops h =
     (if hd_closed h then (Inl (errorf ''tool is closed''), h)
      else if hd_name h = ''read'' then (Inr no_capability, h)
      else case hd_box h of
        Some box \<Rightarrow> (Inr (bo_Capability ops box), h)
      | None \<Rightarrow>
          (case bo_Establish ops \<lparr>sx_Root = tg_Root (hd_config h), sx_Helper = tg_Helper (hd_config h)\<rparr> of
             Inl e \<Rightarrow> (Inl e, h)
           | Inr box \<Rightarrow> (Inr (bo_Capability ops box), h\<lparr>hd_box := Some box\<rparr>)))"

text \<open>
  What an execution meets beside the sandbox: the decoders and the encoder of JSON, the recording of
  sandbox events, and the file system for reading. \<open>tv_Unmarshal\<close> decodes into a result that already has values.
\<close>

record tool_env =
  tv_decode :: "bytes \<Rightarrow> error + (toolInput \<times> bytes)"
  tv_Unmarshal :: "bytes \<Rightarrow> toolResult \<Rightarrow> error + toolResult"
  tv_Marshal :: "toolResult \<Rightarrow> error + bytes"
  tv_record :: "SandboxEvent \<Rightarrow> error option"
  tv_fs :: fs_env
  tv_nodes :: nodes

text \<open>
  The effects of an execution: the commands given to a sandbox, and the events handed to the record.
\<close>

record 'b tool_effects =
  te_runs :: "('b \<times> sandboxCommand) list"
  te_events :: "SandboxEvent list"

definition no_effects :: "'b tool_effects" where
  "no_effects = \<lparr>te_runs = [], te_events = []\<rparr>"

text \<open>A result is cut to the output bound and encoded; an error without effects is an error.\<close>

definition bounded_text :: "int \<Rightarrow> toolResult \<Rightarrow> toolResult" where
  "bounded_text bound result =
     (if bound < int (length (to_Text result))
      then result\<lparr>to_Text := take (nat bound) (to_Text result), to_Truncated := True\<rparr> else result)"

definition tool_output :: "tool_env \<Rightarrow> toolConfig \<Rightarrow> toolResult \<Rightarrow> error option \<Rightarrow> error + ToolOutput" where
  "tool_output env config result err =
     (if err \<noteq> None \<and> \<not> to_PartialEffects result then Inl (the err)
      else
        let result = (if err \<noteq> None then result\<lparr>to_Error := ''tool failed; effects may have occurred''\<rparr> else result)
        in sum_bind (tv_Marshal env (bounded_text (tg_MaxOutput config) result)) (\<lambda>data.
             Inr \<lparr>to_JSON = data, to_Content = [], to_Classification = tg_Classification config,
                  to_IsError = (err \<noteq> None)\<rparr>))"

text \<open>The arguments and the bound of the command a tool runs.\<close>

definition tool_command :: "'b handler \<Rightarrow> toolInput \<Rightarrow> error + (string list \<times> int)" where
  "tool_command h input =
     (let config = hd_config h in
      if hd_name h \<noteq> ''command'' \<and> tg_Helper config = [] then Inl (sandbox_denied ''trusted helper is required'')
      else
        let args = (if hd_name h \<noteq> ''command'' then [tg_Helper config, hd_name h] else ti_Args input);
            bound = (if hd_name h \<noteq> ''command'' then 65536 else tg_MaxOutput config)
        in if args = [] \<or> 256 < length args then Inl (errorf ''bounded argument vector required'') else Inr (args, bound))"

definition run_in_box ::
  "'b sandbox_ops \<Rightarrow> tool_env \<Rightarrow> 'b handler \<Rightarrow> 'b \<Rightarrow> sandboxCommand \<Rightarrow> (error + ToolOutput) \<times> 'b tool_effects" where
  "run_in_box ops env h box command =
     (case bo_Run ops box command of
        (execution, runErr) \<Rightarrow>
          let event = \<lparr>se_Phase = (if runErr = None then ''execution_completed'' else ''execution_failed''),
                se_Backend = sc_Backend (bo_Capability ops box), se_PartialEffects = xr_Started execution\<rparr>;
              effects = \<lparr>te_runs = [(box, command)], te_events = [event]\<rparr>;
              result = \<lparr>to_Text = xr_Output execution, to_Truncated = xr_Truncated execution,
                to_PartialEffects = xr_Started execution, to_ExitCode = xr_ExitCode execution, to_Error = []\<rparr>
          in case tv_record env event of
               Some e \<Rightarrow> (Inl e, effects)
             | None \<Rightarrow>
                 (sum_bind (if hd_name h \<noteq> ''command'' \<and> runErr = None
                            then tv_Unmarshal env (xr_Output execution) result else Inr result) (\<lambda>result.
                    tool_output env (hd_config h) result runErr), effects))"

definition Execute ::
  "'b sandbox_ops \<Rightarrow> tool_env \<Rightarrow> 'b handler \<Rightarrow> ToolInvocation \<Rightarrow> (error + ToolOutput) \<times> 'b handler \<times> 'b tool_effects" where
  "Execute ops env h call =
     (case toolop_Decode (tv_decode env) (tk_Input (ti_Call call)) of
        Inl e \<Rightarrow> (Inl e, h, no_effects)
      | Inr input \<Rightarrow>
          (case (if hd_name h \<noteq> ''command'' then ValidatePath (ti_Path input) else None) of
             Some e \<Rightarrow> (Inl e, h, no_effects)
           | None \<Rightarrow>
               (case PrepareSandbox ops h of
                  (Inl e, h) \<Rightarrow> (Inl e, h, no_effects)
                | (Inr _, h) \<Rightarrow>
                    if hd_name h = ''read'' then
                      (case fst (toolop_Run (tv_fs env) (tv_nodes env) ''read'' input (tg_MaxOutput (hd_config h))) of
                         (result, err) \<Rightarrow> (tool_output env (hd_config h) result err, h, no_effects))
                    else
                      (case (tool_command h input, hd_box h) of
                         (Inl e, _) \<Rightarrow> (Inl e, h, no_effects)
                       | (Inr _, None) \<Rightarrow> (Inl (errorf ''nil pointer''), h, no_effects)
                       | (Inr (args, bound), Some box) \<Rightarrow>
                           (case run_in_box ops env h box
                              \<lparr>xm_Args = args, xm_Input = tk_Input (ti_Call call), xm_MaxOutput = bound\<rparr> of
                              (r, effects) \<Rightarrow> (r, h, effects))))))"

definition handler_Close :: "'b sandbox_ops \<Rightarrow> 'b handler \<Rightarrow> 'b handler \<times> error option" where
  "handler_Close ops h =
     (let h = h\<lparr>hd_closed := True\<rparr> in
      case hd_box h of
        None \<Rightarrow> (h, None)
      | Some box \<Rightarrow> (case bo_Close ops box of (box, err) \<Rightarrow> (h\<lparr>hd_box := Some box\<rparr>, err)))"

section \<open>The helper\<close>

text \<open>
  The program inside the sandbox: its exit code, what it writes to its standard output, and the files
  after it. A failing operation still writes its result, with an error text, and exits with 1.
\<close>

definition helper_main ::
  "(bytes \<Rightarrow> error + (toolInput \<times> bytes)) \<Rightarrow> (toolResult \<Rightarrow> error + bytes) \<Rightarrow> fs_env \<Rightarrow> nodes \<Rightarrow> string list \<Rightarrow> error + bytes
    \<Rightarrow> int \<times> bytes \<times> nodes" where
  "helper_main decode Encode env fs args stdin =
     (if length args \<noteq> 2 then (2, [], fs)
      else case sum_bind stdin (\<lambda>data. toolop_Decode decode (take (nat (MaxInput + 1)) data)) of
        Inl _ \<Rightarrow> (2, [], fs)
      | Inr input \<Rightarrow>
          (case toolop_Run env fs (args ! 1) input 65536 of
             ((result, err), fs) \<Rightarrow>
               let result = (if err \<noteq> None then result\<lparr>to_Error := ''filesystem operation refused''\<rparr> else result)
               in case Encode result of
                    Inl _ \<Rightarrow> (2, [], fs)
                  | Inr out \<Rightarrow> (if err \<noteq> None then 1 else 0, out, fs)))"

section \<open>What a tool does\<close>

lemma bounded_text_simps [simp]:
  "0 \<le> bound \<Longrightarrow> int (length (to_Text (bounded_text bound res))) \<le> bound"
  "to_PartialEffects (bounded_text bound res) = to_PartialEffects res"
  by (simp_all add: bounded_text_def)

lemma tool_output_Inr:
  assumes "tool_output env config res err = Inr out"
  shows "\<exists>res'. tv_Marshal env res' = Inr (to_JSON out) \<and> (0 \<le> tg_MaxOutput config \<longrightarrow> int (length (to_Text res')) \<le> tg_MaxOutput config) \<and>
    to_PartialEffects res' = to_PartialEffects res"
    "to_Classification out = tg_Classification config" "to_IsError out \<longleftrightarrow> err \<noteq> None"
proof -
  define shown where "shown = bounded_text (tg_MaxOutput config)
    (if err \<noteq> None then res\<lparr>to_Error := ''tool failed; effects may have occurred''\<rparr> else res)"
  from assms have "tv_Marshal env shown = Inr (to_JSON out)" "to_Classification out = tg_Classification config"
    "to_IsError out \<longleftrightarrow> err \<noteq> None"
    by (auto simp: tool_output_def shown_def Let_def split: if_splits)
  moreover have "0 \<le> tg_MaxOutput config \<Longrightarrow> int (length (to_Text shown)) \<le> tg_MaxOutput config"
    "to_PartialEffects shown = to_PartialEffects res"
    by (auto simp: shown_def)
  ultimately show "\<exists>res'. tv_Marshal env res' = Inr (to_JSON out) \<and>
      (0 \<le> tg_MaxOutput config \<longrightarrow> int (length (to_Text res')) \<le> tg_MaxOutput config) \<and> to_PartialEffects res' = to_PartialEffects res"
    "to_Classification out = tg_Classification config" "to_IsError out \<longleftrightarrow> err \<noteq> None" by blast+
qed

lemma PrepareSandbox_Inr:
  assumes "PrepareSandbox ops h = (Inr c, h')"
  shows "\<not> hd_closed h" "hd_config h' = hd_config h" "hd_name h' = hd_name h"
    "hd_name h \<noteq> ''read'' \<Longrightarrow> \<exists>box. hd_box h' = Some box \<and> (hd_box h = Some box \<or> hd_box h = None \<and>
       bo_Establish ops \<lparr>sx_Root = tg_Root (hd_config h), sx_Helper = tg_Helper (hd_config h)\<rparr> = Inr box)"
  using assms by (auto simp: PrepareSandbox_def split: if_splits option.splits sum.splits)

text \<open>The command a tool may give to its sandbox.\<close>

definition proper_command :: "tool_env \<Rightarrow> 'b handler \<Rightarrow> ToolInvocation \<Rightarrow> sandboxCommand \<Rightarrow> bool" where
  "proper_command env h call command \<longleftrightarrow>
     xm_Input command = tk_Input (ti_Call call) \<and> xm_Args command \<noteq> [] \<and> length (xm_Args command) \<le> 256 \<and>
     (\<exists>input. toolop_Decode (tv_decode env) (tk_Input (ti_Call call)) = Inr input \<and>
        (if hd_name h = ''command'' then xm_Args command = ti_Args input
         else ValidatePath (ti_Path input) = None \<and> tg_Helper (hd_config h) \<noteq> [] \<and>
           xm_Args command = [tg_Helper (hd_config h), hd_name h]))"

lemma tool_command_Inr:
  "tool_command h input = Inr (args, bound) \<Longrightarrow> args \<noteq> [] \<and> length args \<le> 256 \<and>
     (if hd_name h = ''command'' then args = ti_Args input
      else tg_Helper (hd_config h) \<noteq> [] \<and> args = [tg_Helper (hd_config h), hd_name h])"
  by (auto simp: tool_command_def Let_def split: if_splits)

lemma Execute_cases:
  assumes "Execute ops env h call = (r, h', effects)"
  obtains e where "r = Inl e" "effects = no_effects"
  | input res err where "\<not> hd_closed h" "hd_name h = ''read''" "effects = no_effects"
      "fst (toolop_Run (tv_fs env) (tv_nodes env) ''read'' input (tg_MaxOutput (hd_config h))) = (res, err)"
      "r = tool_output env (hd_config h) res err"
  | box command where "\<not> hd_closed h" "hd_name h \<noteq> ''read''" "hd_box h' = Some box"
      "hd_box h = Some box \<or> hd_box h = None \<and>
        bo_Establish ops \<lparr>sx_Root = tg_Root (hd_config h), sx_Helper = tg_Helper (hd_config h)\<rparr> = Inr box"
      "proper_command env h call command" "run_in_box ops env h' box command = (r, effects)"
      "hd_config h' = hd_config h" "hd_name h' = hd_name h"
proof (cases "toolop_Decode (tv_decode env) (tk_Input (ti_Call call))")
  case (Inl e)
  with assms that(1) show ?thesis by (auto simp: Execute_def)
next
  case (Inr input)
  show ?thesis
  proof (cases "if hd_name h \<noteq> ''command'' then ValidatePath (ti_Path input) else None")
    case (Some e)
    with assms Inr that(1) show ?thesis by (auto simp: Execute_def)
  next
    case None
    obtain p h1 where prep: "PrepareSandbox ops h = (p, h1)" by fastforce
    show ?thesis
    proof (cases p)
      case (Inl e)
      with assms Inr None prep that(1) show ?thesis by (auto simp: Execute_def)
    next
      case p: (Inr c)
      note P = PrepareSandbox_Inr [OF prep [unfolded p]]
      show ?thesis
      proof (cases "hd_name h = ''read''")
        case True
        obtain res err where run: "fst (toolop_Run (tv_fs env) (tv_nodes env) ''read'' input (tg_MaxOutput (hd_config h))) = (res, err)"
          by fastforce
        with assms Inr None prep p P True show ?thesis
          by (intro that(2) [OF P(1) True _ run]) (auto simp: Execute_def)
      next
        case False
        with P(4) obtain box where box: "hd_box h1 = Some box" "hd_box h = Some box \<or> hd_box h = None \<and>
          bo_Establish ops \<lparr>sx_Root = tg_Root (hd_config h), sx_Helper = tg_Helper (hd_config h)\<rparr> = Inr box" by blast
        show ?thesis
        proof (cases "tool_command h1 input")
          case (Inl e)
          with assms Inr None prep p P False that(1) show ?thesis by (auto simp: Execute_def)
        next
          case cmd: (Inr x)
          obtain args bound where x: "x = (args, bound)" by fastforce
          let ?command = "\<lparr>xm_Args = args, xm_Input = tk_Input (ti_Call call), xm_MaxOutput = bound\<rparr>"
          have "proper_command env h call ?command"
            using tool_command_Inr [OF cmd [unfolded x]] Inr None P(2,3) by (auto simp: proper_command_def split: if_splits)
          moreover have "h' = h1" "run_in_box ops env h1 box ?command = (r, effects)"
            using assms Inr None prep p P False cmd x box(1) by (auto simp: Execute_def split: prod.splits)
          ultimately show ?thesis using that(3) P False box by blast
        qed
      qed
    qed
  qed
qed

lemma run_in_box_runs: "run_in_box ops env h box command = (r, effects) \<Longrightarrow> te_runs effects = [(box, command)]"
  by (auto simp: run_in_box_def Let_def split: prod.splits option.splits)

lemma Execute_ran:
  assumes "Execute ops env h call = (r, h', effects)" "te_runs effects = [(box, command)]"
  shows "proper_command env h call command" "run_in_box ops env h' box command = (r, effects)"
    "hd_box h = Some box \<or> hd_box h = None \<and>
       bo_Establish ops \<lparr>sx_Root = tg_Root (hd_config h), sx_Helper = tg_Helper (hd_config h)\<rparr> = Inr box"
proof -
  from assms(1) obtain box' command' where ran: "proper_command env h call command'"
    "run_in_box ops env h' box' command' = (r, effects)"
    "hd_box h = Some box' \<or> hd_box h = None \<and>
       bo_Establish ops \<lparr>sx_Root = tg_Root (hd_config h), sx_Helper = tg_Helper (hd_config h)\<rparr> = Inr box'"
  proof (cases rule: Execute_cases)
    case (3 box' command')
    then show ?thesis by (intro that [of command' box'])
  qed (use assms(2) in \<open>simp_all add: no_effects_def\<close>)
  from run_in_box_runs [OF ran(2)] assms(2) have "box' = box" "command' = command" by simp_all
  with ran show "proper_command env h call command" "run_in_box ops env h' box command = (r, effects)"
    "hd_box h = Some box \<or> hd_box h = None \<and>
       bo_Establish ops \<lparr>sx_Root = tg_Root (hd_config h), sx_Helper = tg_Helper (hd_config h)\<rparr> = Inr box" by simp_all
qed

section \<open>Properties of the tools\<close>


text \<open>
  Effects are not hidden by a failure. When the sandbox has started the command and the command,
  or the run of the helper, failed, an execution whose event was recorded returns an output that is marked as an
  error and whose result says that effects may have occurred; it is never a bare error.
\<close>

theorem Execute_reports_effects:
  assumes "Execute ops env h call = (r, h', effects)" "te_runs effects = [(box, command)]" "te_events effects = [event]"
    and "bo_Run ops box command = (execution, Some failure)" "xr_Started execution" "tv_record env event = None"
    and "\<And>res. \<not> isl (tv_Marshal env res)"
  shows "\<exists>out shown. r = Inr out \<and> to_IsError out \<and> tv_Marshal env shown = Inr (to_JSON out) \<and> to_PartialEffects shown"
proof -
  note ran = Execute_ran [OF assms(1,2)]
  define res where "res = \<lparr>to_Text = xr_Output execution, to_Truncated = xr_Truncated execution,
    to_PartialEffects = True, to_ExitCode = xr_ExitCode execution, to_Error = []\<rparr>"
  have r: "r = tool_output env (hd_config h') res (Some failure)"
    using ran(2) assms(3-6) by (auto simp: run_in_box_def Let_def res_def split: option.splits)
  have "\<not> isl r"
    using assms(7) unfolding r by (auto simp: tool_output_def res_def Let_def isl_def elim!: sum_bind.elims)
  then obtain out where out: "r = Inr out" by (cases r) auto
  from tool_output_Inr [OF out [unfolded r]] show ?thesis using out by (auto simp: res_def)
qed

text \<open>A closed tool runs nothing any more.\<close>

lemma closed_tool_runs_nothing:
  assumes "handler_Close ops h = (h1, err)" "Execute ops' env h1 call = (r, h2, effects)"
  shows "te_runs effects = [] \<and> isl r"
proof -
  have closed: "hd_closed h1" using assms(1) by (auto simp: handler_Close_def Let_def split: option.splits prod.splits)
  from assms(2) show ?thesis
  proof (cases rule: Execute_cases)
    case (1 e)
    then show ?thesis by (simp add: no_effects_def)
  qed (use closed in simp_all)
qed

text \<open>The four tools that \<open>New\<close> binds.\<close>

lemma tool_specs_valid:
  "list_all (\<lambda>spec. ToolDefinition_Validate (fst (bind_tool config spec)) = None) tool_specs"
proof -
  have "list_all (\<lambda>(name, properties, required). json_Valid (tool_schema properties required)) tool_specs" "json_Valid output_schema"
    by code_simp+
  then show ?thesis
    by (simp add: tool_specs_def bind_tool_def ToolDefinition_Validate_def tool_schema_def)
qed

lemma tool_New_Inr:
  assumes "tool_New isDir config = Inr bindings"
  shows "map (td_Name \<circ> fst) bindings = [''read'', ''write'', ''edit'', ''command'']"
    "\<forall>b\<in>set bindings. ToolDefinition_Validate (fst b) = None"
    "\<forall>(d, parallel, h)\<in>set bindings. (parallel \<longleftrightarrow> \<not> td_SideEffecting d) \<and> (td_SideEffecting d \<longleftrightarrow> hd_name h \<noteq> ''read'') \<and>
       hd_box h = None \<and> \<not> hd_closed h \<and> 1 \<le> tg_MaxOutput (hd_config h) \<and> tg_MaxOutput (hd_config h) \<le> 2 ^ 20"
proof -
  define config' where "config' = config\<lparr>
    tg_MaxOutput := (if tg_MaxOutput config = 0 then 65536 else tg_MaxOutput config),
    tg_Timeout := (if tg_Timeout config = 0 then 60 * 10 ^ 9 else tg_Timeout config),
    tg_Classification := (if tg_Classification config = ClassOther [] then ClassConfidential else tg_Classification config)\<rparr>"
  have "\<not> (tg_MaxOutput config' < 1 \<or> 2 ^ 20 < tg_MaxOutput config')"
  proof
    assume "tg_MaxOutput config' < 1 \<or> 2 ^ 20 < tg_MaxOutput config'"
    then show False using assms unfolding tool_New_def Let_def config'_def
      by (auto simp: fail_if_def split: option.splits if_splits)
  qed
  then have bound: "1 \<le> tg_MaxOutput config'" "tg_MaxOutput config' \<le> 2 ^ 20" by simp_all
  have bindings: "bindings = map (bind_tool config') tool_specs"
    using assms unfolding tool_New_def Let_def config'_def [symmetric] by (simp split: option.splits)
  show "map (td_Name \<circ> fst) bindings = [''read'', ''write'', ''edit'', ''command'']"
    by (simp add: bindings tool_specs_def bind_tool_def)
  show "\<forall>b\<in>set bindings. ToolDefinition_Validate (fst b) = None"
    using tool_specs_valid [of config'] by (auto simp: bindings list_all_iff)
  show "\<forall>(d, parallel, h)\<in>set bindings. (parallel \<longleftrightarrow> \<not> td_SideEffecting d) \<and> (td_SideEffecting d \<longleftrightarrow> hd_name h \<noteq> ''read'') \<and>
       hd_box h = None \<and> \<not> hd_closed h \<and> 1 \<le> tg_MaxOutput (hd_config h) \<and> tg_MaxOutput (hd_config h) \<le> 2 ^ 20"
    using bound by (auto simp: bindings tool_specs_def bind_tool_def)
qed

section \<open>Tools in the native sandbox\<close>

text \<open>The executor of this program, with what the host, the context and the system do as parameters.\<close>

definition native_ops ::
  "host \<Rightarrow> linux \<Rightarrow> error option \<Rightarrow> (confinement \<Rightarrow> confinement \<times> error option) \<Rightarrow> confinement sandbox_ops" where
  "native_ops host os ctxErr close =
     \<lparr>bo_Establish = (\<lambda>config. fst (native_Establish (host\<lparr>ho_native := runNative os\<rparr>) config)),
      bo_Capability = confinement_Capability, bo_Run = confinement_Run (runNative os) ctxErr, bo_Close = close\<rparr>"

lemma runNative_started:
  "runNative os config command = (r, e) \<Longrightarrow> xr_Started r \<Longrightarrow> \<exists>program. lx_bwrap os = Inr program \<and>
     pr_start (lx_spawn os program (bwrap_args (lx_present os) config command) (sx_Root config) (xm_Input command)) = None"
  by (auto simp: runNative_def runProcess_def zero_sandbox_result_def split: sum.splits option.splits)


text \<open>
  The helper is recognised by its resolved path, but a tool names it by the configured one: with a
  helper that is given by a link or a relative path, the path stays as it is in the sandbox, where it
  does not exist.
\<close>

lemma linked_helper_not_replaced:
  "sx_Helper config \<noteq> helper \<Longrightarrow> xm_Args command = [helper, name] \<Longrightarrow>
     \<exists>options. bwrap_args present config command = options @ [''--'', helper, name]"
  by (simp add: bwrap_args_def)

section \<open>Tool, sandbox and helper together\<close>

lemma helper_main_ok:
  assumes "helper_main decode Encode env fs [prog, operation] (Inr data) = (0, out, fs')" "toolop_Decode decode data = Inr input"
  shows "\<exists>result. toolop_Run env fs operation input 65536 = ((result, None), fs') \<and> Encode result = Inr out"
proof -
  have "int (length data) \<le> MaxInput" using assms(2) by (auto simp: toolop_Decode_def split: if_splits)
  then have "take (nat (MaxInput + 1)) data = data" by simp
  with assms show ?thesis by (auto simp: helper_main_def Let_def split: prod.splits sum.splits if_splits)
qed


end
