(* ===== verification/ToolsExample.thy ===== *)
theory ToolsExample
  imports Tools
begin

text \<open>
  Concrete tools: a file system with one file, a helper that writes it, a sandbox that runs the helper
  on it, and a command that fails after it has started.
\<close>

section \<open>Files\<close>

definition sample_files :: fs_env where
  "sample_files = \<lparr>fe_ctx = background, fe_fault = (\<lambda>_. None), fe_locate = (\<lambda>_ p. Inr p), fe_follow = (\<lambda>_ p. Inr p),
     fe_random = (\<lambda>_. ''X''), fe_written = 0\<rparr>"

definition sample_nodes :: nodes where
  "sample_nodes = [''a.txt'' \<mapsto> Regular ''old'']"

definition sample_input :: toolInput where
  "sample_input = \<lparr>ti_Path = ''a.txt'', ti_Text = ''new'', ti_Old = [], ti_New = [], ti_Args = []\<rparr>"

lemma sample_fresh: "fresh_names sample_files ''a.txt''"
proof -
  have "temp_path sample_files ''a.txt'' i = ''.fabricrunner-X''" for i
  proof -
    have "temp_path sample_files ''a.txt'' i = temp_path sample_files ''a.txt'' 0"
      by (simp add: temp_path_def sample_files_def)
    also have "\<dots> = ''.fabricrunner-X''" by code_simp
    finally show ?thesis .
  qed
  then show ?thesis by (simp add: fresh_names_def sample_files_def)
qed

lemma sample_write:
  "\<exists>result fs'. toolop_Run sample_files sample_nodes ''write'' sample_input 65536 = ((result, None), fs') \<and>
     to_PartialEffects result"
proof -
  have "(case fst (toolop_Run sample_files sample_nodes ''write'' sample_input 65536) of
      (result, err) \<Rightarrow> err = None \<and> to_PartialEffects result)"
    by code_simp
  then show ?thesis
    by (cases "toolop_Run sample_files sample_nodes ''write'' sample_input 65536") auto
qed

theorem toolop_Run_atomic_witness:
  "\<exists>target. snd (toolop_Run sample_files sample_nodes ''write'' sample_input 65536) = sample_nodes(target \<mapsto> Regular ''new'')"
proof -
  from sample_write obtain result fs' where run:
    "toolop_Run sample_files sample_nodes ''write'' sample_input 65536 = ((result, None), fs')" "to_PartialEffects result"
    by blast
  with toolop_Run_atomic [OF run(1)] sample_fresh show ?thesis
    by (auto simp: sample_input_def new_text_def)
qed

section \<open>Executions\<close>

definition sample_call :: ToolInvocation where
  "sample_call = \<lparr>ti_WorkloadID = sample_id, ti_StepID = sample_id, ti_AttemptID = sample_id, ti_Turn = 1,
     ti_Call = \<lparr>tk_ID = ''1'', tk_Name = ''write'', tk_Input = ''{}''\<rparr>\<rparr>"

definition sample_tool_env :: "toolInput \<Rightarrow> tool_env" where
  "sample_tool_env input = \<lparr>tv_decode = (\<lambda>_. Inr (input, [])), tv_Unmarshal = (\<lambda>_ res. Inr res), tv_Marshal = (\<lambda>_. Inr ''{}''),
     tv_record = (\<lambda>_. None), tv_fs = sample_files, tv_nodes = sample_nodes\<rparr>"

definition sample_handler :: "string \<Rightarrow> 'b handler" where
  "sample_handler name = \<lparr>hd_config = \<lparr>tg_Root = ''/work'', tg_Helper = ''/opt/helper'', tg_MaxOutput = 100, tg_Timeout = 1,
     tg_Classification = ClassInternal\<rparr>, hd_name = name, hd_box = None, hd_closed = False\<rparr>"

text \<open>A sandbox that runs the helper, and one whose command fails after it has started.\<close>

definition run_helper :: "sandboxCommand \<Rightarrow> int \<times> bytes \<times> nodes" where
  "run_helper command = helper_main (\<lambda>_. Inr (sample_input, [])) (\<lambda>_. Inr ''{}'') sample_files sample_nodes
     (xm_Args command) (Inr (xm_Input command))"

definition helper_ops :: "unit sandbox_ops" where
  "helper_ops = \<lparr>bo_Establish = (\<lambda>_. Inr ()), bo_Capability = (\<lambda>_. \<lparr>sc_Established = True, sc_Backend = ''test''\<rparr>),
     bo_Run = (\<lambda>_ command. case run_helper command of
       (code, out, _) \<Rightarrow> (\<lparr>xr_Output = out, xr_Truncated = False, xr_Started = True, xr_ExitCode = code\<rparr>,
         if code = 0 then None else Some (errorf ''exit status''))),
     bo_Close = (\<lambda>b. (b, None))\<rparr>"

definition failing_ops :: "unit sandbox_ops" where
  "failing_ops = helper_ops\<lparr>bo_Run := (\<lambda>_ _. (\<lparr>xr_Output = ''partial'', xr_Truncated = False, xr_Started = True, xr_ExitCode = 1\<rparr>,
     Some (errorf ''exit status'')))\<rparr>"

definition write_command :: sandboxCommand where
  "write_command = \<lparr>xm_Args = [''/opt/helper'', ''write''], xm_Input = ''{}'', xm_MaxOutput = 65536\<rparr>"

definition sample_output :: "bool \<Rightarrow> ToolOutput" where
  "sample_output failed = \<lparr>to_JSON = ''{}'', to_Content = [], to_Classification = ClassInternal, to_IsError = failed\<rparr>"

lemma helper_writes: "fst (run_helper write_command) = 0" "fst (snd (run_helper write_command)) = ''{}''"
proof -
  from sample_write obtain result fs' where
    "toolop_Run sample_files sample_nodes ''write'' sample_input 65536 = ((result, None), fs')" by blast
  then show "fst (run_helper write_command) = 0" "fst (snd (run_helper write_command)) = ''{}''"
    by (simp_all add: run_helper_def write_command_def helper_main_def toolop_Decode_def MaxInput_def)
qed

lemma helper_runs:
  "bo_Run helper_ops () write_command =
     (\<lparr>xr_Output = ''{}'', xr_Truncated = False, xr_Started = True, xr_ExitCode = 0\<rparr>, None)"
  using helper_writes by (auto simp: helper_ops_def split: prod.split)

lemma write_executed:
  "\<exists>h'. Execute helper_ops (sample_tool_env sample_input) (sample_handler ''write'') sample_call =
     (Inr (sample_output False), h', \<lparr>te_runs = [((), write_command)], te_events =
       [\<lparr>se_Phase = ''execution_completed'', se_Backend = ''test'', se_PartialEffects = True\<rparr>]\<rparr>)"
proof -
  have path: "ValidatePath (ti_Path sample_input) = None" by code_simp
  have ops: "bo_Establish helper_ops config = Inr ()" "bo_Capability helper_ops box = \<lparr>sc_Established = True, sc_Backend = ''test''\<rparr>"
    for config box by (simp_all add: helper_ops_def)
  show ?thesis
    using helper_runs path ops
    by (simp add: Execute_def toolop_Decode_def MaxInput_def sample_call_def sample_tool_env_def sample_handler_def
        PrepareSandbox_def tool_command_def run_in_box_def write_command_def tool_output_def bounded_text_def sample_output_def)
qed

lemma command_failed:
  "\<exists>r h'. Execute failing_ops (sample_tool_env (sample_input\<lparr>ti_Args := [''false'']\<rparr>)) (sample_handler ''command'') sample_call =
     (r, h', \<lparr>te_runs = [((), \<lparr>xm_Args = [''false''], xm_Input = ''{}'', xm_MaxOutput = 100\<rparr>)], te_events =
       [\<lparr>se_Phase = ''execution_failed'', se_Backend = ''test'', se_PartialEffects = True\<rparr>]\<rparr>)"
proof -
  have "(case Execute failing_ops (sample_tool_env (sample_input\<lparr>ti_Args := [''false'']\<rparr>)) (sample_handler ''command'') sample_call of
      (_, _, effects) \<Rightarrow> effects = \<lparr>te_runs = [((), \<lparr>xm_Args = [''false''], xm_Input = ''{}'', xm_MaxOutput = 100\<rparr>)], te_events =
        [\<lparr>se_Phase = ''execution_failed'', se_Backend = ''test'', se_PartialEffects = True\<rparr>]\<rparr>)"
    by code_simp
  then show ?thesis by (auto split: prod.splits)
qed

lemma sample_tool_env_simps [simp]:
  "tv_record (sample_tool_env input) event = None" "tv_Marshal (sample_tool_env input) res = Inr ''{}''"
  "tg_MaxOutput (hd_config (sample_handler name)) = 100" "hd_name (sample_handler name) = name"
  "tv_decode (sample_tool_env input) data = Inr (input, [])"
  by (simp_all add: sample_tool_env_def sample_handler_def)

section \<open>Witnesses\<close>


theorem Execute_reports_effects_witness:
  "\<exists>out h' effects. Execute failing_ops (sample_tool_env (sample_input\<lparr>ti_Args := [''false'']\<rparr>)) (sample_handler ''command'') sample_call =
     (Inr out, h', effects) \<and> to_IsError out"
proof -
  obtain r h' where run: "Execute failing_ops (sample_tool_env (sample_input\<lparr>ti_Args := [''false'']\<rparr>)) (sample_handler ''command'') sample_call =
     (r, h', \<lparr>te_runs = [((), \<lparr>xm_Args = [''false''], xm_Input = ''{}'', xm_MaxOutput = 100\<rparr>)], te_events =
       [\<lparr>se_Phase = ''execution_failed'', se_Backend = ''test'', se_PartialEffects = True\<rparr>]\<rparr>)"
    using command_failed by blast
  have "bo_Run failing_ops () \<lparr>xm_Args = [''false''], xm_Input = ''{}'', xm_MaxOutput = 100\<rparr> =
      (\<lparr>xr_Output = ''partial'', xr_Truncated = False, xr_Started = True, xr_ExitCode = 1\<rparr>, Some (errorf ''exit status''))"
    by (simp add: failing_ops_def)
  from Execute_reports_effects [OF run _ _ this] run show ?thesis by auto
qed


section \<open>The native executor\<close>

definition sample_linux :: linux where
  "sample_linux = \<lparr>lx_bwrap = Inr ''/usr/bin/bwrap'', lx_present = (\<lambda>_. True),
     lx_spawn = (\<lambda>_ _ _ _. \<lparr>pr_start = None, pr_chunks = [''hello''], pr_wait = None, pr_exit = 0, pr_ctx = None\<rparr>)\<rparr>"

definition sample_box :: confinement where
  "sample_box = \<lparr>co_config = sample_sandbox, co_backend = ''bubblewrap'', co_closed = False\<rparr>"

definition echo_command :: sandboxCommand where
  "echo_command = \<lparr>xm_Args = [''echo''], xm_Input = ''{}'', xm_MaxOutput = 100\<rparr>"

lemma native_executed:
  "\<exists>r h' effects. Execute (native_ops sample_host sample_linux None (\<lambda>b. (b, None)))
     (sample_tool_env (sample_input\<lparr>ti_Args := [''echo'']\<rparr>)) (sample_handler ''command'') sample_call =
     (r, h', effects) \<and> te_runs effects = [(sample_box, echo_command)]"
proof -
  have "(case Execute (native_ops sample_host sample_linux None (\<lambda>b. (b, None)))
      (sample_tool_env (sample_input\<lparr>ti_Args := [''echo'']\<rparr>)) (sample_handler ''command'') sample_call of
      (_, _, effects) \<Rightarrow> te_runs effects = [(sample_box, echo_command)])"
    by code_simp
  then show ?thesis
    by (cases "Execute (native_ops sample_host sample_linux None (\<lambda>b. (b, None)))
      (sample_tool_env (sample_input\<lparr>ti_Args := [''echo'']\<rparr>)) (sample_handler ''command'') sample_call") auto
qed

lemma native_ran:
  "confinement_Run (runNative sample_linux) None sample_box echo_command =
     (\<lparr>xr_Output = ''hello'', xr_Truncated = False, xr_Started = True, xr_ExitCode = 0\<rparr>, None)"
  by code_simp


end
