(* ===== verification/Spec2Isabelle.thy ===== *)
theory Spec2Isabelle
  imports Baseline EngineExample StreamExample SqliteExample Providers ToolsExample
begin

text \<open>
  A verification development for fabricrunner, a Go runtime that plans, routes, polices and
  records model-driven workloads. An engine (\<open>src/engine.go\<close>) takes a request, chooses a model placement
  for every turn through a router behind a guard, asks policies before content leaves its zone or a tool
  runs, reserves a bound of the spending before each call, drives a turn loop (\<open>src/loop/engine.go\<close>) that
  talks to a provider and runs tools, and commits everything it does as events of an event store, from
  which a projection of the workload can be replayed and an interrupted run resumed.

  \<^bold>\<open>Parts and theories.\<close>

  \<^item> Shared vocabulary. \<open>Prelude\<close> has Go's errors, 64-bit integers with wrap-around, instants and samples
    of contexts, and the generic lemmas; \<open>GoLib\<close> what is used of \<open>strings\<close>, \<open>encoding/hex\<close> and
    \<open>crypto/sha256\<close>; \<open>JsonValid\<close> the scanner behind \<open>json.Valid\<close>.
  \<^item> Domain. \<open>Ids\<close> (\<open>src/id.go\<close>), \<open>Domain\<close> (\<open>src/domain.go\<close>), \<open>Events\<close> (\<open>src/event.go\<close>, \<open>src/store.go\<close>),
    \<open>Model\<close> (\<open>src/model.go\<close> and the copies of \<open>src/loop.go\<close>), \<open>Streams\<close> (\<open>src/provider.go\<close>), \<open>Records\<close> (the
    durable records of several files).
  \<^item> Stores. \<open>MemoryStore\<close> (\<open>src/store/memory\<close>); \<open>SqliteStore\<close> and \<open>SqliteProps\<close> (\<open>src/store/sqlite\<close>).
  \<^item> Decisions. \<open>Policy\<close> (\<open>src/policy.go\<close>), \<open>Baseline\<close> (\<open>src/policy/baseline\<close>), \<open>Routing\<close> (\<open>src/routing.go\<close>),
    \<open>Router\<close> (\<open>src/router/deterministic\<close>).
  \<^item> The turn loop. \<open>LoopTypes\<close> (\<open>src/loop.go\<close>), \<open>LoopEngine\<close>, \<open>LoopRun\<close>, with the proof rules in \<open>LoopLogic\<close>
    and the tool half in \<open>LoopTools\<close> (\<open>src/loop/engine.go\<close>).
  \<^item> The projection. \<open>Projection\<close> and \<open>ProjectionInv\<close> (\<open>src/projection.go\<close>, \<open>src/execution_event.go\<close>).
  \<^item> The engine. \<open>EngineState\<close>, \<open>EnginePlacement\<close>, \<open>EngineRun\<close> (\<open>src/engine.go\<close>, \<open>src/lifecycle.go\<close>,
    \<open>src/context.go\<close>, \<open>src/recovery.go\<close>), \<open>Telemetry\<close> (\<open>src/telemetry.go\<close>), with what they keep in
    \<open>EngineInv\<close>, \<open>EngineProps\<close>, \<open>EngineStore\<close>, \<open>EngineRecovery\<close> and this theory.
  \<^item> Providers. \<open>Sse\<close> and \<open>Http\<close> have what both share; \<open>AnthropicStream\<close>, \<open>AnthropicProps\<close>,
    \<open>AnthropicProvider\<close> (\<open>src/provider/anthropic\<close>) and \<open>OpenAIStream\<close>, \<open>OpenAIProps\<close>, \<open>OpenAIProvider\<close>
    (\<open>src/provider/openaicompat\<close>) the two packages; \<open>Providers\<close> their contract from end to end.
  \<^item> Tools. \<open>ToolOp\<close> (\<open>src/internal/toolop\<close>), \<open>SandboxExec\<close> (\<open>src/sandbox\<close>, \<open>src/sandbox.go\<close>), \<open>Tools\<close>
    (\<open>src/tool\<close>, \<open>src/cmd/fabricrunner-tool\<close>).
  \<^item> Concrete inputs, at which the theorems with hypotheses are applied: \<open>ProjectionExample\<close>, \<open>LoopExample\<close>,
    \<open>ResumeExample\<close>, \<open>EngineExample\<close>, \<open>StreamExample\<close>, \<open>SqliteExample\<close>, \<open>ToolsExample\<close>.

  \<^bold>\<open>How code becomes definitions.\<close> A struct is a record, an enumeration over strings a datatype with one
  constructor for every other text, a method a function that returns the new state with its result, and a
  definition carries the name of the function or method it translates, behind the name of its type or
  package where two would clash. An error is a value that knows the sentinels \<open>errors.Is\<close> finds in it; its
  text keeps the constant part. A fallible function returns a sum, with the error on the left, or an optional
  error; a panic is an outcome of its own where the source can meet one. An operation of the engine and a
  step of the turn loop are functions on a state record that go on, fail or panic. What is shared between
  goroutines is a step relation whose steps come in any order: the life of a workload and of a step, the
  observation slots, the callbacks of a run (\<open>engine_step\<close>), the states of a projection (\<open>projection_step\<close>) and
  the runs and the closing of a confinement (\<open>cell_does\<close>).

  \<^bold>\<open>Interfaces.\<close> Each is a locale, interpreted on the definitions of the program: \<open>lifecycle\<close> (workloads and
  steps), \<open>event_store\<close> (the in-memory and the SQLite store), \<open>execution_policy\<close> and \<open>egress_policy\<close> (the
  baseline policy), \<open>routing_engine\<close> (the deterministic router), \<open>loop_invariant\<close> (what a turn of the loop
  keeps), \<open>engine_invariant\<close> (what every callback of the engine keeps: the growth of the log, the spending
  bound, the authority of tool calls), \<open>engine_store\<close> (the engine on a store), \<open>provider_stream\<close> and
  \<open>http_provider\<close> (both providers), \<open>sandbox_contract\<close> (the confinement on Linux and macOS).

  \<^bold>\<open>What is shown.\<close> Of the engine: a run stays within its budget, also together with the run it resumes; a
  tool runs only with a recorded verdict that allows exactly this call; a placement is grounded in a
  recorded decision; content from another zone is held back until its egress is allowed; the store holds
  exactly the entries of the run; a run is resumed only from a checkpoint nothing has overtaken. Of the turn
  loop: it always returns, keeps its budgets, numbers its events without a gap and starts no call twice. Of
  stores and projections: no update is lost, the SQLite store refines the in-memory one and the projection
  it persists is the replay of its events, an event that cannot be applied changes nothing, and recorded
  activity follows an admissible routing decision. Of decisions: the guards fail closed, the ordered gates
  are the declarative conditions, the router's choice is optimal. Of providers: translations lose nothing and
  say exactly what they do not support, requests stay below the configured address, streams are never refused
  by the validator. Of tools: the path check is exact, a file operation is all or nothing, everything with
  side effects runs confined, recorded and bounded, and a teardown is final.

  \<^bold>\<open>Bounds.\<close> No definition takes fuel. A recursion is structural or comes with a measure: the turn loop uses
  up one of the budgeted model calls per turn; draining a stream raises a sequence number of 64 bits; reading a
  summary stops at the source's ten-thousandth event; the pages of a catalogue and the ten attempts at a
  temporary file are counted down from the source's own limits; decoders consume a finite body.

  \<^bold>\<open>Parameters.\<close> Collaborators of the application (policies, routers, estimators, approvers, sinks, handlers,
  observers, token sources) are arguments, and so is code that is not in the repository: the JSON schema library,
  the SQL driver, which may fail at every call, the HTTP client, the operating system's files and processes,
  typed JSON encoding and decoding, URL parsing, clocks, entropy and what a context answers when asked.
  Theorems hold for all of them, unless a hypothesis names what is relied on.

  \<^bold>\<open>Not modelled.\<close> The conformance suites (\<open>src/providertest\<close>, \<open>src/observertest\<close>) and the probe under
  \<open>src/sandbox/testdata\<close>, which are tests; the connection strings handed to the SQL driver; the values of
  \<open>context.WithValue\<close> other than the sandbox sink; the difference of \<open>openRead\<close> on systems without
  \<open>O_NONBLOCK\<close>; the memory model of Go beyond what mutexes make atomic.
\<close>

section \<open>A run, its log, and what a resumption makes of it\<close>

text \<open>The execution records of a log, in order.\<close>

definition records_of :: "engineDraft list \<Rightarrow> ExecutionRecord list" where
  "records_of log = concat (map (\<lambda>d. case d of ExecutionDraft r \<Rightarrow> [r] | _ \<Rightarrow> []) log)"

lemma recorded_spend_records: "recorded_spend (records_of log) = reservations log"
  by (induction log) (auto simp: recorded_spend_def records_of_def reservations_def split: engineDraft.split)

text \<open>The strict decoder undoes \<open>json.Marshal\<close> on a record.\<close>

definition decodes :: "environment \<Rightarrow> ExecutionRecord \<Rightarrow> bool" where
  "decodes v r \<longleftrightarrow>
     (\<forall>data. v_marshal v (ExecutionDraft r) = Inr data \<longrightarrow> decodeProjectionPayload (dc_ExecutionRecorded (v_codec v)) data = Inr r)"

lemma Apply_records:
  assumes "WorkloadProjection_Apply (v_codec (g_env g)) e p = (None, p')" "carries g d e"
    "\<And>r. d = ExecutionDraft r \<Longrightarrow> decodes (g_env g) r"
  shows "pj_Execution p' = pj_Execution p @ records_of [d]"
proof -
  let ?dc = "v_codec (g_env g)"
  obtain q where q: "apply_by_type ?dc e p = (None, q)" "pj_Execution p' = pj_Execution q"
    using assms(1) by (auto simp: WorkloadProjection_Apply_def projection_error_def split: option.splits prod.splits)
  show ?thesis
  proof (cases d)
    case (ExecutionDraft r)
    with assms(2,3) have "decodeProjectionPayload (dc_ExecutionRecorded ?dc) (ev_Payload e) = Inr r"
      by (auto simp: carries_def decodes_def)
    moreover have "applyExecutionRecorded ?dc e p = (None, q)"
      using q(1) assms(2) ExecutionDraft by (simp add: apply_by_type_def carries_def event_types)
    ultimately show ?thesis
      using q(2) ExecutionDraft
      by (auto simp: applyExecutionRecorded_def records_of_def split: option.splits sum.splits prod.splits)
  qed (use q assms(2) applyWorkloadCreated_None [of ?dc e p q] applyWorkloadTransitioned_None [of ?dc e p q]
        applyStepCreated_None [of ?dc e p q] applyStepTransitioned_None [of ?dc e p q]
       in \<open>auto simp: apply_by_type_def carries_def event_types records_of_def\<close>)
qed

lemma replayed_records:
  assumes "apply_events (v_codec (g_env g)) es p = Inr p'" "list_all2 (carries g) log es"
    "\<And>r. ExecutionDraft r \<in> set log \<Longrightarrow> decodes (g_env g) r"
  shows "pj_Execution p' = pj_Execution p @ records_of log"
  using assms(2,1,3)
proof (induction arbitrary: p rule: list_all2_induct)
  case (Cons d log e es)
  from Cons.prems(1) obtain q where q: "WorkloadProjection_Apply (v_codec (g_env g)) e p = (None, q)"
    "apply_events (v_codec (g_env g)) es q = Inr p'" by (auto split: prod.splits option.splits)
  have "pj_Execution q = pj_Execution p @ records_of [d]" using Apply_records [OF q(1) Cons.hyps(1)] Cons.prems(2) by auto
  with Cons.IH [OF q(2)] Cons.prems(2) show ?case by (simp add: records_of_def)
qed (simp add: records_of_def)

text \<open>What a later run finds in the store: reservations that are amounts and fit the budget.\<close>

lemma stored_history_within:
  assumes "store_inv store" "stream_of store (aggregate (g\<lparr>g_request := request\<rparr>)) = []"
    "prepare_request (g_request g) = Inr request" "well_behaved (on_memory (g\<lparr>g_request := request\<rparr>)) loop"
    "go_budget (q_Budget request)" "Budget_Validate (q_Budget request) = None"
    "engine_run (on_memory g) loop False (new_run store) = (answer, s)" "length (s_log s) < 2 ^ 64"
    "\<And>r. ExecutionDraft r \<in> set (s_log s) \<Longrightarrow> decodes (g_env g) r"
    "Load (s_store s) ctx (aggregate (g\<lparr>g_request := request\<rparr>)) 0 = Inr events"
    "replays (on_memory (g\<lparr>g_request := request\<rparr>)) events p"
  shows "history_within (q_Budget request) p \<and> recorded_spend (pj_Execution p) = reservations (s_log s)"
proof -
  let ?g = "g\<lparr>g_request := request\<rparr>"
  have run: "prepare_request (g_request (on_memory g)) = Inr (g_request (on_memory ?g))"
    "on_memory ?g = (on_memory g)\<lparr>g_request := g_request (on_memory ?g)\<rparr>" "q_Budget (g_request (on_memory ?g)) = q_Budget request"
    using assms(3) by (simp_all add: on_memory_def)
  have room: "length (stream_of store (aggregate ?g)) + length (s_log s) < 2 ^ 64" using assms(2,8) by simp
  note stored = memory_in_step [OF memory_run_in_step [OF assms(1,3,4,7)] assms(1) room]
  have "events = stream_of (s_store s) (aggregate ?g)" using memory.load_stream [OF stored(1) assms(10)] by simp
  with stored(2) assms(2) have "list_all2 (carries ?g) (s_log s) events" by auto
  then have records: "pj_Execution p = records_of (s_log s)"
    using assms(9,11) replayed_records [of ?g events _ p "s_log s"]
    by (auto simp: replays_def on_memory_def NewWorkloadProjection_def split: option.splits if_splits)
  have "\<forall>b\<in>set (reservations (s_log s)). spend_under no_spend b"
    by (rule amounts.engine_run_keeps [OF run(1,2) assms(4) _ assms(7)]) (simp add: new_run_def reservations_def)
  moreover have "spending_inv (on_memory ?g) no_spend s"
  proof (rule spending.engine_run_keeps [OF run(1,2) assms(4) _ assms(7)])
    show "spending_inv (on_memory ?g) no_spend (new_run store)"
      using assms(5,6) by (simp add: spending_inv_def new_run_def reservations_def run(3) spend_within_def no_spend_def
          Budget_Validate_None)
  qed
  ultimately show ?thesis
    by (simp add: history_within_def records recorded_spend_records spending_inv_def run(3)) metis
qed


text \<open>An environment whose encoder knows the request record only, with a decoder that undoes it.\<close>

definition strict_environment :: environment where
  "strict_environment = sample_environment
     \<lparr>v_marshal := (\<lambda>d. case d of ExecutionDraft r \<Rightarrow> if r = request_record then Inr ''7'' else Inl (errorf ''unsupported'') | _ \<Rightarrow> Inr ''{}''),
      v_codec := sample_codec\<lparr>dc_ExecutionRecorded := (\<lambda>_. Inr (request_record, []))\<rparr>\<rparr>"


end
